(* ===== verification/Prelude.thy ===== *)
theory Prelude
  imports Main "HOL-Library.Word"
begin

text \<open>
  Shared vocabulary of the Aegis development.  Go values are modelled as follows: a Go
  \<open>string\<close> and a \<open>[]byte\<close> are byte sequences and both are \<open>char list\<close> (a HOL
  \<open>char\<close> is exactly eight bits), so the conversions between them are the identity;
  \<open>uint64\<close> is \<open>64 word\<close>; \<open>common.Hash\<close> ([32]byte) and \<open>common.Address\<close>
  ([20]byte) are \<open>256 word\<close> and \<open>160 word\<close> in big-endian reading; \<open>*big.Int\<close> is
  \<open>int option\<close> with \<open>None\<close> for nil; a Go result pair \<open>(T, error)\<close> is
  \<open>string + 'a\<close> with \<open>Inl\<close> carrying the error's message.  Effects on the outside
  world (chain, files, HTTP peers) are functions of an explicit world, so a call that may
  change it has the type \<open>('w, 'a) io\<close>.
\<close>

type_synonym bytes = "char list"
type_synonym uint64 = "64 word"
type_synonym hash = "256 word"
type_synonym address = "160 word"
type_synonym 'a res = "string + 'a"
type_synonym ('w, 'a) io = "'w \<Rightarrow> 'a res \<times> 'w"

named_theorems io_simps \<open>unfolding rules of the io combinators\<close>
named_theorems wf_intros \<open>well-formedness preservation rules of the components\<close>

section \<open>Results\<close>

fun is_ok :: "'a res \<Rightarrow> bool" where
  "is_ok (Inl _) = False"
| "is_ok (Inr _) = True"

fun res_bind :: "'a res \<Rightarrow> ('a \<Rightarrow> 'b res) \<Rightarrow> 'b res" where
  "res_bind (Inl e) f = Inl e"
| "res_bind (Inr x) f = f x"

fun map_err :: "(string \<Rightarrow> string) \<Rightarrow> 'a res \<Rightarrow> 'a res" where
  "map_err g (Inl e) = Inl (g e)"
| "map_err g (Inr x) = Inr x"

lemma is_ok_iff: "is_ok r \<longleftrightarrow> (\<exists>x. r = Inr x)"
  by (cases r) auto

lemma res_bind_Inr: "res_bind r f = Inr y \<longleftrightarrow> (\<exists>x. r = Inr x \<and> f x = Inr y)"
  by (cases r) auto

lemma res_bind_Inl: "res_bind r f = Inl e \<longleftrightarrow> r = Inl e \<or> (\<exists>x. r = Inr x \<and> f x = Inl e)"
  by (cases r) auto

lemma map_err_Inr [simp]: "map_err g r = Inr x \<longleftrightarrow> r = Inr x"
  by (cases r) auto

lemma is_ok_map_err [simp]: "is_ok (map_err g r) = is_ok r"
  by (cases r) auto

lemma case_single_Inr:
  "(case xs of [x] \<Rightarrow> f x | _ \<Rightarrow> Inl e) = Inr y \<longleftrightarrow> (\<exists>x. xs = [x] \<and> f x = Inr y)"
  by (auto split: list.splits)

section \<open>Stateful calls with Go's early return on error\<close>

definition io_ret :: "'a \<Rightarrow> ('w, 'a) io" where
  [io_simps]: "io_ret x w = (Inr x, w)"

definition io_fail :: "string \<Rightarrow> ('w, 'a) io" where
  [io_simps]: "io_fail e w = (Inl e, w)"

text \<open>\<open>if err != nil { return err }\<close> after a call.\<close>

definition io_bind :: "('w, 'a) io \<Rightarrow> ('a \<Rightarrow> ('w, 'b) io) \<Rightarrow> ('w, 'b) io" where
  [io_simps]: "io_bind m f w = (case m w of (Inl e, w') \<Rightarrow> (Inl e, w') | (Inr x, w') \<Rightarrow> f x w')"

text \<open>A call whose error is wrapped (\<open>errors.Errorf("...: %s", err)\<close>) before it is returned.\<close>

definition io_wrap :: "(string \<Rightarrow> string) \<Rightarrow> ('w, 'a) io \<Rightarrow> ('w, 'a) io" where
  [io_simps]: "io_wrap g m w = (case m w of (r, w') \<Rightarrow> (map_err g r, w'))"

text \<open>A pure, fallible computation, and a read that leaves the world as it is.\<close>

definition io_lift :: "'a res \<Rightarrow> ('w, 'a) io" where
  [io_simps]: "io_lift r w = (r, w)"

definition io_read :: "('w \<Rightarrow> 'a res) \<Rightarrow> ('w, 'a) io" where
  [io_simps]: "io_read q w = (q w, w)"

lemma io_bind_ret [simp]: "io_bind (io_ret x) f = f x"
  by (rule ext) (simp add: io_simps)

lemma io_bind_lift [simp]: "io_bind (io_lift (Inr x)) f = f x"
  by (rule ext) (simp add: io_simps)

lemma io_bind_run: "m w = (Inr x, w') \<Longrightarrow> io_bind m f w = f x w'"
  by (simp add: io_bind_def)

lemma io_bind_fails: "m w = (Inl e, w') \<Longrightarrow> io_bind m f w = (Inl e, w')"
  by (simp add: io_bind_def)

lemma io_bind_fail [simp]: "io_bind (io_fail e) f = io_fail e"
  by (rule ext) (simp add: io_simps)

lemma io_bind_ok:
  "io_bind m f w = (Inr y, w'') \<longleftrightarrow> (\<exists>x w'. m w = (Inr x, w') \<and> f x w' = (Inr y, w''))"
  by (auto simp: io_bind_def split: prod.splits sum.splits)

lemma io_wrap_ok: "io_wrap g m w = (Inr y, w') \<longleftrightarrow> m w = (Inr y, w')"
  by (cases "m w") (auto simp: io_wrap_def)

lemma io_read_ok: "io_read q w = (Inr y, w') \<longleftrightarrow> q w = Inr y \<and> w' = w"
  by (auto simp: io_read_def)

lemma io_lift_ok: "io_lift r w = (Inr y, w') \<longleftrightarrow> r = Inr y \<and> w' = w"
  by (auto simp: io_lift_def)

lemma io_fail_ok: "io_fail e w = (Inr y, w') \<longleftrightarrow> False"
  by (simp add: io_fail_def)

lemma io_ret_ok: "io_ret x w = (Inr y, w') \<longleftrightarrow> x = y \<and> w' = w"
  by (auto simp: io_ret_def)

text \<open>A result that is refused when a list is empty.\<close>

lemma io_case_ok:
  "(case xs of [] \<Rightarrow> io_fail e | x # rest \<Rightarrow> f x rest) w = (Inr y, w') \<longleftrightarrow>
     (\<exists>x rest. xs = x # rest \<and> f x rest w = (Inr y, w'))"
  by (cases xs) (simp_all add: io_fail_def)

lemmas io_ok = io_case_ok io_bind_ok io_wrap_ok io_read_ok io_lift_ok io_fail_ok io_ret_ok

text \<open>A computation that never changes the world.\<close>

definition reads_only :: "('w, 'a) io \<Rightarrow> bool" where
  "reads_only m \<longleftrightarrow> (\<forall>w. snd (m w) = w)"

lemma reads_onlyD: "reads_only m \<Longrightarrow> snd (m w) = w"
  by (simp add: reads_only_def)

lemma reads_only_ret [intro, simp]: "reads_only (io_ret x)"
  and reads_only_fail [intro, simp]: "reads_only (io_fail e)"
  and reads_only_lift [intro, simp]: "reads_only (io_lift r)"
  and reads_only_read [intro, simp]: "reads_only (io_read q)"
  by (simp_all add: reads_only_def io_simps)

lemma reads_only_bind [intro]:
  assumes "reads_only m" and "\<And>x. reads_only (f x)"
  shows "reads_only (io_bind m f)"
  unfolding reads_only_def
proof
  fix w
  obtain r w' where m: "m w = (r, w')" by (cases "m w")
  with reads_onlyD [OF assms(1), of w] have "w' = w" by simp
  with m assms(2) show "snd (io_bind m f w) = w"
    by (cases r) (auto simp: io_bind_def reads_only_def)
qed

lemma reads_only_wrap [intro]: "reads_only m \<Longrightarrow> reads_only (io_wrap g m)"
  by (auto simp: reads_only_def io_wrap_def split: prod.splits) (metis snd_conv)

section \<open>Lists\<close>

lemma takeWhile_dropWhile_length: "length (takeWhile P xs) + length (dropWhile P xs) = length xs"
  by (metis length_append takeWhile_dropWhile_id)

lemma replicate_numeral: "replicate (numeral k) x = x # replicate (pred_numeral k) x"
  by (simp add: numeral_eq_Suc)

lemma filter_replicate_not: "\<not> P x \<Longrightarrow> filter P (replicate n x) = []"
  by (induction n) auto

lemma sum_list_count_partition:
  "length (filter P xs) + length (filter (\<lambda>x. \<not> P x) xs) = length xs"
  by (rule sum_length_filter_compl)

text \<open>A homomorphism commutes with a loop.\<close>

lemma foldl_commute:
  "(\<And>m x. h (f m x) = g (h m) x) \<Longrightarrow> h (foldl f m xs) = foldl g (h m) xs"
  by (induction xs arbitrary: m) auto

section \<open>Keyed stores\<close>

text \<open>What the clients of a map-like component rely on: the last write of a key is what a lookup
  of it returns, and no other key moves.\<close>

locale keyed_store =
  fixes look :: "'s \<Rightarrow> 'k \<Rightarrow> 'v option"
    and put :: "'k \<Rightarrow> 'v \<Rightarrow> 's \<Rightarrow> 's"
  assumes look_put: "look (put k v s) k' = (if k' = k then Some v else look s k')"
begin

lemma look_put_same: "look (put k v s) k = Some v"
  by (simp add: look_put)

lemma look_put_other: "k' \<noteq> k \<Longrightarrow> look (put k v s) k' = look s k'"
  by (simp add: look_put)

lemma look_history:
  "look (fold (\<lambda>(k, v). put k v) kvs s) k =
     (case map_of (rev kvs) k of Some v \<Rightarrow> Some v | None \<Rightarrow> look s k)"
  by (induction kvs arbitrary: s) (auto simp: look_put map_add_def split: option.splits)

lemma look_history_fresh:
  "k \<notin> fst ` set kvs \<Longrightarrow> look (fold (\<lambda>(k, v). put k v) kvs s) k = look s k"
  by (induction kvs arbitrary: s) (auto simp: look_put)

end

end
