(* ===== verification/GoLib.thy ===== *)
theory GoLib
  imports Prelude "HOL-Library.Log_Nat" "HOL-Library.Sublist" "HOL-Library.Signed_Division"
begin

text \<open>
  What the program uses of the Go standard library: \<open>strings\<close>, \<open>strconv\<close>,
  \<open>encoding/hex\<close>, \<open>math/big\<close> rendering and byte conversion, and two shapes of
  \<open>regexp\<close>.  Everything is on byte sequences, as in Go.
\<close>

section \<open>Package strings\<close>

definition HasPrefix :: "string \<Rightarrow> string \<Rightarrow> bool" where
  "HasPrefix s p = prefix p s"

definition TrimPrefix :: "string \<Rightarrow> string \<Rightarrow> string" where
  "TrimPrefix s p = (if prefix p s then drop (length p) s else s)"

definition TrimSuffix :: "string \<Rightarrow> string \<Rightarrow> string" where
  "TrimSuffix s p = (if suffix p s then take (length s - length p) s else s)"

fun Contains :: "string \<Rightarrow> string \<Rightarrow> bool" where
  "Contains [] sub = (sub = [])"
| "Contains (c # s) sub = (prefix sub (c # s) \<or> Contains s sub)"

text \<open>The UTF-8 encodings of the code points for which \<open>unicode.IsSpace\<close> holds.\<close>

definition space_runes :: "string list" where
  "space_runes =
     [[CHR 0x09], [CHR 0x0A], [CHR 0x0B], [CHR 0x0C], [CHR 0x0D], [CHR 0x20],
      [CHR 0xC2, CHR 0x85], [CHR 0xC2, CHR 0xA0], [CHR 0xE1, CHR 0x9A, CHR 0x80],
      [CHR 0xE2, CHR 0x80, CHR 0x80], [CHR 0xE2, CHR 0x80, CHR 0x81],
      [CHR 0xE2, CHR 0x80, CHR 0x82], [CHR 0xE2, CHR 0x80, CHR 0x83],
      [CHR 0xE2, CHR 0x80, CHR 0x84], [CHR 0xE2, CHR 0x80, CHR 0x85],
      [CHR 0xE2, CHR 0x80, CHR 0x86], [CHR 0xE2, CHR 0x80, CHR 0x87],
      [CHR 0xE2, CHR 0x80, CHR 0x88], [CHR 0xE2, CHR 0x80, CHR 0x89],
      [CHR 0xE2, CHR 0x80, CHR 0x8A], [CHR 0xE2, CHR 0x80, CHR 0xA8],
      [CHR 0xE2, CHR 0x80, CHR 0xA9], [CHR 0xE2, CHR 0x80, CHR 0xAF],
      [CHR 0xE2, CHR 0x81, CHR 0x9F], [CHR 0xE3, CHR 0x80, CHR 0x80]]"

text \<open>Drop leading members of a set of non-empty byte sequences.\<close>

definition leading_rune :: "string list \<Rightarrow> string \<Rightarrow> string option" where
  "leading_rune rs s = find (\<lambda>r. r \<noteq> [] \<and> prefix r s) rs"

lemma leading_rune_shorter:
  "leading_rune rs s = Some r \<Longrightarrow> length (drop (length r) s) < length s"
  by (auto simp: leading_rune_def find_Some_iff prefix_def)

function trim_runes :: "string list \<Rightarrow> string \<Rightarrow> string" where
  "trim_runes rs s =
     (case leading_rune rs s of None \<Rightarrow> s | Some r \<Rightarrow> trim_runes rs (drop (length r) s))"
  by pat_completeness auto
termination
  by (relation "measure (\<lambda>(rs, s). length s)") (auto dest: leading_rune_shorter)

declare trim_runes.simps [simp del]

definition TrimLeftSpace :: "string \<Rightarrow> string" where
  "TrimLeftSpace s = trim_runes space_runes s"

definition TrimRightSpace :: "string \<Rightarrow> string" where
  "TrimRightSpace s = rev (trim_runes (map rev space_runes) (rev s))"

definition TrimSpace :: "string \<Rightarrow> string" where
  "TrimSpace s = TrimRightSpace (TrimLeftSpace s)"

text \<open>\<open>strings.TrimRight(s, cutset)\<close> for a one-byte cutset.\<close>

definition TrimRightByte :: "string \<Rightarrow> char \<Rightarrow> string" where
  "TrimRightByte s c = rev (dropWhile (\<lambda>x. x = c) (rev s))"

text \<open>\<open>strings.Split\<close> and \<open>strings.SplitN(s, sep, 2)\<close> for a one-byte separator.\<close>

fun Split :: "char \<Rightarrow> string \<Rightarrow> string list" where
  "Split sep [] = [[]]"
| "Split sep (c # s) =
     (if c = sep then [] # Split sep s
      else (case Split sep s of [] \<Rightarrow> [[c]] | p # ps \<Rightarrow> (c # p) # ps))"

definition SplitN2 :: "char \<Rightarrow> string \<Rightarrow> string list" where
  "SplitN2 sep s =
     (if sep \<in> set s
      then [takeWhile (\<lambda>c. c \<noteq> sep) s, tl (dropWhile (\<lambda>c. c \<noteq> sep) s)]
      else [s])"

fun Join :: "string list \<Rightarrow> string \<Rightarrow> string" where
  "Join [] sep = []"
| "Join [s] sep = s"
| "Join (s # t # ts) sep = s @ sep @ Join (t # ts) sep"

lemma Split_nonempty [simp]: "Split sep s \<noteq> []"
  by (induction s) (auto split: list.splits)

lemma Join_Cons: "ts \<noteq> [] \<Longrightarrow> Join (s # ts) sep = s @ sep @ Join ts sep"
  by (cases ts) auto

lemma Join_Split: "Join (Split sep s) [sep] = s"
proof (induction s)
  case Nil
  show ?case by simp
next
  case (Cons c s)
  obtain p ps where ps: "Split sep s = p # ps" by (cases "Split sep s") auto
  with Cons show ?case by (cases ps) (auto simp: Join_Cons)
qed

lemma Contains_iff: "Contains s sub \<longleftrightarrow> (\<exists>a b. s = a @ sub @ b)"
proof (induction s)
  case Nil
  show ?case by auto
next
  case (Cons c s)
  have "(\<exists>a b. c # s = a @ sub @ b) \<longleftrightarrow>
      (\<exists>b. c # s = sub @ b) \<or> (\<exists>a b. s = a @ sub @ b)" (is "?L \<longleftrightarrow> ?R1 \<or> ?R2")
  proof
    assume ?L
    then obtain a b where "c # s = a @ sub @ b" by blast
    then show "?R1 \<or> ?R2" by (cases a) auto
  next
    assume "?R1 \<or> ?R2"
    then show ?L
    proof
      assume ?R1
      then obtain b where "c # s = [] @ sub @ b" by auto
      then show ?L by blast
    next
      assume ?R2
      then obtain a b where "s = a @ sub @ b" by blast
      then have "c # s = (c # a) @ sub @ b" by simp
      then show ?L by blast
    qed
  qed
  with Cons show ?case by (simp add: prefix_def)
qed

lemma Contains_single: "Contains s [c] \<longleftrightarrow> c \<in> set s"
  by (auto simp: Contains_iff in_set_conv_decomp)

lemma Contains_append_right: "Contains (s @ t) [c] \<longleftrightarrow> Contains s [c] \<or> Contains t [c]"
  by (auto simp: Contains_single)

lemma Split_append: "sep \<notin> set a \<Longrightarrow> Split sep (a @ sep # b) = a # Split sep b"
  by (induction a) auto

lemma Split_none: "sep \<notin> set a \<Longrightarrow> Split sep a = [a]"
  by (induction a) auto

lemma SplitN2_append:
  assumes "sep \<notin> set a"
  shows "SplitN2 sep (a @ sep # b) = [a, b]"
proof -
  have "takeWhile (\<lambda>c. c \<noteq> sep) (a @ sep # b) = a" "dropWhile (\<lambda>c. c \<noteq> sep) (a @ sep # b) = sep # b"
    using assms by (induction a) auto
  then show ?thesis by (simp add: SplitN2_def)
qed

text \<open>White space is never a visible ASCII character, first byte or last.\<close>

definition visible :: "char \<Rightarrow> bool" where
  "visible c \<longleftrightarrow> 33 \<le> (of_char c :: nat) \<and> (of_char c :: nat) \<le> 126"

lemma space_runes_invisible:
  "\<forall>r\<in>set space_runes. r \<noteq> [] \<and> \<not> visible (hd r) \<and> \<not> visible (last r)"
  by (simp add: space_runes_def visible_def)

lemma leading_rune_visible:
  assumes "\<forall>r\<in>set rs. r \<noteq> [] \<and> \<not> visible (hd r)" and "s \<noteq> []" and "visible (hd s)"
  shows "leading_rune rs s = None"
  using assms by (fastforce simp: leading_rune_def find_None_iff prefix_def)

lemma trim_runes_none: "leading_rune rs s = None \<Longrightarrow> trim_runes rs s = s"
  by (subst trim_runes.simps) simp

lemma TrimSpace_visible:
  assumes "s \<noteq> []" and "visible (hd s)" and "visible (last s)"
  shows "TrimSpace s = s"
proof -
  have "TrimLeftSpace s = s"
    using assms space_runes_invisible
    by (simp add: TrimLeftSpace_def trim_runes_none leading_rune_visible)
  moreover have "leading_rune (map rev space_runes) (rev s) = None"
    using assms space_runes_invisible by (intro leading_rune_visible) (auto simp: hd_rev)
  ultimately show ?thesis by (simp add: TrimSpace_def TrimRightSpace_def trim_runes_none)
qed

section \<open>Decimal numerals\<close>

definition digit_char :: "nat \<Rightarrow> char" where
  "digit_char d = char_of (48 + d)"

definition char_digit :: "char \<Rightarrow> nat" where
  "char_digit c = of_char c - 48"

definition is_digit :: "char \<Rightarrow> bool" where
  "is_digit c \<longleftrightarrow> 48 \<le> (of_char c :: nat) \<and> (of_char c :: nat) \<le> 57"

fun show_nat :: "nat \<Rightarrow> string" where
  "show_nat n = (if n < 10 then [digit_char n] else show_nat (n div 10) @ [digit_char (n mod 10)])"

declare show_nat.simps [simp del]

definition show_int :: "int \<Rightarrow> string" where
  "show_int i = (if i < 0 then CHR ''-'' # show_nat (nat (- i)) else show_nat (nat i))"

definition dec_val :: "string \<Rightarrow> nat" where
  "dec_val s = foldl (\<lambda>a c. 10 * a + char_digit c) 0 s"

lemma of_char_digit_char: "d < 10 \<Longrightarrow> (of_char (digit_char d) :: nat) = 48 + d"
  by (simp add: digit_char_def)

lemma is_digit_digit_char [simp]: "d < 10 \<Longrightarrow> is_digit (digit_char d)"
  by (simp add: is_digit_def of_char_digit_char)

lemma char_digit_digit_char [simp]: "d < 10 \<Longrightarrow> char_digit (digit_char d) = d"
  by (simp add: char_digit_def of_char_digit_char)

lemma digit_char_simps [simp]:
  "digit_char 0 = CHR ''0''" "digit_char (Suc 0) = CHR ''1''" "digit_char 1 = CHR ''1''" "digit_char 2 = CHR ''2''"
  "digit_char 3 = CHR ''3''" "digit_char 4 = CHR ''4''" "digit_char 5 = CHR ''5''" "digit_char 6 = CHR ''6''"
  "digit_char 7 = CHR ''7''" "digit_char 8 = CHR ''8''" "digit_char 9 = CHR ''9''"
  by code_simp+

lemma show_nat_digits: "list_all is_digit (show_nat n)"
proof (induction n rule: show_nat.induct)
  case (1 n)
  then show ?case by (subst show_nat.simps) auto
qed

lemma show_nat_nonempty [simp]: "show_nat n \<noteq> []"
  by (subst show_nat.simps) simp

lemma show_nat_digit: "n < 10 \<Longrightarrow> show_nat n = [digit_char n]"
  and show_nat_more: "\<not> n < 10 \<Longrightarrow> show_nat n = show_nat (n div 10) @ [digit_char (n mod 10)]"
  by (subst show_nat.simps, simp)+

lemmas show_nat_eval = show_nat_digit show_nat_more

lemma dec_val_append: "dec_val (s @ [c]) = 10 * dec_val s + char_digit c"
  by (simp add: dec_val_def)

lemma dec_val_show_nat [simp]: "dec_val (show_nat n) = n"
proof (induction n rule: show_nat.induct)
  case (1 n)
  show ?case
  proof (cases "n < 10")
    case True
    then show ?thesis by (subst show_nat.simps) (simp add: dec_val_def)
  next
    case False
    with "1.IH" show ?thesis by (subst show_nat.simps) (simp add: dec_val_append)
  qed
qed

lemma show_nat_inj: "show_nat m = show_nat n \<Longrightarrow> m = n"
  by (metis dec_val_show_nat)

lemma show_nat_length: "d > 0 \<Longrightarrow> n < 10 ^ d \<Longrightarrow> length (show_nat n) \<le> d"
proof (induction n arbitrary: d rule: show_nat.induct)
  case (1 n)
  show ?case
  proof (cases "n < 10")
    case True
    with 1 show ?thesis by (subst show_nat.simps) simp
  next
    case False
    obtain d' where d: "d = Suc d'" using 1(2) by (cases d) auto
    moreover have "d' \<noteq> 0" using False 1(3) d by (cases d') auto
    ultimately have d: "d = Suc d'" "d' > 0" by auto
    with 1 have "n div 10 < 10 ^ d'" by (simp add: less_mult_imp_div_less mult.commute)
    with 1(1) [OF False d(2)] False d show ?thesis by (subst show_nat.simps) simp
  qed
qed

lemma dec_val_foldl: "foldl (\<lambda>a c. 10 * a + char_digit c) b s = b * 10 ^ length s + dec_val s"
proof (induction s rule: rev_induct)
  case (snoc c s)
  then show ?case by (simp add: dec_val_append algebra_simps)
qed (simp add: dec_val_def)

lemma dec_val_app: "dec_val (s @ t) = dec_val s * 10 ^ length t + dec_val t"
  using dec_val_foldl [of "dec_val s" t] by (simp add: dec_val_def)

lemma dec_val_zeros: "dec_val (replicate k (CHR ''0'')) = 0"
  by (induction k) (simp_all add: dec_val_def char_digit_def)

lemma dec_val_TrimRight_zeros:
  "dec_val (TrimRightByte s (CHR ''0'')) * 10 ^ (length s - length (TrimRightByte s (CHR ''0''))) = dec_val s"
proof (induction s rule: rev_induct)
  case Nil
  show ?case by (simp add: TrimRightByte_def)
next
  case (snoc c s)
  have le: "length (TrimRightByte s (CHR ''0'')) \<le> length s"
    by (simp add: TrimRightByte_def length_dropWhile_le le_trans [OF length_dropWhile_le])
  show ?case
  proof (cases "c = CHR ''0''")
    case True
    then have "TrimRightByte (s @ [c]) (CHR ''0'') = TrimRightByte s (CHR ''0'')"
      by (simp add: TrimRightByte_def)
    with True snoc le show ?thesis
      by (simp add: dec_val_append char_digit_def Suc_diff_le mult.assoc [symmetric])
  next
    case False
    then show ?thesis by (simp add: TrimRightByte_def)
  qed
qed

text \<open>\<open>strconv.Atoi\<close> (64-bit \<open>int\<close>) and \<open>strconv.ParseUint(s, 10, 64)\<close>; None is an error.\<close>

definition ParseUint64 :: "string \<Rightarrow> uint64 option" where
  "ParseUint64 s =
     (if s \<noteq> [] \<and> list_all is_digit s \<and> dec_val s < 2 ^ 64 then Some (of_nat (dec_val s)) else None)"

definition Atoi :: "string \<Rightarrow> int option" where
  "Atoi s =
     (let neg = (case s of c # _ \<Rightarrow> c = CHR ''-'' | [] \<Rightarrow> False);
          body = (case s of c # t \<Rightarrow> (if c = CHR ''-'' \<or> c = CHR ''+'' then t else s) | [] \<Rightarrow> s)
      in if body = [] \<or> \<not> list_all is_digit body then None
         else let v = int (dec_val body)
              in if neg then (if v \<le> 2 ^ 63 then Some (- v) else None)
                 else (if v < 2 ^ 63 then Some v else None))"

text \<open>\<open>(*big.Int).SetString\<close> with base 10: an optional sign, then at least one digit (an
  underscore is an error outside base 0).\<close>

definition SetString10 :: "string \<Rightarrow> int option" where
  "SetString10 s =
     (let (neg, ds) = (case s of c # cs \<Rightarrow> if c = CHR ''-'' then (True, cs)
                         else if c = CHR ''+'' then (False, cs) else (False, s) | [] \<Rightarrow> (False, []))
      in if ds = [] \<or> \<not> list_all is_digit ds then None
         else Some (if neg then - int (dec_val ds) else int (dec_val ds)))"

lemma SetString10_show_nat [simp]: "SetString10 (show_nat n) = Some (int n)"
proof -
  obtain c cs where s: "show_nat n = c # cs" by (cases "show_nat n") auto
  have "is_digit c" using show_nat_digits [of n] s by simp
  then have "c \<noteq> CHR ''-'' \<and> c \<noteq> CHR ''+''" by (auto simp: is_digit_def)
  then show ?thesis
    using show_nat_digits [of n] dec_val_show_nat [of n] unfolding s by (simp add: SetString10_def Let_def)
qed

section \<open>Package encoding/hex\<close>

definition hex_digit :: "nat \<Rightarrow> char" where
  "hex_digit d = (if d < 10 then char_of (48 + d) else char_of (87 + d))"

definition hex_val :: "char \<Rightarrow> nat option" where
  "hex_val c =
     (let n = (of_char c :: nat)
      in if 48 \<le> n \<and> n \<le> 57 then Some (n - 48)
         else if 97 \<le> n \<and> n \<le> 102 then Some (n - 87)
         else if 65 \<le> n \<and> n \<le> 70 then Some (n - 55)
         else None)"

definition is_hex :: "char \<Rightarrow> bool" where
  "is_hex c \<longleftrightarrow> hex_val c \<noteq> None"

fun hex_encode :: "bytes \<Rightarrow> string" where
  "hex_encode [] = []"
| "hex_encode (b # bs) =
     hex_digit (of_char b div 16) # hex_digit (of_char b mod 16) # hex_encode bs"

fun hex_decode :: "string \<Rightarrow> bytes option" where
  "hex_decode [] = Some []"
| "hex_decode [_] = None"
| "hex_decode (c # d # s) =
     (case (hex_val c, hex_val d) of
        (Some h, Some l) \<Rightarrow> map_option (\<lambda>bs. char_of (16 * h + l) # bs) (hex_decode s)
      | _ \<Rightarrow> None)"

lemma of_char_less [simp]: "(of_char c :: nat) < 256"
  using of_char_mod_256 [of c, where 'a = nat] by (metis mod_less_divisor zero_less_numeral)

lemma hex_val_hex_digit: "d < 16 \<Longrightarrow> hex_val (hex_digit d) = Some d"
  by (auto simp: hex_digit_def hex_val_def Let_def)

lemma hex_decode_encode [simp]: "hex_decode (hex_encode bs) = Some bs"
proof (induction bs)
  case Nil
  show ?case by simp
next
  case (Cons b bs)
  have "(of_char b :: nat) div 16 < 16"
    using of_char_less [of b] by (simp add: less_mult_imp_div_less)
  then show ?case
    using Cons by (simp add: hex_val_hex_digit) 
qed

lemma length_hex_encode [simp]: "length (hex_encode bs) = 2 * length bs"
  by (induction bs) auto

lemma is_hex_hex_digit: "d < 16 \<Longrightarrow> is_hex (hex_digit d)"
  by (simp add: is_hex_def hex_val_hex_digit)

lemma hex_encode_is_hex: "list_all is_hex (hex_encode bs)"
proof (induction bs)
  case (Cons b bs)
  have "(of_char b :: nat) div 16 < 16"
    using of_char_less [of b] by (simp add: less_mult_imp_div_less)
  with Cons show ?case by (simp add: is_hex_hex_digit)
qed simp

lemma hex_decode_length: "hex_decode s = Some bs \<Longrightarrow> length s = 2 * length bs"
  by (induction s arbitrary: bs rule: hex_decode.induct) (auto split: option.splits)

lemma hex_decode_total_iff: "hex_decode s \<noteq> None \<longleftrightarrow> even (length s) \<and> list_all is_hex s"
proof (induction s rule: hex_decode.induct)
  case (3 c d s)
  then show ?case by (auto simp: is_hex_def split: option.splits)
qed auto

lemma hex_decode_prefix_free: "hex_decode s \<noteq> None \<Longrightarrow> \<not> prefix ''0x'' s"
proof
  assume s: "hex_decode s \<noteq> None" and "prefix ''0x'' s"
  then obtain t where "s = CHR ''0'' # CHR ''x'' # t" by (auto simp: prefix_def)
  moreover have "hex_val (CHR ''x'') = None" by (simp add: hex_val_def)
  ultimately show False using s by (simp split: option.splits)
qed

lemma TrimPrefix_hex_encode: "TrimPrefix (hex_encode b) ''0x'' = hex_encode b"
  using hex_decode_prefix_free [of "hex_encode b"] by (simp add: TrimPrefix_def)

lemma is_hex_visible: "is_hex c \<Longrightarrow> visible c"
  by (auto simp: is_hex_def hex_val_def visible_def Let_def split: if_splits)

lemma TrimSpace_Nil [simp]: "TrimSpace [] = []"
proof -
  have "leading_rune space_runes [] = None" "leading_rune (map rev space_runes) [] = None"
    using space_runes_invisible by (auto simp: leading_rune_def find_None_iff)
  then show ?thesis by (simp add: TrimSpace_def TrimLeftSpace_def TrimRightSpace_def trim_runes_none)
qed

lemma TrimSpace_all_visible: "list_all visible s \<Longrightarrow> TrimSpace s = s"
  by (cases "s = []") (auto intro!: TrimSpace_visible simp: list_all_iff)

lemma TrimSpace_hex:
  "TrimSpace (hex_encode b) = hex_encode b" "TrimSpace (''0x'' @ hex_encode b) = ''0x'' @ hex_encode b"
proof -
  have "list_all visible (hex_encode b)"
    using hex_encode_is_hex [of b] is_hex_visible by (auto simp: list_all_iff)
  then show "TrimSpace (hex_encode b) = hex_encode b" "TrimSpace (''0x'' @ hex_encode b) = ''0x'' @ hex_encode b"
    by (auto intro!: TrimSpace_all_visible simp: visible_def)
qed

section \<open>Big-endian integers\<close>

definition be_nat :: "bytes \<Rightarrow> nat" where
  "be_nat bs = foldl (\<lambda>a b. 256 * a + of_char b) 0 bs"

fun be_bytes :: "nat \<Rightarrow> nat \<Rightarrow> bytes" where
  "be_bytes 0 x = []"
| "be_bytes (Suc n) x = be_bytes n (x div 256) @ [char_of (x mod 256)]"

lemma be_nat_Nil [simp]: "be_nat [] = 0"
  by (simp add: be_nat_def)

lemma be_nat_snoc [simp]: "be_nat (bs @ [b]) = 256 * be_nat bs + of_char b"
  by (simp add: be_nat_def)

lemma length_be_bytes [simp]: "length (be_bytes n x) = n"
  by (induction n arbitrary: x) auto

lemma be_nat_be_bytes: "be_nat (be_bytes n x) = x mod 256 ^ n"
proof (induction n arbitrary: x)
  case 0
  show ?case by simp
next
  case (Suc n)
  have "be_nat (be_bytes (Suc n) x) = 256 * (x div 256 mod 256 ^ n) + x mod 256"
    by (simp add: Suc)
  also have "\<dots> = x mod 256 ^ Suc n"
    by (simp add: mod_mult2_eq)
  finally show ?case .
qed

lemma be_nat_less: "be_nat bs < 256 ^ length bs"
proof (induction bs rule: rev_induct)
  case Nil
  show ?case by simp
next
  case (snoc b bs)
  have "256 * be_nat bs + of_char b < 256 * be_nat bs + 256" by simp
  also have "\<dots> \<le> 256 * 256 ^ length bs" using snoc by simp
  finally show ?case by simp
qed

lemma be_bytes_be_nat: "length bs = n \<Longrightarrow> be_bytes n (be_nat bs) = bs"
proof (induction bs arbitrary: n rule: rev_induct)
  case Nil
  then show ?case by simp
next
  case (snoc b bs)
  then obtain m where m: "n = Suc m" "length bs = m" by (cases n) auto
  then show ?case using snoc.IH [OF m(2)] by simp
qed

definition hash_of_bytes :: "bytes \<Rightarrow> hash" where
  "hash_of_bytes bs = of_nat (be_nat bs)"

definition bytes_of_hash :: "hash \<Rightarrow> bytes" where
  "bytes_of_hash h = be_bytes 32 (unat h)"

lemma length_bytes_of_hash [simp]: "length (bytes_of_hash h) = 32"
  by (simp add: bytes_of_hash_def)

lemma unat_hash_less: "unat (h :: hash) < 256 ^ 32"
  using unsigned_less [of h, where ?'a = nat] by simp

lemma hash_of_bytes_of_hash [simp]: "hash_of_bytes (bytes_of_hash h) = h"
  using unat_hash_less [of h]
  by (simp add: hash_of_bytes_def bytes_of_hash_def be_nat_be_bytes)

lemma bytes_of_hash_of_bytes:
  assumes "length bs = 32"
  shows "bytes_of_hash (hash_of_bytes bs) = bs"
proof -
  have "be_nat bs < 2 ^ 256"
    using be_nat_less [of bs] assms by simp
  then have "unat (hash_of_bytes bs) = be_nat bs"
    by (simp add: hash_of_bytes_def unat_of_nat)
  then show ?thesis using assms by (simp add: bytes_of_hash_def be_bytes_be_nat)
qed

section \<open>Package math/big\<close>

definition BitLen :: "int \<Rightarrow> int" where
  "BitLen x = bitlen \<bar>x\<bar>"

lemma BitLen_le: "BitLen x \<le> int n \<longleftrightarrow> \<bar>x\<bar> < 2 ^ n"
  unfolding BitLen_def using bitlen_le_iff_power [of "\<bar>x\<bar>" n] by simp

lemma BitLen_256: "BitLen x > 256 \<longleftrightarrow> \<bar>x\<bar> \<ge> 2 ^ 256"
  using BitLen_le [of x 256] by (simp add: not_less [symmetric]) linarith

text \<open>\<open>QuoRem\<close> truncates towards zero.\<close>

definition QuoRem :: "int \<Rightarrow> int \<Rightarrow> int \<times> int" where
  "QuoRem x y = (x sdiv y, x smod y)"

section \<open>Two regular expressions\<close>

text \<open>\<open>^0x[0-9a-fA-F]{n}$\<close>: the prefix, exactly n hex digits, the end of the text.\<close>

definition match_0x_hex :: "nat \<Rightarrow> string \<Rightarrow> bool" where
  "match_0x_hex n s \<longleftrightarrow> prefix ''0x'' s \<and> length s = n + 2 \<and> list_all is_hex (drop 2 s)"

section \<open>Base64\<close>

text \<open>The standard alphabet and the padded encoding, as \<open>encoding/json\<close> writes a \<open>[]byte\<close>.\<close>

definition b64_digit :: "nat \<Rightarrow> char" where
  "b64_digit d =
     (if d < 26 then char_of (65 + d)
      else if d < 52 then char_of (71 + d)
      else if d < 62 then char_of (d - 4)
      else if d = 62 then CHR ''+'' else CHR ''/'')"

fun b64_encode :: "bytes \<Rightarrow> string" where
  "b64_encode [] = []"
| "b64_encode [a] =
     (let x = of_char a * 16 :: nat
      in [b64_digit (x div 64), b64_digit (x mod 64), CHR ''='', CHR ''=''])"
| "b64_encode [a, b] =
     (let x = (of_char a * 256 + of_char b) * 4 :: nat
      in [b64_digit (x div 4096), b64_digit (x div 64 mod 64), b64_digit (x mod 64), CHR ''=''])"
| "b64_encode (a # b # c # s) =
     (let x = (of_char a * 256 + of_char b) * 256 + of_char c :: nat
      in [b64_digit (x div 262144), b64_digit (x div 4096 mod 64), b64_digit (x div 64 mod 64),
          b64_digit (x mod 64)] @ b64_encode s)"

section \<open>Request routing\<close>

text \<open>\<open>http.ServeMux\<close> on patterns "METHOD /literal/path" (cleaned paths): a GET pattern also
  serves HEAD, a known path with another method is answered 405, an unknown one 404.\<close>

datatype mux_result = MuxFound nat | MuxMethodNotAllowed | MuxNotFound

definition method_matches :: "string \<Rightarrow> string \<Rightarrow> bool" where
  "method_matches pat meth \<longleftrightarrow> pat = meth \<or> (pat = ''GET'' \<and> meth = ''HEAD'')"

fun mux_scan :: "nat \<Rightarrow> (string \<times> (string \<Rightarrow> bool)) list \<Rightarrow> string \<Rightarrow> string \<Rightarrow> mux_result" where
  "mux_scan i [] meth path = MuxNotFound"
| "mux_scan i ((pm, pp) # pats) meth path =
     (if pp path \<and> method_matches pm meth then MuxFound i
      else case mux_scan (Suc i) pats meth path of
        MuxNotFound \<Rightarrow> if pp path then MuxMethodNotAllowed else MuxNotFound
      | r \<Rightarrow> r)"

text \<open>The UTF-8 bytes of the em dash that several messages carry.\<close>

definition em_dash :: string where
  "em_dash = [CHR 0xE2, CHR 0x80, CHR 0x94]"

end
