(* ===== verification/Config.thy ===== *)
theory Config
  imports GoLib
begin

text \<open>
  \<open>go/internal/config\<close>: the fixed version and operation names, and the ports, whose defaults
  \<open>init\<close> overrides from the environment.  An environment is the function \<open>os.Getenv\<close>,
  which yields the empty string for a variable that is not set.
\<close>

type_synonym env = "string \<Rightarrow> string"

definition Version :: string where
  "Version = ''0.1.0''"

definition OPTypePolicy :: string where
  "OPTypePolicy = ''POLICY''"

definition OPCommandRegisterModel :: string where
  "OPCommandRegisterModel = ''REGISTER_MODEL''"

definition OPCommandEvaluate :: string where
  "OPCommandEvaluate = ''EVALUATE''"

record Ports =
  ExtensionPort :: int
  SignPort :: int
  ConfigPort :: int

definition default_ports :: Ports where
  "default_ports = \<lparr>ExtensionPort = 7702, SignPort = 7701, ConfigPort = 5501\<rparr>"

text \<open>One override of \<open>init\<close>: a variable that is set and is an integer replaces the port.\<close>

definition port_override :: "env \<Rightarrow> string \<Rightarrow> int \<Rightarrow> int" where
  "port_override getenv name port =
     (if getenv name \<noteq> [] then (case Atoi (getenv name) of Some n \<Rightarrow> n | None \<Rightarrow> port) else port)"

definition config_init :: "env \<Rightarrow> Ports" where
  "config_init getenv =
     (let p0 = default_ports;
          p1 = p0\<lparr>ExtensionPort := port_override getenv ''EXTENSION_PORT'' (ExtensionPort p0)\<rparr>;
          p2 = p1\<lparr>SignPort := port_override getenv ''SIGN_PORT'' (SignPort p1)\<rparr>
      in p2\<lparr>ConfigPort := port_override getenv ''CONFIG_PORT'' (ConfigPort p2)\<rparr>)"

lemma config_init_defaults: "config_init (\<lambda>_. []) = default_ports"
  by (simp add: config_init_def port_override_def Let_def)

lemma port_override_fallback: "Atoi (getenv name) = None \<Longrightarrow> port_override getenv name p = p"
  by (simp add: port_override_def)

lemma config_init_independent:
  "ExtensionPort (config_init g) = port_override g ''EXTENSION_PORT'' 7702"
  "SignPort (config_init g) = port_override g ''SIGN_PORT'' 7701"
  "ConfigPort (config_init g) = port_override g ''CONFIG_PORT'' 5501"
  by (simp_all add: config_init_def default_ports_def Let_def)

end
