(* ===== verification/GoJson.thy ===== *)
theory GoJson
  imports GoLib
begin

text \<open>
  What the program uses of \<open>encoding/json\<close>'s encoder: objects of strings and numbers.  A string is
  written with HTML escaping on, byte by byte: quotes, backslashes, control characters and the three
  HTML characters are escaped, a byte that starts no valid UTF-8 sequence becomes
  \<open>\ufffd\<close>, and the two line separators U+2028 and U+2029 are escaped.
\<close>

section \<open>UTF-8\<close>

definition byte_in :: "nat \<Rightarrow> nat \<Rightarrow> char \<Rightarrow> bool" where
  "byte_in lo hi c \<longleftrightarrow> lo \<le> (of_char c :: nat) \<and> (of_char c :: nat) \<le> hi"

fun continuation :: "(nat \<times> nat) list \<Rightarrow> string \<Rightarrow> bool" where
  "continuation [] s = True"
| "continuation (r # rs) [] = False"
| "continuation ((lo, hi) # rs) (c # s) = (byte_in lo hi c \<and> continuation rs s)"

text \<open>The ranges the bytes after a lead byte must lie in; \<open>None\<close> for a byte that leads nothing.\<close>

definition rune_tail :: "char \<Rightarrow> ((nat \<times> nat) list) option" where
  "rune_tail c =
     (if byte_in 0 127 c then Some []
      else if byte_in 0xC2 0xDF c then Some [(0x80, 0xBF)]
      else if byte_in 0xE0 0xE0 c then Some [(0xA0, 0xBF), (0x80, 0xBF)]
      else if byte_in 0xED 0xED c then Some [(0x80, 0x9F), (0x80, 0xBF)]
      else if byte_in 0xE1 0xEF c then Some [(0x80, 0xBF), (0x80, 0xBF)]
      else if byte_in 0xF0 0xF0 c then Some [(0x90, 0xBF), (0x80, 0xBF), (0x80, 0xBF)]
      else if byte_in 0xF1 0xF3 c then Some [(0x80, 0xBF), (0x80, 0xBF), (0x80, 0xBF)]
      else if byte_in 0xF4 0xF4 c then Some [(0x80, 0x8F), (0x80, 0xBF), (0x80, 0xBF)]
      else None)"

text \<open>The number of bytes of the rune a non-empty text starts with, 0 when it starts with none.\<close>

definition rune_size :: "char \<Rightarrow> string \<Rightarrow> nat" where
  "rune_size c cs =
     (case rune_tail c of Some rs \<Rightarrow> if continuation rs cs then Suc (length rs) else 0 | None \<Rightarrow> 0)"

section \<open>Strings\<close>

definition ascii :: "char \<Rightarrow> bool" where
  "ascii c \<longleftrightarrow> (of_char c :: nat) < 128"

definition backslash :: char where
  "backslash = CHR 0x5C"

definition json_escape :: "char \<Rightarrow> string" where
  "json_escape c =
     (if c = CHR 0x22 \<or> c = backslash then [backslash, c]
      else if c = CHR 0x08 then [backslash, CHR ''b'']
      else if c = CHR 0x0C then [backslash, CHR ''f'']
      else if c = CHR 0x0A then [backslash, CHR ''n'']
      else if c = CHR 0x0D then [backslash, CHR ''r'']
      else if c = CHR 0x09 then [backslash, CHR ''t'']
      else if (of_char c :: nat) < 32 \<or> c = CHR ''<'' \<or> c = CHR ''>'' \<or> c = CHR ''&'' then
        [backslash, CHR ''u'', CHR ''0'', CHR ''0'', hex_digit (of_char c div 16), hex_digit (of_char c mod 16)]
      else [c])"

definition line_separator :: "string \<Rightarrow> string option" where
  "line_separator s =
     (if take 3 s = [CHR 0xE2, CHR 0x80, CHR 0xA8] then Some (backslash # ''u2028'')
      else if take 3 s = [CHR 0xE2, CHR 0x80, CHR 0xA9] then Some (backslash # ''u2029'') else None)"

fun json_chars :: "string \<Rightarrow> string" where
  "json_chars [] = []"
| "json_chars (c # cs) =
     (if ascii c then json_escape c @ json_chars cs
      else if rune_size c cs = 0 then (backslash # ''ufffd'') @ json_chars cs
      else (case line_separator (c # cs) of Some e \<Rightarrow> e | None \<Rightarrow> take (rune_size c cs) (c # cs)) @
           json_chars (drop (rune_size c cs - 1) cs))"

definition json_string :: "string \<Rightarrow> string" where
  "json_string s = CHR 0x22 # json_chars s @ [CHR 0x22]"

section \<open>Objects\<close>

text \<open>The fields of a struct in their order; values are already rendered.\<close>

definition json_field :: "string \<times> string \<Rightarrow> string" where
  "json_field kv = json_string (fst kv) @ '':'' @ snd kv"

definition json_object :: "(string \<times> string) list \<Rightarrow> string" where
  "json_object kvs = ''{'' @ Join (map json_field kvs) '','' @ ''}''"

section \<open>Reading a string back\<close>

definition json_unescape :: "string \<Rightarrow> (char \<times> string) option" where
  "json_unescape s =
     (case s of
        [] \<Rightarrow> None
      | c # cs \<Rightarrow>
          if c \<noteq> backslash then Some (c, cs)
          else (case cs of
                  [] \<Rightarrow> None
                | d # ds \<Rightarrow>
                    if d = CHR ''u'' then
                      (case ds of
                         _ # _ # h # l # r \<Rightarrow>
                           (case (hex_val h, hex_val l) of
                              (Some x, Some y) \<Rightarrow> Some (char_of (16 * x + y), r) | _ \<Rightarrow> None)
                       | _ \<Rightarrow> None)
                    else if d = CHR ''b'' then Some (CHR 0x08, ds)
                    else if d = CHR ''f'' then Some (CHR 0x0C, ds)
                    else if d = CHR ''n'' then Some (CHR 0x0A, ds)
                    else if d = CHR ''r'' then Some (CHR 0x0D, ds)
                    else if d = CHR ''t'' then Some (CHR 0x09, ds)
                    else Some (d, ds)))"

lemma json_unescape_escape: "json_unescape (json_escape c @ s) = Some (c, s)"
proof -
  let ?n = "of_char c :: nat"
  have n: "?n < 256" by simp
  then have "?n div 16 < 16" by (simp add: less_mult_imp_div_less)
  then have "hex_val (hex_digit (?n div 16)) = Some (?n div 16)" "hex_val (hex_digit (?n mod 16)) = Some (?n mod 16)"
    by (simp_all add: hex_val_hex_digit)
  moreover have "char_of (16 * (?n div 16) + ?n mod 16) = c" by simp
  ultimately show ?thesis
    by (auto simp: json_unescape_def json_escape_def backslash_def)
qed

lemma json_escape_inj:
  assumes "json_escape c @ s = json_escape d @ t"
  shows "c = d \<and> s = t"
  using arg_cong [OF assms, of json_unescape] by (simp add: json_unescape_escape)

lemma json_escape_not_quote: "json_escape c @ s \<noteq> CHR 0x22 # t"
  by (auto simp: json_escape_def backslash_def)

lemma json_chars_not_quote:
  "list_all ascii b \<Longrightarrow> b \<noteq> [] \<Longrightarrow> json_chars b @ s \<noteq> CHR 0x22 # t"
  using json_escape_not_quote by (cases b) auto

lemma json_chars_inj:
  assumes "list_all ascii a" and "list_all ascii b"
    and "json_chars a @ CHR 0x22 # s = json_chars b @ CHR 0x22 # t"
  shows "a = b \<and> s = t"
  using assms
proof (induction a arbitrary: b)
  case Nil
  then have "b = []" using json_chars_not_quote [of b "CHR 0x22 # t" s] by force
  with Nil show ?case by simp
next
  case (Cons c a)
  then have ne: "b \<noteq> []" using json_chars_not_quote [of "c # a" "CHR 0x22 # s" t] by force
  then obtain d b' where b: "b = d # b'" by (cases b) auto
  from Cons.prems b have
    "json_escape c @ (json_chars a @ CHR 0x22 # s) = json_escape d @ (json_chars b' @ CHR 0x22 # t)"
    by simp
  from json_escape_inj [OF this] have cd: "c = d" "json_chars a @ CHR 0x22 # s = json_chars b' @ CHR 0x22 # t"
    by blast+
  with Cons b show ?case by auto
qed

lemma json_string_inj:
  assumes "list_all ascii a" and "list_all ascii b" and "json_string a @ s = json_string b @ t"
  shows "a = b \<and> s = t"
  using json_chars_inj [OF assms(1,2)] assms(3) by (simp add: json_string_def)

lemma json_field_inj:
  assumes "list_all ascii a" and "list_all ascii b"
    and "json_field (k, json_string a) @ s = json_field (k, json_string b) @ t"
  shows "a = b \<and> s = t"
  using json_string_inj [OF assms(1,2)] assms(3) by (simp add: json_field_def)

text \<open>Two objects with the same keys and ASCII string values are equal only when the values are.\<close>

lemma json_fields_inj:
  assumes "length ks = length as" and "length ks = length bs"
    and "list_all (list_all ascii) as" and "list_all (list_all ascii) bs"
    and "Join (map json_field (zip ks (map json_string as))) '','' @ s =
         Join (map json_field (zip ks (map json_string bs))) '','' @ t"
  shows "as = bs \<and> s = t"
  using assms
proof (induction ks arbitrary: as bs)
  case (Cons k ks)
  obtain a as' b bs' where ab: "as = a # as'" "bs = b # bs'"
    using Cons.prems(1,2) by (cases as; cases bs) auto
  show ?case
  proof (cases "ks = []")
    case True
    with Cons.prems ab have "json_field (k, json_string a) @ s = json_field (k, json_string b) @ t"
      "as' = []" "bs' = []" by simp_all
    with json_field_inj [of a b k s t] Cons.prems ab show ?thesis by simp
  next
    case False
    let ?J = "\<lambda>vs. Join (map json_field (zip ks (map json_string vs))) '',''"
    from False Cons.prems(1,2) ab
    have ne: "map json_field (zip ks (map json_string as')) \<noteq> []" "map json_field (zip ks (map json_string bs')) \<noteq> []"
      by auto
    from Cons.prems(5) ab ne
    have "json_field (k, json_string a) @ ('','' @ ?J as' @ s) = json_field (k, json_string b) @ ('','' @ ?J bs' @ t)"
      by (simp add: Join_Cons)
    from json_field_inj [OF _ _ this] Cons.prems ab have "a = b" "?J as' @ s = ?J bs' @ t" by simp_all
    with Cons.IH [of as' bs'] Cons.prems ab show ?thesis by simp
  qed
qed simp

lemma json_object_inj:
  assumes "length ks = length as" and "length ks = length bs"
    and "list_all (list_all ascii) as" and "list_all (list_all ascii) bs"
    and "json_object (zip ks (map json_string as)) = json_object (zip ks (map json_string bs))"
  shows "as = bs"
  using json_fields_inj [OF assms(1-4), of "''}''" "''}''"] assms(5) by (simp add: json_object_def)

end
