(* ===== verification/JsonDecode.thy ===== *)
theory JsonDecode
  imports GoJson
begin

text \<open>
  What the program uses of \<open>encoding/json\<close>'s decoder.  Decoding has two passes, as in Go: the scanner
  finds the extent of the first value of the input and checks its syntax, with a stack of the open
  objects and arrays that is bounded by the nesting limit; then the text of that value is decoded into
  a struct, one field after the other, each handed the text of its own value.  A key selects a field
  up to case folding.  Only success matters to the callers (they drop the error), so a failure is
  \<open>None\<close>; Go goes on after the first type error only to report it at the end.
\<close>

section \<open>The scanner\<close>

definition json_space :: "char \<Rightarrow> bool" where
  "json_space c \<longleftrightarrow> c = CHR '' '' \<or> c = CHR 0x09 \<or> c = CHR 0x0D \<or> c = CHR 0x0A"

text \<open>What is left after the closing quote of a string literal; the opening quote is already read.\<close>

fun string_body :: "string \<Rightarrow> string option" where
  "string_body [] = None"
| "string_body (c # cs) =
     (if c = CHR 0x22 then Some cs
      else if c = backslash then
        (case cs of
           [] \<Rightarrow> None
         | d # ds \<Rightarrow>
             if d = CHR ''u'' then
               (case ds of
                  a # b # e # f # r \<Rightarrow> if list_all is_hex [a, b, e, f] then string_body r else None
                | _ \<Rightarrow> None)
             else if d = CHR 0x22 \<or> d = backslash \<or> d = CHR ''/'' \<or> d = CHR ''b'' \<or> d = CHR ''f'' \<or>
                     d = CHR ''n'' \<or> d = CHR ''r'' \<or> d = CHR ''t'' then string_body ds
             else None)
      else if (of_char c :: nat) < 32 then None
      else string_body cs)"

definition some_digits :: "string \<Rightarrow> string option" where
  "some_digits s = (case s of c # cs \<Rightarrow> if is_digit c then Some (dropWhile is_digit cs) else None | [] \<Rightarrow> None)"

definition int_digits :: "string \<Rightarrow> string option" where
  "int_digits s =
     (case s of
        c # cs \<Rightarrow> if c = CHR ''0'' then Some cs else some_digits s
      | [] \<Rightarrow> None)"

definition fraction :: "string \<Rightarrow> string option" where
  "fraction s = (case s of c # cs \<Rightarrow> if c = CHR ''.'' then some_digits cs else Some s | [] \<Rightarrow> Some s)"

definition exponent :: "string \<Rightarrow> string option" where
  "exponent s =
     (case s of
        c # cs \<Rightarrow>
          if c = CHR ''e'' \<or> c = CHR ''E'' then
            (case cs of
               d # ds \<Rightarrow> some_digits (if d = CHR ''+'' \<or> d = CHR ''-'' then ds else cs)
             | [] \<Rightarrow> None)
          else Some s
      | [] \<Rightarrow> Some s)"

definition number_rest :: "string \<Rightarrow> string option" where
  "number_rest s =
     Option.bind (int_digits (case s of c # cs \<Rightarrow> if c = CHR ''-'' then cs else s | [] \<Rightarrow> [])) (\<lambda>r.
     Option.bind (fraction r) exponent)"

definition word_rest :: "string \<Rightarrow> string \<Rightarrow> string option" where
  "word_rest w s = (if take (length w) s = w then Some (drop (length w) s) else None)"

text \<open>What is left after a string, a number or one of the three words.\<close>

definition literal_rest :: "string \<Rightarrow> string option" where
  "literal_rest s =
     (case s of
        [] \<Rightarrow> None
      | c # cs \<Rightarrow>
          if c = CHR 0x22 then string_body cs
          else if c = CHR ''t'' then word_rest ''true'' s
          else if c = CHR ''f'' then word_rest ''false'' s
          else if c = CHR ''n'' then word_rest ''null'' s
          else number_rest s)"

lemma string_body_shorter: "string_body s = Some r \<Longrightarrow> length r < length s"
proof (induction s rule: string_body.induct)
  case (2 c cs)
  consider "c = CHR 0x22" | "c \<noteq> CHR 0x22" "c = backslash" | "c \<noteq> CHR 0x22" "c \<noteq> backslash" by blast
  then show ?case
  proof cases
    case 1
    with "2.prems" show ?thesis by simp
  next
    case c: 2
    with "2.prems" obtain d ds where cs: "cs = d # ds" by (auto split: list.splits)
    show ?thesis
    proof (cases "d = CHR ''u''")
      case True
      with "2.prems" c cs obtain a b e f t where ds: "ds = a # b # e # f # t" and
        "list_all is_hex [a, b, e, f]" "string_body t = Some r"
        by (simp split: list.splits if_splits)
      with "2.IH"(1) c cs True have "length r < length t" by simp
      with cs ds show ?thesis by simp
    next
      case False
      with "2.prems" c cs have "string_body ds = Some r" by (simp split: if_splits)
      moreover from this False "2.prems" c cs "2.IH"(2) have "length r < length ds"
        by (simp split: if_splits)
      ultimately show ?thesis using cs by simp
    qed
  next
    case c: 3
    with "2.prems" have b: "\<not> (of_char c :: nat) < 32" "string_body cs = Some r" by (simp_all split: if_splits)
    from "2.IH"(3) [OF c b] show ?thesis by simp
  qed
qed simp

lemma some_digits_shorter: "some_digits s = Some r \<Longrightarrow> length r < length s"
  using takeWhile_dropWhile_length [of is_digit "tl s"]
  by (auto simp: some_digits_def split: list.splits if_splits)

lemma int_digits_shorter: "int_digits s = Some r \<Longrightarrow> length r < length s"
  by (auto simp: int_digits_def split: list.splits if_splits dest: some_digits_shorter)

lemma fraction_le: "fraction s = Some r \<Longrightarrow> length r \<le> length s"
  by (auto simp: fraction_def split: list.splits if_splits dest!: some_digits_shorter)

lemma exponent_le: "exponent s = Some r \<Longrightarrow> length r \<le> length s"
  by (auto simp: exponent_def split: list.splits if_splits dest!: some_digits_shorter)

lemma number_rest_shorter:
  assumes "number_rest s = Some r"
  shows "length r < length s"
proof -
  let ?s = "case s of c # cs \<Rightarrow> if c = CHR ''-'' then cs else s | [] \<Rightarrow> []"
  obtain a b where "int_digits ?s = Some a" "fraction a = Some b" "exponent b = Some r"
    using assms by (auto simp: number_rest_def bind_eq_Some_conv)
  then have "length r < length ?s"
    using int_digits_shorter fraction_le exponent_le by (meson le_less_trans order.trans)
  also have "\<dots> \<le> length s" by (cases s) auto
  finally show ?thesis .
qed

lemma literal_rest_shorter: "literal_rest s = Some r \<Longrightarrow> length r < length s"
  by (auto simp: literal_rest_def word_rest_def split: list.splits if_splits
      dest: string_body_shorter number_rest_shorter)

text \<open>
  Where the scanner stands: before a value, before a value or the end of an array, before a key or the
  end of an object, before a key, before the colon, behind a value.  The stack holds one truth value
  per open bracket, true for an object.
\<close>

datatype walk = WantValue | WantValueOrEnd | WantKeyOrEnd | WantKey | WantColon | AfterValue

definition maxNestingDepth :: nat where
  "maxNestingDepth = 10000"

function json_walk :: "bool list \<Rightarrow> walk \<Rightarrow> string \<Rightarrow> string option" where
  "json_walk st m [] = None"
| "json_walk st m (c # cs) =
     (if json_space c then json_walk st m cs
      else case m of
        WantColon \<Rightarrow> if c = CHR '':'' then json_walk st WantValue cs else None
      | WantKey \<Rightarrow>
          if c = CHR 0x22 then (case string_body cs of Some r \<Rightarrow> json_walk st WantColon r | None \<Rightarrow> None) else None
      | WantKeyOrEnd \<Rightarrow>
          if c = CHR 0x22 then (case string_body cs of Some r \<Rightarrow> json_walk st WantColon r | None \<Rightarrow> None)
          else if c = CHR ''}'' then (if tl st = [] then Some cs else json_walk (tl st) AfterValue cs)
          else None
      | AfterValue \<Rightarrow>
          if c = CHR '','' then json_walk st (if hd st then WantKey else WantValue) cs
          else if c = (if hd st then CHR ''}'' else CHR '']'') then
            (if tl st = [] then Some cs else json_walk (tl st) AfterValue cs)
          else None
      | _ \<Rightarrow>
          if c = CHR ''{'' then (if length st < maxNestingDepth then json_walk (True # st) WantKeyOrEnd cs else None)
          else if c = CHR ''['' then (if length st < maxNestingDepth then json_walk (False # st) WantValueOrEnd cs else None)
          else if c = CHR '']'' \<and> m = WantValueOrEnd then
            (if tl st = [] then Some cs else json_walk (tl st) AfterValue cs)
          else (case literal_rest (c # cs) of
                  None \<Rightarrow> None
                | Some r \<Rightarrow> if st = [] then Some r else json_walk st AfterValue r))"
  by pat_completeness auto
termination
  by (relation "measure (\<lambda>(st, m, s). length s)")
    (auto dest: string_body_shorter literal_rest_shorter)

lemma json_walk_shorter: "json_walk st m s = Some r \<Longrightarrow> length r < length s"
proof (induction st m s rule: json_walk.induct)
  case (2 st m c cs)
  then show ?case
    by (simp split: if_splits walk.splits option.splits)
      (fastforce dest: string_body_shorter literal_rest_shorter)+
qed simp

text \<open>The first value of the input: its text, and the input behind it.\<close>

definition json_value :: "string \<Rightarrow> (string \<times> string) option" where
  "json_value s =
     (let s' = dropWhile json_space s
      in map_option (\<lambda>r. (take (length s' - length r) s', r)) (json_walk [] WantValue s'))"

lemma json_value_shorter: "json_value s = Some (v, r) \<Longrightarrow> length r < length s"
  using takeWhile_dropWhile_length [of json_space s]
  by (auto simp: json_value_def Let_def dest!: json_walk_shorter)

section \<open>Keys\<close>

text \<open>
  A key is unquoted and then compared with the names of the fields up to case folding.  Beyond ASCII
  only the long s and the Kelvin sign fold to a letter a name could contain; a surrogate is written as
  the replacement character, which occurs in no name.
\<close>

definition utf8_encode :: "nat \<Rightarrow> string" where
  "utf8_encode n =
     (if n < 0x80 then [char_of n]
      else if n < 0x800 then [char_of (0xC0 + n div 64), char_of (0x80 + n mod 64)]
      else if 0xD800 \<le> n \<and> n \<le> 0xDFFF then [CHR 0xEF, CHR 0xBF, CHR 0xBD]
      else [char_of (0xE0 + n div 4096), char_of (0x80 + n div 64 mod 64), char_of (0x80 + n mod 64)])"

definition escaped_char :: "char \<Rightarrow> char" where
  "escaped_char d =
     (if d = CHR ''b'' then CHR 0x08 else if d = CHR ''f'' then CHR 0x0C else if d = CHR ''n'' then CHR 0x0A
      else if d = CHR ''r'' then CHR 0x0D else if d = CHR ''t'' then CHR 0x09 else d)"

definition hex_digit_val :: "char \<Rightarrow> nat" where
  "hex_digit_val c = (case hex_val c of Some d \<Rightarrow> d | None \<Rightarrow> 0)"

fun json_unquote :: "string \<Rightarrow> string" where
  "json_unquote [] = []"
| "json_unquote (c # cs) =
     (if c \<noteq> backslash then c # json_unquote cs
      else (case cs of
              [] \<Rightarrow> []
            | d # ds \<Rightarrow>
                if d = CHR ''u'' then
                  (case ds of
                     a # b # e # f # r \<Rightarrow>
                       utf8_encode (4096 * hex_digit_val a + 256 * hex_digit_val b + 16 * hex_digit_val e +
                                    hex_digit_val f) @ json_unquote r
                   | _ \<Rightarrow> [])
                else escaped_char d # json_unquote ds))"

definition to_upper :: "char \<Rightarrow> char" where
  "to_upper c = (if 97 \<le> (of_char c :: nat) \<and> (of_char c :: nat) \<le> 122 then char_of (of_char c - 32 :: nat) else c)"

fun foldName :: "string \<Rightarrow> string" where
  "foldName [] = []"
| "foldName (c # cs) =
     (if take 2 (c # cs) = [CHR 0xC5, CHR 0xBF] then CHR ''S'' # foldName (drop 1 cs)
      else if take 3 (c # cs) = [CHR 0xE2, CHR 0x84, CHR 0xAA] then CHR ''K'' # foldName (drop 2 cs)
      else to_upper c # foldName cs)"

definition key_is :: "string \<Rightarrow> string \<Rightarrow> bool" where
  "key_is name key \<longleftrightarrow> foldName key = foldName name"

section \<open>Decoding into a struct\<close>

lemma dropWhile_Cons_shorter: "dropWhile P s = c # cs \<Longrightarrow> length cs < length s"
  using takeWhile_dropWhile_length [of P s] by simp

text \<open>
  The members of an object, from behind the opening brace or a comma: each key and the text of its value
  go to the struct's field, and a field that refuses its value fails the whole.
\<close>

function json_members :: "(string \<Rightarrow> string \<Rightarrow> 'a \<Rightarrow> 'a option) \<Rightarrow> string \<Rightarrow> 'a \<Rightarrow> 'a option" where
  "json_members field s x =
     (case dropWhile json_space s of
        [] \<Rightarrow> None
      | c # cs \<Rightarrow>
          if c = CHR ''}'' then Some x
          else if c \<noteq> CHR 0x22 then None
          else (case string_body cs of
            None \<Rightarrow> None
          | Some r \<Rightarrow>
              (case dropWhile json_space r of
                 [] \<Rightarrow> None
               | d # ds \<Rightarrow>
                   if d \<noteq> CHR '':'' then None
                   else (case json_value ds of
                     None \<Rightarrow> None
                   | Some (v, t) \<Rightarrow>
                       (case field (json_unquote (take (length cs - length r - 1) cs)) v x of
                          None \<Rightarrow> None
                        | Some x' \<Rightarrow>
                            (case dropWhile json_space t of
                               [] \<Rightarrow> None
                             | e # es \<Rightarrow>
                                 if e = CHR '','' then json_members field es x'
                                 else if e = CHR ''}'' then Some x' else None))))))"
  by pat_completeness auto
termination
proof (relation "measure (\<lambda>(field, s, x). length s)", goal_cases)
  case (2 field s x c cs r d ds p v t x' e es)
  then have "length cs < length s" "length r < length cs" "length ds < length r" "length t < length ds"
    "length es < length t"
    by (auto dest!: dropWhile_Cons_shorter string_body_shorter json_value_shorter)
  then show ?case by simp
qed simp

text \<open>Values: a struct, a \<open>uint64\<close>, a \<open>*big.Int\<close>; the word \<open>null\<close> empties a pointer and is
  otherwise skipped.\<close>

definition json_struct :: "(string \<Rightarrow> string \<Rightarrow> 'a \<Rightarrow> 'a option) \<Rightarrow> string \<Rightarrow> 'a \<Rightarrow> 'a option" where
  "json_struct field v x =
     (if v = ''null'' then Some x
      else case v of c # cs \<Rightarrow> if c = CHR ''{'' then json_members field cs x else None | [] \<Rightarrow> None)"

definition json_uint64 :: "string \<Rightarrow> uint64 \<Rightarrow> uint64 option" where
  "json_uint64 v old = (if v = ''null'' then Some old else ParseUint64 v)"

definition json_bigint :: "string \<Rightarrow> (int option) option" where
  "json_bigint v = (if v = ''null'' then Some None else map_option Some (SetString10 v))"

text \<open>\<open>Decoder.Decode\<close> yields the input behind the value, \<open>Unmarshal\<close> allows only white space there.\<close>

definition decoder_Decode ::
    "(string \<Rightarrow> string \<Rightarrow> 'a \<Rightarrow> 'a option) \<Rightarrow> bytes \<Rightarrow> 'a \<Rightarrow> ('a \<times> bytes) option" where
  "decoder_Decode field input x =
     (case json_value input of
        None \<Rightarrow> None
      | Some (v, rest) \<Rightarrow> map_option (\<lambda>y. (y, rest)) (json_struct field v x))"

definition json_Unmarshal :: "(string \<Rightarrow> string \<Rightarrow> 'a \<Rightarrow> 'a option) \<Rightarrow> bytes \<Rightarrow> 'a \<Rightarrow> 'a option" where
  "json_Unmarshal field input x =
     (case decoder_Decode field input x of
        Some (y, rest) \<Rightarrow> if list_all json_space rest then Some y else None
      | None \<Rightarrow> None)"

text \<open>\<open>Decoder.More\<close>: skip white space; anything but the end of input, a closing bracket or a
  closing brace counts as another element.\<close>

definition decoder_More :: "bytes \<Rightarrow> bool" where
  "decoder_More rest =
     (case dropWhile json_space rest of
        [] \<Rightarrow> False
      | c # _ \<Rightarrow> c \<noteq> CHR '']'' \<and> c \<noteq> CHR ''}'')"

section \<open>Reading back what the encoder writes\<close>

declare json_walk.simps [simp del] json_members.simps [simp del]

lemma string_body_escape: "string_body (json_escape c @ s) = string_body s"
proof -
  have n: "(of_char c :: nat) div 16 < 16" "(of_char c :: nat) mod 16 < 16" by (simp_all add: less_mult_imp_div_less)
  then have "is_hex (hex_digit (of_char c div 16))" "is_hex (hex_digit (of_char c mod 16))"
    by (simp_all add: is_hex_hex_digit)
  moreover have "is_hex (CHR ''0'')" by (simp add: is_hex_def hex_val_def)
  ultimately show ?thesis by (simp add: json_escape_def backslash_def)
qed

lemma string_body_json_chars: "list_all ascii s \<Longrightarrow> string_body (json_chars s @ CHR 0x22 # r) = Some r"
  by (induction s) (simp_all add: string_body_escape)

lemma json_unquote_escape: "json_unquote (json_escape c @ s) = c # json_unquote s"
proof -
  have n: "(of_char c :: nat) div 16 < 16" "(of_char c :: nat) mod 16 < 16" by (simp_all add: less_mult_imp_div_less)
  then have "hex_digit_val (hex_digit (of_char c div 16)) = of_char c div 16"
    "hex_digit_val (hex_digit (of_char c mod 16)) = of_char c mod 16"
    by (simp_all add: hex_digit_val_def hex_val_hex_digit)
  moreover have "hex_digit_val (CHR ''0'') = 0" by (simp add: hex_digit_val_def hex_val_def)
  moreover have "16 * ((of_char c :: nat) div 16) + of_char c mod 16 = of_char c" by simp
  moreover have "(of_char c :: nat) < 32 \<or> c = CHR ''<'' \<or> c = CHR ''>'' \<or> c = CHR ''&'' \<Longrightarrow> (of_char c :: nat) < 128" by auto
  ultimately show ?thesis
    by (simp add: json_escape_def backslash_def utf8_encode_def escaped_char_def)
qed

lemma json_unquote_chars: "list_all ascii s \<Longrightarrow> json_unquote (json_chars s) = s"
  by (induction s) (simp_all add: json_unquote_escape)

text \<open>A rendered value: the scanner reads exactly it, whatever follows a value can be followed by.\<close>

definition value_end :: "string \<Rightarrow> bool" where
  "value_end s \<longleftrightarrow> s \<noteq> [] \<and> (hd s = CHR '','' \<or> hd s = CHR ''}'')"

definition rendered :: "nat \<Rightarrow> string \<Rightarrow> bool" where
  "rendered d v \<longleftrightarrow> v \<noteq> [] \<and> \<not> json_space (hd v) \<and>
     (\<forall>st r. length st + d \<le> maxNestingDepth \<longrightarrow> value_end r \<longrightarrow>
        json_walk st WantValue (v @ r) = (if st = [] then Some r else json_walk st AfterValue r))"

lemma rendered_literal:
  assumes "v = c # cs" "c \<noteq> CHR ''{''" "c \<noteq> CHR ''[''" "\<not> json_space c"
    and "\<And>r. value_end r \<Longrightarrow> literal_rest (v @ r) = Some r"
  shows "rendered d v"
  using assms by (auto simp: rendered_def json_walk.simps)

lemma rendered_string: "list_all ascii s \<Longrightarrow> rendered d (json_string s)"
  by (rule rendered_literal [of _ "CHR 0x22" "json_chars s @ [CHR 0x22]"])
    (auto simp: json_string_def json_space_def literal_rest_def string_body_json_chars)

lemma rendered_null: "rendered d ''null''"
  by (rule rendered_literal [of _ "CHR ''n''" "''ull''"])
    (auto simp: json_space_def literal_rest_def word_rest_def)

lemma show_nat_leading_zero: "show_nat n = CHR ''0'' # s \<Longrightarrow> s = []"
proof (induction n arbitrary: s rule: show_nat.induct)
  case (1 n)
  show ?case
  proof (cases "n < 10")
    case False
    then have e: "show_nat (n div 10) @ [digit_char (n mod 10)] = CHR ''0'' # s"
      using "1.prems" by (simp add: show_nat_more)
    then obtain t where t: "show_nat (n div 10) = CHR ''0'' # t" by (cases "show_nat (n div 10)") auto
    from "1.IH" [OF False this] t have "show_nat (n div 10) = show_nat 0" by (simp add: show_nat_digit)
    then have "n div 10 = 0" by (rule show_nat_inj)
    with False show ?thesis by simp
  qed (use "1.prems" in \<open>simp add: show_nat_digit\<close>)
qed

lemma value_end_number:
  assumes "value_end r"
  shows "dropWhile is_digit r = r" "Option.bind (fraction r) exponent = Some r"
proof -
  obtain c cs where r: "r = c # cs" "c = CHR '','' \<or> c = CHR ''}''"
    using assms by (cases r) (auto simp: value_end_def)
  then show "dropWhile is_digit r = r" by (auto simp: is_digit_def)
  from r show "Option.bind (fraction r) exponent = Some r" by (auto simp: fraction_def exponent_def)
qed

lemma int_digits_show_nat: "value_end r \<Longrightarrow> int_digits (show_nat n @ r) = Some r"
proof -
  assume r: "value_end r"
  obtain c cs where s: "show_nat n = c # cs" by (cases "show_nat n") auto
  have d: "is_digit c" "list_all is_digit cs" using show_nat_digits [of n] s by simp_all
  then have "dropWhile is_digit (cs @ r) = r"
    using value_end_number(1) [OF r] by (simp add: dropWhile_append list_all_iff dropWhile_eq_Nil_conv)
  with s d show ?thesis
    using show_nat_leading_zero [of n cs] by (auto simp: int_digits_def some_digits_def)
qed

lemma number_rest_show_nat: "value_end r \<Longrightarrow> number_rest (show_nat n @ r) = Some r"
proof -
  assume r: "value_end r"
  obtain c cs where s: "show_nat n = c # cs" by (cases "show_nat n") auto
  have "is_digit c" using show_nat_digits [of n] s by simp
  then have "c \<noteq> CHR ''-''" by (auto simp: is_digit_def)
  with s have "(case show_nat n @ r of c # cs \<Rightarrow> if c = CHR ''-'' then cs else show_nat n @ r | [] \<Rightarrow> []) = show_nat n @ r"
    by simp
  then show ?thesis
    using r by (simp add: number_rest_def int_digits_show_nat value_end_number)
qed

lemma rendered_show_nat: "rendered d (show_nat n)"
proof -
  obtain c cs where s: "show_nat n = c # cs" by (cases "show_nat n") auto
  have "is_digit c" using show_nat_digits [of n] s by simp
  then have c: "c \<noteq> CHR ''{''" "c \<noteq> CHR ''[''" "\<not> json_space c" "c \<noteq> CHR 0x22" "c \<noteq> CHR ''t''" "c \<noteq> CHR ''f''"
    "c \<noteq> CHR ''n''" by (auto simp: is_digit_def json_space_def)
  show ?thesis
  proof (rule rendered_literal [OF s c(1-3)])
    fix r assume "value_end r"
    with number_rest_show_nat [OF this, of n] c show "literal_rest (show_nat n @ r) = Some r"
      unfolding s by (simp add: literal_rest_def)
  qed
qed

lemma rendered_show_int: "rendered d (show_int i)"
proof (cases "i < 0")
  case True
  let ?v = "CHR ''-'' # show_nat (nat (- i))"
  have "rendered d ?v"
    by (rule rendered_literal [of _ "CHR ''-''" "show_nat (nat (- i))"])
      (auto simp: json_space_def literal_rest_def number_rest_def int_digits_show_nat value_end_number)
  with True show ?thesis by (simp add: show_int_def)
qed (simp add: show_int_def rendered_show_nat)

lemma json_value_rendered:
  assumes "rendered d v" and "d \<le> maxNestingDepth" and "value_end r"
  shows "json_value (v @ r) = Some (v, r)"
proof -
  obtain c cs where v: "v = c # cs" "\<not> json_space c" using assms(1) by (cases v) (auto simp: rendered_def)
  have "json_walk [] WantValue (v @ r) = Some r"
    using assms by (auto simp: rendered_def)
  with v show ?thesis by (simp add: json_value_def Let_def)
qed

lemma rendered_value_end:
  "rendered d v \<Longrightarrow> length st + d \<le> maxNestingDepth \<Longrightarrow> value_end r \<Longrightarrow>
   json_walk st WantValue (v @ r) = (if st = [] then Some r else json_walk st AfterValue r)"
  by (simp add: rendered_def)

lemma walk_field:
  assumes "list_all ascii k" "rendered d v" "Suc (length st) + d \<le> maxNestingDepth" "value_end r"
  shows "json_walk (True # st) WantKey (json_field (k, v) @ r) = json_walk (True # st) AfterValue r"
    and "json_walk (True # st) WantKeyOrEnd (json_field (k, v) @ r) = json_walk (True # st) AfterValue r"
proof -
  let ?t = "CHR '':'' # v @ r"
  have "json_field (k, v) @ r = CHR 0x22 # json_chars k @ CHR 0x22 # ?t"
    by (simp add: json_field_def json_string_def)
  moreover have "json_walk (True # st) WantColon ?t = json_walk (True # st) AfterValue r"
    using rendered_value_end [OF assms(2), of "True # st" r] assms(3,4)
    by (simp add: json_walk.simps json_space_def)
  ultimately show "json_walk (True # st) WantKey (json_field (k, v) @ r) = json_walk (True # st) AfterValue r"
    "json_walk (True # st) WantKeyOrEnd (json_field (k, v) @ r) = json_walk (True # st) AfterValue r"
    using assms(1) by (simp_all add: json_walk.simps(2) json_space_def string_body_json_chars)
qed

abbreviation fields_text :: "(string \<times> string) list \<Rightarrow> string" where
  "fields_text kvs \<equiv> Join (map json_field kvs) '','' @ ''}''"

definition fields_rendered :: "nat \<Rightarrow> (string \<times> string) list \<Rightarrow> bool" where
  "fields_rendered d kvs \<longleftrightarrow> (\<forall>(k, v) \<in> set kvs. list_all ascii k \<and> rendered d v)"

lemma walk_fields:
  assumes "fields_rendered d kvs" "kvs \<noteq> []" "Suc (length st) + d \<le> maxNestingDepth"
  shows "json_walk (True # st) WantKey (fields_text kvs @ r) = (if st = [] then Some r else json_walk st AfterValue r)"
  using assms(1,2)
proof (induction kvs)
  case (Cons kv kvs)
  obtain k v where kv: "kv = (k, v)" by (cases kv)
  with Cons.prems have f: "list_all ascii k" "rendered d v" by (simp_all add: fields_rendered_def)
  show ?case
  proof (cases "kvs = []")
    case True
    then show ?thesis using walk_field(1) [OF f assms(3), of "CHR ''}'' # r"] kv
      by (simp add: value_end_def json_walk.simps json_space_def)
  next
    case False
    let ?t = "CHR '','' # fields_text kvs @ r"
    from False have "fields_text (kv # kvs) @ r = json_field (k, v) @ ?t"
      using kv by (simp add: Join_Cons)
    then have "json_walk (True # st) WantKey (fields_text (kv # kvs) @ r) = json_walk (True # st) AfterValue ?t"
      using walk_field(1) [OF f assms(3), of ?t] by (simp add: value_end_def)
    also have "\<dots> = json_walk (True # st) WantKey (fields_text kvs @ r)"
      by (simp add: json_walk.simps(2) json_space_def)
    finally show ?thesis using Cons.IH Cons.prems(1) False by (simp add: fields_rendered_def)
  qed
qed simp

lemma fields_text_quote: "kvs \<noteq> [] \<Longrightarrow> \<exists>t. fields_text kvs @ r = CHR 0x22 # t"
  by (cases kvs; cases "tl kvs = []") (auto simp: json_field_def json_string_def Join_Cons)

lemma walk_object:
  assumes "fields_rendered d kvs" "kvs \<noteq> []" "Suc (length st) + d \<le> maxNestingDepth"
  shows "json_walk st WantValue (json_object kvs @ r) = (if st = [] then Some r else json_walk st AfterValue r)"
proof -
  obtain t where t: "fields_text kvs @ r = CHR 0x22 # t" using fields_text_quote [OF assms(2)] by blast
  have "json_walk st WantValue (json_object kvs @ r) = json_walk (True # st) WantKeyOrEnd (fields_text kvs @ r)"
    using assms(3) by (simp add: json_object_def json_walk.simps(2) json_space_def)
  also have "\<dots> = json_walk (True # st) WantKey (fields_text kvs @ r)"
    unfolding t by (simp add: json_walk.simps(2) json_space_def)
  finally show ?thesis using walk_fields [OF assms] by simp
qed

lemma rendered_object:
  assumes "fields_rendered d kvs" "kvs \<noteq> []"
  shows "rendered (Suc d) (json_object kvs)"
  unfolding rendered_def
proof (intro conjI allI impI)
  show "json_object kvs \<noteq> []" "\<not> json_space (hd (json_object kvs))"
    by (simp_all add: json_object_def json_space_def)
next
  fix st :: "bool list" and r
  assume "length st + Suc d \<le> maxNestingDepth"
  then show "json_walk st WantValue (json_object kvs @ r) = (if st = [] then Some r else json_walk st AfterValue r)"
    using walk_object [OF assms, of st r] by simp
qed

text \<open>Decoding the members of a rendered object hands every field its value, in their order.\<close>

fun assign_fields :: "(string \<Rightarrow> string \<Rightarrow> 'a \<Rightarrow> 'a option) \<Rightarrow> (string \<times> string) list \<Rightarrow> 'a \<Rightarrow> 'a option" where
  "assign_fields field [] x = Some x"
| "assign_fields field ((k, v) # kvs) x =
     (case field k v x of None \<Rightarrow> None | Some y \<Rightarrow> assign_fields field kvs y)"

lemma members_fields:
  assumes "fields_rendered d kvs" "d \<le> maxNestingDepth" "kvs \<noteq> []"
  shows "json_members field (fields_text kvs) x = assign_fields field kvs x"
  using assms(1,3)
proof (induction kvs arbitrary: x)
  case (Cons kv kvs)
  obtain k v where kv: "kv = (k, v)" by (cases kv)
  with Cons.prems have f: "list_all ascii k" "rendered d v" by (simp_all add: fields_rendered_def)
  let ?t = "if kvs = [] then ''}'' else CHR '','' # fields_text kvs"
  have val: "json_value (v @ ?t) = Some (v, ?t)"
    using f(2) assms(2) by (rule json_value_rendered) (simp add: value_end_def)
  have shape: "fields_text ((k, v) # kvs) = CHR 0x22 # json_chars k @ CHR 0x22 # CHR '':'' # v @ ?t"
    by (simp add: json_field_def json_string_def Join_Cons)
  have "kvs \<noteq> [] \<Longrightarrow> json_members field (fields_text kvs) y = assign_fields field kvs y" for y
    using Cons.IH Cons.prems(1) by (simp add: fields_rendered_def)
  with val show ?case
    unfolding kv shape
    by (subst json_members.simps)
      (auto simp: json_space_def string_body_json_chars f json_unquote_chars split: option.split)
qed simp

lemma struct_fields:
  "fields_rendered d kvs \<Longrightarrow> d \<le> maxNestingDepth \<Longrightarrow> kvs \<noteq> [] \<Longrightarrow> json_struct field (json_object kvs) x = assign_fields field kvs x"
  using members_fields by (simp add: json_struct_def json_object_def)

lemma decode_fields:
  assumes "fields_rendered d kvs" "kvs \<noteq> []" "d < maxNestingDepth"
  shows "decoder_Decode field (json_object kvs @ rest) x = map_option (\<lambda>y. (y, rest)) (assign_fields field kvs x)"
proof -
  have "json_walk [] WantValue (json_object kvs @ rest) = Some rest"
    using walk_object [OF assms(1,2), of "[]" rest] assms(3) by simp
  moreover have "dropWhile json_space (json_object kvs @ rest) = json_object kvs @ rest"
    by (simp add: json_object_def json_space_def)
  ultimately have "json_value (json_object kvs @ rest) = Some (json_object kvs, rest)"
    by (simp add: json_value_def Let_def)
  then show ?thesis using struct_fields [OF assms(1) _ assms(2), of field x] assms(3) by (simp add: decoder_Decode_def)
qed

end
