(* ===== verification/AegisTypes.thy ===== *)
theory AegisTypes
  imports JsonDecode
begin

text \<open>
  The payload types and codecs of \<open>go/pkg/types\<close>.  The three-word ABI tuple is encoded by
  go-ethereum's \<open>abi.Arguments\<close>, which is not part of this repository: \<open>Pack\<close> and
  \<open>Unpack\<close> are parameters (record \<open>abi_lib\<close>), and what the code relies on is the locale
  \<open>abi_tuple\<close>, interpreted on the encoding the Solidity ABI specification prescribes (the
  same one the contracts decode).  The JSON payload of a registration is written and read with the
  model of \<open>encoding/json\<close>; the text of a \<open>common.Hash\<close> and its unmarshaller, which gets the raw
  text of the value, are go-ethereum's and parameters.
\<close>

section \<open>Data\<close>

record ModelParameters =
  TriggerTenthsMm :: uint64
  ExitTenthsMm :: uint64
  SumInsuredUnits :: "int option"
  PayoutFactorBps :: uint64
  MinPayoutUnits :: "int option"

record RegisterModelRequest =
  rm_PolicyID :: hash
  rm_Model :: ModelParameters

record EvaluateRequest =
  ev_PolicyID :: hash
  ev_RainfallTenthsMm :: "int option"
  ev_PayoutTo :: address

record EvaluateResponse =
  er_PolicyID :: hash
  er_PayoutAmount :: "int option"
  er_PayoutTo :: address

record State =
  RegisteredModels :: int

record StateResponse =
  sr_StateVersion :: hash
  sr_State :: State

section \<open>The ABI tuple (bytes32, uint256, address)\<close>

text \<open>A decoded ABI value, as the \<open>interface{}\<close> elements the type assertions inspect.\<close>

datatype abi_value =
    AbiBytes32 hash | AbiBigInt int | AbiAddress address | AbiString string | AbiUint8 "8 word" | AbiOther string

record abi_lib =
  Pack :: "hash \<Rightarrow> int \<Rightarrow> address \<Rightarrow> bytes res"
  Unpack :: "bytes \<Rightarrow> (abi_value list) res"

definition evaluateTupleSize :: nat where
  "evaluateTupleSize = 96"

definition encodeEvaluateTuple :: "abi_lib \<Rightarrow> hash \<Rightarrow> int option \<Rightarrow> address \<Rightarrow> bytes res" where
  "encodeEvaluateTuple abi policyID value payoutTo =
     (case value of
        None \<Rightarrow> Inl ''value is nil''
      | Some v \<Rightarrow>
          if v < 0 then Inl ''value is negative''
          else if BitLen v > 256 then Inl ''value exceeds uint256''
          else Pack abi policyID v payoutTo)"

text \<open>The \<open>%T\<close> verb on a decoded value, used in the type-assertion errors only.\<close>

fun go_type_name :: "abi_value \<Rightarrow> string" where
  "go_type_name (AbiBytes32 _) = ''[32]uint8''"
| "go_type_name (AbiBigInt _) = ''*big.Int''"
| "go_type_name (AbiAddress _) = ''common.Address''"
| "go_type_name (AbiString _) = ''string''"
| "go_type_name (AbiUint8 _) = ''uint8''"
| "go_type_name (AbiOther t) = t"

definition decodeEvaluateTuple :: "abi_lib \<Rightarrow> bytes \<Rightarrow> (hash \<times> int \<times> address) res" where
  "decodeEvaluateTuple abi data =
     (if length data \<noteq> evaluateTupleSize
      then Inl (''expected '' @ show_nat evaluateTupleSize @ '' bytes, got '' @ show_nat (length data))
      else case Unpack abi data of
        Inl e \<Rightarrow> Inl e
      | Inr values \<Rightarrow>
          if length values \<noteq> 3 then Inl (''expected 3 values, got '' @ show_nat (length values))
          else case values ! 0 of
            AbiBytes32 policyID \<Rightarrow>
              (case values ! 1 of
                 AbiBigInt value \<Rightarrow>
                   (case values ! 2 of
                      AbiAddress payoutTo \<Rightarrow> Inr (policyID, value, payoutTo)
                    | v \<Rightarrow> Inl (''field 2 is '' @ go_type_name v @ '', want address''))
               | v \<Rightarrow> Inl (''field 1 is '' @ go_type_name v @ '', want uint256''))
          | v \<Rightarrow> Inl (''field 0 is '' @ go_type_name v @ '', want bytes32''))"

definition EvaluateRequest_Encode :: "abi_lib \<Rightarrow> EvaluateRequest \<Rightarrow> bytes res" where
  "EvaluateRequest_Encode abi r =
     encodeEvaluateTuple abi (ev_PolicyID r) (ev_RainfallTenthsMm r) (ev_PayoutTo r)"

definition DecodeEvaluateRequest :: "abi_lib \<Rightarrow> bytes \<Rightarrow> EvaluateRequest res" where
  "DecodeEvaluateRequest abi data =
     (case decodeEvaluateTuple abi data of
        Inl e \<Rightarrow> Inl (''decoding evaluate request: '' @ e)
      | Inr (policyID, rainfall, payoutTo) \<Rightarrow>
          Inr \<lparr>ev_PolicyID = policyID, ev_RainfallTenthsMm = Some rainfall, ev_PayoutTo = payoutTo\<rparr>)"

definition EvaluateResponse_Encode :: "abi_lib \<Rightarrow> EvaluateResponse \<Rightarrow> bytes res" where
  "EvaluateResponse_Encode abi r =
     encodeEvaluateTuple abi (er_PolicyID r) (er_PayoutAmount r) (er_PayoutTo r)"

definition DecodeEvaluateResponse :: "abi_lib \<Rightarrow> bytes \<Rightarrow> EvaluateResponse res" where
  "DecodeEvaluateResponse abi data =
     (case decodeEvaluateTuple abi data of
        Inl e \<Rightarrow> Inl (''decoding evaluate response: '' @ e)
      | Inr (policyID, payout, payoutTo) \<Rightarrow>
          Inr \<lparr>er_PolicyID = policyID, er_PayoutAmount = Some payout, er_PayoutTo = payoutTo\<rparr>)"

section \<open>Model validation and the register payload\<close>

definition Validate :: "ModelParameters \<Rightarrow> unit res" where
  "Validate m =
     (if SumInsuredUnits m = None \<or> the (SumInsuredUnits m) \<le> 0
      then Inl ''model rejected: sumInsuredUnits must be positive''
      else if BitLen (the (SumInsuredUnits m)) > 256
      then Inl ''model rejected: sumInsuredUnits exceeds uint256''
      else if MinPayoutUnits m = None
      then Inl ''model rejected: minPayoutUnits is missing''
      else if the (MinPayoutUnits m) < 0
      then Inl ''model rejected: minPayoutUnits must not be negative''
      else if ExitTenthsMm m \<ge> TriggerTenthsMm m
      then Inl ''model rejected: exitTenthsMm must be below triggerTenthsMm''
      else if PayoutFactorBps m = 0
      then Inl ''model rejected: payoutFactorBps must be positive''
      else Inr ())"

text \<open>The fields of the two structs by their JSON names: each takes the raw text of its value.  The
  decoder of a registration refuses a name it does not know, the one of a model file skips it.\<close>

definition zero_model :: ModelParameters where
  "zero_model =
     \<lparr>TriggerTenthsMm = 0, ExitTenthsMm = 0, SumInsuredUnits = None, PayoutFactorBps = 0, MinPayoutUnits = None\<rparr>"

definition model_field :: "bool \<Rightarrow> string \<Rightarrow> string \<Rightarrow> ModelParameters \<Rightarrow> ModelParameters option" where
  "model_field DisallowUnknownFields key v m =
     (if key_is ''triggerTenthsMm'' key then
        map_option (\<lambda>n. m\<lparr>TriggerTenthsMm := n\<rparr>) (json_uint64 v (TriggerTenthsMm m))
      else if key_is ''exitTenthsMm'' key then
        map_option (\<lambda>n. m\<lparr>ExitTenthsMm := n\<rparr>) (json_uint64 v (ExitTenthsMm m))
      else if key_is ''sumInsuredUnits'' key then
        map_option (\<lambda>i. m\<lparr>SumInsuredUnits := i\<rparr>) (json_bigint v)
      else if key_is ''payoutFactorBps'' key then
        map_option (\<lambda>n. m\<lparr>PayoutFactorBps := n\<rparr>) (json_uint64 v (PayoutFactorBps m))
      else if key_is ''minPayoutUnits'' key then
        map_option (\<lambda>i. m\<lparr>MinPayoutUnits := i\<rparr>) (json_bigint v)
      else if DisallowUnknownFields then None else Some m)"

definition register_field ::
    "(string \<Rightarrow> hash option) \<Rightarrow> string \<Rightarrow> string \<Rightarrow> RegisterModelRequest \<Rightarrow> RegisterModelRequest option" where
  "register_field hash_json key v r =
     (if key_is ''policyId'' key then map_option (\<lambda>h. r\<lparr>rm_PolicyID := h\<rparr>) (hash_json v)
      else if key_is ''model'' key then
        map_option (\<lambda>m. r\<lparr>rm_Model := m\<rparr>) (json_struct (model_field True) v (rm_Model r))
      else None)"

definition zero_request :: RegisterModelRequest where
  "zero_request = \<lparr>rm_PolicyID = 0, rm_Model = zero_model\<rparr>"

definition render_big :: "int option \<Rightarrow> string" where
  "render_big v = (case v of Some i \<Rightarrow> show_int i | None \<Rightarrow> ''null'')"

definition model_members :: "ModelParameters \<Rightarrow> (string \<times> string) list" where
  "model_members m =
     [(''triggerTenthsMm'', show_nat (unat (TriggerTenthsMm m))),
      (''exitTenthsMm'', show_nat (unat (ExitTenthsMm m))),
      (''sumInsuredUnits'', render_big (SumInsuredUnits m)),
      (''payoutFactorBps'', show_nat (unat (PayoutFactorBps m))),
      (''minPayoutUnits'', render_big (MinPayoutUnits m))]"

definition register_members :: "(hash \<Rightarrow> string) \<Rightarrow> RegisterModelRequest \<Rightarrow> (string \<times> string) list" where
  "register_members hash_text r =
     [(''policyId'', json_string (hash_text (rm_PolicyID r))),
      (''model'', json_object (model_members (rm_Model r)))]"

definition RegisterModelRequest_Encode :: "(hash \<Rightarrow> string) \<Rightarrow> RegisterModelRequest \<Rightarrow> bytes res" where
  "RegisterModelRequest_Encode hash_text r = Inr (json_object (register_members hash_text r))"

definition DecodeRegisterModelRequest :: "(string \<Rightarrow> hash option) \<Rightarrow> bytes \<Rightarrow> RegisterModelRequest res" where
  "DecodeRegisterModelRequest hash_json plaintext =
     (case decoder_Decode (register_field hash_json) plaintext zero_request of
        None \<Rightarrow> Inl ''decoding register model request: invalid payload''
      | Some (req, rest) \<Rightarrow>
          if decoder_More rest then Inl ''decoding register model request: trailing data''
          else if rm_PolicyID req = 0 then Inl ''policyId is zero''
          else case Validate (rm_Model req) of Inl e \<Rightarrow> Inl e | Inr _ \<Rightarrow> Inr req)"

section \<open>The codec contract and what follows from it\<close>

locale abi_tuple =
  fixes abi :: abi_lib
  assumes pack_unpack:
      "0 \<le> v \<Longrightarrow> v < 2 ^ 256 \<Longrightarrow>
       \<exists>bs. Pack abi p v a = Inr bs \<and> length bs = 96 \<and>
            Unpack abi bs = Inr [AbiBytes32 p, AbiBigInt v, AbiAddress a]"
    and unpack_typed:
      "length bs = 96 \<Longrightarrow> Unpack abi bs = Inr vs \<Longrightarrow>
       \<exists>p v a. vs = [AbiBytes32 p, AbiBigInt v, AbiAddress a] \<and> 0 \<le> v \<and> v < 2 ^ 256"
begin

lemma encode_decode_tuple:
  assumes "0 \<le> v" and "v < 2 ^ 256"
  shows "\<exists>bs. encodeEvaluateTuple abi p (Some v) a = Inr bs \<and> length bs = 96 \<and>
              decodeEvaluateTuple abi bs = Inr (p, v, a)"
proof -
  from pack_unpack [OF assms, of p a] obtain bs where bs:
    "Pack abi p v a = Inr bs" "length bs = 96"
    "Unpack abi bs = Inr [AbiBytes32 p, AbiBigInt v, AbiAddress a]"
    by blast
  moreover have "\<not> BitLen v > 256" using assms by (simp add: BitLen_256)
  ultimately show ?thesis
    using assms(1)
    by (auto simp: encodeEvaluateTuple_def decodeEvaluateTuple_def evaluateTupleSize_def)
qed

lemma encode_ok_iff:
  "is_ok (encodeEvaluateTuple abi p v a) \<longleftrightarrow> (\<exists>i. v = Some i \<and> 0 \<le> i \<and> i < 2 ^ 256)"
proof (cases v)
  case (Some i)
  show ?thesis
  proof (cases "0 \<le> i \<and> i < 2 ^ 256")
    case True
    with encode_decode_tuple [of i p a] Some show ?thesis by (auto simp: is_ok_iff)
  next
    case False
    with Some show ?thesis by (auto simp: encodeEvaluateTuple_def BitLen_256)
  qed
qed (simp add: encodeEvaluateTuple_def)

lemma decode_range:
  assumes "decodeEvaluateTuple abi bs = Inr (p, v, a)"
  shows "length bs = 96 \<and> 0 \<le> v \<and> v < 2 ^ 256"
proof -
  from assms have len: "length bs = 96"
    by (auto simp: decodeEvaluateTuple_def evaluateTupleSize_def split: if_splits)
  with assms obtain vs where vs: "Unpack abi bs = Inr vs"
    by (auto simp: decodeEvaluateTuple_def evaluateTupleSize_def split: sum.splits)
  from unpack_typed [OF len vs] assms len vs show ?thesis
    by (auto simp: decodeEvaluateTuple_def evaluateTupleSize_def)
qed

end

text \<open>The encoding of the Solidity ABI specification for a static (bytes32, uint256, address)
  tuple: three 32-byte big-endian words, the address in the low 20 bytes of the third.\<close>

definition tuple_bytes :: "hash \<Rightarrow> int \<Rightarrow> address \<Rightarrow> bytes" where
  "tuple_bytes p v a =
     bytes_of_hash p @ be_bytes 32 (nat (v mod 2 ^ 256)) @ be_bytes 32 (unat a)"

definition tuple_values :: "bytes \<Rightarrow> hash \<times> int \<times> address" where
  "tuple_values bs =
     (hash_of_bytes (take 32 bs), int (be_nat (take 32 (drop 32 bs))),
      of_nat (be_nat (drop 64 bs)))"

definition solidity_abi :: abi_lib where
  "solidity_abi =
     \<lparr>Pack = (\<lambda>p v a. Inr (tuple_bytes p v a)),
      Unpack = (\<lambda>bs. if length bs < 96 then Inl ''abi: length insufficient''
                 else case tuple_values bs of (p, v, a) \<Rightarrow>
                   Inr [AbiBytes32 p, AbiBigInt v, AbiAddress a])\<rparr>"

lemma length_tuple_bytes [simp]: "length (tuple_bytes p v a) = 96"
  by (simp add: tuple_bytes_def)

lemma unat_address_small: "unat (a :: address) < 256 ^ 32"
  using unsigned_less [of a, where ?'a = nat] by simp

lemma tuple_values_tuple_bytes:
  assumes "0 \<le> v" and "v < 2 ^ 256"
  shows "tuple_values (tuple_bytes p v a) = (p, v, a)"
proof -
  have "nat v mod 256 ^ 32 = nat v"
    using assms by (simp add: nat_less_iff)
  moreover have "unat a mod 256 ^ 32 = unat a"
    using unat_address_small [of a] by simp
  ultimately show ?thesis
    using assms by (simp add: tuple_values_def tuple_bytes_def be_nat_be_bytes)
qed

lemma tuple_values_range:
  assumes "tuple_values bs = (p, v, a)" and "length bs = 96"
  shows "0 \<le> v \<and> v < 2 ^ 256"
proof -
  have "be_nat (take 32 (drop 32 bs)) < 256 ^ 32"
    using be_nat_less [of "take 32 (drop 32 bs)"] assms(2) by simp
  then show ?thesis using assms(1) by (auto simp: tuple_values_def)
qed

interpretation sol_abi: abi_tuple solidity_abi
proof unfold_locales
  fix v :: int and p a
  assume "0 \<le> v" "v < 2 ^ 256"
  then show "\<exists>bs. Pack solidity_abi p v a = Inr bs \<and> length bs = 96 \<and>
      Unpack solidity_abi bs = Inr [AbiBytes32 p, AbiBigInt v, AbiAddress a]"
    by (simp add: solidity_abi_def tuple_values_tuple_bytes)
next
  fix bs vs
  assume "length bs = 96" "Unpack solidity_abi bs = Inr vs"
  then show "\<exists>p v a. vs = [AbiBytes32 p, AbiBigInt v, AbiAddress a] \<and> 0 \<le> v \<and> v < 2 ^ 256"
    by (cases "tuple_values bs") (auto simp: solidity_abi_def dest: tuple_values_range)
qed

lemma Validate_ok_iff:
  "Validate m = Inr () \<longleftrightarrow>
     (\<exists>s p. SumInsuredUnits m = Some s \<and> MinPayoutUnits m = Some p \<and> 0 < s \<and> s < 2 ^ 256 \<and> 0 \<le> p)
     \<and> ExitTenthsMm m < TriggerTenthsMm m \<and> 0 < PayoutFactorBps m"
  by (cases "SumInsuredUnits m"; cases "MinPayoutUnits m")
    (auto simp: Validate_def BitLen_256 not_le word_neq_0_conv)

text \<open>The fixed vocabulary of the registration errors.\<close>

definition register_errors :: "string set" where
  "register_errors =
     {''decoding register model request: invalid payload'',
      ''decoding register model request: trailing data'',
      ''policyId is zero'',
      ''model rejected: sumInsuredUnits must be positive'',
      ''model rejected: sumInsuredUnits exceeds uint256'',
      ''model rejected: minPayoutUnits is missing'',
      ''model rejected: minPayoutUnits must not be negative'',
      ''model rejected: exitTenthsMm must be below triggerTenthsMm'',
      ''model rejected: payoutFactorBps must be positive''}"

lemma Validate_error_fixed: "Validate m = Inl e \<Longrightarrow> e \<in> register_errors"
  by (auto simp: Validate_def register_errors_def split: if_splits)

lemma DecodeRegister_error_fixed:
  "DecodeRegisterModelRequest dec pt = Inl e \<Longrightarrow> e \<in> register_errors"
proof -
  assume err: "DecodeRegisterModelRequest dec pt = Inl e"
  show ?thesis
  proof (cases "\<exists>m. Validate m = Inl e")
    case True
    then show ?thesis by (blast intro: Validate_error_fixed)
  next
    case False
    with err show ?thesis
      by (auto simp: DecodeRegisterModelRequest_def register_errors_def
          split: option.splits prod.splits if_splits sum.splits)
  qed
qed

lemma DecodeRegister_ok_iff:
  "DecodeRegisterModelRequest hash_json pt = Inr req \<longleftrightarrow>
     (\<exists>rest. decoder_Decode (register_field hash_json) pt zero_request = Some (req, rest) \<and> \<not> decoder_More rest) \<and>
     rm_PolicyID req \<noteq> 0 \<and> Validate (rm_Model req) = Inr ()"
  by (auto simp: DecodeRegisterModelRequest_def split: option.splits sum.splits if_splits)

section \<open>The register payload read back\<close>

lemma rendered_big: "rendered d (render_big v)"
  by (cases v) (simp_all add: render_big_def rendered_show_int rendered_null)

lemma json_bigint_render [simp]: "json_bigint (render_big v) = Some v"
proof (cases v)
  case (Some i)
  have digit: "\<exists>c s. show_nat n = c # s \<and> is_digit c" for n
    using show_nat_digits [of n] by (cases "show_nat n") auto
  have "show_int i \<noteq> ''null''"
    using digit [of "nat i"] by (auto simp: show_int_def is_digit_def)
  moreover have "SetString10 (show_int i) = Some i"
    using show_nat_digits [of "nat (- i)"] SetString10_show_nat [of "nat i"]
    by (cases "i < 0") (simp_all add: show_int_def SetString10_def [of "_ # _"] Let_def)
  ultimately show ?thesis using Some by (simp add: render_big_def json_bigint_def)
qed (simp add: render_big_def json_bigint_def)

lemma json_uint64_show [simp]: "json_uint64 (show_nat (unat n)) old = Some n"
proof -
  have "show_nat (unat n) \<noteq> ''null''" using show_nat_digits [of "unat n"] by (auto simp: is_digit_def)
  moreover have "unat n < 2 ^ LENGTH(64)" by (rule unsigned_less)
  ultimately show ?thesis
    using show_nat_digits [of "unat n"] by (simp add: json_uint64_def ParseUint64_def)
qed

lemma model_members_rendered: "fields_rendered d (model_members m)"
  by (simp add: fields_rendered_def model_members_def rendered_show_nat rendered_big ascii_def)

lemma model_members_nonempty [simp]: "model_members m \<noteq> []"
  by (simp add: model_members_def)

lemma register_names:
  "foldName ''triggerTenthsMm'' = ''TRIGGERTENTHSMM''" "foldName ''exitTenthsMm'' = ''EXITTENTHSMM''"
  "foldName ''sumInsuredUnits'' = ''SUMINSUREDUNITS''" "foldName ''payoutFactorBps'' = ''PAYOUTFACTORBPS''"
  "foldName ''minPayoutUnits'' = ''MINPAYOUTUNITS''" "foldName ''policyId'' = ''POLICYID''"
  "foldName ''model'' = ''MODEL''"
  by code_simp+

declare foldName.simps [simp del]

lemmas register_keys = key_is_def register_names

lemma assign_model: "assign_fields (model_field strict) (model_members m) m' = Some m"
  by (simp add: model_members_def model_field_def register_keys)

theorem model_file_read_back:
  "json_Unmarshal (model_field strict) (json_object (model_members m)) m' = Some m"
  using decode_fields [OF model_members_rendered [of 0], of m "model_field strict" "[]" m']
  by (simp add: json_Unmarshal_def assign_model maxNestingDepth_def)

text \<open>What the code relies on of a hash's JSON text: it is ASCII and its literal reads back.\<close>

locale json_hash =
  fixes hash_text :: "hash \<Rightarrow> string" and hash_json :: "string \<Rightarrow> hash option"
  assumes text_ascii: "list_all ascii (hash_text h)"
    and text_read: "hash_json (json_string (hash_text h)) = Some h"
begin

lemma assign_request:
  "assign_fields (register_field hash_json) (register_members hash_text r) r' = Some r"
  by (simp add: register_members_def register_field_def register_keys text_read
      struct_fields [OF model_members_rendered le0 model_members_nonempty] assign_model)

lemma register_members_rendered: "fields_rendered (Suc 0) (register_members hash_text r)"
  using rendered_object [OF model_members_rendered model_members_nonempty, of 0]
  by (simp add: fields_rendered_def register_members_def rendered_string text_ascii ascii_def)

lemma decode_request:
  "decoder_Decode (register_field hash_json) (json_object (register_members hash_text r) @ rest) zero_request =
     Some (r, rest)"
proof -
  have "register_members hash_text r \<noteq> []" by (simp add: register_members_def)
  from decode_fields [OF register_members_rendered this, of "register_field hash_json" rest zero_request]
  show ?thesis by (simp add: assign_request maxNestingDepth_def)
qed

lemma decode_register:
  "DecodeRegisterModelRequest hash_json (json_object (register_members hash_text r) @ rest) =
     (if decoder_More rest then Inl ''decoding register model request: trailing data''
      else if rm_PolicyID r = 0 then Inl ''policyId is zero''
      else case Validate (rm_Model r) of Inl e \<Rightarrow> Inl e | Inr _ \<Rightarrow> Inr r)"
  by (simp add: DecodeRegisterModelRequest_def decode_request)

end

text \<open>A hash as the Ethereum JSON conventions write it: \<open>0x\<close> and 64 hexadecimal digits.\<close>

definition hex_hash_text :: "hash \<Rightarrow> string" where
  "hex_hash_text h = ''0x'' @ hex_encode (bytes_of_hash h)"

definition hex_hash_json :: "string \<Rightarrow> hash option" where
  "hex_hash_json v =
     (case v of
        a # b # c # s \<Rightarrow>
          if [a, b, c] = [CHR 0x22, CHR ''0'', CHR ''x''] \<and> length s = 65 \<and> last s = CHR 0x22 then
            map_option hash_of_bytes (hex_decode (butlast s))
          else None
      | _ \<Rightarrow> None)"

lemma hex_digit_simps:
  "hex_digit 0 = CHR ''0''" "hex_digit 1 = CHR ''1''" "hex_digit 2 = CHR ''2''" "hex_digit 3 = CHR ''3''"
  "hex_digit 4 = CHR ''4''" "hex_digit 5 = CHR ''5''" "hex_digit 6 = CHR ''6''" "hex_digit 7 = CHR ''7''"
  "hex_digit 8 = CHR ''8''" "hex_digit 9 = CHR ''9''" "hex_digit 10 = CHR ''a''" "hex_digit 11 = CHR ''b''"
  "hex_digit 12 = CHR ''c''" "hex_digit 13 = CHR ''d''" "hex_digit 14 = CHR ''e''" "hex_digit 15 = CHR ''f''"
  by code_simp+

lemma hex_digit_ascii: "d < 16 \<Longrightarrow> ascii (hex_digit d) \<and> json_escape (hex_digit d) = [hex_digit d]"
proof -
  assume "d < 16"
  then have "d = 0 \<or> d = 1 \<or> d = 2 \<or> d = 3 \<or> d = 4 \<or> d = 5 \<or> d = 6 \<or> d = 7 \<or> d = 8 \<or> d = 9 \<or>
      d = 10 \<or> d = 11 \<or> d = 12 \<or> d = 13 \<or> d = 14 \<or> d = 15" by presburger
  then show ?thesis
    by (elim disjE) (simp_all only: hex_digit_simps, simp_all add: ascii_def json_escape_def backslash_def)
qed

lemma json_chars_hex: "list_all ascii (hex_encode bs) \<and> json_chars (hex_encode bs) = hex_encode bs"
proof (induction bs)
  case (Cons b bs)
  have "(of_char b :: nat) div 16 < 16" "(of_char b :: nat) mod 16 < 16" by (simp_all add: less_mult_imp_div_less)
  with Cons show ?case using hex_digit_ascii by simp
qed simp

interpretation hex_hash: json_hash hex_hash_text hex_hash_json
proof
  fix h
  show "list_all ascii (hex_hash_text h)"
    using json_chars_hex by (simp add: hex_hash_text_def ascii_def)
  have "json_string (hex_hash_text h) = CHR 0x22 # ''0x'' @ hex_encode (bytes_of_hash h) @ [CHR 0x22]"
    using json_chars_hex by (simp add: json_string_def hex_hash_text_def ascii_def json_escape_def backslash_def)
  then show "hex_hash_json (json_string (hex_hash_text h)) = Some h"
    by (simp add: hex_hash_json_def butlast_append)
qed

end
