(* ===== verification/Payouts.thy ===== *)
theory Payouts
  imports Complex_Main AegisTypes
begin

text \<open>
  \<open>evaluatePayout\<close> of \<open>go/internal/extension/extension.go\<close>, the confidential scoring
  function, and its specification as a ramp over the reals.  Amounts are Go \<open>big.Int\<close>s,
  i.e. HOL \<open>int\<close>s without any wrap-around; the \<open>uint64\<close> parameters enter by their
  unsigned value.
\<close>

definition bps :: int where
  "bps = 10000"

definition u64 :: "uint64 \<Rightarrow> int" where
  "u64 w = uint w"

lemma u64_nonneg [simp]: "0 \<le> u64 w"
  by (simp add: u64_def)

lemma u64_less_iff: "u64 a < u64 b \<longleftrightarrow> a < b"
  by (simp add: u64_def word_less_def)

lemma u64_pos_iff: "0 < u64 a \<longleftrightarrow> 0 < a"
  by (simp add: u64_def word_less_def)

definition evaluatePayout :: "ModelParameters \<Rightarrow> int option \<Rightarrow> int res" where
  "evaluatePayout model rainfall =
     (if rainfall = None \<or> the rainfall < 0 then Inl ''rainfall must not be negative''
      else case Validate model of
        Inl e \<Rightarrow> Inl e
      | Inr _ \<Rightarrow>
          (let r = the rainfall;
               sumInsured = the (SumInsuredUnits model);
               minPayout = the (MinPayoutUnits model);
               trigger = u64 (TriggerTenthsMm model);
               exit = u64 (ExitTenthsMm model)
           in if r \<ge> trigger then Inr 0
              else
                let span = trigger - exit;
                    shortfall0 = trigger - r;
                    shortfall = (if shortfall0 > span then span else shortfall0);
                    payout0 = (sumInsured * shortfall * u64 (PayoutFactorBps model)) div (span * bps);
                    payout = (if payout0 > sumInsured then sumInsured else payout0)
                in if payout < minPayout then Inr 0 else Inr payout))"

section \<open>Specification over the reals\<close>

text \<open>The share of the cover a reading responds with: nothing from the trigger on, everything
  down to the exit, linear between.\<close>

definition drought_share :: "ModelParameters \<Rightarrow> int \<Rightarrow> real" where
  "drought_share m r =
     (if u64 (TriggerTenthsMm m) \<le> r then 0
      else if r \<le> u64 (ExitTenthsMm m) then 1
      else (u64 (TriggerTenthsMm m) - r) / (u64 (TriggerTenthsMm m) - u64 (ExitTenthsMm m)))"

definition owed :: "ModelParameters \<Rightarrow> int \<Rightarrow> real" where
  "owed m r = the (SumInsuredUnits m) * drought_share m r * u64 (PayoutFactorBps m) / 10000"

definition payout_spec :: "ModelParameters \<Rightarrow> int \<Rightarrow> int" where
  "payout_spec m r =
     (let capped = min (the (SumInsuredUnits m)) \<lfloor>owed m r\<rfloor>
      in if capped < the (MinPayoutUnits m) then 0 else capped)"

lemma ValidE:
  assumes "Validate m = Inr ()"
  obtains s p where "SumInsuredUnits m = Some s" "MinPayoutUnits m = Some p" "0 < s" "s < 2 ^ 256"
    "0 \<le> p" "u64 (ExitTenthsMm m) < u64 (TriggerTenthsMm m)" "0 < u64 (PayoutFactorBps m)"
  using assms by (auto simp: Validate_ok_iff u64_less_iff u64_pos_iff)

text \<open>The ramp in integers: the effective shortfall is the clipped distance to the trigger.\<close>

definition shortfall :: "ModelParameters \<Rightarrow> int \<Rightarrow> int" where
  "shortfall m r = min (u64 (TriggerTenthsMm m) - r) (u64 (TriggerTenthsMm m) - u64 (ExitTenthsMm m))"

lemma drought_share_shortfall:
  assumes "u64 (ExitTenthsMm m) < u64 (TriggerTenthsMm m)" and "r < u64 (TriggerTenthsMm m)"
  shows "drought_share m r =
    real_of_int (shortfall m r) / real_of_int (u64 (TriggerTenthsMm m) - u64 (ExitTenthsMm m))"
  using assms by (auto simp: drought_share_def shortfall_def min_def)

lemma floor_owed:
  assumes "u64 (ExitTenthsMm m) < u64 (TriggerTenthsMm m)" and "r < u64 (TriggerTenthsMm m)"
  shows "\<lfloor>owed m r\<rfloor> = (the (SumInsuredUnits m) * shortfall m r * u64 (PayoutFactorBps m))
           div ((u64 (TriggerTenthsMm m) - u64 (ExitTenthsMm m)) * bps)"
proof -
  have "owed m r = real_of_int (the (SumInsuredUnits m) * shortfall m r * u64 (PayoutFactorBps m))
      / real_of_int ((u64 (TriggerTenthsMm m) - u64 (ExitTenthsMm m)) * bps)"
    by (simp add: owed_def drought_share_shortfall [OF assms] bps_def)
  then show ?thesis by (simp only: floor_divide_of_int_eq)
qed

lemma evaluatePayout_meets_spec:
  assumes valid: "Validate m = Inr ()" and r: "0 \<le> r"
  shows "evaluatePayout m (Some r) = Inr (payout_spec m r)"
proof -
  obtain s p where m: "SumInsuredUnits m = Some s" "MinPayoutUnits m = Some p" "0 < s" "0 \<le> p"
    and ramp: "u64 (ExitTenthsMm m) < u64 (TriggerTenthsMm m)"
    using valid by (rule ValidE)
  show ?thesis
  proof (cases "u64 (TriggerTenthsMm m) \<le> r")
    case True
    then have "owed m r = 0" by (simp add: owed_def drought_share_def)
    with True m r valid show ?thesis
      by (simp add: evaluatePayout_def payout_spec_def Let_def min_def)
  next
    case False
    then have "\<lfloor>owed m r\<rfloor> = (s * shortfall m r * u64 (PayoutFactorBps m))
        div ((u64 (TriggerTenthsMm m) - u64 (ExitTenthsMm m)) * bps)"
      using floor_owed [OF ramp] m(1) by simp
    with False m r valid show ?thesis
      by (simp add: evaluatePayout_def payout_spec_def Let_def shortfall_def min_def)
  qed
qed

lemma evaluatePayout_ok_iff:
  "is_ok (evaluatePayout m r) \<longleftrightarrow> Validate m = Inr () \<and> (\<exists>x. r = Some x \<and> 0 \<le> x)"
proof (cases r)
  case None
  then show ?thesis by (simp add: evaluatePayout_def)
next
  case (Some x)
  show ?thesis
  proof (cases "Validate m = Inr () \<and> 0 \<le> x")
    case True
    with Some show ?thesis by (simp add: evaluatePayout_meets_spec)
  next
    case False
    with Some show ?thesis by (auto simp: evaluatePayout_def split: sum.splits)
  qed
qed

section \<open>Consequences\<close>

lemma drought_share_range:
  assumes "u64 (ExitTenthsMm m) < u64 (TriggerTenthsMm m)"
  shows "0 \<le> drought_share m r \<and> drought_share m r \<le> 1"
  using assms by (auto simp: drought_share_def field_simps)

lemma drought_share_antimono:
  assumes ramp: "u64 (ExitTenthsMm m) < u64 (TriggerTenthsMm m)" and "r \<le> r'"
  shows "drought_share m r' \<le> drought_share m r"
proof -
  consider "u64 (TriggerTenthsMm m) \<le> r'" | "r \<le> u64 (ExitTenthsMm m)"
    | "r' < u64 (TriggerTenthsMm m)" "u64 (ExitTenthsMm m) < r"
    by linarith
  then show ?thesis
  proof cases
    case 1
    then show ?thesis using drought_share_range [OF ramp, of r] by (simp add: drought_share_def)
  next
    case 2
    then have "drought_share m r = 1" using ramp by (simp add: drought_share_def)
    then show ?thesis using drought_share_range [OF ramp, of r'] by simp
  next
    case 3
    with ramp assms(2) show ?thesis by (simp add: drought_share_def divide_right_mono)
  qed
qed

lemma owed_nonneg: "Validate m = Inr () \<Longrightarrow> 0 \<le> owed m r"
  by (elim ValidE) (simp add: owed_def drought_share_range)

lemma owed_antimono:
  assumes "Validate m = Inr ()" and "r \<le> r'"
  shows "owed m r' \<le> owed m r"
proof -
  obtain s where "SumInsuredUnits m = Some s" "0 < s"
    and ramp: "u64 (ExitTenthsMm m) < u64 (TriggerTenthsMm m)"
    using assms(1) by (rule ValidE)
  with drought_share_antimono [OF ramp assms(2)] show ?thesis
    by (simp add: owed_def mult_left_mono mult_right_mono divide_right_mono)
qed

lemma payout_spec_bounds:
  assumes "Validate m = Inr ()"
  shows "0 \<le> payout_spec m r" and "payout_spec m r \<le> the (SumInsuredUnits m)"
    and "payout_spec m r = 0 \<or> the (MinPayoutUnits m) \<le> payout_spec m r"
proof -
  obtain s p where "SumInsuredUnits m = Some s" "MinPayoutUnits m = Some p" "0 < s" "0 \<le> p"
    using assms by (rule ValidE)
  then show "0 \<le> payout_spec m r" and "payout_spec m r \<le> the (SumInsuredUnits m)"
    and "payout_spec m r = 0 \<or> the (MinPayoutUnits m) \<le> payout_spec m r"
    using owed_nonneg [OF assms, of r] by (auto simp: payout_spec_def Let_def min_def)
qed

lemma payout_spec_antimono:
  assumes "Validate m = Inr ()" and "r \<le> r'"
  shows "payout_spec m r' \<le> payout_spec m r"
proof -
  obtain s p where "SumInsuredUnits m = Some s" "MinPayoutUnits m = Some p" "0 < s" "0 \<le> p"
    using assms(1) by (rule ValidE)
  moreover have "\<lfloor>owed m r'\<rfloor> \<le> \<lfloor>owed m r\<rfloor>"
    using owed_antimono [OF assms] by (rule floor_mono)
  ultimately show ?thesis
    using owed_nonneg [OF assms(1), of r] by (auto simp: payout_spec_def Let_def min_def)
qed

lemma payout_spec_full:
  assumes "Validate m = Inr ()" and "r \<le> u64 (ExitTenthsMm m)"
    and "10000 \<le> u64 (PayoutFactorBps m)" and "the (MinPayoutUnits m) \<le> the (SumInsuredUnits m)"
  shows "payout_spec m r = the (SumInsuredUnits m)"
proof -
  obtain s where s: "SumInsuredUnits m = Some s" "0 < s"
    and ramp: "u64 (ExitTenthsMm m) < u64 (TriggerTenthsMm m)"
    using assms(1) by (rule ValidE)
  have "owed m r = real_of_int s * real_of_int (u64 (PayoutFactorBps m)) / 10000"
    using assms(2) ramp s(1) by (simp add: owed_def drought_share_def)
  moreover have "real_of_int s * 10000 \<le> real_of_int s * real_of_int (u64 (PayoutFactorBps m))"
    using s(2) assms(3) by (intro mult_left_mono) auto
  ultimately have "real_of_int s \<le> owed m r" by simp
  then have "s \<le> \<lfloor>owed m r\<rfloor>" by (simp add: le_floor_iff)
  with s assms(4) show ?thesis by (simp add: payout_spec_def Let_def min_def)
qed

lemma payout_spec_none: "Validate m = Inr () \<Longrightarrow> u64 (TriggerTenthsMm m) \<le> r \<Longrightarrow> payout_spec m r = 0"
  by (elim ValidE) (simp add: payout_spec_def owed_def drought_share_def Let_def)

lemma payout_fits_uint256:
  assumes "evaluatePayout m r = Inr p"
  shows "0 \<le> p \<and> p < 2 ^ 256"
proof -
  from assms obtain x where x: "Validate m = Inr ()" "r = Some x" "0 \<le> x"
    using evaluatePayout_ok_iff [of m r] by (auto simp: is_ok_iff)
  with assms have p: "p = payout_spec m x" by (simp add: evaluatePayout_meets_spec)
  obtain s where "SumInsuredUnits m = Some s" "s < 2 ^ 256" using x(1) by (rule ValidE)
  with payout_spec_bounds [OF x(1), of x] p show ?thesis by simp
qed

end
