(* ===== verification/Extension.thy ===== *)
theory Extension
  imports Config Payouts "HOL-Library.Finite_Map"
begin

text \<open>
  The enclave extension, \<open>go/internal/extension\<close>.  Its mutable state is the map of confidential
  models; the mutex guards one critical section per request.  What the code takes from other
  packages is the record \<open>ext_lib\<close>: the hash of a name, the hash's hex text, the parsers and
  printers of types that are not declared here.  The TEE node behind \<open>/decrypt\<close> is a function
  from URL, content type and body to the HTTP answer, chosen afresh for every request.
  Logging is left out.
\<close>

section \<open>Data\<close>

record ActionData =
  ad_ID :: hash
  ad_SubmissionTag :: string
  ad_Message :: bytes

record Action =
  act_Data :: ActionData

record DataFixed =
  df_OPType :: hash
  df_OPCommand :: hash
  df_OriginalMessage :: bytes

record ActionResult =
  ar_ID :: hash
  ar_SubmissionTag :: string
  ar_Version :: string
  ar_OPType :: hash
  ar_OPCommand :: hash
  ar_Data :: bytes
  ar_Status :: "8 word"
  ar_Log :: string

record Extension =
  signPort :: int
  models :: "(hash, ModelParameters) fmap"

type_synonym http_response = "int \<times> bytes"
type_synonym node = "string \<Rightarrow> string \<Rightarrow> bytes \<Rightarrow> http_response res"

record ext_lib =
  ToHash :: "string \<Rightarrow> hash"
  HashHex :: "hash \<Rightarrow> string"
  ParseDataFixed :: "bytes \<Rightarrow> DataFixed res"
  DecodeAction :: "bytes \<Rightarrow> Action res"
  MarshalActionResult :: "ActionResult \<Rightarrow> bytes"
  UnmarshalActionResult :: "bytes \<Rightarrow> ActionResult option"
  EncodeStateResponse :: "StateResponse \<Rightarrow> bytes res"
  DecodeDecryptResponse :: "bytes \<Rightarrow> bytes res"
  HashJSON :: "string \<Rightarrow> hash option"
  Abi :: abi_lib

abbreviation StatusOK :: int where "StatusOK \<equiv> 200"
abbreviation StatusBadRequest :: int where "StatusBadRequest \<equiv> 400"
abbreviation StatusInternalServerError :: int where "StatusInternalServerError \<equiv> 500"
abbreviation StatusNotImplemented :: int where "StatusNotImplemented \<equiv> 501"

section \<open>utils.go\<close>

definition buildResult ::
    "Action \<Rightarrow> DataFixed \<Rightarrow> bytes \<Rightarrow> 8 word \<Rightarrow> string \<Rightarrow> ActionResult" where
  "buildResult a df data status err =
     \<lparr>ar_ID = ad_ID (act_Data a), ar_SubmissionTag = ad_SubmissionTag (act_Data a),
      ar_Version = Version, ar_OPType = df_OPType df, ar_OPCommand = df_OPCommand df,
      ar_Data = data, ar_Status = status,
      ar_Log = (if status = 0 then ''error: '' @ err else if status = 1 then ''ok'' else [])\<rparr>"

definition getLogFromBody :: "ext_lib \<Rightarrow> bytes \<Rightarrow> string" where
  "getLogFromBody lib body =
     (case UnmarshalActionResult lib body of None \<Rightarrow> body | Some ar \<Rightarrow> ar_Log ar)"

definition decryptRequest_json :: "bytes \<Rightarrow> bytes" where
  "decryptRequest_json ciphertext =
     ''{\"encryptedMessage\":\"'' @ b64_encode ciphertext @ ''\"}''"

definition decryptViaNode :: "ext_lib \<Rightarrow> node \<Rightarrow> int \<Rightarrow> bytes \<Rightarrow> bytes res" where
  "decryptViaNode lib post port ciphertext =
     (case post (''http://localhost:'' @ show_int port @ ''/decrypt'') ''application/json''
             (decryptRequest_json ciphertext) of
        Inl e \<Rightarrow> Inl (''request error: '' @ e)
      | Inr (code, body) \<Rightarrow>
          if code \<noteq> StatusOK then Inl (''node returned '' @ show_int code @ '': '' @ body)
          else case DecodeDecryptResponse lib body of
            Inl e \<Rightarrow> Inl (''decode response: '' @ e)
          | Inr plaintext \<Rightarrow> Inr plaintext)"

section \<open>extension.go\<close>

definition New :: "int \<Rightarrow> Extension" where
  "New sign_port = \<lparr>signPort = sign_port, models = fmempty\<rparr>"

definition processRegisterModel ::
    "ext_lib \<Rightarrow> node \<Rightarrow> Extension \<Rightarrow> Action \<Rightarrow> DataFixed \<Rightarrow> ActionResult \<times> Extension" where
  "processRegisterModel lib post e action df =
     (if df_OriginalMessage df = [] then (buildResult action df [] 0 ''originalMessage is empty'', e)
      else case decryptViaNode lib post (signPort e) (df_OriginalMessage df) of
        Inl err \<Rightarrow> (buildResult action df [] 0 (''decryption failed: '' @ err), e)
      | Inr plaintext \<Rightarrow>
          (case DecodeRegisterModelRequest (HashJSON lib) plaintext of
             Inl err \<Rightarrow> (buildResult action df [] 0 err, e)
           | Inr req \<Rightarrow>
               (buildResult action df [] 1 [],
                e\<lparr>models := fmupd (rm_PolicyID req) (rm_Model req) (models e)\<rparr>)))"

definition processEvaluate :: "ext_lib \<Rightarrow> Extension \<Rightarrow> Action \<Rightarrow> DataFixed \<Rightarrow> ActionResult" where
  "processEvaluate lib e action df =
     (if df_OriginalMessage df = [] then buildResult action df [] 0 ''originalMessage is empty''
      else case DecodeEvaluateRequest (Abi lib) (df_OriginalMessage df) of
        Inl err \<Rightarrow> buildResult action df [] 0 err
      | Inr req \<Rightarrow>
          (case fmlookup (models e) (ev_PolicyID req) of
             None \<Rightarrow> buildResult action df [] 0
                       (''no model registered for policy '' @ HashHex lib (ev_PolicyID req))
           | Some model \<Rightarrow>
               (case evaluatePayout model (ev_RainfallTenthsMm req) of
                  Inl err \<Rightarrow> buildResult action df [] 0 err
                | Inr payout \<Rightarrow>
                    (let response = \<lparr>er_PolicyID = ev_PolicyID req, er_PayoutAmount = Some payout,
                                     er_PayoutTo = ev_PayoutTo req\<rparr>
                     in case EvaluateResponse_Encode (Abi lib) response of
                          Inl err \<Rightarrow> buildResult action df [] 0 (''ABI encoding failed: '' @ err)
                        | Inr encoded \<Rightarrow> buildResult action df encoded 1 []))))"

definition processPolicy ::
    "ext_lib \<Rightarrow> node \<Rightarrow> Extension \<Rightarrow> Action \<Rightarrow> DataFixed \<Rightarrow> http_response \<times> Extension" where
  "processPolicy lib post e action df =
     (if df_OPCommand df = ToHash lib OPCommandRegisterModel then
        (case processRegisterModel lib post e action df of
           (ar, e') \<Rightarrow> ((StatusOK, MarshalActionResult lib ar), e'))
      else if df_OPCommand df = ToHash lib OPCommandEvaluate then
        ((StatusOK, MarshalActionResult lib (processEvaluate lib e action df)), e)
      else
        ((StatusNotImplemented,
          ''unsupported op command: received '' @ HashHex lib (df_OPCommand df) @
          '', expected one of ['' @ HashHex lib (ToHash lib OPCommandRegisterModel) @ '' ('' @
          OPCommandRegisterModel @ ''), '' @ HashHex lib (ToHash lib OPCommandEvaluate) @ '' ('' @
          OPCommandEvaluate @ '')]''), e))"

definition processAction ::
    "ext_lib \<Rightarrow> node \<Rightarrow> Extension \<Rightarrow> Action \<Rightarrow> http_response \<times> Extension" where
  "processAction lib post e action =
     (case ParseDataFixed lib (ad_Message (act_Data action)) of
        Inl err \<Rightarrow> ((StatusBadRequest, ''decoding fixed data: '' @ err), e)
      | Inr dataFixed \<Rightarrow>
          if df_OPType dataFixed = ToHash lib OPTypePolicy then
            processPolicy lib post e action dataFixed
          else
            ((StatusNotImplemented,
              ''unsupported op type: received '' @ HashHex lib (df_OPType dataFixed) @
              '', expected '' @ HashHex lib (ToHash lib OPTypePolicy) @ '' ('' @ OPTypePolicy @ '')''), e))"

text \<open>\<open>http.Error\<close> writes the message and a newline.\<close>

definition http_Error :: "string \<Rightarrow> int \<Rightarrow> http_response" where
  "http_Error msg code = (code, msg @ [CHR 0x0A])"

definition actionHandler ::
    "ext_lib \<Rightarrow> node \<Rightarrow> Extension \<Rightarrow> bytes \<Rightarrow> http_response \<times> Extension" where
  "actionHandler lib post e body =
     (case DecodeAction lib body of
        Inl err \<Rightarrow> (http_Error (''decoding action: '' @ err) StatusBadRequest, e)
      | Inr action \<Rightarrow> processAction lib post e action)"

definition stateHandler :: "ext_lib \<Rightarrow> Extension \<Rightarrow> http_response" where
  "stateHandler lib e =
     (let stateResponse = \<lparr>sr_StateVersion = ToHash lib Version,
            sr_State = \<lparr>RegisteredModels = int (fcard (fmdom (models e)))\<rparr>\<rparr>
      in case EncodeStateResponse lib stateResponse of
           Inl err \<Rightarrow> http_Error (''sending response: '' @ err) StatusInternalServerError
         | Inr body \<Rightarrow> (StatusOK, body))"

text \<open>The server \<open>New\<close> builds: two routes, everything else is the mux's own 404 or 405.\<close>

definition extension_routes :: "(string \<times> (string \<Rightarrow> bool)) list" where
  "extension_routes = [(''GET'', \<lambda>p. p = ''/state''), (''POST'', \<lambda>p. p = ''/action'')]"

definition serveHTTP ::
    "ext_lib \<Rightarrow> node \<Rightarrow> Extension \<Rightarrow> string \<Rightarrow> string \<Rightarrow> bytes \<Rightarrow> http_response \<times> Extension" where
  "serveHTTP lib post e meth path body =
     (case mux_scan 0 extension_routes meth path of
        MuxFound i \<Rightarrow> if i = 0 then (stateHandler lib e, e) else actionHandler lib post e body
      | MuxMethodNotAllowed \<Rightarrow> (http_Error ''Method Not Allowed'' 405, e)
      | MuxNotFound \<Rightarrow> (http_Error ''404 page not found'' 404, e))"

end
