(* ===== verification/ExtensionProps.thy ===== *)
theory ExtensionProps
  imports Extension
begin

text \<open>
  What makes the enclave extension correct: its store of models as a keyed store, the
  well-formedness of the stored models as an invariant of every request, the exact outcome of
  an evaluation, what a registration may reveal, and the agreement of the concurrent server
  with a sequential one.
\<close>

interpretation ext_models: keyed_store
  "\<lambda>e k. fmlookup (models e) k"
  "\<lambda>k v e. (e :: Extension)\<lparr>models := fmupd k v (models e)\<rparr>"
  by unfold_locales simp

section \<open>The registration a request carries, if it is accepted\<close>

definition accepted :: "ext_lib \<Rightarrow> node \<Rightarrow> int \<Rightarrow> DataFixed \<Rightarrow> RegisterModelRequest option" where
  "accepted lib post port df =
     (if df_OriginalMessage df = [] then None
      else case decryptViaNode lib post port (df_OriginalMessage df) of
        Inl _ \<Rightarrow> None
      | Inr pt \<Rightarrow> (case DecodeRegisterModelRequest (HashJSON lib) pt of
            Inl _ \<Rightarrow> None | Inr req \<Rightarrow> Some req))"

definition accepted_action :: "ext_lib \<Rightarrow> node \<Rightarrow> int \<Rightarrow> Action \<Rightarrow> RegisterModelRequest option" where
  "accepted_action lib post port action =
     (case ParseDataFixed lib (ad_Message (act_Data action)) of
        Inl _ \<Rightarrow> None
      | Inr df \<Rightarrow> if df_OPType df = ToHash lib OPTypePolicy \<and>
                    df_OPCommand df = ToHash lib OPCommandRegisterModel
                 then accepted lib post port df else None)"

definition store_model :: "RegisterModelRequest option \<Rightarrow> Extension \<Rightarrow> Extension" where
  "store_model r e =
     (case r of None \<Rightarrow> e
      | Some req \<Rightarrow> e\<lparr>models := fmupd (rm_PolicyID req) (rm_Model req) (models e)\<rparr>)"

lemma store_model_simps [simp]:
  "store_model None e = e"
  "store_model (Some req) e = e\<lparr>models := fmupd (rm_PolicyID req) (rm_Model req) (models e)\<rparr>"
  by (simp_all add: store_model_def)

lemma signPort_store_model [simp]: "signPort (store_model r e) = signPort e"
  by (cases r) simp_all

lemma processRegisterModel_state:
  "snd (processRegisterModel lib post e a df) = store_model (accepted lib post (signPort e) df) e"
  by (auto simp: processRegisterModel_def accepted_def split: sum.splits)

lemma processAction_state:
  "snd (processAction lib post e a) = store_model (accepted_action lib post (signPort e) a) e"
proof -
  have "snd (case processRegisterModel lib post e a df of (ar, e') \<Rightarrow> (f ar, e')) =
      store_model (accepted lib post (signPort e) df) e" for df and f :: "ActionResult \<Rightarrow> http_response"
    using processRegisterModel_state [of lib post e a df] by (simp add: case_prod_beta)
  then show ?thesis
    by (auto simp: processAction_def processPolicy_def accepted_action_def split: sum.splits)
qed

lemma accepted_valid:
  "accepted lib post port df = Some req \<Longrightarrow> rm_PolicyID req \<noteq> 0 \<and> Validate (rm_Model req) = Inr ()"
  by (auto simp: accepted_def DecodeRegister_ok_iff split: sum.splits if_splits)

lemma accepted_action_valid:
  "accepted_action lib post port a = Some req \<Longrightarrow>
     rm_PolicyID req \<noteq> 0 \<and> Validate (rm_Model req) = Inr ()"
  by (auto simp: accepted_action_def dest: accepted_valid split: sum.splits if_splits)

section \<open>The invariant\<close>

definition models_wf :: "Extension \<Rightarrow> bool" where
  "models_wf e \<longleftrightarrow>
     (\<forall>p m. fmlookup (models e) p = Some m \<longrightarrow> p \<noteq> 0 \<and> Validate m = Inr ())"

lemma models_wfD: "models_wf e \<Longrightarrow> fmlookup (models e) p = Some m \<Longrightarrow> Validate m = Inr ()"
  by (simp add: models_wf_def)

lemma models_wf_New [wf_intros]: "models_wf (New port)"
  by (simp add: models_wf_def New_def)

lemma models_wf_store [wf_intros]:
  assumes "models_wf e"
    and "\<And>req. r = Some req \<Longrightarrow> rm_PolicyID req \<noteq> 0 \<and> Validate (rm_Model req) = Inr ()"
  shows "models_wf (store_model r e)"
  using assms by (cases r) (auto simp: models_wf_def)

lemma models_wf_processAction [wf_intros]:
  "models_wf e \<Longrightarrow> models_wf (snd (processAction lib post e a))"
  by (auto simp: processAction_state intro!: models_wf_store dest: accepted_action_valid)

lemma models_wf_actionHandler [wf_intros]:
  "models_wf e \<Longrightarrow> models_wf (snd (actionHandler lib post e body))"
  by (auto simp: actionHandler_def intro: wf_intros split: sum.splits)

lemma models_wf_serveHTTP [wf_intros]:
  "models_wf e \<Longrightarrow> models_wf (snd (serveHTTP lib post e meth path body))"
  by (auto simp: serveHTTP_def intro: wf_intros split: mux_result.splits)

text \<open>The server as a transition system: one transition per request, with the answer it gets.\<close>

record Request =
  rq_method :: string
  rq_path :: string
  rq_body :: bytes

inductive served :: "ext_lib \<Rightarrow> int \<Rightarrow> Extension \<Rightarrow> bool" for lib port where
  served_start: "served lib port (New port)"
| served_request: "served lib port e \<Longrightarrow>
    served lib port (snd (serveHTTP lib post e meth path body))"

lemma served_wf: "served lib port e \<Longrightarrow> models_wf e"
  by (induction rule: served.induct) (auto intro: wf_intros)

lemma served_port: "served lib port e \<Longrightarrow> signPort e = port"
proof (induction rule: served.induct)
  case served_start
  show ?case by (simp add: New_def)
next
  case (served_request e post meth path body)
  then show ?case
    by (auto simp: serveHTTP_def actionHandler_def processAction_state split: mux_result.splits sum.splits)
qed

section \<open>Evaluation\<close>

lemma processEvaluate_scored:
  assumes abi: "abi_tuple (Abi lib)" and wf: "models_wf e"
    and msg: "df_OriginalMessage df \<noteq> []"
    and req: "DecodeEvaluateRequest (Abi lib) (df_OriginalMessage df) =
              Inr \<lparr>ev_PolicyID = p, ev_RainfallTenthsMm = Some r, ev_PayoutTo = to\<rparr>"
    and m: "fmlookup (models e) p = Some m"
  shows "\<exists>bs. processEvaluate lib e a df = buildResult a df bs 1 [] \<and> length bs = 96 \<and>
           DecodeEvaluateResponse (Abi lib) bs =
             Inr \<lparr>er_PolicyID = p, er_PayoutAmount = Some (payout_spec m r), er_PayoutTo = to\<rparr>"
proof -
  have "decodeEvaluateTuple (Abi lib) (df_OriginalMessage df) = Inr (p, r, to)"
    using req by (auto simp: DecodeEvaluateRequest_def split: sum.splits)
  then have r: "0 \<le> r" using abi_tuple.decode_range [OF abi] by blast
  have valid: "Validate m = Inr ()" using models_wfD [OF wf m] .
  have pay: "evaluatePayout m (Some r) = Inr (payout_spec m r)"
    using evaluatePayout_meets_spec [OF valid r] .
  from payout_fits_uint256 [OF pay] have "0 \<le> payout_spec m r" "payout_spec m r < 2 ^ 256" by auto
  from abi_tuple.encode_decode_tuple [OF abi this, of p to] obtain bs where
    "encodeEvaluateTuple (Abi lib) p (Some (payout_spec m r)) to = Inr bs" "length bs = 96"
    "decodeEvaluateTuple (Abi lib) bs = Inr (p, payout_spec m r, to)"
    by blast
  then show ?thesis
    using msg req m pay
    by (intro exI [of _ bs])
      (simp add: processEvaluate_def EvaluateResponse_Encode_def DecodeEvaluateResponse_def)
qed

lemma processEvaluate_no_model:
  assumes "df_OriginalMessage df \<noteq> []"
    and "DecodeEvaluateRequest (Abi lib) (df_OriginalMessage df) = Inr req"
    and "fmlookup (models e) (ev_PolicyID req) = None"
  shows "processEvaluate lib e a df =
    buildResult a df [] 0 (''no model registered for policy '' @ HashHex lib (ev_PolicyID req))"
  using assms by (simp add: processEvaluate_def)

text \<open>Only the model of the evaluated policy is consulted, and of it only the payout.\<close>

lemma processEvaluate_cong:
  assumes "\<And>p. rel_option (\<lambda>m m'. \<forall>r. evaluatePayout m r = evaluatePayout m' r)
                 (fmlookup (models e) p) (fmlookup (models e') p)"
  shows "processEvaluate lib e a df = processEvaluate lib e' a df"
proof (cases "DecodeEvaluateRequest (Abi lib) (df_OriginalMessage df)")
  case (Inr req)
  with assms [of "ev_PolicyID req"] show ?thesis
    by (cases "fmlookup (models e) (ev_PolicyID req)";
        cases "fmlookup (models e') (ev_PolicyID req)")
      (simp_all add: processEvaluate_def)
qed (simp add: processEvaluate_def)

section \<open>What a registration reveals\<close>

definition register_log_ok :: "string \<Rightarrow> bool" where
  "register_log_ok l \<longleftrightarrow>
     l = ''ok'' \<or> l = ''error: originalMessage is empty'' \<or>
     prefix ''error: decryption failed: '' l \<or> l \<in> (@) ''error: '' ` register_errors"

lemma processRegisterModel_result:
  "\<exists>log st. fst (processRegisterModel lib post e a df) = (buildResult a df [] st [])\<lparr>ar_Log := log\<rparr> \<and>
     register_log_ok log \<and> (st = 1 \<longleftrightarrow> accepted lib post (signPort e) df \<noteq> None) \<and>
     (st = 1 \<longleftrightarrow> log = ''ok'') \<and> (st = 0 \<or> st = 1)"
  by (auto simp: processRegisterModel_def accepted_def buildResult_def register_log_ok_def
      dest: DecodeRegister_error_fixed split: sum.splits)

text \<open>Two payloads that are both accepted, whatever models they carry, get the same answer.\<close>

lemma processRegisterModel_uniform:
  assumes "accepted lib post (signPort e) df \<noteq> None" and "accepted lib' post' (signPort e') df \<noteq> None"
  shows "fst (processRegisterModel lib post e a df) = fst (processRegisterModel lib' post' e' a df)"
  using assms
  by (auto simp: processRegisterModel_def accepted_def split: sum.splits if_splits)

section \<open>The store as a history\<close>

definition accepted_pairs ::
    "ext_lib \<Rightarrow> int \<Rightarrow> (node \<times> Action) list \<Rightarrow> (hash \<times> ModelParameters) list" where
  "accepted_pairs lib port acts =
     map (\<lambda>req. (rm_PolicyID req, rm_Model req))
       (List.map_filter (\<lambda>(post, a). accepted_action lib post port a) acts)"

definition run_actions :: "ext_lib \<Rightarrow> (node \<times> Action) list \<Rightarrow> Extension \<Rightarrow> Extension" where
  "run_actions lib acts e = fold (\<lambda>(post, a) e. snd (processAction lib post e a)) acts e"

lemma accepted_pairs_simps [simp]:
  "accepted_pairs lib port [] = []"
  "accepted_pairs lib port (pa # acts) =
     (case accepted_action lib (fst pa) port (snd pa) of
        None \<Rightarrow> accepted_pairs lib port acts
      | Some req \<Rightarrow> (rm_PolicyID req, rm_Model req) # accepted_pairs lib port acts)"
  by (auto simp: accepted_pairs_def List.map_filter_simps split: option.splits prod.splits)

lemma run_actions_puts:
  "run_actions lib acts e =
     fold (\<lambda>(k, v) e. e\<lparr>models := fmupd k v (models e)\<rparr>) (accepted_pairs lib (signPort e) acts) e"
  by (induction acts arbitrary: e)
    (auto simp: run_actions_def processAction_state store_model_def split: option.splits prod.splits)

lemma run_actions_lookup:
  "fmlookup (models (run_actions lib acts e)) p =
     (case map_of (rev (accepted_pairs lib (signPort e) acts)) p of
        Some m \<Rightarrow> Some m | None \<Rightarrow> fmlookup (models e) p)"
  unfolding run_actions_puts by (rule ext_models.look_history)

end
