(* ===== verification/ExtensionConc.thy ===== *)
theory ExtensionConc
  imports ExtensionProps
begin

text \<open>
  The extension under concurrent requests.  \<open>net/http\<close> serves each request in its own
  goroutine; the handlers of \<open>extension.go\<close> touch the shared map only inside one critical
  section each (\<open>mu.Lock\<close> around the store, \<open>mu.RLock\<close> around the lookup and around the
  count) and work on copies outside it.  A goroutine is a phase; a step of the interleaving
  moves one goroutine across one of these boundaries.  Every interleaving is shown to answer
  each request as a sequential execution of \<open>serveHTTP\<close> in the order of the critical sections.
\<close>

section \<open>A handler, cut at its critical section\<close>

datatype plan =
    Reply http_response
  | StoreModel Action DataFixed RegisterModelRequest
  | LookupModel Action DataFixed EvaluateRequest
  | CountModels

definition plan_register :: "ext_lib \<Rightarrow> node \<Rightarrow> int \<Rightarrow> Action \<Rightarrow> DataFixed \<Rightarrow> plan" where
  "plan_register lib post port a df =
     (case accepted lib post port df of
        Some req \<Rightarrow> StoreModel a df req
      | None \<Rightarrow> Reply (StatusOK, MarshalActionResult lib
                  (fst (processRegisterModel lib post \<lparr>signPort = port, models = fmempty\<rparr> a df))))"

definition plan_evaluate :: "ext_lib \<Rightarrow> Action \<Rightarrow> DataFixed \<Rightarrow> plan" where
  "plan_evaluate lib a df =
     (if df_OriginalMessage df = []
      then Reply (StatusOK, MarshalActionResult lib (buildResult a df [] 0 ''originalMessage is empty''))
      else case DecodeEvaluateRequest (Abi lib) (df_OriginalMessage df) of
        Inl err \<Rightarrow> Reply (StatusOK, MarshalActionResult lib (buildResult a df [] 0 err))
      | Inr req \<Rightarrow> LookupModel a df req)"

definition plan_action :: "ext_lib \<Rightarrow> node \<Rightarrow> int \<Rightarrow> Action \<Rightarrow> plan" where
  "plan_action lib post port a =
     (case ParseDataFixed lib (ad_Message (act_Data a)) of
        Inl _ \<Rightarrow> Reply (fst (processAction lib post \<lparr>signPort = port, models = fmempty\<rparr> a))
      | Inr df \<Rightarrow>
          if df_OPType df = ToHash lib OPTypePolicy \<and> df_OPCommand df = ToHash lib OPCommandRegisterModel
          then plan_register lib post port a df
          else if df_OPType df = ToHash lib OPTypePolicy \<and> df_OPCommand df = ToHash lib OPCommandEvaluate
          then plan_evaluate lib a df
          else Reply (fst (processAction lib post \<lparr>signPort = port, models = fmempty\<rparr> a)))"

type_synonym request = "node \<times> string \<times> string \<times> bytes"

definition plan_of :: "ext_lib \<Rightarrow> int \<Rightarrow> request \<Rightarrow> plan" where
  "plan_of lib port rq =
     (case rq of (post, meth, path, body) \<Rightarrow>
       (case mux_scan 0 extension_routes meth path of
          MuxFound i \<Rightarrow>
            if i = 0 then CountModels
            else (case DecodeAction lib body of
                    Inl err \<Rightarrow> Reply (http_Error (''decoding action: '' @ err) StatusBadRequest)
                  | Inr a \<Rightarrow> plan_action lib post port a)
        | MuxMethodNotAllowed \<Rightarrow> Reply (http_Error ''Method Not Allowed'' 405)
        | MuxNotFound \<Rightarrow> Reply (http_Error ''404 page not found'' 404)))"

text \<open>The rest of \<open>processEvaluate\<close>, after the lookup, on the copy of the model.\<close>

definition score :: "ext_lib \<Rightarrow> Action \<Rightarrow> DataFixed \<Rightarrow> EvaluateRequest \<Rightarrow> ModelParameters option \<Rightarrow> http_response" where
  "score lib a df req mo =
     (StatusOK, MarshalActionResult lib
        (case mo of
           None \<Rightarrow> buildResult a df [] 0 (''no model registered for policy '' @ HashHex lib (ev_PolicyID req))
         | Some model \<Rightarrow>
             (case evaluatePayout model (ev_RainfallTenthsMm req) of
                Inl err \<Rightarrow> buildResult a df [] 0 err
              | Inr payout \<Rightarrow>
                  (case EvaluateResponse_Encode (Abi lib)
                          \<lparr>er_PolicyID = ev_PolicyID req, er_PayoutAmount = Some payout,
                           er_PayoutTo = ev_PayoutTo req\<rparr> of
                     Inl err \<Rightarrow> buildResult a df [] 0 (''ABI encoding failed: '' @ err)
                   | Inr encoded \<Rightarrow> buildResult a df encoded 1 []))))"

definition report_count :: "ext_lib \<Rightarrow> nat \<Rightarrow> http_response" where
  "report_count lib n =
     (case EncodeStateResponse lib \<lparr>sr_StateVersion = ToHash lib Version,
             sr_State = \<lparr>RegisteredModels = int n\<rparr>\<rparr> of
        Inl err \<Rightarrow> http_Error (''sending response: '' @ err) StatusInternalServerError
      | Inr body \<Rightarrow> (StatusOK, body))"

fun perform :: "ext_lib \<Rightarrow> plan \<Rightarrow> Extension \<Rightarrow> http_response \<times> Extension" where
  "perform lib (Reply r) e = (r, e)"
| "perform lib (StoreModel a df req) e =
     ((StatusOK, MarshalActionResult lib (buildResult a df [] 1 [])), store_model (Some req) e)"
| "perform lib (LookupModel a df req) e =
     (score lib a df req (fmlookup (models e) (ev_PolicyID req)), e)"
| "perform lib CountModels e = (report_count lib (fcard (fmdom (models e))), e)"

lemma perform_register:
  "(case processRegisterModel lib post e a df of (ar, e') \<Rightarrow> ((StatusOK, MarshalActionResult lib ar), e')) =
   perform lib (plan_register lib post (signPort e) a df) e"
  by (auto simp: plan_register_def accepted_def processRegisterModel_def split: sum.splits)

lemma perform_evaluate:
  "((StatusOK, MarshalActionResult lib (processEvaluate lib e a df)), e) =
   perform lib (plan_evaluate lib a df) e"
  by (auto simp: plan_evaluate_def processEvaluate_def score_def Let_def split: sum.splits option.splits)

lemma perform_action: "processAction lib post e a = perform lib (plan_action lib post (signPort e) a) e"
  using perform_register [of lib post e a] perform_evaluate [of lib e a]
  by (auto simp: processAction_def processPolicy_def plan_action_def split: sum.splits)

lemma serve_perform:
  "serveHTTP lib post e meth path body = perform lib (plan_of lib (signPort e) (post, meth, path, body)) e"
  by (auto simp: serveHTTP_def plan_of_def actionHandler_def stateHandler_def report_count_def Let_def
      perform_action split: mux_result.splits sum.splits)

section \<open>Interleavings\<close>

datatype phase =
    Arrived request
  | Planned plan
  | Scoring Action DataFixed EvaluateRequest "ModelParameters option"
  | Counting nat
  | Answered http_response

record Server =
  shared :: Extension
  threads :: "nat \<Rightarrow> phase option"

inductive step :: "ext_lib \<Rightarrow> Server \<Rightarrow> Server \<Rightarrow> bool" for lib where
  step_decode: "threads s t = Some (Arrived rq) \<Longrightarrow>
    step lib s (s\<lparr>threads := (threads s)(t \<mapsto> Planned (plan_of lib (signPort (shared s)) rq))\<rparr>)"
| step_reply: "threads s t = Some (Planned (Reply r)) \<Longrightarrow>
    step lib s (s\<lparr>threads := (threads s)(t \<mapsto> Answered r)\<rparr>)"
| step_store: "threads s t = Some (Planned (StoreModel a df req)) \<Longrightarrow>
    step lib s \<lparr>shared = store_model (Some req) (shared s),
               threads = (threads s)(t \<mapsto> Answered (StatusOK, MarshalActionResult lib (buildResult a df [] 1 [])))\<rparr>"
| step_lookup: "threads s t = Some (Planned (LookupModel a df req)) \<Longrightarrow>
    step lib s (s\<lparr>threads := (threads s)
      (t \<mapsto> Scoring a df req (fmlookup (models (shared s)) (ev_PolicyID req)))\<rparr>)"
| step_score: "threads s t = Some (Scoring a df req mo) \<Longrightarrow>
    step lib s (s\<lparr>threads := (threads s)(t \<mapsto> Answered (score lib a df req mo))\<rparr>)"
| step_count: "threads s t = Some (Planned CountModels) \<Longrightarrow>
    step lib s (s\<lparr>threads := (threads s)(t \<mapsto> Counting (fcard (fmdom (models (shared s)))))\<rparr>)"
| step_report: "threads s t = Some (Counting n) \<Longrightarrow>
    step lib s (s\<lparr>threads := (threads s)(t \<mapsto> Answered (report_count lib n))\<rparr>)"

inductive_cases stepE: "step lib s s'"

abbreviation steps :: "ext_lib \<Rightarrow> Server \<Rightarrow> Server \<Rightarrow> bool" where
  "steps lib \<equiv> (step lib)\<^sup>*\<^sup>*"

text \<open>The sequential server: the requests of \<open>ts\<close> one after the other.\<close>

definition serve1 ::
    "ext_lib \<Rightarrow> (nat \<Rightarrow> request option) \<Rightarrow> nat \<Rightarrow> (nat \<Rightarrow> http_response option) \<times> Extension \<Rightarrow>
     (nat \<Rightarrow> http_response option) \<times> Extension" where
  "serve1 lib rqs t acc =
     (case rqs t of
        None \<Rightarrow> acc
      | Some (post, meth, path, body) \<Rightarrow>
          (case serveHTTP lib post (snd acc) meth path body of (r, e) \<Rightarrow> ((fst acc)(t \<mapsto> r), e)))"

definition serve_all ::
    "ext_lib \<Rightarrow> (nat \<Rightarrow> request option) \<Rightarrow> nat list \<Rightarrow> Extension \<Rightarrow>
     (nat \<Rightarrow> http_response option) \<times> Extension" where
  "serve_all lib rqs ts e = fold (serve1 lib rqs) ts (Map.empty, e)"

lemma serve_all_Nil [simp]: "serve_all lib rqs [] e = (Map.empty, e)"
  by (simp add: serve_all_def)

lemma serve_all_snoc:
  assumes "rqs t = Some rq" and "signPort (snd (serve_all lib rqs ts e)) = port"
  shows "serve_all lib rqs (ts @ [t]) e =
    (case perform lib (plan_of lib port rq) (snd (serve_all lib rqs ts e)) of
       (r, e') \<Rightarrow> ((fst (serve_all lib rqs ts e))(t \<mapsto> r), e'))"
  using assms by (cases rq) (simp add: serve_all_def serve1_def serve_perform split: prod.split)

lemma signPort_perform: "signPort (snd (perform lib pl e)) = signPort e"
  by (cases pl) simp_all

section \<open>The invariant of the interleaving\<close>

fun phase_ok :: "ext_lib \<Rightarrow> int \<Rightarrow> (nat \<Rightarrow> request option) \<Rightarrow> nat list \<Rightarrow>
    (nat \<Rightarrow> http_response option) \<Rightarrow> nat \<Rightarrow> phase \<Rightarrow> bool" where
  "phase_ok lib port rqs ts resp t (Arrived rq) = (rqs t = Some rq \<and> t \<notin> set ts)"
| "phase_ok lib port rqs ts resp t (Planned pl) =
     ((\<exists>rq. rqs t = Some rq \<and> pl = plan_of lib port rq) \<and> t \<notin> set ts)"
| "phase_ok lib port rqs ts resp t (Scoring a df req mo) =
     (t \<in> set ts \<and> resp t = Some (score lib a df req mo))"
| "phase_ok lib port rqs ts resp t (Counting n) = (t \<in> set ts \<and> resp t = Some (report_count lib n))"
| "phase_ok lib port rqs ts resp t (Answered r) = (t \<in> set ts \<and> resp t = Some r)"

definition explained ::
    "ext_lib \<Rightarrow> Extension \<Rightarrow> (nat \<Rightarrow> request option) \<Rightarrow> nat list \<Rightarrow> Server \<Rightarrow> bool" where
  "explained lib e0 rqs ts s \<longleftrightarrow>
     distinct ts \<and> set ts \<subseteq> dom rqs \<and>
     snd (serve_all lib rqs ts e0) = shared s \<and> signPort (shared s) = signPort e0 \<and>
     (\<forall>t ph. threads s t = Some ph \<longrightarrow>
        phase_ok lib (signPort e0) rqs ts (fst (serve_all lib rqs ts e0)) t ph)"

lemma threads_update_eq:
  "s\<lparr>threads := f\<rparr> = \<lparr>shared = shared s, threads = f\<rparr>" for s :: Server
  by (cases s) simp

lemma explainedD:
  assumes "explained lib e0 rqs ts s" and "threads s t = Some ph"
  shows "phase_ok lib (signPort e0) rqs ts (fst (serve_all lib rqs ts e0)) t ph"
  using assms by (simp add: explained_def)

text \<open>A step outside the critical sections keeps the order.\<close>

lemma explained_local:
  assumes "explained lib e0 rqs ts s"
    and "phase_ok lib (signPort e0) rqs ts (fst (serve_all lib rqs ts e0)) t ph"
  shows "explained lib e0 rqs ts (s\<lparr>threads := (threads s)(t \<mapsto> ph)\<rparr>)"
  using assms by (auto simp: explained_def)

text \<open>A critical section appends its request to the order.\<close>

lemma phase_ok_other:
  assumes "phase_ok lib port rqs ts resp t ph" and "t \<noteq> t'"
  shows "phase_ok lib port rqs (ts @ [t']) (resp(t' \<mapsto> r)) t ph"
  using assms by (cases ph) auto

lemma explained_commit:
  assumes inv: "explained lib e0 rqs ts s"
    and t: "threads s t = Some (Planned pl)"
    and perf: "perform lib pl (shared s) = (r, e')"
    and ph: "\<And>resp. resp t = Some r \<Longrightarrow> phase_ok lib (signPort e0) rqs (ts @ [t]) resp t ph"
  shows "explained lib e0 rqs (ts @ [t]) \<lparr>shared = e', threads = (threads s)(t \<mapsto> ph)\<rparr>"
proof -
  let ?run = "serve_all lib rqs ts e0"
  have sh: "snd ?run = shared s" "signPort (shared s) = signPort e0" "distinct ts" "set ts \<subseteq> dom rqs"
    using inv by (auto simp: explained_def)
  obtain rq where rq: "rqs t = Some rq" "pl = plan_of lib (signPort e0) rq" "t \<notin> set ts"
    using explainedD [OF inv t] by auto
  have run: "serve_all lib rqs (ts @ [t]) e0 = ((fst ?run)(t \<mapsto> r), e')"
    using serve_all_snoc [where rqs = rqs and t = t, OF rq(1), of lib ts e0 "signPort e0"] sh perf rq(2)
    by simp
  have port: "signPort e' = signPort e0"
    using signPort_perform [of lib pl "shared s"] perf sh by simp
  have "phase_ok lib (signPort e0) rqs (ts @ [t]) ((fst ?run)(t \<mapsto> r)) t' p"
    if "((threads s)(t \<mapsto> ph)) t' = Some p" for t' p
  proof (cases "t' = t")
    case True
    with that ph show ?thesis by simp
  next
    case False
    with that have "threads s t' = Some p" by simp
    from phase_ok_other [OF explainedD [OF inv this] False] show ?thesis .
  qed
  with run port sh rq show ?thesis by (auto simp: explained_def)
qed

lemma explained_step:
  assumes inv: "explained lib e0 rqs ts s" and step: "step lib s s'"
  shows "\<exists>ts'. explained lib e0 rqs ts' s'"
  using step
proof cases
  case (step_decode t rq)
  with explainedD [OF inv step_decode(2)] inv show ?thesis
    by (auto simp: explained_def intro!: exI [of _ ts] explained_local)
next
  case (step_reply t r)
  have "explained lib e0 rqs (ts @ [t]) \<lparr>shared = shared s, threads = (threads s)(t \<mapsto> Answered r)\<rparr>"
    by (rule explained_commit [OF inv step_reply(2)]) auto
  then show ?thesis using step_reply(1) by (auto simp: threads_update_eq)
next
  case (step_store t a df req)
  then show ?thesis by (auto intro!: exI [of _ "ts @ [t]"] explained_commit [OF inv step_store(2)])
next
  case (step_lookup t a df req)
  have "explained lib e0 rqs (ts @ [t]) \<lparr>shared = shared s,
      threads = (threads s)(t \<mapsto> Scoring a df req (fmlookup (models (shared s)) (ev_PolicyID req)))\<rparr>"
    by (rule explained_commit [OF inv step_lookup(2)]) auto
  then show ?thesis using step_lookup(1) by (auto simp: threads_update_eq)
next
  case (step_score t a df req mo)
  with explainedD [OF inv step_score(2)] inv show ?thesis
    by (auto intro!: exI [of _ ts] explained_local)
next
  case (step_count t)
  have "explained lib e0 rqs (ts @ [t]) \<lparr>shared = shared s,
      threads = (threads s)(t \<mapsto> Counting (fcard (fmdom (models (shared s)))))\<rparr>"
    by (rule explained_commit [OF inv step_count(2)]) auto
  then show ?thesis using step_count(1) by (auto simp: threads_update_eq)
next
  case (step_report t n)
  with explainedD [OF inv step_report(2)] inv show ?thesis
    by (auto intro!: exI [of _ ts] explained_local)
qed

lemma explained_steps:
  assumes "steps lib s s'" and "explained lib e0 rqs ts s"
  shows "\<exists>ts'. explained lib e0 rqs ts' s'"
  using assms by (induction arbitrary: ts rule: converse_rtranclp_induct) (blast dest: explained_step)+

definition arrivals :: "Extension \<Rightarrow> (nat \<Rightarrow> request option) \<Rightarrow> Server" where
  "arrivals e rqs = \<lparr>shared = e, threads = (\<lambda>t. map_option Arrived (rqs t))\<rparr>"

lemma explained_arrivals: "explained lib e rqs [] (arrivals e rqs)"
  by (auto simp: explained_def arrivals_def)

end
