(* ===== verification/ExtensionClaims.thy ===== *)
theory ExtensionClaims
  imports ExtensionConc
begin

text \<open>
  The properties of the scoring function and of the enclave extension, and for each property
  with a hypothesis an instance of it: \<open>demo_lib\<close> provides the functions of the other packages
  concretely (names right-padded to 32 bytes, a fixed-offset framing of the instruction, the
  Solidity ABI), \<open>demo_model\<close> is the model of the repository's own codec tests.
\<close>

section \<open>A concrete instance\<close>

definition demo_model :: ModelParameters where
  "demo_model = \<lparr>TriggerTenthsMm = 1200, ExitTenthsMm = 400, SumInsuredUnits = Some 1000000,
     PayoutFactorBps = 9000, MinPayoutUnits = Some 1000\<rparr>"

definition demo_lib :: ext_lib where
  "demo_lib =
     \<lparr>ToHash = (\<lambda>s. hash_of_bytes (take 32 (s @ replicate 32 (CHR 0x00)))),
      HashHex = (\<lambda>h. ''0x'' @ hex_encode (bytes_of_hash h)),
      ParseDataFixed = (\<lambda>bs. if length bs < 64 then Inl ''short message''
         else Inr \<lparr>df_OPType = hash_of_bytes (take 32 bs),
                   df_OPCommand = hash_of_bytes (take 32 (drop 32 bs)),
                   df_OriginalMessage = drop 64 bs\<rparr>),
      DecodeAction = (\<lambda>bs. Inr \<lparr>act_Data = \<lparr>ad_ID = 1, ad_SubmissionTag = ''submit'', ad_Message = bs\<rparr>\<rparr>),
      MarshalActionResult = (\<lambda>ar. ar_Data ar @ ar_Log ar),
      UnmarshalActionResult = (\<lambda>_. None),
      EncodeStateResponse = (\<lambda>s. Inr (show_int (RegisteredModels (sr_State s)))),
      DecodeDecryptResponse = (\<lambda>b. Inr b),
      HashJSON = hex_hash_json,
      Abi = solidity_abi\<rparr>"

definition demo_payload :: "hash \<Rightarrow> bytes" where
  "demo_payload p = json_object (register_members hex_hash_text \<lparr>rm_PolicyID = p, rm_Model = demo_model\<rparr>)"

definition demo_node :: node where
  "demo_node url ctype body = Inr (200, demo_payload 7)"

definition other_node :: node where
  "other_node url ctype body = Inr (200, demo_payload 9)"

definition demo_framed :: "string \<Rightarrow> bytes \<Rightarrow> Action" where
  "demo_framed cmd msg =
     \<lparr>act_Data = \<lparr>ad_ID = 1, ad_SubmissionTag = ''submit'',
        ad_Message = bytes_of_hash (ToHash demo_lib OPTypePolicy) @
                     bytes_of_hash (ToHash demo_lib cmd) @ msg\<rparr>\<rparr>"

lemma Validate_demo [simp]: "Validate demo_model = Inr ()"
  by (simp add: demo_model_def Validate_ok_iff)

lemma demo_payload_read:
  "p \<noteq> 0 \<Longrightarrow> DecodeRegisterModelRequest hex_hash_json (demo_payload p) = Inr \<lparr>rm_PolicyID = p, rm_Model = demo_model\<rparr>"
  using hex_hash.decode_register [of "\<lparr>rm_PolicyID = p, rm_Model = demo_model\<rparr>" "[]"]
  by (simp add: demo_payload_def decoder_More_def)

lemma demo_commands_differ:
  "ToHash demo_lib OPCommandRegisterModel \<noteq> ToHash demo_lib OPCommandEvaluate"
proof
  let ?pad = "\<lambda>s :: string. take 32 (s @ replicate 32 (CHR 0x00))"
  assume "ToHash demo_lib OPCommandRegisterModel = ToHash demo_lib OPCommandEvaluate"
  then have "hash_of_bytes (?pad OPCommandRegisterModel) = hash_of_bytes (?pad OPCommandEvaluate)"
    by (simp add: demo_lib_def)
  then have "bytes_of_hash (hash_of_bytes (?pad OPCommandRegisterModel)) =
      bytes_of_hash (hash_of_bytes (?pad OPCommandEvaluate))"
    by simp
  then have "?pad OPCommandRegisterModel = ?pad OPCommandEvaluate"
    by (simp only: bytes_of_hash_of_bytes length_take length_append length_replicate)
  then show False by (simp add: OPCommandRegisterModel_def OPCommandEvaluate_def)
qed

lemma Parse_demo_framed [simp]:
  "ParseDataFixed demo_lib (ad_Message (act_Data (demo_framed cmd msg))) =
     Inr \<lparr>df_OPType = ToHash demo_lib OPTypePolicy, df_OPCommand = ToHash demo_lib cmd,
          df_OriginalMessage = msg\<rparr>"
proof -
  have "ParseDataFixed demo_lib bs = (if length bs < 64 then Inl ''short message''
      else Inr \<lparr>df_OPType = hash_of_bytes (take 32 bs),
                df_OPCommand = hash_of_bytes (take 32 (drop 32 bs)),
                df_OriginalMessage = drop 64 bs\<rparr>)" for bs
    by (simp add: demo_lib_def)
  then show ?thesis by (simp add: demo_framed_def)
qed

lemma demo_accepted:
  assumes "msg \<noteq> []"
  shows "accepted_action demo_lib demo_node port (demo_framed OPCommandRegisterModel msg) =
    Some \<lparr>rm_PolicyID = 7, rm_Model = demo_model\<rparr>"
proof -
  have "accepted demo_lib demo_node port df = Some \<lparr>rm_PolicyID = 7, rm_Model = demo_model\<rparr>"
    if "df_OriginalMessage df = msg" for df
    using that assms
    by (simp add: accepted_def decryptViaNode_def demo_node_def demo_lib_def demo_payload_read)
  then show ?thesis by (simp add: accepted_action_def)
qed

lemma demo_stored:
  assumes "msg \<noteq> []"
  shows "snd (processAction demo_lib demo_node e (demo_framed OPCommandRegisterModel msg)) =
    e\<lparr>models := fmupd 7 demo_model (models e)\<rparr>"
  by (simp add: processAction_state demo_accepted [OF assms])

lemma demo_decode [simp]:
  "DecodeAction demo_lib (ad_Message (act_Data (demo_framed cmd msg))) = Inr (demo_framed cmd msg)"
  by (simp add: demo_lib_def demo_framed_def)

definition demo_loaded :: Extension where
  "demo_loaded = \<lparr>signPort = 7701, models = fmupd 7 demo_model fmempty\<rparr>"

definition demo_request :: "string \<Rightarrow> bytes \<Rightarrow> request" where
  "demo_request cmd msg =
     (demo_node, ''POST'', ''/action'', ad_Message (act_Data (demo_framed cmd msg)))"

lemma serve_demo:
  "serveHTTP demo_lib demo_node e ''POST'' ''/action'' (ad_Message (act_Data (demo_framed cmd msg))) =
     processAction demo_lib demo_node e (demo_framed cmd msg)"
  by (simp add: serveHTTP_def extension_routes_def method_matches_def actionHandler_def)

lemma demo_loaded_served: "served demo_lib 7701 demo_loaded"
proof -
  let ?body = "ad_Message (act_Data (demo_framed OPCommandRegisterModel ''x''))"
  have "snd (serveHTTP demo_lib demo_node (New 7701) ''POST'' ''/action'' ?body) = demo_loaded"
    by (simp add: serve_demo demo_stored New_def demo_loaded_def)
  with served_request [OF served_start, of demo_lib 7701 demo_node "''POST''" "''/action''" ?body]
  show ?thesis by simp
qed

lemma demo_abi: "Abi demo_lib = solidity_abi"
  by (simp add: demo_lib_def)

lemma demo_abi_tuple: "abi_tuple (Abi demo_lib)"
  unfolding demo_abi by (rule sol_abi.abi_tuple_axioms)

lemma demo_evaluate_decodes:
  "DecodeEvaluateRequest (Abi demo_lib) (tuple_bytes 7 800 0x1234) =
     Inr \<lparr>ev_PolicyID = 7, ev_RainfallTenthsMm = Some 800, ev_PayoutTo = 0x1234\<rparr>"
  by (simp add: demo_abi DecodeEvaluateRequest_def decodeEvaluateTuple_def evaluateTupleSize_def
      solidity_abi_def tuple_values_tuple_bytes)

lemma demo_loaded_lookup: "fmlookup (models demo_loaded) 7 = Some demo_model"
  by (simp add: demo_loaded_def)

section \<open>Scoring\<close>

text \<open>C2. \<open>evaluatePayout\<close> computes, for every model and every reading, exactly what the ramp over
  the reals prescribes: a nil or negative reading and an invalid model are refused with their
  message, otherwise the floor of sum insured times the drought share times the factor, capped at
  the sum insured and replaced by zero under the dust floor.\<close>

theorem evaluatePayout_exact:
  "evaluatePayout m reading =
     (case reading of
        None \<Rightarrow> Inl ''rainfall must not be negative''
      | Some r \<Rightarrow>
          if r < 0 then Inl ''rainfall must not be negative''
          else case Validate m of
            Inl e \<Rightarrow> Inl e
          | Inr _ \<Rightarrow>
              (let capped = min (the (SumInsuredUnits m))
                     \<lfloor>the (SumInsuredUnits m) * drought_share m r * u64 (PayoutFactorBps m) / 10000\<rfloor>
               in Inr (if capped < the (MinPayoutUnits m) then 0 else capped)))"
proof (cases reading)
  case (Some r)
  show ?thesis
  proof (cases "r < 0 \<or> Validate m \<noteq> Inr ()")
    case True
    with Some show ?thesis by (auto simp: evaluatePayout_def split: sum.splits)
  next
    case False
    with Some evaluatePayout_meets_spec [of m r] show ?thesis
      by (simp add: payout_spec_def owed_def Let_def)
  qed
qed (simp add: evaluatePayout_def)

text \<open>C9. A payout lies between zero and the sum insured, is zero or at least the dust floor, fits
  a \<open>uint256\<close>, never grows when more rain is reported, is zero from the trigger on, and is the full
  sum insured at or below the exit when the factor is at least one and the dust floor allows it.\<close>

theorem evaluatePayout_indemnity:
  assumes p: "evaluatePayout m (Some r) = Inr p" and p': "evaluatePayout m (Some r') = Inr p'"
    and le: "r \<le> r'"
  shows "0 \<le> p' \<and> p' \<le> p \<and> p \<le> the (SumInsuredUnits m) \<and> p < 2 ^ 256 \<and>
    (p = 0 \<or> the (MinPayoutUnits m) \<le> p) \<and>
    (u64 (TriggerTenthsMm m) \<le> r \<longrightarrow> p = 0) \<and>
    (r \<le> u64 (ExitTenthsMm m) \<and> 10000 \<le> u64 (PayoutFactorBps m) \<and>
     the (MinPayoutUnits m) \<le> the (SumInsuredUnits m) \<longrightarrow> p = the (SumInsuredUnits m))"
proof -
  have v: "Validate m = Inr ()" "0 \<le> r" "0 \<le> r'"
    using evaluatePayout_ok_iff [of m "Some r"] evaluatePayout_ok_iff [of m "Some r'"] p p' by auto
  then have eq: "p = payout_spec m r" "p' = payout_spec m r'"
    using p p' by (simp_all add: evaluatePayout_meets_spec)
  show ?thesis
    using payout_spec_bounds [OF v(1), of r] payout_spec_bounds [OF v(1), of r']
      payout_spec_antimono [OF v(1) le] payout_spec_full [OF v(1), of r] payout_spec_none [OF v(1), of r]
      payout_fits_uint256 [OF p]
    by (simp add: eq)
qed

theorem evaluatePayout_indemnity_witness:
  "evaluatePayout demo_model (Some 800) = Inr 450000 \<and>
   evaluatePayout demo_model (Some 1000) = Inr 225000 \<and> (225000 :: int) \<le> 450000"
proof -
  have p: "evaluatePayout demo_model (Some 800) = Inr 450000"
    and p': "evaluatePayout demo_model (Some 1000) = Inr 225000"
    using Validate_demo by (simp_all add: evaluatePayout_def demo_model_def bps_def u64_def)
  with evaluatePayout_indemnity [OF p p'] show ?thesis by simp
qed

section \<open>Requests\<close>

text \<open>C3. Whatever requests have been served since start-up, an EVALUATE instruction for a policy
  with a registered model is always scored: the enclave answers 200 with status 1 and log "ok",
  its state does not change, and its 96 data bytes decode to the policy, the payout the ramp
  prescribes for the attested reading, and the recipient the instruction named.  No error branch
  after the lookup can be taken.\<close>

theorem evaluate_is_scored:
  assumes "abi_tuple (Abi lib)" and "served lib port e"
    and "ToHash lib OPCommandRegisterModel \<noteq> ToHash lib OPCommandEvaluate"
    and "ParseDataFixed lib (ad_Message (act_Data a)) = Inr df"
    and "df_OPType df = ToHash lib OPTypePolicy" and "df_OPCommand df = ToHash lib OPCommandEvaluate"
    and "DecodeEvaluateRequest (Abi lib) (df_OriginalMessage df) =
           Inr \<lparr>ev_PolicyID = p, ev_RainfallTenthsMm = Some r, ev_PayoutTo = to\<rparr>"
    and "fmlookup (models e) p = Some m"
  shows "\<exists>bs. processAction lib post e a =
               ((200, MarshalActionResult lib (buildResult a df bs 1 [])), e) \<and> length bs = 96 \<and>
             DecodeEvaluateResponse (Abi lib) bs =
               Inr \<lparr>er_PolicyID = p, er_PayoutAmount = Some (payout_spec m r), er_PayoutTo = to\<rparr>"
proof -
  have "df_OriginalMessage df \<noteq> []"
    using assms(7) abi_tuple.decode_range [OF assms(1)]
    by (auto simp: DecodeEvaluateRequest_def split: sum.splits) fastforce
  from processEvaluate_scored [OF assms(1) served_wf [OF assms(2)] this assms(7,8)]
  obtain bs where "processEvaluate lib e a df = buildResult a df bs 1 []" "length bs = 96"
    "DecodeEvaluateResponse (Abi lib) bs =
       Inr \<lparr>er_PolicyID = p, er_PayoutAmount = Some (payout_spec m r), er_PayoutTo = to\<rparr>"
    by blast
  then show ?thesis
    using assms(3-6) by (intro exI [of _ bs]) (simp add: processAction_def processPolicy_def)
qed

theorem evaluate_is_scored_witness:
  "\<exists>bs. processAction demo_lib demo_node demo_loaded (demo_framed OPCommandEvaluate (tuple_bytes 7 800 0x1234)) =
      ((200, MarshalActionResult demo_lib (buildResult
         (demo_framed OPCommandEvaluate (tuple_bytes 7 800 0x1234))
         \<lparr>df_OPType = ToHash demo_lib OPTypePolicy, df_OPCommand = ToHash demo_lib OPCommandEvaluate,
          df_OriginalMessage = tuple_bytes 7 800 0x1234\<rparr> bs 1 [])), demo_loaded) \<and> length bs = 96 \<and>
    DecodeEvaluateResponse (Abi demo_lib) bs =
      Inr \<lparr>er_PolicyID = 7, er_PayoutAmount = Some (payout_spec demo_model 800), er_PayoutTo = 0x1234\<rparr>"
  by (rule evaluate_is_scored [OF demo_abi_tuple demo_loaded_served demo_commands_differ
        Parse_demo_framed _ _ _ demo_loaded_lookup])
    (simp_all add: demo_evaluate_decodes)

text \<open>C10. In every state the server can reach, each stored model is one that validation accepts,
  under a policy id that is not zero, and the sign port is the one the server was built with; so
  the defensive validation inside the scoring can never fire on a stored model.\<close>

theorem reachable_models_valid:
  "\<forall>e. served lib port e \<longrightarrow> signPort e = port \<and>
     (\<forall>p m. fmlookup (models e) p = Some m \<longrightarrow> p \<noteq> 0 \<and> Validate m = Inr () \<and>
        (\<forall>r\<ge>0. is_ok (evaluatePayout m (Some r))))"
proof (intro allI impI)
  fix e assume "served lib port e"
  with served_wf [OF this] served_port [OF this]
  show "signPort e = port \<and> (\<forall>p m. fmlookup (models e) p = Some m \<longrightarrow> p \<noteq> 0 \<and> Validate m = Inr () \<and>
        (\<forall>r\<ge>0. is_ok (evaluatePayout m (Some r))))"
    by (auto simp: models_wf_def evaluatePayout_ok_iff)
qed

theorem reachable_models_valid_witness:
  "served demo_lib 7701 demo_loaded \<and> fmlookup (models demo_loaded) 7 = Some demo_model \<and>
   signPort demo_loaded = 7701 \<and> (7 :: hash) \<noteq> 0 \<and> is_ok (evaluatePayout demo_model (Some 800))"
  using reachable_models_valid [of demo_lib 7701] demo_loaded_served demo_loaded_lookup by force

text \<open>C11. The store after any sequence of actions is the history of the accepted registrations: a
  policy has the model of its last accepted registration, whatever else was sent in between, and
  what it had at the start when none was accepted; rejected, undecryptable, foreign and EVALUATE
  actions leave no trace.\<close>

theorem models_are_last_registrations:
  "fmlookup (models (fold (\<lambda>(post, a) e. snd (processAction lib post e a)) acts e)) p =
     (case map_of (rev (map (\<lambda>req. (rm_PolicyID req, rm_Model req))
             (List.map_filter (\<lambda>(post, a). accepted_action lib post (signPort e) a) acts))) p of
        Some m \<Rightarrow> Some m | None \<Rightarrow> fmlookup (models e) p)"
  using run_actions_lookup [of lib acts e p] by (simp add: run_actions_def accepted_pairs_def)




text \<open>C12. Two enclaves whose stores give, policy by policy, models with the same payout function are
  indistinguishable by EVALUATE requests; and two that hold equally many models are
  indistinguishable by GET /state.\<close>

theorem observable_only_through_payouts:
  "((\<forall>p. rel_option (\<lambda>m m'. \<forall>r. evaluatePayout m r = evaluatePayout m' r)
           (fmlookup (models e) p) (fmlookup (models e') p)) \<longrightarrow>
      processEvaluate lib e a df = processEvaluate lib e' a df) \<and>
   (fcard (fmdom (models e)) = fcard (fmdom (models e')) \<longrightarrow> stateHandler lib e = stateHandler lib e')"
  using processEvaluate_cong [of e e' lib a df] by (simp add: stateHandler_def)

theorem observable_only_through_payouts_witness:
  "\<forall>a df.
     processEvaluate demo_lib
       (demo_loaded\<lparr>models := fmupd 7 (demo_model\<lparr>MinPayoutUnits := Some 0\<rparr>) fmempty\<rparr>) a df =
     processEvaluate demo_lib
       (demo_loaded\<lparr>models := fmupd 7 (demo_model\<lparr>MinPayoutUnits := Some 1\<rparr>) fmempty\<rparr>) a df"
proof (intro allI)
  fix a df
  have same: "evaluatePayout (demo_model\<lparr>MinPayoutUnits := Some 0\<rparr>) r =
      evaluatePayout (demo_model\<lparr>MinPayoutUnits := Some 1\<rparr>) r" for r
    by (auto simp: evaluatePayout_def Validate_def BitLen_256 demo_model_def Let_def bps_def u64_def
        split: sum.splits)
  let ?e = "\<lambda>d. demo_loaded\<lparr>models := fmupd 7 (demo_model\<lparr>MinPayoutUnits := Some d\<rparr>) fmempty\<rparr>"
  have "rel_option (\<lambda>m m'. \<forall>r. evaluatePayout m r = evaluatePayout m' r)
      (fmlookup (models (?e 0)) p) (fmlookup (models (?e 1)) p)" for p
    by (simp add: same)
  with observable_only_through_payouts [of "?e 0" "?e 1" demo_lib a df]
  show "processEvaluate demo_lib (?e 0) a df = processEvaluate demo_lib (?e 1) a df"
    by blast
qed

text \<open>C8. Linearizability of the concurrent server: in every interleaving of any set of concurrent
  requests there is one sequential order of (some of) them such that the shared store is what
  serving them in that order gives, and every request that has been answered was answered as in
  that sequential execution.\<close>

theorem server_linearizable:
  assumes "steps lib (arrivals e rqs) s"
  shows "\<exists>order. distinct order \<and> set order \<subseteq> dom rqs \<and>
    shared s = snd (serve_all lib rqs order e) \<and>
    (\<forall>t r. threads s t = Some (Answered r) \<longrightarrow>
       t \<in> set order \<and> fst (serve_all lib rqs order e) t = Some r)"
proof -
  from explained_steps [OF assms explained_arrivals] obtain ts where
    ts: "explained lib e rqs ts s" by blast
  with explainedD [OF ts] show ?thesis
    by (intro exI [of _ ts]) (fastforce simp: explained_def)
qed

theorem server_linearizable_witness:
  "\<exists>order s. steps demo_lib (arrivals (New 7701) [0 \<mapsto> demo_request OPCommandRegisterModel ''x'']) s \<and>
     shared s = demo_loaded \<and> distinct order \<and>
     shared s = snd (serve_all demo_lib [0 \<mapsto> demo_request OPCommandRegisterModel ''x''] order (New 7701))"
proof -
  let ?rq = "demo_request OPCommandRegisterModel ''x''" and ?a = "demo_framed OPCommandRegisterModel ''x''"
  let ?df = "\<lparr>df_OPType = ToHash demo_lib OPTypePolicy, df_OPCommand = ToHash demo_lib OPCommandRegisterModel,
    df_OriginalMessage = ''x''\<rparr>"
  let ?s0 = "arrivals (New 7701) [0 \<mapsto> ?rq]"
  have acc: "accepted demo_lib demo_node 7701 ?df = Some \<lparr>rm_PolicyID = 7, rm_Model = demo_model\<rparr>"
    using demo_accepted [of "''x''" 7701] by (simp add: accepted_action_def)
  have plan: "plan_of demo_lib 7701 ?rq = StoreModel ?a ?df \<lparr>rm_PolicyID = 7, rm_Model = demo_model\<rparr>"
    by (simp add: plan_of_def demo_request_def extension_routes_def method_matches_def plan_action_def
        plan_register_def acc)
  obtain s1 where s1: "step demo_lib ?s0 s1" "shared s1 = New 7701"
    "threads s1 0 = Some (Planned (StoreModel ?a ?df \<lparr>rm_PolicyID = 7, rm_Model = demo_model\<rparr>))"
    using step_decode [of ?s0 0 ?rq demo_lib] plan by (simp add: arrivals_def New_def)
  obtain s2 where s2: "step demo_lib s1 s2" "shared s2 = demo_loaded"
    using step_store [OF s1(3), of demo_lib] s1(2) by (auto simp: demo_loaded_def New_def)
  have run: "steps demo_lib ?s0 s2" using s1(1) s2(1) by auto
  from server_linearizable [OF run] run s2(2) show ?thesis by blast
qed

end
