(* ===== verification/Report.thy ===== *)
theory Report
  imports GoLib "HOL-Library.Multiset"
begin

text \<open>
  \<open>go/tools/pkg/validate/report.go\<close>: the check results, the report that collects them and its
  two renderings.  A \<open>Status\<close> only ever holds one of the four declared constants, so it is a
  datatype and the default branches of its switches are unreachable.  The terminal report is the
  text written to the writer; the JSON report is the value handed to the encoder.
\<close>

datatype Status = PASS | WARN | FAIL | SKIP

fun Status_String :: "Status \<Rightarrow> string" where
  "Status_String PASS = ''PASS''"
| "Status_String WARN = ''WARN''"
| "Status_String FAIL = ''FAIL''"
| "Status_String SKIP = ''SKIP''"

record CheckResult =
  Step :: string
  ID :: string
  Name :: string
  Status :: Status
  Message :: string
  Fix :: string

record Report =
  Results :: "CheckResult list"

definition Add :: "Report \<Rightarrow> CheckResult \<Rightarrow> Report" where
  "Add r result = r\<lparr>Results := Results r @ [result]\<rparr>"

definition HasFailures :: "Report \<Rightarrow> bool" where
  "HasFailures r = list_ex (\<lambda>res. Status res = FAIL) (Results r)"

text \<open>The four counters of \<open>Summary\<close>, as its loop advances them.\<close>

fun count_status :: "nat \<times> nat \<times> nat \<times> nat \<Rightarrow> Status \<Rightarrow> nat \<times> nat \<times> nat \<times> nat" where
  "count_status (p, w, f, s) PASS = (p + 1, w, f, s)"
| "count_status (p, w, f, s) WARN = (p, w + 1, f, s)"
| "count_status (p, w, f, s) FAIL = (p, w, f + 1, s)"
| "count_status (p, w, f, s) SKIP = (p, w, f, s + 1)"

definition counts :: "Report \<Rightarrow> nat \<times> nat \<times> nat \<times> nat" where
  "counts r = foldl (\<lambda>c res. count_status c (Status res)) (0, 0, 0, 0) (Results r)"

definition Summary :: "Report \<Rightarrow> string" where
  "Summary r =
     (case counts r of (passed, warning, failed, skipped) \<Rightarrow>
        show_nat passed @ '' passed, '' @ show_nat warning @ '' warning, '' @
        show_nat failed @ '' failed, '' @ show_nat skipped @ '' skipped'')"

section \<open>The terminal report\<close>

definition ansi :: "string \<Rightarrow> string" where
  "ansi code = CHR 0x1B # CHR ''['' # code @ ''m''"

definition colorReset :: string where "colorReset = ansi ''0''"
definition colorCyan :: string where "colorCyan = ansi ''36''"

fun statusColor :: "Status \<Rightarrow> string" where
  "statusColor PASS = ansi ''32''"
| "statusColor WARN = ansi ''33''"
| "statusColor FAIL = ansi ''31''"
| "statusColor SKIP = ansi ''90''"

definition stepLabel :: "string \<Rightarrow> string option" where
  "stepLabel =
     [''deploy'' \<mapsto> ''Contract Deployment'',
      ''register'' \<mapsto> ''Extension Registration'',
      ''services'' \<mapsto> ''Service Startup'',
      ''tee-version'' \<mapsto> ''TEE Version Registration'',
      ''tee-machine'' \<mapsto> ''TEE Machine Registration'',
      ''test'' \<mapsto> ''Testing'']"

abbreviation nl :: string where "nl \<equiv> [CHR 0x0A]"

text \<open>Unique steps in order of first appearance.\<close>

definition report_steps :: "CheckResult list \<Rightarrow> string list" where
  "report_steps rs =
     rev (snd (foldl (\<lambda>(seen, steps) res.
            if Step res \<in> seen then (seen, steps) else (insert (Step res) seen, Step res # steps))
          ({}, []) rs))"

definition print_result :: "CheckResult \<Rightarrow> string" where
  "print_result res =
     ''  '' @ statusColor (Status res) @ ''['' @ Status_String (Status res) @ '']'' @ colorReset @ '' '' @
     ID res @ ''  '' @ Name res @ nl @
     (if Status res = FAIL \<or> Status res = WARN
      then (if Message res \<noteq> [] then ''         '' @ Message res @ nl else []) @
           (if Fix res \<noteq> [] then ''         Fix: '' @ Fix res @ nl else [])
      else [])"

definition print_step :: "CheckResult list \<Rightarrow> string \<Rightarrow> string" where
  "print_step rs step =
     (let label0 = (case stepLabel step of Some l \<Rightarrow> l | None \<Rightarrow> []);
          label = (if label0 = [] then step else label0)
      in label @ '':'' @ nl @ concat (map print_result (filter (\<lambda>res. Step res = step) rs)) @ nl)"

definition Fprint :: "Report \<Rightarrow> string" where
  "Fprint r =
     nl @ colorCyan @ ''=== Deployment Verification Report ==='' @ colorReset @ nl @ nl @
     concat (map (print_step (Results r)) (report_steps (Results r))) @ Summary r @ nl"

section \<open>The JSON report\<close>

record jsonResult =
  j_step :: string
  j_id :: string
  j_name :: string
  j_status :: string
  j_message :: string
  j_fix :: string

record jsonReport =
  j_results :: "jsonResult list"
  j_summary :: string

definition FprintJSON :: "Report \<Rightarrow> jsonReport" where
  "FprintJSON r =
     \<lparr>j_results = map (\<lambda>res.
         \<lparr>j_step = Step res, j_id = ID res, j_name = Name res, j_status = Status_String (Status res),
          j_message = TrimSpace (Message res), j_fix = TrimSpace (Fix res)\<rparr>) (Results r),
      j_summary = Summary r\<rparr>"

section \<open>Lemmas\<close>

lemma Results_Add [simp]: "Results (Add r x) = Results r @ [x]"
  by (simp add: Add_def)

lemma HasFailures_Add [simp]: "HasFailures (Add r x) \<longleftrightarrow> HasFailures r \<or> Status x = FAIL"
  by (simp add: HasFailures_def)

lemma Results_foldl_Add [simp]: "Results (foldl Add r xs) = Results r @ xs"
  by (induction xs arbitrary: r) auto

lemma HasFailures_iff: "HasFailures r \<longleftrightarrow> (\<exists>res\<in>set (Results r). Status res = FAIL)"
  by (simp add: HasFailures_def list_ex_iff)

abbreviation nstatus :: "Status \<Rightarrow> CheckResult list \<Rightarrow> nat" where
  "nstatus s rs \<equiv> length (filter (\<lambda>res. Status res = s) rs)"

lemma counts_foldl:
  "foldl (\<lambda>c res. count_status c (Status res)) (p, w, f, s) rs =
     (p + nstatus PASS rs, w + nstatus WARN rs, f + nstatus FAIL rs, s + nstatus SKIP rs)"
proof (induction rs arbitrary: p w f s)
  case (Cons a rs)
  then show ?case by (cases "Status a") auto
qed simp

lemma counts_eq:
  "counts r = (nstatus PASS (Results r), nstatus WARN (Results r), nstatus FAIL (Results r),
     nstatus SKIP (Results r))"
  by (simp add: counts_def counts_foldl)

lemma nstatus_total:
  "nstatus PASS rs + nstatus WARN rs + nstatus FAIL rs + nstatus SKIP rs = length rs"
proof (induction rs)
  case (Cons a rs)
  then show ?case by (cases "Status a") auto
qed simp

text \<open>The first-appearance list, by its loop invariant.\<close>

lemma report_steps_loop:
  fixes rs
  assumes "seen = set steps" and "distinct steps"
  shows "case foldl (\<lambda>(seen, steps) res.
      if Step res \<in> seen then (seen, steps) else (insert (Step res) seen, Step res # steps))
      (seen, steps) rs of (seen', steps') \<Rightarrow>
    seen' = set steps' \<and> distinct steps' \<and> set steps' = set steps \<union> Step ` set rs"
  using assms
proof (induction rs arbitrary: seen steps)
  case (Cons a rs)
  show ?case
  proof (cases "Step a \<in> seen")
    case True
    with Cons.IH [of seen steps] Cons.prems show ?thesis
      by (auto split: prod.splits)
  next
    case False
    with Cons.IH [of "insert (Step a) seen" "Step a # steps"] Cons.prems show ?thesis
      by (auto split: prod.splits)
  qed
qed simp

lemma report_steps_set [simp]: "set (report_steps rs) = Step ` set rs"
  and report_steps_distinct [simp]: "distinct (report_steps rs)"
  using report_steps_loop [of "{}" "[]" rs] by (auto simp: report_steps_def split: prod.splits)

text \<open>Grouping by step loses and repeats no result.\<close>

lemma concat_groups_mset:
  assumes "distinct steps" and "\<forall>x\<in>set rs. f x \<in> set steps"
  shows "mset (concat (map (\<lambda>s. filter (\<lambda>x. f x = s) rs) steps)) = mset rs"
  using assms
proof (induction steps arbitrary: rs)
  case Nil
  then show ?case by (cases rs) auto
next
  case (Cons s steps)
  let ?rest = "filter (\<lambda>x. f x \<noteq> s) rs"
  have "map (\<lambda>t. filter (\<lambda>x. f x = t) rs) steps = map (\<lambda>t. filter (\<lambda>x. f x = t) ?rest) steps"
    using Cons.prems(1) by (auto intro!: filter_cong map_cong)
  moreover have "mset (concat (map (\<lambda>t. filter (\<lambda>x. f x = t) ?rest) steps)) = mset ?rest"
    using Cons.prems by (intro Cons.IH) auto
  ultimately have "mset (concat (map (\<lambda>t. filter (\<lambda>x. f x = t) rs) steps)) = mset ?rest"
    by (simp only:)
  then show ?case
    by (simp add: mset_filter [symmetric] del: mset_filter) (metis mset_filter multiset_partition)
qed

lemma Fprint_groups:
  "\<exists>order. Fprint r = nl @ colorCyan @ ''=== Deployment Verification Report ==='' @ colorReset @ nl @ nl @
      concat (map (\<lambda>s. (case stepLabel s of Some l \<Rightarrow> l | None \<Rightarrow> s) @ '':'' @ nl @
        concat (map print_result (filter (\<lambda>res. Step res = s) (Results r))) @ nl) order) @
      Summary r @ nl \<and>
    distinct order \<and> set order = Step ` set (Results r) \<and>
    mset (concat (map (\<lambda>s. filter (\<lambda>res. Step res = s) (Results r)) order)) = mset (Results r)"
proof -
  have "print_step (Results r) = (\<lambda>s. (case stepLabel s of Some l \<Rightarrow> l | None \<Rightarrow> s) @ '':'' @ nl @
        concat (map print_result (filter (\<lambda>res. Step res = s) (Results r))) @ nl)"
    by (rule ext) (auto simp: print_step_def stepLabel_def Let_def split: option.splits if_splits)
  then show ?thesis
    by (intro exI [of _ "report_steps (Results r)"]) (simp add: Fprint_def concat_groups_mset)
qed

section \<open>Operations that only append to a report\<close>

text \<open>The contract every group of checks shares: it adds its own results and leaves the earlier
  ones, so groups compose in any order without losing a failure.\<close>

locale appender =
  fixes run :: "Report \<Rightarrow> Report" and found :: "CheckResult list"
  assumes run_appends: "Results (run r) = Results r @ found"
begin

lemma keeps_prefix: "prefix (Results r) (Results (run r))"
  by (simp add: run_appends)

lemma failures_iff: "HasFailures (run r) \<longleftrightarrow> HasFailures r \<or> (\<exists>res\<in>set found. Status res = FAIL)"
  by (auto simp: HasFailures_iff run_appends)

lemma failures_monotone: "HasFailures r \<Longrightarrow> HasFailures (run r)"
  by (simp add: failures_iff)

lemma counts_run:
  "counts (run r) = (case counts r of (p, w, f, s) \<Rightarrow>
     (p + nstatus PASS found, w + nstatus WARN found, f + nstatus FAIL found, s + nstatus SKIP found))"
  by (simp add: counts_eq run_appends)

end

interpretation add: appender "\<lambda>r. Add r x" "[x]" for x
  by unfold_locales simp

end
