(* ===== verification/Checks.thy ===== *)
theory Checks
  imports Report
begin

text \<open>
  \<open>go/tools/pkg/validate\<close>: the deployment verification checks.  A run observes the machine (the
  environment, files, local ports, HTTP peers) and the chain only by reading them, so both are
  records of functions, one snapshot per run; clients that Go code tests against nil are options.
  Printing of addresses and of quoted strings is taken from the libraries that do it.  A range
  over a Go map visits its entries in an unspecified order, so the enumeration is an argument.
\<close>

section \<open>What a run observes\<close>

record host =
  Getenv :: "string \<Rightarrow> string"
  OpenFile :: "string \<Rightarrow> bytes option"
  IsNotExist :: "string \<Rightarrow> bool"
  DialTCP :: "string \<Rightarrow> bool"
  HttpGetStatus :: "string \<Rightarrow> int res"
  QuoteGo :: "string \<Rightarrow> string"
  AddressHex :: "address \<Rightarrow> string"
  HexToAddress :: "string \<Rightarrow> address"

record eth_client =
  CodeAt :: "address \<Rightarrow> bytes res"
  BalanceAt :: "address \<Rightarrow> int res"
  ChainID :: "int res"

record ext_registry =
  NextPublicExtensionId :: "int res"
  InstructionsSender :: "int \<Rightarrow> address res"
  IsKeyTypeSupported :: "int \<Rightarrow> hash \<Rightarrow> bool res"

record owner_list =
  IsAllowedTeeMachineOwner :: "int \<Rightarrow> address \<Rightarrow> bool res"

definition addressRegex :: "string \<Rightarrow> bool" where
  "addressRegex s = match_0x_hex 40 s"

definition extensionIDRegex :: "string \<Rightarrow> bool" where
  "extensionIDRegex s = match_0x_hex 64 s"

definition mk_check :: "string \<Rightarrow> string \<Rightarrow> string \<Rightarrow> Status \<Rightarrow> string \<Rightarrow> string \<Rightarrow> CheckResult" where
  "mk_check step cid name status msg hint =
     \<lparr>Step = step, ID = cid, Name = name, Status = status, Message = msg, Fix = hint\<rparr>"

lemma mk_check_simps [simp]:
  "Step (mk_check st i n s m f) = st" "ID (mk_check st i n s m f) = i" "Name (mk_check st i n s m f) = n"
  "Status (mk_check st i n s m f) = s" "Message (mk_check st i n s m f) = m" "Fix (mk_check st i n s m f) = f"
  by (simp_all add: mk_check_def)

section \<open>validate.go\<close>

definition MinDeployBalance :: int where
  "MinDeployBalance = 10000000000000000"

definition AddressNotZero :: "host \<Rightarrow> address \<Rightarrow> string \<Rightarrow> unit res" where
  "AddressNotZero h addr label =
     (if addr = 0
      then Inl (label @ '' is the zero address ('' @ AddressHex h addr @ '') in the addresses file'')
      else Inr ())"

definition AddressHasCode :: "host \<Rightarrow> eth_client option \<Rightarrow> address \<Rightarrow> string \<Rightarrow> unit res" where
  "AddressHasCode h client addr label =
     (case client of
        None \<Rightarrow> Inl (''cannot check '' @ label @ '': no chain client connected'')
      | Some c \<Rightarrow>
          (case CodeAt c addr of
             Inl err \<Rightarrow> Inl (''cannot check '' @ label @ '': '' @ err)
           | Inr code \<Rightarrow>
               if code = []
               then Inl (label @ '' at '' @ AddressHex h addr @ '' has no deployed code. '' @
                 ''This address will be set as immutable in the contract constructor and cannot be changed. '' @
                 ''Check your deployed-addresses.json file '' @ em_dash @ '' are you on the right network?'')
               else Inr ()))"

text \<open>A private key enters only through the address it derives, so the key is that address.\<close>

definition KeyHasFunds :: "host \<Rightarrow> eth_client option \<Rightarrow> address \<Rightarrow> int \<Rightarrow> unit res" where
  "KeyHasFunds h client key_addr minWei =
     (case client of
        None \<Rightarrow> Inl ''cannot check deployer balance: no chain client connected''
      | Some c \<Rightarrow>
          (case BalanceAt c key_addr of
             Inl err \<Rightarrow> Inl (''cannot check deployer balance: '' @ err)
           | Inr balance \<Rightarrow>
               if balance < minWei
               then Inl (''deployer '' @ AddressHex h key_addr @ '' has insufficient funds (balance: '' @
                 show_int balance @ '' wei, minimum required: '' @ show_int minWei @ '' wei). '' @
                 ''Fund this account before deploying'')
               else Inr ()))"

definition IsUsingDevKey :: "host \<Rightarrow> bool" where
  "IsUsingDevKey h \<longleftrightarrow> Getenv h ''DEPLOYMENT_PRIVATE_KEY'' = []"

section \<open>Lines of a file and its KEY=VALUE entries\<close>

text \<open>\<open>bufio.Scanner\<close> with its default buffer: lines end at a newline, one trailing carriage
  return is dropped, and scanning stops for good at a line of 64 KiB or more (the callers do not
  look at the scanner's error).\<close>

definition drop_cr :: "string \<Rightarrow> string" where
  "drop_cr l = (if l \<noteq> [] \<and> last l = CHR 0x0D then butlast l else l)"

definition scan_lines :: "bytes \<Rightarrow> string list" where
  "scan_lines s =
     (let ls = Split (CHR 0x0A) s;
          raw = (if last ls = [] then butlast ls else ls)
      in map drop_cr (takeWhile (\<lambda>l. length l < 65536) raw))"

definition env_entry :: "string \<Rightarrow> (string \<times> string) option" where
  "env_entry text =
     (let line = TrimSpace text
      in if line = [] \<or> HasPrefix line ''#'' then None
         else let parts = SplitN2 (CHR ''='') line
              in if length parts = 2 then Some (TrimSpace (parts ! 0), TrimSpace (parts ! 1)) else None)"

definition env_vars :: "bytes \<Rightarrow> string \<Rightarrow> string option" where
  "env_vars content =
     foldl (\<lambda>m text. case env_entry text of None \<Rightarrow> m | Some (k, v) \<Rightarrow> m(k \<mapsto> v)) Map.empty (scan_lines content)"

section \<open>checks.go: deployment\<close>

definition CheckDeployerKeySource :: "host \<Rightarrow> CheckResult" where
  "CheckDeployerKeySource h =
     (let privKey = Getenv h ''DEPLOYMENT_PRIVATE_KEY''; localMode = Getenv h ''LOCAL_MODE''
      in if privKey \<noteq> [] then
           mk_check ''deploy'' ''D5'' ''deployer key source'' PASS ''DEPLOYMENT_PRIVATE_KEY is set'' []
         else if localMode = ''true'' \<or> localMode = [] then
           mk_check ''deploy'' ''D5'' ''deployer key source'' PASS ''using Hardhat dev key (LOCAL_MODE)'' []
         else
           mk_check ''deploy'' ''D5'' ''deployer key source'' WARN
             (''DEPLOYMENT_PRIVATE_KEY not set '' @ em_dash @
              '' using Hardhat dev key which has no funds on Coston2'')
             ''Set DEPLOYMENT_PRIVATE_KEY in .env to a funded account on the target network'')"

definition env_format_check ::
    "host \<Rightarrow> (string \<Rightarrow> string option) \<Rightarrow> string \<Rightarrow> (string \<Rightarrow> bool) \<Rightarrow> CheckResult" where
  "env_format_check h vars key regex =
     (let name = key @ '' in extension.env'';
          hint = ''Delete config/extension.env and re-run scripts/pre-build.sh''
      in case vars key of
           None \<Rightarrow> mk_check ''deploy'' ''D7'' name FAIL (key @ '' not found in extension.env'') hint
         | Some val \<Rightarrow>
             if \<not> regex val
             then mk_check ''deploy'' ''D7'' name FAIL (key @ '' has invalid format: '' @ QuoteGo h val) hint
             else mk_check ''deploy'' ''D7'' name PASS val [])"

definition CheckExtensionEnvFormat :: "host \<Rightarrow> string \<Rightarrow> CheckResult list" where
  "CheckExtensionEnvFormat h path =
     (case OpenFile h path of
        None \<Rightarrow> [mk_check ''deploy'' ''D7'' ''extension.env exists'' SKIP (''file not found: '' @ path) []]
      | Some content \<Rightarrow>
          (let vars = env_vars content
           in [env_format_check h vars ''INSTRUCTION_SENDER'' addressRegex,
               env_format_check h vars ''EXTENSION_ID'' extensionIDRegex]))"

definition chainName :: "string \<Rightarrow> string" where
  "chainName cid =
     (if cid = ''31337'' then ''Hardhat/Anvil (local devnet)''
      else if cid = ''114'' then ''Coston2 (testnet)''
      else if cid = ''14'' then ''Flare (mainnet)''
      else ''unknown network'')"

definition checkChainID :: "eth_client \<Rightarrow> CheckResult" where
  "checkChainID c =
     (case ChainID c of
        Inl err \<Rightarrow> mk_check ''deploy'' ''D6'' ''chain ID'' FAIL (''failed to get chain ID: '' @ err) ''Check CHAIN_URL''
      | Inr chainID \<Rightarrow> mk_check ''deploy'' ''D6'' ''chain ID'' PASS
          (''chain ID '' @ show_int chainID @ '' ('' @ chainName (show_int chainID) @ '')'') [])"

definition check_D3 :: "host \<Rightarrow> string \<times> address \<Rightarrow> CheckResult" where
  "check_D3 h la =
     (case AddressNotZero h (snd la) (fst la) of
        Inl err \<Rightarrow> mk_check ''deploy'' ''D3'' (fst la @ '' address not zero'') FAIL err
                    ''Re-run the deploy script or check deployed-addresses.json''
      | Inr _ \<Rightarrow> mk_check ''deploy'' ''D3'' (fst la @ '' address not zero'') PASS (AddressHex h (snd la)) [])"

definition check_D1 :: "host \<Rightarrow> eth_client option \<Rightarrow> string \<times> address \<Rightarrow> CheckResult" where
  "check_D1 h client la =
     (case AddressHasCode h client (snd la) (fst la) of
        Inl err \<Rightarrow> mk_check ''deploy'' ''D1'' (fst la @ '' has deployed code'') FAIL err
                    ''Deploy contracts or check CHAIN_URL / deployed-addresses.json''
      | Inr _ \<Rightarrow> mk_check ''deploy'' ''D1'' (fst la @ '' has deployed code'') PASS
                    (''code found at '' @ AddressHex h (snd la)) [])"

text \<open>The first loop fills \<open>zeroAddrs\<close> beside the report; the second skips those labels.\<close>

definition deploy_D3_loop ::
    "host \<Rightarrow> (string \<times> address) list \<Rightarrow> Report \<times> string set \<Rightarrow> Report \<times> string set" where
  "deploy_D3_loop h addresses =
     fold (\<lambda>la (r, zeroAddrs).
       (Add r (check_D3 h la),
        if is_ok (AddressNotZero h (snd la) (fst la)) then zeroAddrs else insert (fst la) zeroAddrs)) addresses"

definition deploy_D1_loop ::
    "host \<Rightarrow> eth_client option \<Rightarrow> string set \<Rightarrow> (string \<times> address) list \<Rightarrow> Report \<Rightarrow> Report" where
  "deploy_D1_loop h client zeroAddrs =
     fold (\<lambda>la r. if fst la \<in> zeroAddrs then r else Add r (check_D1 h client la))"

definition RegisterDeployChecks ::
    "host \<Rightarrow> Report \<Rightarrow> eth_client option \<Rightarrow> address option \<Rightarrow> (string \<times> address) list \<Rightarrow>
     (string \<times> address) list \<Rightarrow> string \<Rightarrow> Report" where
  "RegisterDeployChecks h r client key addresses addresses' extensionEnvPath =
     (case deploy_D3_loop h addresses (r, {}) of
        (r1, zeroAddrs) \<Rightarrow>
          (let r2 = deploy_D1_loop h client zeroAddrs addresses' r1;
               r3 = Add r2 (CheckDeployerKeySource h);
               r4 = (case (key, client) of
                       (Some k, Some _) \<Rightarrow>
                         (case KeyHasFunds h client k MinDeployBalance of
                            Inl err \<Rightarrow> Add r3 (mk_check ''deploy'' ''D5'' ''deployer has sufficient funds'' FAIL err
                                        ''Fund the deployer account before deploying'')
                          | Inr _ \<Rightarrow> Add r3 (mk_check ''deploy'' ''D5'' ''deployer has sufficient funds'' PASS
                                        ''balance above minimum threshold'' []))
                     | _ \<Rightarrow> r3);
               r5 = (case client of Some c \<Rightarrow> Add r4 (checkChainID c) | None \<Rightarrow> r4)
           in if extensionEnvPath \<noteq> [] then foldl Add r5 (CheckExtensionEnvFormat h extensionEnvPath) else r5))"

section \<open>checks.go: registration\<close>

definition parseExtensionEnv :: "host \<Rightarrow> string \<Rightarrow> string \<times> string" where
  "parseExtensionEnv h path =
     (case OpenFile h path of
        None \<Rightarrow> ([], [])
      | Some content \<Rightarrow>
          foldl (\<lambda>(extensionID, instructionSender) text.
             case env_entry text of
               None \<Rightarrow> (extensionID, instructionSender)
             | Some (key, val) \<Rightarrow>
                 if key = ''EXTENSION_ID'' then (val, instructionSender)
                 else if key = ''INSTRUCTION_SENDER'' then (extensionID, val)
                 else (extensionID, instructionSender)) ([], []) (scan_lines content))"

definition hex_nat :: "string \<Rightarrow> nat" where
  "hex_nat s = foldl (\<lambda>a c. 16 * a + (case hex_val c of Some d \<Rightarrow> d | None \<Rightarrow> 0)) 0 s"

abbreviation reg_check :: "string \<Rightarrow> string \<Rightarrow> Status \<Rightarrow> string \<Rightarrow> string \<Rightarrow> CheckResult" where
  "reg_check \<equiv> mk_check ''register''"

definition check_R1 :: "int res \<Rightarrow> CheckResult" where
  "check_R1 counter =
     (case counter of
        Inl err \<Rightarrow> reg_check ''R1'' ''next public extension id'' FAIL
                    (''failed to query nextPublicExtensionId: '' @ err) []
      | Inr c \<Rightarrow>
          if c = 0 then reg_check ''R1'' ''next public extension id'' WARN
                    (''nextPublicExtensionId is 0 '' @ em_dash @ '' no public extensions registered yet'') []
          else reg_check ''R1'' ''next public extension id'' PASS (''nextPublicExtensionId = '' @ show_int c) [])"

definition check_R2 :: "host \<Rightarrow> ext_registry \<Rightarrow> int \<Rightarrow> string \<Rightarrow> CheckResult" where
  "check_R2 h registry extensionID instrSender =
     (case InstructionsSender registry extensionID of
        Inl err \<Rightarrow> reg_check ''R2'' ''instruction sender matches on-chain'' FAIL
                    (''failed to query instruction sender: '' @ err) []
      | Inr onChainSender \<Rightarrow>
          if onChainSender = HexToAddress h instrSender
          then reg_check ''R2'' ''instruction sender matches on-chain'' PASS
                 (''on-chain sender '' @ AddressHex h onChainSender @ '' matches extension.env'') []
          else reg_check ''R2'' ''instruction sender matches on-chain'' FAIL
                 (''on-chain sender '' @ AddressHex h onChainSender @ '' != extension.env '' @ instrSender)
                 ''Re-register the extension or update extension.env'')"

definition check_R3 :: "owner_list \<Rightarrow> int \<Rightarrow> address \<Rightarrow> CheckResult" where
  "check_R3 allowlist extensionID deployerAddr =
     (case IsAllowedTeeMachineOwner allowlist extensionID deployerAddr of
        Inl err \<Rightarrow> reg_check ''R3'' ''deployer is allowed TEE machine owner'' FAIL
                    (''failed to query allowlist: '' @ err) []
      | Inr allowed \<Rightarrow>
          if allowed then reg_check ''R3'' ''deployer is allowed TEE machine owner'' PASS
                    ''deployer is on the TEE machine owner allowlist'' []
          else reg_check ''R3'' ''deployer is allowed TEE machine owner'' FAIL
                    ''deployer is NOT on the TEE machine owner allowlist''
                    ''Run the register step to add the deployer as a TEE machine owner'')"

definition check_R4 :: "ext_registry \<Rightarrow> int \<Rightarrow> hash \<Rightarrow> CheckResult" where
  "check_R4 registry extensionID evmType =
     (case IsKeyTypeSupported registry extensionID evmType of
        Inl err \<Rightarrow> reg_check ''R4'' ''EVM key type supported'' FAIL
                    (''failed to query key type support: '' @ err) []
      | Inr supported \<Rightarrow>
          if supported then reg_check ''R4'' ''EVM key type supported'' PASS
                    ''EVM key type is supported for this extension'' []
          else reg_check ''R4'' ''EVM key type supported'' FAIL
                    ''EVM key type is NOT supported for this extension''
                    ''Run the register step to add EVM key type support'')"

text \<open>\<open>big.Int.Int64\<close> keeps the low 64 bits; the loop runs over \<open>int64\<close> values below it.\<close>

definition Int64 :: "int \<Rightarrow> int" where
  "Int64 x = sint (of_int x :: 64 word)"

definition matching_ids :: "host \<Rightarrow> ext_registry \<Rightarrow> int \<Rightarrow> string \<Rightarrow> string list" where
  "matching_ids h registry counter instrSender =
     map show_int (filter (\<lambda>i. InstructionsSender registry i = Inr (HexToAddress h instrSender))
       [0..Int64 counter - 1])"

definition check_R7 :: "host \<Rightarrow> ext_registry \<Rightarrow> int \<Rightarrow> string \<Rightarrow> CheckResult" where
  "check_R7 h registry counter instrSender =
     (let ids = matching_ids h registry counter instrSender
      in if length ids > 1
         then reg_check ''R7'' ''unique instruction sender'' WARN
           (''INSTRUCTION_SENDER '' @ instrSender @ '' is used by multiple extensions: '' @ Join ids '', '') []
         else reg_check ''R7'' ''unique instruction sender'' PASS
           ''instruction sender is unique across registered extensions'' [])"

text \<open>The results of the checks in their order; an early return ends the list.  \<open>evmType\<close> is the
  wallet library's constant.\<close>

definition registration_results ::
    "host \<Rightarrow> hash \<Rightarrow> eth_client option \<Rightarrow> address option \<Rightarrow> ext_registry option \<Rightarrow> owner_list option \<Rightarrow>
     string \<Rightarrow> CheckResult list" where
  "registration_results h evmType client key registry allowlist extensionEnvPath =
     (if extensionEnvPath = []
      then [reg_check ''R1-R7'' ''registration checks'' SKIP ''no --config path provided'' []]
      else case parseExtensionEnv h extensionEnvPath of (extIDStr, instrSender) \<Rightarrow>
        if extIDStr = [] \<and> instrSender = []
        then [reg_check ''R1-R7'' ''registration checks'' SKIP
                (''config/extension.env not found '' @ em_dash @ '' run pre-build.sh first'') []]
        else
          let counter = (case (registry, client) of (Some reg, Some _) \<Rightarrow> Some (NextPublicExtensionId reg) | _ \<Rightarrow> None);
              r1 = (case counter of Some c \<Rightarrow> [check_R1 c] | None \<Rightarrow> [])
          in if \<not> extensionIDRegex extIDStr
             then r1 @ [reg_check ''R2'' ''EXTENSION_ID format'' FAIL
                          (''malformed EXTENSION_ID: '' @ QuoteGo h extIDStr)
                          ''Delete config/extension.env and re-run scripts/pre-build.sh'']
             else
               let extensionID = int (hex_nat (drop 2 extIDStr));
                   r2 = (case (registry, client) of
                           (Some reg, Some _) \<Rightarrow>
                             if addressRegex instrSender then [check_R2 h reg extensionID instrSender] else []
                         | _ \<Rightarrow> []);
                   r3 = (case (key, allowlist, client) of
                           (Some k, Some al, Some _) \<Rightarrow> [check_R3 al extensionID k] | _ \<Rightarrow> []);
                   r4 = (case (registry, client) of
                           (Some reg, Some _) \<Rightarrow> [check_R4 reg extensionID evmType] | _ \<Rightarrow> []);
                   r7 = (case (counter, registry, client) of
                           (Some (Inr c), Some reg, Some _) \<Rightarrow>
                             if c > 0 \<and> addressRegex instrSender then [check_R7 h reg c instrSender] else []
                         | _ \<Rightarrow> [])
               in r1 @ r2 @ r3 @ r4 @ r7)"

definition RegisterRegistrationChecks ::
    "host \<Rightarrow> hash \<Rightarrow> Report \<Rightarrow> eth_client option \<Rightarrow> address option \<Rightarrow> ext_registry option \<Rightarrow>
     owner_list option \<Rightarrow> string \<Rightarrow> Report" where
  "RegisterRegistrationChecks h evmType r client key registry allowlist path =
     foldl Add r (registration_results h evmType client key registry allowlist path)"

section \<open>checks.go: services, TEE version, TEE machine, testing\<close>

text \<open>The reachability test four groups share: GET on the info page, answered 200.\<close>

definition info_reachable :: "host \<Rightarrow> string \<Rightarrow> bool" where
  "info_reachable h url = (HttpGetStatus h (url @ ''/info'') = Inr 200)"

abbreviation pre_build_hint :: string where
  "pre_build_hint \<equiv> ''Delete config/extension.env and re-run scripts/pre-build.sh''"

definition check_S2 :: "host \<Rightarrow> string \<Rightarrow> CheckResult" where
  "check_S2 h path =
     (let mk = mk_check ''services'' ''S2'' ''EXTENSION_ID is set and well-formed''
      in if path = [] then mk SKIP ''run pre-build.sh first'' []
         else case parseExtensionEnv h path of (extID, _) \<Rightarrow>
           if extID = [] then mk FAIL ''EXTENSION_ID is empty or not found in extension.env'' pre_build_hint
           else if \<not> extensionIDRegex extID
           then mk FAIL (''EXTENSION_ID has invalid format: '' @ QuoteGo h extID) pre_build_hint
           else mk PASS extID [])"

definition check_S5 :: "host \<Rightarrow> CheckResult" where
  "check_S5 h =
     (let port0 = Getenv h ''EXTENSION_PORT''; port = (if port0 = [] then ''7702'' else port0);
          mk = mk_check ''services'' ''S5'' ''extension port not in use''
      in if DialTCP h (''localhost:'' @ port)
         then mk WARN (''port '' @ port @ '' is already in use '' @ em_dash @ '' extension server will fail to bind'')
                ''Stop the process using that port or change EXTENSION_PORT''
         else mk PASS ''port available'' [])"

definition check_S7 :: "host \<Rightarrow> CheckResult" where
  "check_S7 h =
     (let extPort = Getenv h ''EXTENSION_PORT''; sPort = Getenv h ''SIGN_PORT'';
          mk = mk_check ''services'' ''S7'' ''port configuration''
      in if extPort \<noteq> [] \<or> sPort \<noteq> []
         then mk PASS (''EXTENSION_PORT='' @ extPort @ '', SIGN_PORT='' @ sPort) []
         else mk PASS ''using defaults (standalone: 8080/9090, Docker: 7702/7701)'' [])"

definition check_S9 :: "host \<Rightarrow> CheckResult" where
  "check_S9 h =
     (let proxyURL = Getenv h ''EXT_PROXY_URL'';
          mk = mk_check ''services'' ''S9'' ''EXT_PROXY_URL reachable''
      in if proxyURL = [] then mk SKIP ''EXT_PROXY_URL not set'' []
         else if info_reachable h proxyURL then mk PASS (''proxy reachable at '' @ proxyURL) []
         else mk WARN (''proxy not reachable at '' @ proxyURL @ '' '' @ em_dash @ '' is the proxy running?'')
                ''Start the proxy or check EXT_PROXY_URL'')"

definition check_S10 :: "host \<Rightarrow> CheckResult" where
  "check_S10 h =
     (let localMode = Getenv h ''LOCAL_MODE''; privateKey = Getenv h ''PROXY_PRIVATE_KEY'';
          mk = mk_check ''services'' ''S10'' ''PROXY_PRIVATE_KEY set on non-local''
      in if localMode = ''true'' \<or> localMode = [] then mk PASS ''local mode, dev key OK'' []
         else if localMode = ''false'' \<and> privateKey = []
         then mk WARN (''PROXY_PRIVATE_KEY not set in non-local mode '' @ em_dash @ '' proxy will use default key'')
                ''Set PROXY_PRIVATE_KEY in .env for non-local deployments''
         else mk PASS ''PROXY_PRIVATE_KEY is configured'' [])"

definition RegisterServicesChecks :: "host \<Rightarrow> Report \<Rightarrow> string \<Rightarrow> Report" where
  "RegisterServicesChecks h r path =
     Add (Add (Add (Add (Add r (check_S2 h path)) (check_S5 h)) (check_S7 h)) (check_S9 h)) (check_S10 h)"

definition check_V2 :: "host \<Rightarrow> CheckResult" where
  "check_V2 h =
     (let extOwnerKey = Getenv h ''EXTENSION_OWNER_KEY''; privKey = Getenv h ''DEPLOYMENT_PRIVATE_KEY'';
          localMode = Getenv h ''LOCAL_MODE''; mk = mk_check ''tee-version'' ''V2'' ''extension owner key''
      in if extOwnerKey \<noteq> [] then mk PASS ''EXTENSION_OWNER_KEY is configured'' []
         else if privKey \<noteq> [] then mk PASS ''using DEPLOYMENT_PRIVATE_KEY (EXTENSION_OWNER_KEY not set)'' []
         else if localMode \<noteq> ''true'' \<and> localMode \<noteq> []
         then mk WARN (''neither EXTENSION_OWNER_KEY nor DEPLOYMENT_PRIVATE_KEY set '' @ em_dash @
                '' AddTeeVersion will use dev key which isn'' @ [CHR 0x27] @ ''t the extension owner on Coston2'')
                ''Set EXTENSION_OWNER_KEY or DEPLOYMENT_PRIVATE_KEY in .env''
         else mk PASS ''using dev key (local mode)'' [])"

definition check_V4 :: "host \<Rightarrow> string \<Rightarrow> CheckResult" where
  "check_V4 h path =
     (let mk = mk_check ''tee-version'' ''V4'' ''EXTENSION_ID valid''
      in if path = [] then mk SKIP ''no --config provided'' []
         else case parseExtensionEnv h path of (extID, _) \<Rightarrow>
           if extID = [] then
             (if IsNotExist h path
              then mk SKIP (''extension.env not found '' @ em_dash @ '' run pre-build.sh first'') []
              else mk FAIL ''EXTENSION_ID not set'' pre_build_hint)
           else if \<not> extensionIDRegex extID then mk FAIL ''EXTENSION_ID malformed'' pre_build_hint
           else mk PASS extID [])"

definition check_V6 :: "host \<Rightarrow> CheckResult" where
  "check_V6 h =
     (let proxyURL = Getenv h ''EXT_PROXY_URL''; mk = mk_check ''tee-version'' ''V6'' ''proxy reachable''
      in if proxyURL = []
         then mk SKIP (''EXT_PROXY_URL not set '' @ em_dash @ '' allow-tee-version uses -p flag'') []
         else if info_reachable h proxyURL then mk PASS (''proxy reachable at '' @ proxyURL) []
         else mk WARN (''proxy not reachable at '' @ proxyURL @ '' '' @ em_dash @ '' start services first'')
                ''Start the proxy or check EXT_PROXY_URL'')"

definition RegisterTeeVersionChecks :: "host \<Rightarrow> Report \<Rightarrow> string \<Rightarrow> Report" where
  "RegisterTeeVersionChecks h r path = Add (Add (Add r (check_V2 h)) (check_V4 h path)) (check_V6 h)"

definition check_T1 :: "host \<Rightarrow> CheckResult" where
  "check_T1 h =
     (let simulatedTee = Getenv h ''SIMULATED_TEE''; localMode = Getenv h ''LOCAL_MODE'';
          mk = mk_check ''tee-machine'' ''T1'' ''SIMULATED_TEE mode''
      in if simulatedTee = ''true'' \<and> localMode = ''false''
         then mk WARN (''SIMULATED_TEE=true on non-local deployment '' @ em_dash @
                '' machine will be registered with test attestation values. Set SIMULATED_TEE=false for real TEE hardware'')
                ''Set SIMULATED_TEE=false in .env when deploying to a real GCP TEE''
         else if simulatedTee = ''true'' then mk PASS ''simulated TEE mode (local)'' []
         else mk PASS ''real attestation mode'' [])"

definition check_T5 :: "host \<Rightarrow> CheckResult" where
  "check_T5 h =
     (let url = Getenv h ''NORMAL_PROXY_URL''; mk = mk_check ''tee-machine'' ''T5'' ''NORMAL_PROXY_URL reachable''
      in if url = [] then mk SKIP ''NORMAL_PROXY_URL not set'' []
         else if info_reachable h url then mk PASS (''normal proxy reachable at '' @ url) []
         else mk WARN (''normal proxy not reachable at '' @ url @ '' '' @ em_dash @
                '' required for FTDC availability check'')
                ''Ensure the normal/FTDC proxy is running and NORMAL_PROXY_URL is correct in .env'')"

definition check_T10 :: "host \<Rightarrow> CheckResult" where
  "check_T10 h =
     (let url = Getenv h ''EXT_PROXY_URL''; mk = mk_check ''tee-machine'' ''T10'' ''host URL reachable''
      in if url = [] then mk SKIP ''EXT_PROXY_URL not set'' []
         else if info_reachable h url then mk PASS (''host URL reachable at '' @ url) []
         else mk WARN (''host URL not reachable at '' @ url @ '' '' @ em_dash @
                '' machine will be registered with unreachable host. Data providers can'' @ [CHR 0x27] @
                ''t relay instructions'')
                ''Ensure the host is accessible and EXT_PROXY_URL or -h flag points to the right URL'')"

definition RegisterTeeMachineChecks :: "host \<Rightarrow> Report \<Rightarrow> string \<Rightarrow> Report" where
  "RegisterTeeMachineChecks h r path = Add (Add (Add r (check_T1 h)) (check_T5 h)) (check_T10 h)"

definition check_E1 :: "host \<Rightarrow> string \<Rightarrow> CheckResult" where
  "check_E1 h path =
     (let mk = mk_check ''test'' ''E1'' ''INSTRUCTION_SENDER valid''
      in if path = [] then mk SKIP ''no --config provided'' []
         else case parseExtensionEnv h path of (_, instrSender) \<Rightarrow>
           if IsNotExist h path
           then mk SKIP (''extension.env not found '' @ em_dash @ '' run pre-build.sh first'') []
           else if instrSender = []
           then mk FAIL (''INSTRUCTION_SENDER not set '' @ em_dash @ '' run pre-build.sh'')
                  ''Run scripts/pre-build.sh to deploy and register the extension''
           else if \<not> addressRegex instrSender then mk FAIL ''INSTRUCTION_SENDER malformed'' pre_build_hint
           else mk PASS instrSender [])"

definition check_E3 :: "host \<Rightarrow> CheckResult" where
  "check_E3 h =
     (let proxyURL = Getenv h ''EXT_PROXY_URL''; mk = mk_check ''test'' ''E3'' ''proxy reachable for test results''
      in if proxyURL = [] then mk SKIP ''EXT_PROXY_URL not set'' []
         else if info_reachable h proxyURL then mk PASS ''proxy reachable for test result polling'' []
         else mk WARN (''proxy not reachable '' @ em_dash @ '' test results cannot be polled'')
                ''Start the proxy or check EXT_PROXY_URL'')"

definition check_E6 :: CheckResult where
  "check_E6 = mk_check ''test'' ''E6'' ''OPType/OPCommand alignment info'' PASS
     (''OPType/OPCommand hashes are validated at runtime '' @ em_dash @
      '' if a 501 error occurs, check the hash values in the error message'') []"

definition RegisterTestChecks :: "host \<Rightarrow> Report \<Rightarrow> string \<Rightarrow> Report" where
  "RegisterTestChecks h r path = Add (Add (Add r (check_E1 h path)) (check_E3 h)) check_E6"

definition RegisterStubChecks :: "Report \<Rightarrow> string \<Rightarrow> string \<Rightarrow> string \<Rightarrow> Report" where
  "RegisterStubChecks r step idRange name = Add r (mk_check step idRange name SKIP ''not yet implemented'' [])"

end
