(* ===== verification/ChecksProps.thy ===== *)
theory ChecksProps
  imports Checks
begin

text \<open>
  What the groups of checks promise: each only appends to the report, and a group reports a
  failure exactly when the condition it is there to check does not hold.  The two readers of
  extension.env agree.
\<close>

section \<open>The environment file\<close>

definition env_file :: "host \<Rightarrow> string \<Rightarrow> string \<Rightarrow> string option" where
  "env_file h path key = (case OpenFile h path of None \<Rightarrow> None | Some content \<Rightarrow> env_vars content key)"

definition env_text :: "host \<Rightarrow> string \<Rightarrow> string \<Rightarrow> string" where
  "env_text h path key = (case env_file h path key of None \<Rightarrow> [] | Some v \<Rightarrow> v)"

definition two_vars :: "(string \<Rightarrow> string option) \<Rightarrow> string \<times> string" where
  "two_vars m =
     (case m ''EXTENSION_ID'' of None \<Rightarrow> [] | Some v \<Rightarrow> v,
      case m ''INSTRUCTION_SENDER'' of None \<Rightarrow> [] | Some v \<Rightarrow> v)"

definition var_step :: "(string \<Rightarrow> string option) \<Rightarrow> string \<Rightarrow> string \<Rightarrow> string option" where
  "var_step m text = (case env_entry text of None \<Rightarrow> m | Some (k, v) \<Rightarrow> m(k \<mapsto> v))"

definition pair_step :: "string \<times> string \<Rightarrow> string \<Rightarrow> string \<times> string" where
  "pair_step = (\<lambda>(extensionID, instructionSender) text.
     case env_entry text of
       None \<Rightarrow> (extensionID, instructionSender)
     | Some (key, val) \<Rightarrow>
         if key = ''EXTENSION_ID'' then (val, instructionSender)
         else if key = ''INSTRUCTION_SENDER'' then (extensionID, val)
         else (extensionID, instructionSender))"

lemma two_vars_step: "two_vars (var_step m text) = pair_step (two_vars m) text"
proof (cases "env_entry text")
  case (Some kv)
  obtain k v where "kv = (k, v)" by force
  with Some show ?thesis by (simp add: two_vars_def var_step_def pair_step_def)
qed (simp add: two_vars_def var_step_def pair_step_def)

lemma parseExtensionEnv_env_text:
  "parseExtensionEnv h path = (env_text h path ''EXTENSION_ID'', env_text h path ''INSTRUCTION_SENDER'')"
proof (cases "OpenFile h path")
  case None
  then show ?thesis by (simp add: parseExtensionEnv_def env_text_def env_file_def)
next
  case (Some content)
  have "parseExtensionEnv h path = foldl pair_step (two_vars Map.empty) (scan_lines content)"
    using Some by (simp add: parseExtensionEnv_def pair_step_def two_vars_def)
  also have "\<dots> = two_vars (foldl var_step Map.empty (scan_lines content))"
    using foldl_commute [where h = two_vars and f = var_step and g = pair_step and m = Map.empty and
        xs = "scan_lines content"] two_vars_step by simp
  also have "foldl var_step Map.empty (scan_lines content) = env_vars content"
    by (simp add: env_vars_def var_step_def [abs_def])
  finally show ?thesis
    using Some by (simp add: env_text_def env_file_def two_vars_def)
qed

lemma regex_nonempty [simp]: "\<not> extensionIDRegex []" "\<not> addressRegex []"
  by (simp_all add: extensionIDRegex_def addressRegex_def match_0x_hex_def)

section \<open>Every group appends\<close>

interpretation services: appender "\<lambda>r. RegisterServicesChecks h r path"
  "[check_S2 h path, check_S5 h, check_S7 h, check_S9 h, check_S10 h]" for h path
  by unfold_locales (simp add: RegisterServicesChecks_def)

interpretation tee_version: appender "\<lambda>r. RegisterTeeVersionChecks h r path"
  "[check_V2 h, check_V4 h path, check_V6 h]" for h path
  by unfold_locales (simp add: RegisterTeeVersionChecks_def)

interpretation tee_machine: appender "\<lambda>r. RegisterTeeMachineChecks h r path"
  "[check_T1 h, check_T5 h, check_T10 h]" for h path
  by unfold_locales (simp add: RegisterTeeMachineChecks_def)

interpretation testing: appender "\<lambda>r. RegisterTestChecks h r path"
  "[check_E1 h path, check_E3 h, check_E6]" for h path
  by unfold_locales (simp add: RegisterTestChecks_def)

interpretation stub: appender "\<lambda>r. RegisterStubChecks r step idRange name"
  "[mk_check step idRange name SKIP ''not yet implemented'' []]" for step idRange name
  by unfold_locales (simp add: RegisterStubChecks_def)

interpretation registration: appender
  "\<lambda>r. RegisterRegistrationChecks h evmType r client key registry allowlist path"
  "registration_results h evmType client key registry allowlist path"
  for h evmType client key registry allowlist path
  by unfold_locales (simp add: RegisterRegistrationChecks_def)

text \<open>The deployment group: the zero-address loop, then the code loop over what it left.\<close>

definition deploy_results ::
    "host \<Rightarrow> eth_client option \<Rightarrow> address option \<Rightarrow> (string \<times> address) list \<Rightarrow>
     (string \<times> address) list \<Rightarrow> string \<Rightarrow> CheckResult list" where
  "deploy_results h client key addresses addresses' path =
     map (check_D3 h) addresses @
     map (check_D1 h client)
       (filter (\<lambda>la. fst la \<notin> fst ` {la \<in> set addresses. snd la = 0}) addresses') @
     [CheckDeployerKeySource h] @
     (case (key, client) of
        (Some k, Some _) \<Rightarrow>
          [case KeyHasFunds h client k MinDeployBalance of
             Inl err \<Rightarrow> mk_check ''deploy'' ''D5'' ''deployer has sufficient funds'' FAIL err
                         ''Fund the deployer account before deploying''
           | Inr _ \<Rightarrow> mk_check ''deploy'' ''D5'' ''deployer has sufficient funds'' PASS
                         ''balance above minimum threshold'' []]
      | _ \<Rightarrow> []) @
     (case client of Some c \<Rightarrow> [checkChainID c] | None \<Rightarrow> []) @
     (if path \<noteq> [] then CheckExtensionEnvFormat h path else [])"

lemma AddressNotZero_ok [simp]: "is_ok (AddressNotZero h a l) \<longleftrightarrow> a \<noteq> 0"
  by (simp add: AddressNotZero_def)

lemma deploy_D3_loop_eq:
  "deploy_D3_loop h addresses (r, z) =
     (foldl Add r (map (check_D3 h) addresses), z \<union> fst ` {la \<in> set addresses. snd la = 0})"
  unfolding deploy_D3_loop_def by (induction addresses arbitrary: r z) auto

lemma deploy_D1_loop_eq:
  "deploy_D1_loop h client z addresses r =
     foldl Add r (map (check_D1 h client) (filter (\<lambda>la. fst la \<notin> z) addresses))"
  unfolding deploy_D1_loop_def by (induction addresses arbitrary: r) auto

lemma Results_option_case:
  "Results (case x of None \<Rightarrow> r | Some y \<Rightarrow> f y) = (case x of None \<Rightarrow> Results r | Some y \<Rightarrow> Results (f y))"
  by (cases x) simp_all

interpretation deploy: appender
  "\<lambda>r. RegisterDeployChecks h r client key addresses addresses' path"
  "deploy_results h client key addresses addresses' path"
  for h client key addresses addresses' path
  by unfold_locales
    (auto simp: RegisterDeployChecks_def deploy_results_def deploy_D3_loop_eq deploy_D1_loop_eq Let_def
      split: option.splits sum.splits)

section \<open>When a group reports a failure\<close>

definition code_deployed :: "eth_client option \<Rightarrow> address \<Rightarrow> bool" where
  "code_deployed client a \<longleftrightarrow> (\<exists>c code. client = Some c \<and> CodeAt c a = Inr code \<and> code \<noteq> [])"

lemma AddressHasCode_ok [simp]: "is_ok (AddressHasCode h client a l) \<longleftrightarrow> code_deployed client a"
  by (auto simp: AddressHasCode_def code_deployed_def split: option.splits sum.splits)

lemma KeyHasFunds_ok:
  "is_ok (KeyHasFunds h client k m) \<longleftrightarrow> (\<exists>c b. client = Some c \<and> BalanceAt c k = Inr b \<and> m \<le> b)"
  by (auto simp: KeyHasFunds_def split: option.splits sum.splits)

lemma status_D3: "Status (check_D3 h la) = FAIL \<longleftrightarrow> snd la = 0"
  by (auto simp: check_D3_def AddressNotZero_def)

lemma status_D1: "Status (check_D1 h client la) = FAIL \<longleftrightarrow> \<not> code_deployed client (snd la)"
  using AddressHasCode_ok [of h client "snd la" "fst la"]
  by (cases "AddressHasCode h client (snd la) (fst la)") (auto simp: check_D1_def)

lemma status_key_source: "Status (CheckDeployerKeySource h) \<noteq> FAIL"
  by (simp add: CheckDeployerKeySource_def Let_def)

lemma status_chain: "Status (checkChainID c) = FAIL \<longleftrightarrow> \<not> is_ok (ChainID c)"
  by (cases "ChainID c") (auto simp: checkChainID_def)

lemma status_env:
  "Status (env_format_check h vars key regex) = FAIL \<longleftrightarrow> \<not> (\<exists>v. vars key = Some v \<and> regex v)"
  by (auto simp: env_format_check_def Let_def split: option.splits)

lemma status_S: "Status (check_S5 h) \<noteq> FAIL" "Status (check_S7 h) \<noteq> FAIL" "Status (check_S9 h) \<noteq> FAIL"
  "Status (check_S10 h) \<noteq> FAIL"
  by (simp_all add: check_S5_def check_S7_def check_S9_def check_S10_def Let_def)

lemma status_S2: "Status (check_S2 h path) = FAIL \<longleftrightarrow>
    path \<noteq> [] \<and> \<not> extensionIDRegex (env_text h path ''EXTENSION_ID'')"
  by (auto simp: check_S2_def parseExtensionEnv_env_text Let_def)

lemma status_V: "Status (check_V2 h) \<noteq> FAIL" "Status (check_V6 h) \<noteq> FAIL"
  by (simp_all add: check_V2_def check_V6_def Let_def)

lemma status_V4: "Status (check_V4 h path) = FAIL \<longleftrightarrow>
    path \<noteq> [] \<and> \<not> extensionIDRegex (env_text h path ''EXTENSION_ID'') \<and>
    (env_text h path ''EXTENSION_ID'' = [] \<longrightarrow> \<not> IsNotExist h path)"
  by (auto simp: check_V4_def parseExtensionEnv_env_text Let_def)

lemma status_T: "Status (check_T1 h) \<noteq> FAIL" "Status (check_T5 h) \<noteq> FAIL" "Status (check_T10 h) \<noteq> FAIL"
  by (simp_all add: check_T1_def check_T5_def check_T10_def Let_def)

lemma status_E: "Status (check_E3 h) \<noteq> FAIL" "Status check_E6 \<noteq> FAIL"
  by (simp_all add: check_E3_def check_E6_def Let_def)

lemma status_E1: "Status (check_E1 h path) = FAIL \<longleftrightarrow>
    path \<noteq> [] \<and> \<not> IsNotExist h path \<and> \<not> addressRegex (env_text h path ''INSTRUCTION_SENDER'')"
  by (auto simp: check_E1_def parseExtensionEnv_env_text Let_def)

lemma status_R1: "Status (check_R1 c) = FAIL \<longleftrightarrow> \<not> is_ok c"
  by (cases c) (auto simp: check_R1_def)

lemma status_R2: "Status (check_R2 h reg e s) = FAIL \<longleftrightarrow> InstructionsSender reg e \<noteq> Inr (HexToAddress h s)"
  by (auto simp: check_R2_def split: sum.splits)

lemma status_R3: "Status (check_R3 al e k) = FAIL \<longleftrightarrow> IsAllowedTeeMachineOwner al e k \<noteq> Inr True"
  by (auto simp: check_R3_def split: sum.splits)

lemma status_R4: "Status (check_R4 reg e t) = FAIL \<longleftrightarrow> IsKeyTypeSupported reg e t \<noteq> Inr True"
  by (auto simp: check_R4_def split: sum.splits)

lemma status_R7: "Status (check_R7 h reg c s) \<noteq> FAIL"
  by (simp add: check_R7_def Let_def)

lemmas check_status = status_D3 status_D1 status_key_source status_chain status_env status_S status_S2
  status_V status_V4 status_T status_E status_E1 status_R1 status_R2 status_R3 status_R4 status_R7

lemma deploy_failures:
  "(\<exists>res\<in>set (deploy_results h (Some c) (Some k) [(l, a)] [(l, a)] path). Status res = FAIL) \<longleftrightarrow>
     a = 0 \<or> \<not> code_deployed (Some c) a \<or> \<not> (\<exists>b. BalanceAt c k = Inr b \<and> MinDeployBalance \<le> b) \<or>
     \<not> is_ok (ChainID c) \<or>
     (path \<noteq> [] \<and> OpenFile h path \<noteq> None \<and>
      \<not> (addressRegex (env_text h path ''INSTRUCTION_SENDER'') \<and>
         extensionIDRegex (env_text h path ''EXTENSION_ID'')))"
proof -
  have funds: "(case KeyHasFunds h (Some c) k MinDeployBalance of
      Inl err \<Rightarrow> Status (mk_check st i n FAIL err f) = FAIL | Inr u \<Rightarrow> Status (mk_check st i n PASS m f') = FAIL) \<longleftrightarrow>
      \<not> (\<exists>b. BalanceAt c k = Inr b \<and> MinDeployBalance \<le> b)" for st i n f m f'
    using KeyHasFunds_ok [of h "Some c" k MinDeployBalance]
    by (cases "KeyHasFunds h (Some c) k MinDeployBalance") auto
  have env: "(\<exists>res\<in>set (CheckExtensionEnvFormat h path). Status res = FAIL) \<longleftrightarrow>
      OpenFile h path \<noteq> None \<and>
      \<not> (addressRegex (env_text h path ''INSTRUCTION_SENDER'') \<and>
         extensionIDRegex (env_text h path ''EXTENSION_ID''))"
    by (auto simp: CheckExtensionEnvFormat_def check_status env_text_def env_file_def Let_def
        split: option.splits)
  show ?thesis
    using funds env by (auto simp: deploy_results_def check_status if_distrib split: sum.splits)
qed

lemma registration_failures:
  assumes "path \<noteq> []"
  shows "(\<exists>res\<in>set (registration_results h evmType (Some c) (Some k) (Some reg) (Some al) path).
            Status res = FAIL) \<longleftrightarrow>
     (env_text h path ''EXTENSION_ID'' \<noteq> [] \<or> env_text h path ''INSTRUCTION_SENDER'' \<noteq> []) \<and>
     (\<not> is_ok (NextPublicExtensionId reg) \<or> \<not> extensionIDRegex (env_text h path ''EXTENSION_ID'') \<or>
      (let extensionID = int (hex_nat (drop 2 (env_text h path ''EXTENSION_ID'')));
           instrSender = env_text h path ''INSTRUCTION_SENDER''
       in (addressRegex instrSender \<and> InstructionsSender reg extensionID \<noteq> Inr (HexToAddress h instrSender)) \<or>
          IsAllowedTeeMachineOwner al extensionID k \<noteq> Inr True \<or>
          IsKeyTypeSupported reg extensionID evmType \<noteq> Inr True))"
proof -
  have r7: "\<not> (\<exists>res\<in>set (case NextPublicExtensionId reg of
        Inl e \<Rightarrow> [] | Inr n \<Rightarrow> if 0 < n \<and> addressRegex s then [check_R7 h reg n s] else []). Status res = FAIL)" for s
    by (auto simp: status_R7 split: sum.splits)
  show ?thesis
    using assms r7 by (auto simp: registration_results_def parseExtensionEnv_env_text check_status Let_def)
qed

end
