(* ===== verification/VerifyDeploy.thy ===== *)
theory VerifyDeploy
  imports ChecksProps
begin

text \<open>
  The command \<open>go/tools/cmd/verify-deploy\<close>: it runs the groups of checks a step names, keeps the
  results a filter lets through, prints the report and exits with 1 when a visible result failed.
  \<open>support.DefaultSupport\<close> either fails or provides every client, which is its argument here.
\<close>

record support_view =
  sv_client :: eth_client
  sv_key :: address
  sv_registry :: ext_registry
  sv_allowlist :: owner_list
  sv_FlareTeeManager :: address

text \<open>The filter writes the kept results over the front of the slice it reads from.\<close>

fun filter_in_place :: "('a \<Rightarrow> bool) \<Rightarrow> nat \<Rightarrow> nat \<Rightarrow> nat \<Rightarrow> 'a list \<Rightarrow> 'a list" where
  "filter_in_place P 0 i k xs = take k xs"
| "filter_in_place P (Suc n) i k xs =
     (if P (xs ! i) then filter_in_place P n (i + 1) (k + 1) (xs[k := xs ! i])
      else filter_in_place P n (i + 1) k xs)"

definition apply_filter :: "string \<Rightarrow> Report \<Rightarrow> Report" where
  "apply_filter checksFilter r =
     (if checksFilter = [] then r
      else let allowed = {t. t \<in> TrimSpace ` set (Split (CHR '','') checksFilter) \<and> t \<noteq> []}
           in r\<lparr>Results := filter_in_place (\<lambda>res. ID res \<in> allowed) (length (Results r)) 0 0 (Results r)\<rparr>)"

datatype verify_outcome = UsageError | SupportError string | Printed Report bool

definition exit_status :: "verify_outcome \<Rightarrow> nat" where
  "exit_status out = (case out of UsageError \<Rightarrow> 1 | SupportError _ \<Rightarrow> 1 | Printed _ failed \<Rightarrow> if failed then 1 else 0)"

definition chain_checks ::
    "host \<Rightarrow> hash \<Rightarrow> support_view \<Rightarrow> string \<Rightarrow> string \<Rightarrow> Report \<Rightarrow> Report" where
  "chain_checks h evmType s step path r =
     (let c = Some (sv_client s); k = Some (sv_key s);
          addresses = [(''FlareTeeManager'', sv_FlareTeeManager s)];
          deploy = (\<lambda>r. RegisterDeployChecks h r c k addresses addresses path);
          registration = (\<lambda>r. RegisterRegistrationChecks h evmType r c k (Some (sv_registry s))
                               (Some (sv_allowlist s)) path)
      in if step = ''deploy'' then deploy r
         else if step = ''register'' then registration r
         else RegisterTestChecks h (RegisterTeeMachineChecks h (RegisterTeeVersionChecks h
                (RegisterServicesChecks h (registration (deploy r)) path) path) path) path)"

text \<open>The switch over the step: a usage or set-up failure ends the program, otherwise the report.\<close>

definition run_step ::
    "host \<Rightarrow> hash \<Rightarrow> support_view res \<Rightarrow> string \<Rightarrow> string \<Rightarrow> verify_outcome + Report" where
  "run_step h evmType support step path =
     (let report = \<lparr>Results = []\<rparr>
      in if step = ''deploy'' \<or> step = ''register'' \<or> step = ''all'' then
           (case support of
              Inl err \<Rightarrow> Inl (SupportError err)
            | Inr s \<Rightarrow> Inr (chain_checks h evmType s step path report))
         else if step = ''services'' then Inr (RegisterServicesChecks h report path)
         else if step = ''tee-version'' then Inr (RegisterTeeVersionChecks h report path)
         else if step = ''tee-machine'' then Inr (RegisterTeeMachineChecks h report path)
         else if step = ''test'' then Inr (RegisterTestChecks h report path)
         else Inl UsageError)"

definition verify_deploy_main ::
    "host \<Rightarrow> hash \<Rightarrow> support_view res \<Rightarrow> string \<Rightarrow> string \<Rightarrow> string \<Rightarrow> verify_outcome" where
  "verify_deploy_main h evmType support step path checksFilter =
     (case run_step h evmType support step path of
        Inl failure \<Rightarrow> failure
      | Inr report \<Rightarrow> (let r = apply_filter checksFilter report in Printed r (HasFailures r)))"

lemma run_step_not_printed: "run_step h evmType support step path \<noteq> Inl (Printed r b)"
  by (auto simp: run_step_def Let_def split: sum.splits)

section \<open>The filter\<close>

lemma filter_in_place_eq:
  assumes "k \<le> i" and "i + n = length xs"
  shows "filter_in_place P n i k xs = take k xs @ filter P (drop i xs)"
  using assms
proof (induction n arbitrary: i k xs)
  case 0
  then show ?case by simp
next
  case (Suc n)
  then have i: "i < length xs" by simp
  then have drop: "drop i xs = xs ! i # drop (Suc i) xs" by (simp add: Cons_nth_drop_Suc)
  show ?case
  proof (cases "P (xs ! i)")
    case True
    have "filter_in_place P n (Suc i) (Suc k) (xs[k := xs ! i]) =
        take (Suc k) (xs[k := xs ! i]) @ filter P (drop (Suc i) (xs[k := xs ! i]))"
      using Suc.prems by (intro Suc.IH) auto
    moreover have "drop (Suc i) (xs[k := xs ! i]) = drop (Suc i) xs"
      using Suc.prems by simp
    moreover have "take (Suc k) (xs[k := xs ! i]) = take k xs @ [xs ! i]"
      using Suc.prems i by (simp add: take_Suc_conv_app_nth)
    ultimately show ?thesis using True drop by simp
  next
    case False
    have "filter_in_place P n (Suc i) k xs = take k xs @ filter P (drop (Suc i) xs)"
      using Suc.prems by (intro Suc.IH) auto
    with False drop show ?thesis by simp
  qed
qed

lemma Results_apply_filter:
  "Results (apply_filter f r) =
     (if f = [] then Results r
      else filter (\<lambda>res. ID res \<noteq> [] \<and> ID res \<in> TrimSpace ` set (Split (CHR '','') f)) (Results r))"
  by (auto simp: apply_filter_def filter_in_place_eq Let_def intro!: filter_cong)

lemma HasFailures_empty [simp]: "\<not> HasFailures \<lparr>Results = []\<rparr>"
  by (simp add: HasFailures_def)

section \<open>A clean run of every check\<close>

definition deployment_sound ::
    "host \<Rightarrow> hash \<Rightarrow> support_view \<Rightarrow> string \<Rightarrow> bool" where
  "deployment_sound h evmType s path \<longleftrightarrow>
     (let extID = env_text h path ''EXTENSION_ID''; sender = env_text h path ''INSTRUCTION_SENDER'';
          extensionID = int (hex_nat (drop 2 extID))
      in sv_FlareTeeManager s \<noteq> 0 \<and>
         (\<exists>code. CodeAt (sv_client s) (sv_FlareTeeManager s) = Inr code \<and> code \<noteq> []) \<and>
         (\<exists>b. BalanceAt (sv_client s) (sv_key s) = Inr b \<and> 10 ^ 16 \<le> b) \<and>
         is_ok (ChainID (sv_client s)) \<and>
         match_0x_hex 64 extID \<and> match_0x_hex 40 sender \<and>
         is_ok (NextPublicExtensionId (sv_registry s)) \<and>
         InstructionsSender (sv_registry s) extensionID = Inr (HexToAddress h sender) \<and>
         IsAllowedTeeMachineOwner (sv_allowlist s) extensionID (sv_key s) = Inr True \<and>
         IsKeyTypeSupported (sv_registry s) extensionID evmType = Inr True)"

lemma all_checks_failures:
  assumes path: "path \<noteq> []" and opened: "OpenFile h path \<noteq> None" "\<not> IsNotExist h path"
  shows "HasFailures (chain_checks h evmType s ''all'' path \<lparr>Results = []\<rparr>) \<longleftrightarrow>
    \<not> deployment_sound h evmType s path"
proof -
  let ?ext = "env_text h path ''EXTENSION_ID''" and ?snd = "env_text h path ''INSTRUCTION_SENDER''"
  have regex: "extensionIDRegex ?ext = match_0x_hex 64 ?ext" "addressRegex ?snd = match_0x_hex 40 ?snd"
    by (simp_all add: extensionIDRegex_def addressRegex_def)
  have ne: "match_0x_hex 64 ?ext \<Longrightarrow> ?ext \<noteq> []" by (auto simp: match_0x_hex_def)
  show ?thesis
    using path opened ne
    by (auto simp: chain_checks_def Let_def testing.failures_iff tee_machine.failures_iff
        tee_version.failures_iff services.failures_iff registration.failures_iff deploy.failures_iff
        deploy_failures registration_failures check_status deployment_sound_def code_deployed_def
        MinDeployBalance_def regex)
qed

section \<open>A concrete machine and chain\<close>

definition demo_env_file :: bytes where
  "demo_env_file =
     ''# written by pre-build'' @ nl @
     ''EXTENSION_ID=0x'' @ replicate 63 (CHR ''0'') @ ''2'' @ nl @
     ''INSTRUCTION_SENDER=0x'' @ replicate 39 (CHR ''0'') @ ''7'' @ nl"

definition demo_host :: host where
  "demo_host =
     \<lparr>Getenv = (\<lambda>_. []), OpenFile = (\<lambda>p. if p = ''extension.env'' then Some demo_env_file else None),
      IsNotExist = (\<lambda>p. p \<noteq> ''extension.env''), DialTCP = (\<lambda>_. False), HttpGetStatus = (\<lambda>_. Inl ''refused''),
      QuoteGo = (\<lambda>s. s), AddressHex = (\<lambda>a. ''0x'' @ hex_encode (be_bytes 20 (unat a))),
      HexToAddress = (\<lambda>s. of_nat (hex_nat (drop 2 s)))\<rparr>"

definition demo_view :: support_view where
  "demo_view =
     \<lparr>sv_client = \<lparr>CodeAt = (\<lambda>a. if a = 3 then Inr ''code'' else Inr []), BalanceAt = (\<lambda>_. Inr (10 ^ 18)),
                   ChainID = Inr 114\<rparr>,
      sv_key = 9,
      sv_registry = \<lparr>NextPublicExtensionId = Inr 3,
                     InstructionsSender = (\<lambda>i. if i = 2 then Inr 7 else Inl ''no such extension''),
                     IsKeyTypeSupported = (\<lambda>i _. Inr (i = 2))\<rparr>,
      sv_allowlist = \<lparr>IsAllowedTeeMachineOwner = (\<lambda>i k. Inr (i = 2 \<and> k = 9))\<rparr>,
      sv_FlareTeeManager = 3\<rparr>"

lemma Split_three:
  assumes "sep \<notin> set a" and "sep \<notin> set b" and "sep \<notin> set c"
  shows "Split sep (a @ sep # b @ sep # c @ [sep]) = [a, b, c, []]"
  using assms by (simp add: Split_append)

lemma demo_scan:
  "scan_lines demo_env_file =
     [''# written by pre-build'', ''EXTENSION_ID=0x'' @ replicate 63 (CHR ''0'') @ ''2'',
      ''INSTRUCTION_SENDER=0x'' @ replicate 39 (CHR ''0'') @ ''7'']"
proof -
  let ?a = "''# written by pre-build''" and ?b = "''EXTENSION_ID=0x'' @ replicate 63 (CHR ''0'') @ ''2''"
    and ?c = "''INSTRUCTION_SENDER=0x'' @ replicate 39 (CHR ''0'') @ ''7''"
  have layout: "demo_env_file = ?a @ CHR 0x0A # ?b @ CHR 0x0A # ?c @ [CHR 0x0A]"
    by (simp only: demo_env_file_def append_assoc append_Cons append_Nil)
  have "Split (CHR 0x0A) demo_env_file = [?a, ?b, ?c, []]"
    unfolding layout by (rule Split_three) auto
  then show ?thesis by (simp add: scan_lines_def drop_cr_def)
qed

lemma env_entry_plain:
  assumes "line = k @ CHR ''='' # v" and "CHR ''='' \<notin> set k" and "k \<noteq> []" and "v \<noteq> []"
    and "visible (hd k)" and "visible (last k)" and "visible (hd v)" and "visible (last v)"
    and "hd k \<noteq> CHR ''#''"
  shows "env_entry line = Some (k, v)"
proof -
  have "TrimSpace line = line" using assms by (intro TrimSpace_visible) auto
  moreover have "\<not> HasPrefix line ''#''" using assms by (cases k) (auto simp: HasPrefix_def)
  ultimately show ?thesis
    using assms by (simp add: env_entry_def SplitN2_append TrimSpace_visible)
qed

lemma env_entry_comment: "env_entry ''# written by pre-build'' = None"
  using TrimSpace_visible [of "''# written by pre-build''"]
  by (simp add: env_entry_def HasPrefix_def visible_def)

lemma demo_env:
  "env_text demo_host ''extension.env'' ''EXTENSION_ID'' = ''0x'' @ replicate 63 (CHR ''0'') @ ''2''"
  "env_text demo_host ''extension.env'' ''INSTRUCTION_SENDER'' = ''0x'' @ replicate 39 (CHR ''0'') @ ''7''"
proof -
  have 1: "env_entry (''EXTENSION_ID=0x'' @ replicate 63 (CHR ''0'') @ ''2'') =
      Some (''EXTENSION_ID'', ''0x'' @ replicate 63 (CHR ''0'') @ ''2'')"
    by (rule env_entry_plain) (simp_all add: visible_def)
  have 2: "env_entry (''INSTRUCTION_SENDER=0x'' @ replicate 39 (CHR ''0'') @ ''7'') =
      Some (''INSTRUCTION_SENDER'', ''0x'' @ replicate 39 (CHR ''0'') @ ''7'')"
    by (rule env_entry_plain) (simp_all add: visible_def)
  have "env_vars demo_env_file =
      [''EXTENSION_ID'' \<mapsto> ''0x'' @ replicate 63 (CHR ''0'') @ ''2'',
       ''INSTRUCTION_SENDER'' \<mapsto> ''0x'' @ replicate 39 (CHR ''0'') @ ''7'']"
    unfolding env_vars_def demo_scan foldl.simps 1 2 env_entry_comment by simp
  then show
    "env_text demo_host ''extension.env'' ''EXTENSION_ID'' = ''0x'' @ replicate 63 (CHR ''0'') @ ''2''"
    "env_text demo_host ''extension.env'' ''INSTRUCTION_SENDER'' = ''0x'' @ replicate 39 (CHR ''0'') @ ''7''"
    by (simp_all add: env_text_def env_file_def demo_host_def)
qed

section \<open>Properties\<close>


text \<open>C18. Running every check, unfiltered, on a configured extension exits with 0 if and only if the
  deployment is sound: the manager contract is at a non-zero address with code, the deployer can
  pay, the chain answers, the two ids in extension.env are well formed, and on chain the
  extension's instruction sender is the one of the file, the deployer is an allowed machine owner
  and the EVM key type is supported.\<close>

theorem verify_all_iff_sound:
  assumes "path \<noteq> []" and "OpenFile h path \<noteq> None" and "\<not> IsNotExist h path"
  shows "exit_status (verify_deploy_main h evmType (Inr s) ''all'' path []) = 0 \<longleftrightarrow>
    deployment_sound h evmType s path"
  using all_checks_failures [OF assms, of evmType s]
  by (simp add: verify_deploy_main_def run_step_def exit_status_def apply_filter_def Let_def)

theorem verify_all_iff_sound_witness:
  "exit_status (verify_deploy_main demo_host 5 (Inr demo_view) ''all'' ''extension.env'' []) = 0"
proof -
  have hex: "hex_nat (replicate 63 (CHR ''0'') @ ''2'') = 2" "hex_nat (replicate 39 (CHR ''0'') @ ''7'') = 7"
    by (simp_all add: hex_nat_def hex_val_def numeral_eq_Suc)
  have regex: "match_0x_hex 64 (''0x'' @ replicate 63 (CHR ''0'') @ ''2'')"
    "match_0x_hex 40 (''0x'' @ replicate 39 (CHR ''0'') @ ''7'')"
    by (simp_all add: match_0x_hex_def is_hex_def hex_val_def list_all_iff)
  have "deployment_sound demo_host 5 demo_view ''extension.env''"
    unfolding deployment_sound_def demo_env Let_def using hex regex
    by (simp add: demo_view_def) (simp add: demo_host_def)
  then show ?thesis
    using verify_all_iff_sound [of "''extension.env''" demo_host 5 demo_view] by (simp add: demo_host_def)
qed

text \<open>The filter only hides: a filtered run prints exactly the results of the unfiltered run
  whose id is named in the list (blanks around a name do not count), in their order, and its exit
  status is 1 exactly when one of those failed.\<close>

theorem verify_filter_hides:
  assumes "verify_deploy_main h evmType support step path f = Printed r' failed"
  shows "\<exists>r failed0. verify_deploy_main h evmType support step path [] = Printed r failed0 \<and>
     Results r' = (if f = [] then Results r
       else filter (\<lambda>res. ID res \<noteq> [] \<and> ID res \<in> TrimSpace ` set (Split (CHR '','') f)) (Results r)) \<and>
     (failed \<longleftrightarrow> (\<exists>res\<in>set (Results r'). Status res = FAIL))"
proof -
  from assms obtain r where r: "run_step h evmType support step path = Inr r" "r' = apply_filter f r"
    "failed = HasFailures r'"
    using run_step_not_printed [of h evmType support step path]
    by (auto simp: verify_deploy_main_def Let_def split: sum.splits)
  then have "verify_deploy_main h evmType support step path [] = Printed r (HasFailures r)"
    by (simp add: verify_deploy_main_def apply_filter_def Let_def)
  with r show ?thesis
    using Results_apply_filter [of f r] by (auto simp: HasFailures_iff)
qed

theorem verify_filter_hides_witness:
  "\<exists>r failed0. verify_deploy_main demo_host 5 (Inl ''no chain'') ''services'' [] [] = Printed r failed0 \<and>
     [check_S5 demo_host] =
       filter (\<lambda>res. ID res \<noteq> [] \<and> ID res \<in> TrimSpace ` set (Split (CHR '','') ''S5'')) (Results r)"
proof -
  have t: "TrimSpace ''S5'' = ''S5''" by (rule TrimSpace_visible) (simp_all add: visible_def)
  have ids: "ID (check_S2 h p) = ''S2''" "ID (check_S5 h) = ''S5''" "ID (check_S7 h) = ''S7''"
    "ID (check_S9 h) = ''S9''" "ID (check_S10 h) = ''S10''" for h p
    by (simp_all add: check_S2_def check_S5_def check_S7_def check_S9_def check_S10_def Let_def split: prod.splits)
  let ?r = "\<lparr>Results = [check_S5 demo_host]\<rparr>"
  have "Results (apply_filter ''S5'' (RegisterServicesChecks demo_host \<lparr>Results = []\<rparr> [])) = [check_S5 demo_host]"
    by (simp add: Results_apply_filter services.run_appends ids t)
  then have "apply_filter ''S5'' (RegisterServicesChecks demo_host \<lparr>Results = []\<rparr> []) = ?r"
    by (cases "apply_filter ''S5'' (RegisterServicesChecks demo_host \<lparr>Results = []\<rparr> [])") simp
  then have "verify_deploy_main demo_host 5 (Inl ''no chain'') ''services'' [] ''S5'' = Printed ?r (HasFailures ?r)"
    by (simp add: verify_deploy_main_def run_step_def Let_def)
  from verify_filter_hides [OF this] show ?thesis by auto
qed

end
