(* ===== verification/Support.thy ===== *)
theory Support
  imports GoLib Config
begin

text \<open>
  \<open>go/tools/pkg/support\<close> and \<open>go/tools/pkg/configs\<close>: the operator's key, the addresses file, the
  contract bindings, and the wait for a transaction.  A binding of go-ethereum's generated code is
  represented by the address it is bound to; creating one may fail.  The chain is an unknown world;
  waiting for a transaction may advance it.
\<close>

section \<open>Configuration constants\<close>

definition ExtensionProxyURL :: string where "ExtensionProxyURL = ''http://localhost:6664''"
definition ChainNodeURL :: string where "ChainNodeURL = ''http://127.0.0.1:8545''"
definition AddressesFile :: string where
  "AddressesFile = ''../docker/sim_dump/deployed-addresses.json''"
definition ExtensionProxyConfigFile :: string where
  "ExtensionProxyConfigFile = ''./configs/proxy/extension_proxy.toml''"
definition ExtConfigurationPort :: int where "ExtConfigurationPort = 5501"
definition ExtProxyInternalPort :: int where "ExtProxyInternalPort = 6663"
definition ExtensionServerPort :: int where "ExtensionServerPort = 7701"
definition ExtensionPortConst :: int where "ExtensionPortConst = 7702"

definition PrvWithFunds_hex :: string where
  "PrvWithFunds_hex = ''804b01a8c27a65cc694a867be76edae3ccce7a7161cda1f67a8349df696d2207''"

section \<open>The addresses file\<close>

record Addresses =
  FlareSystemManager :: address
  Fdc2Hub :: address
  FlareTeeManager :: address
  FdcHub :: address
  FdcVerification :: address

definition zero_addresses :: Addresses where
  "zero_addresses = \<lparr>FlareSystemManager = 0, Fdc2Hub = 0, FlareTeeManager = 0, FdcHub = 0, FdcVerification = 0\<rparr>"

record RawContract =
  rc_name :: string
  rc_contractName :: string
  rc_address :: string

text \<open>\<open>fieldMap\<close>: the reflection over the struct yields, for the key of each JSON tag, a pointer to
  the field; writing through it is the field's update.\<close>

definition fieldMap :: "string \<Rightarrow> (address \<Rightarrow> Addresses \<Rightarrow> Addresses) option" where
  "fieldMap =
     [''FlareSystemsManager'' \<mapsto> (\<lambda>a s. s\<lparr>FlareSystemManager := a\<rparr>),
      ''Fdc2Hub'' \<mapsto> (\<lambda>a s. s\<lparr>Fdc2Hub := a\<rparr>),
      ''FlareTeeManager'' \<mapsto> (\<lambda>a s. s\<lparr>FlareTeeManager := a\<rparr>),
      ''FdcHub'' \<mapsto> (\<lambda>a s. s\<lparr>FdcHub := a\<rparr>),
      ''FdcVerification'' \<mapsto> (\<lambda>a s. s\<lparr>FdcVerification := a\<rparr>)]"

record support_lib =
  ReadFile :: "string \<Rightarrow> bytes res"
  UnmarshalAddresses :: "bytes \<Rightarrow> Addresses res"
  UnmarshalRaw :: "bytes \<Rightarrow> (RawContract list) res"
  sl_HexToAddress :: "string \<Rightarrow> address"
  HexToECDSA :: "string \<Rightarrow> address res"
  Dial :: "string \<Rightarrow> unit res"
  Bind :: "string \<Rightarrow> address \<Rightarrow> unit res"
  ClientChainID :: "int res"

definition ReadAddresses :: "support_lib \<Rightarrow> string \<Rightarrow> Addresses res" where
  "ReadAddresses lib path = res_bind (ReadFile lib path) (UnmarshalAddresses lib)"

definition fill_addresses :: "support_lib \<Rightarrow> RawContract list \<Rightarrow> Addresses \<Rightarrow> Addresses" where
  "fill_addresses lib raw addrs =
     foldl (\<lambda>s c. case fieldMap (rc_name c) of
                    Some dest \<Rightarrow> dest (sl_HexToAddress lib (rc_address c)) s
                  | None \<Rightarrow> s) addrs raw"

definition ParseAddresses :: "support_lib \<Rightarrow> string \<Rightarrow> Addresses res" where
  "ParseAddresses lib path =
     res_bind (ReadFile lib path) (\<lambda>content.
     res_bind (UnmarshalRaw lib content) (\<lambda>raw.
     Inr (fill_addresses lib raw zero_addresses)))"

section \<open>The operator's key and the bindings\<close>

text \<open>A private key is represented by the address it controls; the environment is the one after
  \<open>godotenv.Load\<close>, whose failure is only a warning.\<close>

definition DefaultPrivateKey :: "support_lib \<Rightarrow> address \<Rightarrow> env \<Rightarrow> address res" where
  "DefaultPrivateKey lib prvWithFunds getenv =
     (let s = getenv ''DEPLOYMENT_PRIVATE_KEY''
      in if s = [] then Inr prvWithFunds
         else HexToECDSA lib (if HasPrefix s ''0x'' \<or> HasPrefix s ''0X'' then drop 2 s else s))"

record Support =
  Prv :: address
  TeeMachineRegistry :: address
  TeeWalletManager :: address
  TeeWalletKeyManager :: address
  TeeWalletProjectManager :: address
  sp_FlareSystemManager :: address
  sp_Fdc2Hub :: address
  sp_FdcHub :: "address option"
  TeeVerification :: address
  TeeExtensionRegistry :: address
  sp_ChainID :: int
  TeeOwnerAllowlist :: address
  TeeExtensionGovernance :: address
  sp_Addresses :: Addresses

text \<open>The bindings in the order they are created; the first failure is returned.\<close>

fun bind_all :: "support_lib \<Rightarrow> (string \<times> address) list \<Rightarrow> unit res" where
  "bind_all lib [] = Inr ()"
| "bind_all lib ((name, a) # bs) =
     (case Bind lib name a of Inl e \<Rightarrow> Inl e | Inr _ \<Rightarrow> bind_all lib bs)"

definition support_bindings :: "Addresses \<Rightarrow> (string \<times> address) list" where
  "support_bindings addresses =
     (let diamond = FlareTeeManager addresses
      in [(''machinemanager'', diamond), (''walletmanager'', diamond), (''walletkeymanager'', diamond),
          (''walletprojectmanager'', diamond), (''system'', FlareSystemManager addresses),
          (''fdc2hub'', Fdc2Hub addresses)] @
         (if FdcHub addresses \<noteq> 0 then [(''fdchub'', FdcHub addresses)] else []) @
         [(''verification'', diamond), (''extensionmanager'', diamond), (''ownerallowlist'', diamond),
          (''extensiongovernance'', diamond)])"

definition NewSupport :: "support_lib \<Rightarrow> address \<Rightarrow> Addresses \<Rightarrow> Support res" where
  "NewSupport lib prv addresses =
     res_bind (bind_all lib (support_bindings addresses)) (\<lambda>_.
     res_bind (ClientChainID lib) (\<lambda>chainID.
     let diamond = FlareTeeManager addresses
     in Inr \<lparr>Prv = prv, TeeMachineRegistry = diamond, TeeWalletManager = diamond,
             TeeWalletKeyManager = diamond, TeeWalletProjectManager = diamond,
             sp_FlareSystemManager = FlareSystemManager addresses, sp_Fdc2Hub = Fdc2Hub addresses,
             sp_FdcHub = (if FdcHub addresses \<noteq> 0 then Some (FdcHub addresses) else None),
             TeeVerification = diamond, TeeExtensionRegistry = diamond, sp_ChainID = chainID,
             TeeOwnerAllowlist = diamond, TeeExtensionGovernance = diamond, sp_Addresses = addresses\<rparr>))"

definition DefaultSupport ::
    "support_lib \<Rightarrow> address \<Rightarrow> env \<Rightarrow> string \<Rightarrow> string \<Rightarrow> Support res" where
  "DefaultSupport lib prvWithFunds getenv addressesPath chainNodeURL =
     (let addr = (case ReadAddresses lib addressesPath of
                    Inr a \<Rightarrow> Inr a | Inl _ \<Rightarrow> ParseAddresses lib addressesPath)
      in res_bind addr (\<lambda>a.
         res_bind (Dial lib chainNodeURL) (\<lambda>_.
         res_bind (DefaultPrivateKey lib prvWithFunds getenv) (\<lambda>prv.
         NewSupport lib prv a))))"

section \<open>Waiting for a transaction\<close>

text \<open>A log of a receipt is opaque; the bindings' event parsers take it apart.\<close>

record Receipt =
  rcpt_Status :: uint64
  rcpt_TxHash :: hash
  rcpt_BlockHash :: hash
  rcpt_BlockNumber :: int
  rcpt_Logs :: "bytes list"

text \<open>The data field an RPC error may carry, as the type assertion sees it.\<close>

datatype rpc_data = NoErrorData | StringData string | BytesData bytes | OtherData

record rpc_error =
  rpc_message :: string
  rpc_data :: rpc_data

record ('w, 'tx) tx_lib =
  TxHash :: "'tx \<Rightarrow> hash"
  TxHashHex :: "hash \<Rightarrow> string"
  WaitMined :: "'tx \<Rightarrow> ('w, Receipt) io"
  TransactionByHash :: "'w \<Rightarrow> hash \<Rightarrow> 'tx res"
  TxSender :: "'tx \<Rightarrow> address res"
  CallContract :: "'w \<Rightarrow> 'tx \<Rightarrow> address \<Rightarrow> rpc_error + bytes"
  UnpackRevert :: "bytes \<Rightarrow> string option"

definition decodeRevertFromError :: "(bytes \<Rightarrow> string option) \<Rightarrow> rpc_error \<Rightarrow> string" where
  "decodeRevertFromError unpack err =
     (case rpc_data err of
        StringData s \<Rightarrow>
          (case hex_decode (TrimPrefix s ''0x'') of
             None \<Rightarrow> []
           | Some decoded \<Rightarrow> (case unpack decoded of Some reason \<Rightarrow> reason | None \<Rightarrow> []))
      | _ \<Rightarrow> [])"

definition getFailingMessage :: "('w, 'tx) tx_lib \<Rightarrow> 'w \<Rightarrow> hash \<Rightarrow> string res" where
  "getFailingMessage lib w h =
     res_bind (TransactionByHash lib w h) (\<lambda>tx.
     res_bind (TxSender lib tx) (\<lambda>sender.
     case CallContract lib w tx sender of
       Inl err \<Rightarrow>
         (let reason = decodeRevertFromError (UnpackRevert lib) err
          in Inr (if reason \<noteq> [] then reason else rpc_message err))
     | Inr out \<Rightarrow>
         (case UnpackRevert lib out of
            Some reason \<Rightarrow> Inr reason
          | None \<Rightarrow> Inr (if out \<noteq> [] then ''0x'' @ hex_encode out else ''unknown revert reason''))))"

definition CheckTx :: "('w, 'tx) tx_lib \<Rightarrow> 'tx \<Rightarrow> ('w, Receipt) io" where
  "CheckTx lib tx w =
     (case WaitMined lib tx w of
        (Inl e, w') \<Rightarrow>
          (Inl (''transaction not mined within 2 minutes (tx: '' @ TxHashHex lib (TxHash lib tx) @ ''): '' @ e), w')
      | (Inr receipt, w') \<Rightarrow>
          if rcpt_Status receipt = 0 then
            (case getFailingMessage lib w' (TxHash lib tx) of
               Inl e \<Rightarrow> (Inl e, w')
             | Inr reason \<Rightarrow> (Inl (''error: Transaction fail: '' @ reason), w'))
          else (Inr receipt, w'))"

section \<open>Lemmas\<close>

lemma CheckTx_ok:
  "CheckTx lib tx w = (Inr r, w') \<longleftrightarrow> WaitMined lib tx w = (Inr r, w') \<and> rcpt_Status r \<noteq> 0"
  by (auto simp: CheckTx_def split: prod.splits sum.splits if_splits)

lemma CheckTx_world: "snd (CheckTx lib tx w) = snd (WaitMined lib tx w)"
  by (auto simp: CheckTx_def split: prod.splits sum.splits)

lemma CheckTx_reverted:
  assumes "WaitMined lib tx w = (Inr r, w')" and "rcpt_Status r = 0"
  shows "\<exists>e. CheckTx lib tx w = (Inl e, w')"
  using assms by (auto simp: CheckTx_def split: sum.splits)

text \<open>Only a name of the table selects a field, and the update touches no other.\<close>

definition address_of :: "string \<Rightarrow> Addresses \<Rightarrow> address option" where
  "address_of name s =
     (if name = ''FlareSystemsManager'' then Some (FlareSystemManager s)
      else if name = ''Fdc2Hub'' then Some (Fdc2Hub s)
      else if name = ''FlareTeeManager'' then Some (FlareTeeManager s)
      else if name = ''FdcHub'' then Some (FdcHub s)
      else if name = ''FdcVerification'' then Some (FdcVerification s)
      else None)"

definition known_contract :: "string \<Rightarrow> bool" where
  "known_contract name \<longleftrightarrow> fieldMap name \<noteq> None"

definition put_address :: "string \<Rightarrow> address \<Rightarrow> Addresses \<Rightarrow> Addresses" where
  "put_address name a s = (case fieldMap name of Some dest \<Rightarrow> dest a s | None \<Rightarrow> s)"

lemma address_of_put:
  "address_of name' (put_address name a s) =
     (if name' = name \<and> known_contract name then Some a else address_of name' s)"
  by (auto simp: address_of_def put_address_def known_contract_def fieldMap_def)

lemma fill_addresses_put:
  "fill_addresses lib raw s =
     fold (\<lambda>(k, v). put_address k v)
       (map (\<lambda>c. (rc_name c, sl_HexToAddress lib (rc_address c))) raw) s"
  by (induction raw arbitrary: s) (auto simp: fill_addresses_def put_address_def split: option.splits)

lemma fill_addresses_lookup:
  assumes "known_contract name"
  shows "address_of name (fill_addresses lib raw s) =
    (case map_of (rev (map (\<lambda>c. (rc_name c, sl_HexToAddress lib (rc_address c))) raw)) name of
       Some a \<Rightarrow> Some a | None \<Rightarrow> address_of name s)"
proof -
  have "address_of name (fold (\<lambda>(k, v). put_address k v) kvs s) =
      (case map_of (rev kvs) name of Some a \<Rightarrow> Some a | None \<Rightarrow> address_of name s)" for kvs s
    using assms
    by (induction kvs arbitrary: s) (auto simp: address_of_put map_add_def split: option.splits)
  then show ?thesis by (simp add: fill_addresses_put)
qed

lemma bind_all_ok: "bind_all lib bs = Inr () \<longleftrightarrow> (\<forall>(n, a)\<in>set bs. Bind lib n a = Inr ())"
  by (induction bs) (auto split: sum.splits)

section \<open>Properties\<close>

text \<open>A support that \<open>DefaultSupport\<close> returns is the one the files describe: every TEE facet is
  bound to the manager diamond of the addresses file, the FDC hub exactly when the file names one,
  the key is the development key only when no key is configured, and when the file is not a plain
  JSON object each address is the one of the last entry of the contract list with that name, zero
  when no entry has it.\<close>

theorem default_support_follows_files:
  assumes "DefaultSupport lib dev getenv path url = Inr s"
  shows "(\<forall>f\<in>{TeeMachineRegistry s, TeeWalletManager s, TeeWalletKeyManager s, TeeWalletProjectManager s,
            TeeVerification s, TeeExtensionRegistry s, TeeOwnerAllowlist s, TeeExtensionGovernance s}.
            f = FlareTeeManager (sp_Addresses s)) \<and>
    (sp_FdcHub s = None \<longleftrightarrow> FdcHub (sp_Addresses s) = 0) \<and>
    ClientChainID lib = Inr (sp_ChainID s) \<and>
    (getenv ''DEPLOYMENT_PRIVATE_KEY'' = [] \<longrightarrow> Prv s = dev) \<and>
    (getenv ''DEPLOYMENT_PRIVATE_KEY'' \<noteq> [] \<longrightarrow> (\<exists>k. HexToECDSA lib k = Inr (Prv s) \<and>
        (getenv ''DEPLOYMENT_PRIVATE_KEY'' = k \<or> drop 2 (getenv ''DEPLOYMENT_PRIVATE_KEY'') = k))) \<and>
    (\<forall>e. ReadAddresses lib path = Inl e \<longrightarrow>
       (\<exists>content raw. ReadFile lib path = Inr content \<and> UnmarshalRaw lib content = Inr raw \<and>
          (\<forall>name a0. address_of name zero_addresses = Some a0 \<longrightarrow>
             address_of name (sp_Addresses s) =
               (case map_of (rev (map (\<lambda>c. (rc_name c, sl_HexToAddress lib (rc_address c))) raw)) name of
                  Some a \<Rightarrow> Some a | None \<Rightarrow> Some a0))))"
proof -
  have known: "known_contract name" if "address_of name zero_addresses = Some a0" for name a0
    using that by (auto simp: address_of_def known_contract_def fieldMap_def split: if_splits)
  show ?thesis
    using assms
    by (auto simp: DefaultSupport_def NewSupport_def DefaultPrivateKey_def ParseAddresses_def Let_def
        res_bind_Inr fill_addresses_lookup known split: sum.splits if_splits option.splits)
qed

definition demo_support_lib :: support_lib where
  "demo_support_lib =
     \<lparr>ReadFile = (\<lambda>_. Inr ''[]''), UnmarshalAddresses = (\<lambda>_. Inl ''array''),
      UnmarshalRaw = (\<lambda>_. Inr [\<lparr>rc_name = ''FdcHub'', rc_contractName = ''FdcHub.sol'', rc_address = ''1''\<rparr>,
                             \<lparr>rc_name = ''FlareTeeManager'', rc_contractName = ''Diamond.sol'', rc_address = ''22''\<rparr>,
                             \<lparr>rc_name = ''FdcHub'', rc_contractName = ''FdcHub.sol'', rc_address = ''333''\<rparr>]),
      sl_HexToAddress = (\<lambda>s. of_nat (length s)), HexToECDSA = (\<lambda>s. Inr (of_nat (length s))),
      Dial = (\<lambda>_. Inr ()), Bind = (\<lambda>_ _. Inr ()), ClientChainID = Inr 114\<rparr>"

theorem default_support_follows_files_witness:
  "\<exists>s. DefaultSupport demo_support_lib 9 (\<lambda>_. []) ''f'' ''u'' = Inr s \<and> Prv s = 9 \<and>
     sp_FdcHub s \<noteq> None \<and> TeeVerification s = FlareTeeManager (sp_Addresses s) \<and>
     address_of ''FdcHub'' (sp_Addresses s) = Some 3"
proof -
  have "\<exists>s. DefaultSupport demo_support_lib 9 (\<lambda>_. []) ''f'' ''u'' = Inr s"
    by (simp add: DefaultSupport_def ReadAddresses_def ParseAddresses_def DefaultPrivateKey_def NewSupport_def
        demo_support_lib_def support_bindings_def Let_def)
  then obtain s where s: "DefaultSupport demo_support_lib 9 (\<lambda>_. []) ''f'' ''u'' = Inr s" by blast
  have r: "ReadAddresses demo_support_lib ''f'' = Inl ''array''"
    by (simp add: ReadAddresses_def demo_support_lib_def)
  have z: "address_of ''FdcHub'' zero_addresses = Some 0"
    by (simp add: address_of_def zero_addresses_def)
  note all = default_support_follows_files [OF s]
  from all r z have hub: "address_of ''FdcHub'' (sp_Addresses s) = Some 3"
    by (fastforce simp: demo_support_lib_def)
  have rest: "Prv s = 9" "TeeVerification s = FlareTeeManager (sp_Addresses s)"
    "sp_FdcHub s = None \<longleftrightarrow> FdcHub (sp_Addresses s) = 0"
    using all by simp_all
  from hub rest(3) have "sp_FdcHub s \<noteq> None" by (auto simp: address_of_def)
  with s hub rest show ?thesis by blast
qed

end
