(* ===== verification/Payout.thy ===== *)
theory Payout
  imports Extension Support
begin

text \<open>
  \<open>go/tools/pkg/payout\<close>: reading a TEE-signed decision, settling it on chain, the FXRP token and
  the deployment of the settlement contracts.  Hashing, signature recovery, byte-to-hash
  conversions and the generated contract bindings belong to other packages and are the records
  \<open>sig_lib\<close>, \<open>token_lib\<close> and \<open>settle_chain\<close>; a transaction is sent by a function of the world.
\<close>

section \<open>actionresult.go\<close>

record sig_lib =
  ResultHash :: "ActionResult \<Rightarrow> bytes"
  BytesToHash :: "bytes \<Rightarrow> hash"
  BytesToAddress :: "bytes \<Rightarrow> address"
  PayloadHash :: "uint64 \<Rightarrow> hash \<Rightarrow> hash res"
  TextHash :: "bytes \<Rightarrow> bytes"
  SigToPub :: "bytes \<Rightarrow> bytes \<Rightarrow> bytes res"
  PubkeyToAddress :: "bytes \<Rightarrow> address"

definition SignatureLength :: nat where
  "SignatureLength = 65"

definition ActionResultSignHash :: "sig_lib \<Rightarrow> uint64 \<Rightarrow> ActionResult option \<Rightarrow> hash res" where
  "ActionResultSignHash lib chainID result =
     (case result of
        None \<Rightarrow> Inl ''action result is nil''
      | Some ar \<Rightarrow>
          map_err (\<lambda>e. ''hashing action result payload: '' @ e)
            (PayloadHash lib chainID (BytesToHash lib (ResultHash lib ar))))"

definition RecoverTeeID :: "sig_lib \<Rightarrow> uint64 \<Rightarrow> ActionResult option \<Rightarrow> bytes \<Rightarrow> address res" where
  "RecoverTeeID lib chainID result signature =
     (if length signature \<noteq> SignatureLength
      then Inl (''signature is '' @ show_nat (length signature) @ '' bytes, want '' @ show_nat SignatureLength)
      else case ActionResultSignHash lib chainID result of
        Inl e \<Rightarrow> Inl e
      | Inr signHash \<Rightarrow>
          (case SigToPub lib (TextHash lib (bytes_of_hash signHash)) signature of
             Inl e \<Rightarrow> Inl (''recovering signer: '' @ e)
           | Inr pubKey \<Rightarrow> Inr (PubkeyToAddress lib pubKey)))"

section \<open>settle.go\<close>

record ActionResponse =
  resp_Result :: ActionResult
  resp_Signature :: bytes

record Decision =
  dec_PolicyID :: hash
  dec_PayoutAmount :: int
  dec_PayoutTo :: address
  dec_InstructionID :: hash
  dec_TeeID :: address

record Settlement =
  st_Settled :: bool
  st_PayoutTo :: address
  st_Amount :: int
  st_InstructionID :: hash

definition slice :: "nat \<Rightarrow> nat \<Rightarrow> 'a list \<Rightarrow> 'a list" where
  "slice a b xs = drop a (take b xs)"

definition DecodeDecision :: "sig_lib \<Rightarrow> uint64 \<Rightarrow> ActionResponse \<Rightarrow> Decision res" where
  "DecodeDecision lib chainID response =
     (let result = resp_Result response
      in if ar_Status result \<noteq> 1
         then Inl (''action result failed (status '' @ show_nat (unat (ar_Status result)) @
                '') and carries no decision: '' @ ar_Log result)
         else if length (ar_Data result) \<noteq> 96
         then Inl (''decision payload is '' @ show_nat (length (ar_Data result)) @
                '' bytes, want 96 (bytes32, uint256, address)'')
         else case RecoverTeeID lib chainID (Some result) (resp_Signature response) of
           Inl e \<Rightarrow> Inl e
         | Inr teeID \<Rightarrow>
             Inr \<lparr>dec_PolicyID = BytesToHash lib (slice 0 32 (ar_Data result)),
                  dec_PayoutAmount = int (be_nat (slice 32 64 (ar_Data result))),
                  dec_PayoutTo = BytesToAddress lib (slice 64 96 (ar_Data result)),
                  dec_InstructionID = ar_ID result, dec_TeeID = teeID\<rparr>)"

record ('w, 'tx) settle_chain =
  Tx :: "('w, 'tx) tx_lib"
  NewTransactor :: "unit res"
  NewPolicySettlement :: "address \<Rightarrow> unit res"
  SendSettle :: "address \<Rightarrow> hash \<Rightarrow> 8 word \<Rightarrow> string \<Rightarrow> bytes \<Rightarrow> bytes \<Rightarrow> ('w, 'tx) io"
  SettlementRecord :: "'w \<Rightarrow> address \<Rightarrow> hash \<Rightarrow> (bool \<times> address \<times> int \<times> hash) res"
  DeployPolicySettlement :: "address \<Rightarrow> address \<Rightarrow> address \<Rightarrow> ('w, address \<times> 'tx) io"
  DeployFxrpPayoutExecutor :: "address \<Rightarrow> address \<Rightarrow> ('w, address \<times> 'tx) io"
  SendSetExtensionId :: "address \<Rightarrow> ('w, 'tx) io"
  SendSetPayoutExecutor :: "address \<Rightarrow> address \<Rightarrow> ('w, 'tx) io"

text \<open>\<open>big.Int.Uint64\<close> keeps the low 64 bits.\<close>

definition Uint64 :: "int \<Rightarrow> uint64" where
  "Uint64 x = of_int x"

text \<open>\<open>Settle\<close> also returns the transaction hash and the decision beside an error; the third
  component of the answer is the error.\<close>

type_synonym settle_answer = "hash \<times> Decision option \<times> string option"

definition Settle ::
    "sig_lib \<Rightarrow> ('w, 'tx) settle_chain \<Rightarrow> int \<Rightarrow> address \<Rightarrow> ActionResponse option \<Rightarrow> 'w \<Rightarrow>
     settle_answer \<times> 'w" where
  "Settle lib chain chainID settlementAddress response w =
     (case response of
        None \<Rightarrow> ((0, None, Some ''action response is nil''), w)
      | Some resp \<Rightarrow>
          (case DecodeDecision lib (Uint64 chainID) resp of
             Inl e \<Rightarrow> ((0, None, Some e), w)
           | Inr decision \<Rightarrow>
               (case NewPolicySettlement chain settlementAddress of
                  Inl e \<Rightarrow> ((0, None, Some (''binding PolicySettlement: '' @ e)), w)
                | Inr _ \<Rightarrow>
                    (case NewTransactor chain of
                       Inl e \<Rightarrow> ((0, None, Some (''creating transactor: '' @ e)), w)
                     | Inr _ \<Rightarrow>
                         (let result = resp_Result resp
                          in case SendSettle chain settlementAddress (dec_InstructionID decision)
                                    (ar_Status result) (ar_SubmissionTag result) (ar_Data result)
                                    (resp_Signature resp) w of
                               (Inl e, w') \<Rightarrow> ((0, Some decision, Some (''settle: '' @ e)), w')
                             | (Inr tx, w') \<Rightarrow>
                                 (case CheckTx (Tx chain) tx w' of
                                    (Inl e, w'') \<Rightarrow>
                                      ((TxHash (Tx chain) tx, Some decision, Some (''settle: '' @ e)), w'')
                                  | (Inr receipt, w'') \<Rightarrow>
                                      ((rcpt_TxHash receipt, Some decision, None), w'')))))))"

definition SettlementOf ::
    "('w, 'tx) settle_chain \<Rightarrow> (hash \<Rightarrow> string) \<Rightarrow> 'w \<Rightarrow> address \<Rightarrow> hash \<Rightarrow> Settlement res" where
  "SettlementOf chain hexOf w settlementAddress policyID =
     (case NewPolicySettlement chain settlementAddress of
        Inl e \<Rightarrow> Inl (''binding PolicySettlement: '' @ e)
      | Inr _ \<Rightarrow>
          (case SettlementRecord chain w settlementAddress policyID of
             Inl e \<Rightarrow> Inl (''reading settlementOf('' @ hexOf policyID @ ''): '' @ e)
           | Inr (settled, payoutTo, amount, instructionId) \<Rightarrow>
               Inr \<lparr>st_Settled = settled, st_PayoutTo = payoutTo, st_Amount = amount,
                    st_InstructionID = instructionId\<rparr>))"

section \<open>deploy.go\<close>

definition waitDeployed :: "('w, 'tx) tx_lib \<Rightarrow> 'tx \<Rightarrow> string \<Rightarrow> ('w, unit) io" where
  "waitDeployed txl tx label w =
     (case WaitMined txl tx w of
        (Inl e, w') \<Rightarrow>
          (Inl (label @ '' deployment not mined within 2m0s (tx '' @ TxHashHex txl (TxHash txl tx) @ ''): '' @ e), w')
      | (Inr receipt, w') \<Rightarrow>
          if rcpt_Status receipt \<noteq> 1
          then (Inl (label @ '' deployment reverted (tx '' @ TxHashHex txl (TxHash txl tx) @ '')''), w')
          else (Inr (), w'))"

definition DeploySettlement ::
    "('w, 'tx) settle_chain \<Rightarrow> Addresses \<Rightarrow> address \<Rightarrow> ('w, address) io" where
  "DeploySettlement chain addresses instructionSender =
     io_bind (io_wrap (\<lambda>e. ''creating transactor: '' @ e) (io_lift (NewTransactor chain))) (\<lambda>_.
     io_bind (io_wrap (\<lambda>e. ''deploying PolicySettlement: '' @ e)
       (DeployPolicySettlement chain (FlareTeeManager addresses) (FlareTeeManager addresses) instructionSender))
       (\<lambda>(address, tx).
     io_bind (waitDeployed (Tx chain) tx ''PolicySettlement'') (\<lambda>_.
     io_ret address)))"

definition DeployFxrpExecutor ::
    "('w, 'tx) settle_chain \<Rightarrow> address \<Rightarrow> address \<Rightarrow> ('w, address) io" where
  "DeployFxrpExecutor chain fxrp settlementAddress =
     io_bind (io_wrap (\<lambda>e. ''creating transactor: '' @ e) (io_lift (NewTransactor chain))) (\<lambda>_.
     io_bind (io_wrap (\<lambda>e. ''deploying FxrpPayoutExecutor: '' @ e)
       (DeployFxrpPayoutExecutor chain fxrp settlementAddress)) (\<lambda>(address, tx).
     io_bind (waitDeployed (Tx chain) tx ''FxrpPayoutExecutor'') (\<lambda>_.
     io_ret address)))"

definition SetExtensionId :: "('w, 'tx) settle_chain \<Rightarrow> address \<Rightarrow> ('w, unit) io" where
  "SetExtensionId chain contract =
     io_bind (io_wrap (\<lambda>e. ''creating transactor: '' @ e) (io_lift (NewTransactor chain))) (\<lambda>_.
     io_bind (io_wrap (\<lambda>e. ''setExtensionId: '' @ e) (SendSetExtensionId chain contract)) (\<lambda>tx.
     io_bind (io_wrap (\<lambda>e. ''setExtensionId: '' @ e) (CheckTx (Tx chain) tx)) (\<lambda>_.
     io_ret ())))"

definition SetPayoutExecutor :: "('w, 'tx) settle_chain \<Rightarrow> address \<Rightarrow> address \<Rightarrow> ('w, hash) io" where
  "SetPayoutExecutor chain contract executor =
     io_bind (io_wrap (\<lambda>e. ''creating transactor: '' @ e) (io_lift (NewTransactor chain))) (\<lambda>_.
     io_bind (io_wrap (\<lambda>e. ''setPayoutExecutor: '' @ e) (SendSetPayoutExecutor chain contract executor)) (\<lambda>tx.
     io_bind (io_wrap (\<lambda>e. ''setPayoutExecutor: '' @ e) (CheckTx (Tx chain) tx)) (\<lambda>receipt.
     io_ret (rcpt_TxHash receipt))))"

section \<open>fassets.go\<close>

definition FlareContractRegistryAddress :: string where
  "FlareContractRegistryAddress = ''0xaD67FE66660Fb8dFE9d6b1b4240d8650e30F6019''"

definition AssetManagerFXRPName :: string where
  "AssetManagerFXRPName = ''AssetManagerFXRP''"

text \<open>The read-only calls of a bound contract yield the first output value; the interface texts
  are constants the ABI package parses.\<close>

record ('w, 'tx) token_lib =
  tk_HexToAddress :: "string \<Rightarrow> address"
  tk_AddressHex :: "address \<Rightarrow> string"
  ParseRegistryABI :: "unit res"
  ParseManagerABI :: "unit res"
  ParseErc20ABI :: "unit res"
  GetContractAddressByName :: "'w \<Rightarrow> address \<Rightarrow> string \<Rightarrow> abi_value res"
  FAssetCall :: "'w \<Rightarrow> address \<Rightarrow> abi_value res"
  BalanceOfCall :: "'w \<Rightarrow> address \<Rightarrow> address \<Rightarrow> abi_value res"
  SymbolCall :: "'w \<Rightarrow> address \<Rightarrow> abi_value res"
  DecimalsCall :: "'w \<Rightarrow> address \<Rightarrow> abi_value res"
  SendTransfer :: "address \<Rightarrow> address \<Rightarrow> int \<Rightarrow> ('w, 'tx) io"
  tk_TxHash :: "'tx \<Rightarrow> hash"

definition ResolveFxrp :: "('w, 'tx) token_lib \<Rightarrow> env \<Rightarrow> 'w \<Rightarrow> address res" where
  "ResolveFxrp lib getenv w =
     (let override = getenv ''FLARE_CONTRACT_REGISTRY'';
          registryAddress = tk_HexToAddress lib
            (if override \<noteq> [] then override else FlareContractRegistryAddress)
      in case ParseRegistryABI lib of
           Inl e \<Rightarrow> Inl (''parsing contract registry ABI: '' @ e)
         | Inr _ \<Rightarrow>
             (case GetContractAddressByName lib w registryAddress AssetManagerFXRPName of
                Inl e \<Rightarrow> Inl (''resolving '' @ AssetManagerFXRPName @ '': '' @ e)
              | Inr v \<Rightarrow>
                  (let assetManager = (case v of AbiAddress a \<Rightarrow> a | _ \<Rightarrow> 0)
                   in if assetManager = 0
                      then Inl (AssetManagerFXRPName @ '' is not registered on this chain '' @ em_dash @
                                '' is the RPC pointing at a Flare network with FAssets?'')
                      else case ParseManagerABI lib of
                        Inl e \<Rightarrow> Inl (''parsing asset manager ABI: '' @ e)
                      | Inr _ \<Rightarrow>
                          (case FAssetCall lib w assetManager of
                             Inl e \<Rightarrow> Inl (''reading fAsset from '' @ tk_AddressHex lib assetManager @ '': '' @ e)
                           | Inr v' \<Rightarrow>
                               (let fAsset = (case v' of AbiAddress a \<Rightarrow> a | _ \<Rightarrow> 0)
                                in if fAsset = 0 then Inl ''asset manager reports no fAsset''
                                   else Inr fAsset)))))"

record ERC20 =
  erc_Address :: address

definition NewERC20 :: "('w, 'tx) token_lib \<Rightarrow> address \<Rightarrow> ERC20 res" where
  "NewERC20 lib a =
     (case ParseErc20ABI lib of
        Inl e \<Rightarrow> Inl (''parsing ERC-20 ABI: '' @ e) | Inr _ \<Rightarrow> Inr \<lparr>erc_Address = a\<rparr>)"

definition BalanceOf :: "('w, 'tx) token_lib \<Rightarrow> ERC20 \<Rightarrow> address \<Rightarrow> 'w \<Rightarrow> int res" where
  "BalanceOf lib t account w =
     (case BalanceOfCall lib w (erc_Address t) account of
        Inl e \<Rightarrow> Inl (''balanceOf('' @ tk_AddressHex lib account @ ''): '' @ e)
      | Inr (AbiBigInt balance) \<Rightarrow> Inr balance
      | Inr v \<Rightarrow> Inl (''balanceOf returned '' @ go_type_name v @ '', want uint256''))"

definition Metadata :: "('w, 'tx) token_lib \<Rightarrow> ERC20 \<Rightarrow> 'w \<Rightarrow> (string \<times> 8 word) res" where
  "Metadata lib t w =
     (case SymbolCall lib w (erc_Address t) of
        Inl e \<Rightarrow> Inl (''symbol(): '' @ e)
      | Inr (AbiString symbol) \<Rightarrow>
          (case DecimalsCall lib w (erc_Address t) of
             Inl e \<Rightarrow> Inl (''decimals(): '' @ e)
           | Inr (AbiUint8 decimals) \<Rightarrow> Inr (symbol, decimals)
           | Inr v \<Rightarrow> Inl (''decimals returned '' @ go_type_name v @ '', want uint8''))
      | Inr v \<Rightarrow> Inl (''symbol returned '' @ go_type_name v @ '', want string''))"

definition Transfer :: "('w, 'tx) token_lib \<Rightarrow> ERC20 \<Rightarrow> address \<Rightarrow> int \<Rightarrow> ('w, hash) io" where
  "Transfer lib t to amount =
     io_bind (io_wrap (\<lambda>e. ''transfer: '' @ e) (SendTransfer lib (erc_Address t) to amount)) (\<lambda>tx.
     io_ret (tk_TxHash lib tx))"

definition leftPad :: "string \<Rightarrow> nat \<Rightarrow> string" where
  "leftPad s width = (if length s \<ge> width then s else replicate (width - length s) (CHR ''0'') @ s)"

definition FormatUnits :: "int option \<Rightarrow> 8 word \<Rightarrow> string" where
  "FormatUnits amount decimals =
     (case amount of
        None \<Rightarrow> ''<nil>''
      | Some a \<Rightarrow>
          (let scale = 10 ^ unat decimals; (quotient, remainder) = QuoRem a scale
           in if remainder = 0 then show_int quotient
              else let fraction = TrimRightByte (leftPad (show_int remainder) (unat decimals)) (CHR ''0'')
                   in show_int quotient @ ''.'' @ fraction))"

end
