(* ===== verification/PayoutClaims.thy ===== *)
theory PayoutClaims
  imports Payout
begin

text \<open>
  What the payout package promises: nothing is sent for a decision that does not verify, the
  decision it reads is the one the enclave encoded, amounts are rendered exactly, and a failed
  transaction is never taken for a success.
\<close>

section \<open>Settling\<close>

lemma Settle_no_decision:
  assumes "DecodeDecision lib (Uint64 chainID) resp = Inl e"
  shows "Settle lib chain chainID a (Some resp) w = ((0, None, Some e), w)"
  using assms by (simp add: Settle_def)

lemma DecodeDecision_status: "DecodeDecision lib c resp = Inr d \<Longrightarrow> ar_Status (resp_Result resp) = 1"
  and DecodeDecision_length: "DecodeDecision lib c resp = Inr d \<Longrightarrow> length (ar_Data (resp_Result resp)) = 96"
  and DecodeDecision_signer: "DecodeDecision lib c resp = Inr d \<Longrightarrow>
    RecoverTeeID lib c (Some (resp_Result resp)) (resp_Signature resp) = Inr (dec_TeeID d)"
  and DecodeDecision_id: "DecodeDecision lib c resp = Inr d \<Longrightarrow> dec_InstructionID d = ar_ID (resp_Result resp)"
  by (auto simp: DecodeDecision_def Let_def split: if_splits sum.splits)

lemma Settle_decided:
  assumes d: "DecodeDecision lib (Uint64 chainID) resp = Inr d"
    and run: "Settle lib chain chainID a (Some resp) w = ((txh, dec, err), w')"
  shows "(dec = None \<and> w' = w \<and> err \<noteq> None) \<or>
    (dec = Some d \<and>
     (err = None \<longrightarrow> (\<exists>tx w1 rcpt. SendSettle chain a (ar_ID (resp_Result resp)) 1
          (ar_SubmissionTag (resp_Result resp)) (ar_Data (resp_Result resp)) (resp_Signature resp) w = (Inr tx, w1) \<and>
        WaitMined (Tx chain) tx w1 = (Inr rcpt, w') \<and> rcpt_Status rcpt \<noteq> 0 \<and> txh = rcpt_TxHash rcpt)))"
proof -
  note fs = DecodeDecision_status [OF d] DecodeDecision_id [OF d]
  show ?thesis
    using run d fs
    by (auto simp: Settle_def Let_def CheckTx_ok split: sum.splits prod.splits)
qed

section \<open>The decision and the enclave's encoding\<close>

definition standard_bytes :: "sig_lib \<Rightarrow> bool" where
  "standard_bytes lib \<longleftrightarrow>
     (\<forall>bs. length bs = 32 \<longrightarrow>
        BytesToHash lib bs = hash_of_bytes bs \<and> BytesToAddress lib bs = of_nat (be_nat bs))"

lemma DecodeEvaluateResponse_solidity:
  assumes "length bs = 96"
  shows "DecodeEvaluateResponse solidity_abi bs =
    Inr \<lparr>er_PolicyID = hash_of_bytes (take 32 bs),
         er_PayoutAmount = Some (int (be_nat (take 32 (drop 32 bs)))),
         er_PayoutTo = of_nat (be_nat (drop 64 bs))\<rparr>"
  using assms
  by (simp add: DecodeEvaluateResponse_def decodeEvaluateTuple_def evaluateTupleSize_def solidity_abi_def
      tuple_values_def)

lemma DecodeDecision_is_response:
  assumes std: "standard_bytes lib" and d: "DecodeDecision lib c resp = Inr d"
  shows "DecodeEvaluateResponse solidity_abi (ar_Data (resp_Result resp)) =
    Inr \<lparr>er_PolicyID = dec_PolicyID d, er_PayoutAmount = Some (dec_PayoutAmount d),
         er_PayoutTo = dec_PayoutTo d\<rparr>"
proof -
  let ?bs = "ar_Data (resp_Result resp)"
  have len: "length ?bs = 96" using DecodeDecision_length [OF d] .
  have sl: "slice 0 32 ?bs = take 32 ?bs" "slice 32 64 ?bs = take 32 (drop 32 ?bs)"
    "slice 64 96 ?bs = drop 64 ?bs"
    using len by (simp_all add: slice_def drop_take)
  have "dec_PolicyID d = BytesToHash lib (take 32 ?bs)"
    "dec_PayoutAmount d = int (be_nat (take 32 (drop 32 ?bs)))"
    "dec_PayoutTo d = BytesToAddress lib (drop 64 ?bs)"
    using d by (auto simp: DecodeDecision_def Let_def sl split: if_splits sum.splits)
  with std len show ?thesis
    by (simp add: DecodeEvaluateResponse_solidity standard_bytes_def)
qed

section \<open>Rendering amounts\<close>

lemma QuoRem_nonneg: "0 \<le> a \<Longrightarrow> 0 < s \<Longrightarrow> QuoRem a s = (a div s, a mod s)"
  by (cases "a = 0")
    (simp_all add: QuoRem_def signed_divide_int_def signed_modulo_int_def minus_div_mult_eq_mod)

lemma QuoRem_small_neg: "0 < n \<Longrightarrow> n < s \<Longrightarrow> QuoRem (- n) s = (0, - n)"
  by (simp add: QuoRem_def signed_divide_int_def signed_modulo_int_def)

lemma leftPad_length: "length s \<le> w \<Longrightarrow> length (leftPad s w) = w"
  by (simp add: leftPad_def)

lemma leftPad_val: "dec_val (leftPad s w) = dec_val s"
  by (simp add: leftPad_def dec_val_app dec_val_zeros)

lemma leftPad_digits: "list_all is_digit s \<Longrightarrow> list_all is_digit (leftPad s w)"
  by (auto simp: leftPad_def list_all_iff is_digit_def)

lemma set_TrimRightByte: "set (TrimRightByte s c) \<subseteq> set s"
  by (auto simp: TrimRightByte_def dest: set_dropWhileD)

lemma last_TrimRightByte: "TrimRightByte s c \<noteq> [] \<Longrightarrow> last (TrimRightByte s c) \<noteq> c"
  using hd_dropWhile [of "\<lambda>x. x = c" "rev s"] by (auto simp: TrimRightByte_def last_rev)

lemma length_TrimRightByte: "length (TrimRightByte s c) \<le> length s"
  using length_dropWhile_le [of "\<lambda>x. x = c" "rev s"] by (simp add: TrimRightByte_def)

lemma fraction_exact:
  assumes r: "0 < r" "r < 10 ^ d"
  defines "f \<equiv> TrimRightByte (leftPad (show_nat r) d) (CHR ''0'')"
  shows "list_all is_digit f" and "length f \<le> d" and "f \<noteq> []" and "last f \<noteq> CHR ''0''"
    and "dec_val f * 10 ^ (d - length f) = r"
proof -
  have "d > 0" using r by (cases d) auto
  then have len: "length (leftPad (show_nat r) d) = d"
    using show_nat_length [of d r] r by (simp add: leftPad_length)
  have dig: "list_all is_digit (leftPad (show_nat r) d)"
    by (simp add: leftPad_digits show_nat_digits)
  then show "list_all is_digit f"
    using set_TrimRightByte unfolding f_def list_all_iff by blast
  show "length f \<le> d" using length_TrimRightByte len unfolding f_def by metis
  show val: "dec_val f * 10 ^ (d - length f) = r"
    using dec_val_TrimRight_zeros [of "leftPad (show_nat r) d"] len unfolding f_def
    by (simp add: leftPad_val)
  then show "f \<noteq> []" using r by (auto simp: dec_val_def)
  then show "last f \<noteq> CHR ''0''" unfolding f_def by (rule last_TrimRightByte)
qed

section \<open>Properties\<close>

text \<open>C4. Nothing is settled without a verified decision: if the response is missing or its decision
  does not decode (status, length, signature) no transaction is sent and the world is unchanged;
  if it decodes, success means exactly one settle transaction, carrying the result's own id, status,
  tag, data and signature, was mined with a non-zero status, and its hash is the one returned.\<close>

theorem settle_only_verified_decisions:
  assumes "Settle lib chain chainID a response w = ((txh, dec, err), w')"
  shows "case response of
      None \<Rightarrow> dec = None \<and> err \<noteq> None \<and> w' = w
    | Some resp \<Rightarrow>
        (case DecodeDecision lib (Uint64 chainID) resp of
           Inl e \<Rightarrow> dec = None \<and> err = Some e \<and> w' = w
         | Inr d \<Rightarrow>
             (dec = None \<and> w' = w \<and> err \<noteq> None) \<or>
             (dec = Some d \<and>
              (err = None \<longrightarrow> (\<exists>tx w1 rcpt. SendSettle chain a (ar_ID (resp_Result resp)) 1
                   (ar_SubmissionTag (resp_Result resp)) (ar_Data (resp_Result resp)) (resp_Signature resp) w =
                   (Inr tx, w1) \<and>
                 WaitMined (Tx chain) tx w1 = (Inr rcpt, w') \<and> rcpt_Status rcpt \<noteq> 0 \<and>
                 txh = rcpt_TxHash rcpt))))"
proof (cases response)
  case None
  with assms show ?thesis by (auto simp: Settle_def)
next
  case (Some resp)
  show ?thesis
  proof (cases "DecodeDecision lib (Uint64 chainID) resp")
    case (Inl e)
    with assms Some Settle_no_decision [OF Inl, of chain a w] show ?thesis by auto
  next
    case (Inr d)
    from Settle_decided [OF Inr] assms Some have
      "(dec = None \<and> w' = w \<and> err \<noteq> None) \<or>
       (dec = Some d \<and>
         (err = None \<longrightarrow> (\<exists>tx w1 rcpt. SendSettle chain a (ar_ID (resp_Result resp)) 1
            (ar_SubmissionTag (resp_Result resp)) (ar_Data (resp_Result resp)) (resp_Signature resp) w = (Inr tx, w1) \<and>
            WaitMined (Tx chain) tx w1 = (Inr rcpt, w') \<and> rcpt_Status rcpt \<noteq> 0 \<and> txh = rcpt_TxHash rcpt)))"
      by simp
    with Some Inr show ?thesis by simp
  qed
qed

text \<open>A concrete chain: the world counts transactions, every one is mined successfully.\<close>

definition demo_sig :: sig_lib where
  "demo_sig =
     \<lparr>ResultHash = (\<lambda>ar. ar_Data ar), BytesToHash = (\<lambda>bs. hash_of_bytes bs),
      BytesToAddress = (\<lambda>bs. of_nat (be_nat bs)), PayloadHash = (\<lambda>c h. Inr (h + ucast c)),
      TextHash = (\<lambda>b. b), SigToPub = (\<lambda>h sig. Inr sig), PubkeyToAddress = (\<lambda>pk. of_nat (length pk))\<rparr>"

definition demo_tx :: "(nat, nat) tx_lib" where
  "demo_tx =
     \<lparr>TxHash = (\<lambda>t. of_nat t), TxHashHex = (\<lambda>h. ''0x''),
      WaitMined = (\<lambda>t w. (Inr \<lparr>rcpt_Status = 1, rcpt_TxHash = of_nat t, rcpt_BlockHash = 6, rcpt_BlockNumber = 5, rcpt_Logs = []\<rparr>, w)),
      TransactionByHash = (\<lambda>w h. Inl ''not found''), TxSender = (\<lambda>t. Inr 9),
      CallContract = (\<lambda>w t a. Inr []), UnpackRevert = (\<lambda>b. None)\<rparr>"

definition demo_chain :: "(nat, nat) settle_chain" where
  "demo_chain =
     \<lparr>Tx = demo_tx, NewTransactor = Inr (), NewPolicySettlement = (\<lambda>a. Inr ()),
      SendSettle = (\<lambda>a i st tag d sig w. (Inr w, w + 1)),
      SettlementRecord = (\<lambda>w a p. Inr (False, 0, 0, 0)),
      DeployPolicySettlement = (\<lambda>a b c w. (Inr (100, w), w + 1)),
      DeployFxrpPayoutExecutor = (\<lambda>a b w. (Inr (101, w), w + 1)),
      SendSetExtensionId = (\<lambda>a w. (Inr w, w + 1)),
      SendSetPayoutExecutor = (\<lambda>a e w. (Inr w, w + 1))\<rparr>"

definition demo_response :: ActionResponse where
  "demo_response =
     \<lparr>resp_Result = \<lparr>ar_ID = 4, ar_SubmissionTag = ''submit'', ar_Version = ''0.1.0'', ar_OPType = 0,
        ar_OPCommand = 0, ar_Data = tuple_bytes 7 450000 0x1234, ar_Status = 1, ar_Log = ''ok''\<rparr>,
      resp_Signature = replicate 65 (CHR 0x01)\<rparr>"

lemma demo_decision:
  "\<exists>d. DecodeDecision demo_sig c demo_response = Inr d"
  by (simp add: DecodeDecision_def demo_response_def RecoverTeeID_def SignatureLength_def
      ActionResultSignHash_def demo_sig_def Let_def)

theorem settle_only_verified_decisions_witness:
  "\<exists>txh dec err w'. Settle demo_sig demo_chain 114 3 (Some demo_response) 17 = ((txh, dec, err), w') \<and>
     err = None \<and> w' = 18 \<and> (\<exists>d. dec = Some d \<and> DecodeDecision demo_sig 114 demo_response = Inr d)"
proof -
  have u: "Uint64 114 = 114" by (simp add: Uint64_def)
  obtain d where d: "DecodeDecision demo_sig 114 demo_response = Inr d" using demo_decision by blast
  then have run: "Settle demo_sig demo_chain 114 3 (Some demo_response) 17 = ((17, Some d, None), 18)"
    by (simp add: Settle_def u demo_chain_def demo_tx_def CheckTx_def Let_def)
  from settle_only_verified_decisions [OF run] d u have "Some d = Some d" by simp
  with run d show ?thesis by auto
qed

text \<open>The relayer reads from an action result exactly the decision the response codec reads:
  when \<open>DecodeDecision\<close> accepts, the result has status 1, the signature over it recovers the
  decision's enclave, the decision answers the result's own id, and policy, amount and recipient
  are those the ABI decoding of the 96 bytes gives.\<close>

theorem decision_is_the_enclaves:
  assumes "standard_bytes lib" and "DecodeDecision lib c resp = Inr d"
  shows "ar_Status (resp_Result resp) = 1 \<and>
    RecoverTeeID lib c (Some (resp_Result resp)) (resp_Signature resp) = Inr (dec_TeeID d) \<and>
    dec_InstructionID d = ar_ID (resp_Result resp) \<and>
    DecodeEvaluateResponse solidity_abi (ar_Data (resp_Result resp)) =
      Inr \<lparr>er_PolicyID = dec_PolicyID d, er_PayoutAmount = Some (dec_PayoutAmount d),
           er_PayoutTo = dec_PayoutTo d\<rparr>"
  using DecodeDecision_is_response [OF assms] DecodeDecision_status [OF assms(2)]
    DecodeDecision_signer [OF assms(2)] DecodeDecision_id [OF assms(2)] by simp

theorem decision_is_the_enclaves_witness:
  "\<exists>d. DecodeDecision demo_sig 114 demo_response = Inr d \<and>
     DecodeEvaluateResponse solidity_abi (tuple_bytes 7 450000 0x1234) =
       Inr \<lparr>er_PolicyID = dec_PolicyID d, er_PayoutAmount = Some (dec_PayoutAmount d), er_PayoutTo = dec_PayoutTo d\<rparr>"
proof -
  obtain d where d: "DecodeDecision demo_sig 114 demo_response = Inr d" using demo_decision by blast
  have "standard_bytes demo_sig" by (simp add: standard_bytes_def demo_sig_def)
  from decision_is_the_enclaves [OF this d] d show ?thesis by (auto simp: demo_response_def)
qed

text \<open>C28. \<open>FormatUnits\<close> is exact on every non-negative amount: it prints an integer part and, unless
  the amount is whole, a point and at most \<open>decimals\<close> digits that do not end in a zero, and the
  decimal number so printed is the amount.\<close>

theorem format_units_exact:
  assumes "0 \<le> a"
  shows "\<exists>q f. FormatUnits (Some a) d = (if f = [] then q else q @ ''.'' @ f) \<and>
    list_all is_digit q \<and> list_all is_digit f \<and> length f \<le> unat d \<and>
    (f = [] \<or> last f \<noteq> CHR ''0'') \<and>
    int (dec_val q * 10 ^ unat d + dec_val f * 10 ^ (unat d - length f)) = a"
proof -
  let ?s = "10 ^ unat d :: int"
  have qr: "QuoRem a ?s = (a div ?s, a mod ?s)" using assms by (intro QuoRem_nonneg) simp_all
  have q0: "0 \<le> a div ?s" using assms by (simp add: pos_imp_zdiv_nonneg_iff)
  have q: "show_int (a div ?s) = show_nat (nat (a div ?s))" using q0 by (simp add: show_int_def)
  show ?thesis
  proof (cases "a mod ?s = 0")
    case True
    then have "a = a div ?s * ?s" by (metis add.right_neutral div_mult_mod_eq)
    with True qr q q0 show ?thesis
      by (intro exI [of _ "show_nat (nat (a div ?s))"] exI [of _ "[]"])
        (simp add: FormatUnits_def Let_def show_nat_digits dec_val_def [of "[]"])
  next
    case False
    define r where "r = nat (a mod ?s)"
    have r: "0 < r" "r < 10 ^ unat d" "int r = a mod ?s"
      using False assms unfolding r_def
      by (auto simp: nat_less_iff pos_mod_bound) (metis False less_le pos_mod_sign zero_less_numeral zero_less_power)+
    let ?f = "TrimRightByte (leftPad (show_nat r) (unat d)) (CHR ''0'')"
    note f = fraction_exact [OF r(1,2)]
    have "show_int (a mod ?s) = show_nat r" using r by (simp add: show_int_def) (metis nat_int not_less of_nat_0_le_iff)
    then have fmt: "FormatUnits (Some a) d = show_nat (nat (a div ?s)) @ ''.'' @ ?f"
      using qr q False by (simp add: FormatUnits_def Let_def)
    have "int (dec_val (show_nat (nat (a div ?s))) * 10 ^ unat d + dec_val ?f * 10 ^ (unat d - length ?f)) =
        a div ?s * ?s + int r"
      using f(5) q0 by simp
    also have "\<dots> = a" using r(3) div_mult_mod_eq [of a ?s] by simp
    finally show ?thesis
      using f fmt by (intro exI [of _ "show_nat (nat (a div ?s))"] exI [of _ ?f]) (simp add: show_nat_digits)
  qed
qed

theorem format_units_exact_witness:
  "FormatUnits (Some 1250000) 6 = ''1.25'' \<and>
   (\<exists>q f. FormatUnits (Some 1250000) 6 = (if f = [] then q else q @ ''.'' @ f) \<and>
      int (dec_val q * 10 ^ unat (6 :: 8 word) + dec_val f * 10 ^ (unat (6 :: 8 word) - length f)) = 1250000)"
proof -
  have "FormatUnits (Some 1250000) 6 = ''1.25''"
    by (simp add: FormatUnits_def QuoRem_nonneg Let_def show_int_def show_nat_eval leftPad_def TrimRightByte_def)
  moreover have "(0 :: int) \<le> 1250000" by simp
  note format_units_exact [OF this, of 6]
  ultimately show ?thesis by blast
qed

text \<open>A negative amount smaller than one unit is rendered with its sign inside the fraction, as in
  "0.0000-5" for -5 base units of a six-decimal token.\<close>

theorem format_units_negative_fraction:
  "FormatUnits (Some (- 5)) 6 = ''0.0000-5'' \<and>
   (\<forall>n>0. \<forall>d. n < 10 ^ unat d \<longrightarrow>
      FormatUnits (Some (- n)) d = ''0.'' @ TrimRightByte (leftPad (''-'' @ show_nat (nat n)) (unat d)) (CHR ''0''))"
proof
  have general: "FormatUnits (Some (- n)) d =
      ''0.'' @ TrimRightByte (leftPad (''-'' @ show_nat (nat n)) (unat d)) (CHR ''0'')"
    if "n > 0" "n < 10 ^ unat d" for n d
    using that QuoRem_small_neg [of n "10 ^ unat d"]
    by (simp add: FormatUnits_def Let_def show_int_def show_nat_eval)
  then show "\<forall>n>0. \<forall>d. n < 10 ^ unat d \<longrightarrow> FormatUnits (Some (- n)) d =
      ''0.'' @ TrimRightByte (leftPad (''-'' @ show_nat (nat n)) (unat d)) (CHR ''0'')" by blast
  show "FormatUnits (Some (- 5)) 6 = ''0.0000-5''"
    using general [of 5 6]
    by (simp add: leftPad_def TrimRightByte_def show_nat_eval replicate_numeral)
qed

theorem format_units_negative_fraction_witness:
  "FormatUnits (Some (- 120)) 3 = ''0.-12''"
  using format_units_negative_fraction
  by (simp add: leftPad_def TrimRightByte_def show_nat_eval)

text \<open>\<open>SetExtensionId\<close> does not tolerate a contract that refuses the call: when the transaction is
  mined but reverted, as the contract does when the id is already set, it returns an error.\<close>

theorem set_extension_id_reports_revert:
  assumes "NewTransactor chain = Inr ()" and "SendSetExtensionId chain contract w = (Inr tx, w1)"
    and "WaitMined (Tx chain) tx w1 = (Inr rcpt, w2)" and "rcpt_Status rcpt = 0"
  shows "\<exists>e. SetExtensionId chain contract w = (Inl (''setExtensionId: '' @ e), w2)"
  using CheckTx_reverted [OF assms(3,4)] assms(1,2)
  by (auto simp: SetExtensionId_def io_simps)

theorem set_extension_id_reports_revert_witness:
  "\<exists>e. SetExtensionId (demo_chain\<lparr>Tx := demo_tx\<lparr>WaitMined := (\<lambda>t w.
       (Inr \<lparr>rcpt_Status = 0, rcpt_TxHash = of_nat t, rcpt_BlockHash = 6, rcpt_BlockNumber = 5, rcpt_Logs = []\<rparr>, w))\<rparr>\<rparr>) 3 17 =
     (Inl (''setExtensionId: '' @ e), 18)"
  by (rule set_extension_id_reports_revert [where tx = 17 and ?w1.0 = 18 and
        rcpt = "\<lparr>rcpt_Status = 0, rcpt_TxHash = 17, rcpt_BlockHash = 6, rcpt_BlockNumber = 5, rcpt_Logs = []\<rparr>"])
    (simp_all add: demo_chain_def demo_tx_def)

end
