(* ===== verification/TeeCalls.thy ===== *)
theory TeeCalls
  imports Payout
begin

text \<open>
  \<open>go/tools/pkg/fccutils\<close>: the HTTP calls to a TEE node (\<open>tee_calls.go\<close>), the identity and code
  checks (\<open>common.go\<close>, \<open>encoding.go\<close>), the signing-policy gate (\<open>policy_consistency.go\<close>) and the
  governance registration (\<open>governance.go\<close>).  A GET or POST may change the world (time passes, the
  node acts); the JSON bodies and the decoders of the tee-node types are parameters.
\<close>

section \<open>Polling\<close>

text \<open>Up to \<open>n\<close> attempts; an attempt that satisfies \<open>stop\<close> ends the loop, any other is followed by
  a pause; the result is the last attempt's.\<close>

primrec attempts :: "nat \<Rightarrow> ('w \<Rightarrow> 'r \<times> 'w) \<Rightarrow> ('w \<Rightarrow> 'w) \<Rightarrow> ('r \<Rightarrow> bool) \<Rightarrow> 'r \<Rightarrow> 'w \<Rightarrow> 'r \<times> 'w" where
  "attempts 0 f pause stop r w = (r, w)"
| "attempts (Suc n) f pause stop r w =
     (case f w of (r', w') \<Rightarrow> if stop r' then (r', w') else attempts n f pause stop r' (pause w'))"

text \<open>The world before the k-th attempt, when none has stopped the loop.\<close>

primrec world_at :: "nat \<Rightarrow> ('w \<Rightarrow> 'r \<times> 'w) \<Rightarrow> ('w \<Rightarrow> 'w) \<Rightarrow> 'w \<Rightarrow> 'w" where
  "world_at 0 f pause w = w"
| "world_at (Suc k) f pause w = world_at k f pause (pause (snd (f w)))"

lemma attempts_stops:
  assumes "k < n" and "stop (fst (f (world_at k f pause w)))"
    and "\<forall>j<k. \<not> stop (fst (f (world_at j f pause w)))"
  shows "attempts n f pause stop r w = f (world_at k f pause w)"
  using assms
proof (induction n arbitrary: k r w)
  case (Suc n)
  show ?case
  proof (cases k)
    case 0
    with Suc.prems show ?thesis by (auto split: prod.splits)
  next
    case (Suc k')
    have "\<not> stop (fst (f w))" using Suc.prems(3) Suc by force
    moreover have "attempts n f pause stop (fst (f w)) (pause (snd (f w))) =
        f (world_at k' f pause (pause (snd (f w))))"
      using Suc.prems Suc by (intro Suc.IH) (auto dest: spec [of _ "Suc _"])
    ultimately show ?thesis using Suc by (simp add: case_prod_beta)
  qed
qed simp

lemma attempts_exhausted:
  assumes "\<forall>j<n. \<not> stop (fst (f (world_at j f pause w)))" and "\<not> stop r"
  shows "\<not> stop (fst (attempts n f pause stop r w))"
  using assms
proof (induction n arbitrary: r w)
  case (Suc n)
  have "\<not> stop (fst (f w))" using Suc.prems(1) by force
  moreover from this have "\<not> stop (fst (attempts n f pause stop (fst (f w)) (pause (snd (f w)))))"
    using Suc.prems(1) by (intro Suc.IH) auto
  ultimately show ?case by (simp add: case_prod_beta)
qed simp

section \<open>tee\_calls.go\<close>

record MachineData =
  md_ExtensionID :: hash
  md_InitialOwner :: address
  md_CodeHash :: hash
  md_Platform :: hash
  md_X :: hash
  md_Y :: hash
  md_GovernanceHash :: hash

record SignedTeeInfo =
  ti_PublicKey :: bytes
  ti_ChainID :: uint64
  ti_LastSigningPolicyID :: "32 word"
  ti_ProxySignature :: bytes
  ti_DataSignature :: bytes
  ti_MachineData :: MachineData
  ti_Attestation :: string

record 'w tee_http =
  Get :: "string \<Rightarrow> ('w, int \<times> bytes) io"
  Post :: "string \<Rightarrow> bytes \<Rightarrow> ('w, int \<times> bytes) io"
  Sleep :: "'w \<Rightarrow> 'w"
  DecodeTeeInfo :: "bytes \<Rightarrow> SignedTeeInfo res"
  DecodeActionResponse :: "bytes \<Rightarrow> ActionResponse res"
  ProxyURLBody :: "string \<Rightarrow> bytes res"
  InitialOwnerBody :: "address \<Rightarrow> bytes res"
  ExtensionIDBody :: "hash \<Rightarrow> bytes res"
  th_HashHex :: "hash \<Rightarrow> string"

definition repeats :: nat where
  "repeats = 15"

definition TeeInfo :: "'w tee_http \<Rightarrow> string \<Rightarrow> ('w, SignedTeeInfo) io" where
  "TeeInfo http nodeURL =
     io_bind (Get http (nodeURL @ ''/info'')) (\<lambda>(code, body). io_lift (DecodeTeeInfo http body))"

definition ok_response :: "(int \<times> bytes) res \<Rightarrow> bool" where
  "ok_response r \<longleftrightarrow> (case r of Inl _ \<Rightarrow> False | Inr (code, _) \<Rightarrow> code = 200)"

definition action_url :: "'w tee_http \<Rightarrow> string \<Rightarrow> hash \<Rightarrow> string" where
  "action_url http nodeURL actionID = nodeURL @ ''/action/result/'' @ th_HashHex http actionID"

definition ActionResult_poll :: "'w tee_http \<Rightarrow> string \<Rightarrow> hash \<Rightarrow> ('w, ActionResponse) io" where
  "ActionResult_poll http nodeURL actionID w =
     (case attempts repeats (Get http (action_url http nodeURL actionID)) (Sleep http) ok_response (Inl []) w of
        (Inl e, w') \<Rightarrow> (Inl e, w')
      | (Inr (code, body), w') \<Rightarrow>
          if code \<noteq> 200 then (Inl (''action result status not ok, got: '' @ show_int code), w')
          else (DecodeActionResponse http body, w'))"

definition post_config :: "'w tee_http \<Rightarrow> string \<Rightarrow> bytes res \<Rightarrow> ('w, unit) io" where
  "post_config http url body =
     io_bind (io_lift body) (\<lambda>b.
     io_bind (Post http url b) (\<lambda>(code, _).
     if code \<noteq> 200 then io_fail (''unexpected status code: '' @ show_int code) else io_ret ()))"

definition SetProxyUrl :: "'w tee_http \<Rightarrow> int \<Rightarrow> int \<Rightarrow> ('w, unit) io" where
  "SetProxyUrl http configurationPort proxyPort =
     post_config http (''http://localhost:'' @ show_int configurationPort @ ''/proxy'')
       (ProxyURLBody http (''http://localhost:'' @ show_int proxyPort))"

definition SetInitialOwner :: "'w tee_http \<Rightarrow> int \<Rightarrow> address \<Rightarrow> ('w, unit) io" where
  "SetInitialOwner http configurationPort owner =
     post_config http (''http://localhost:'' @ show_int configurationPort @ ''/initial-owner'')
       (InitialOwnerBody http owner)"

definition SetExtensionID_node :: "'w tee_http \<Rightarrow> int \<Rightarrow> hash \<Rightarrow> ('w, unit) io" where
  "SetExtensionID_node http configurationPort extensionID =
     post_config http (''http://localhost:'' @ show_int configurationPort @ ''/extension-id'')
       (ExtensionIDBody http extensionID)"

record tee_crypto =
  ParseClaims :: "string \<Rightarrow> bytes res"
  ClaimsCodeHash :: "bytes \<Rightarrow> hash res"
  ClaimsPlatform :: "bytes \<Rightarrow> hash res"
  ParsePubKey :: "bytes \<Rightarrow> bytes res"
  TeeInfoHash :: "SignedTeeInfo \<Rightarrow> bytes res"
  ProxyInfoPayloadHash :: "uint64 \<Rightarrow> hash \<Rightarrow> hash res"
  GovernanceHash :: "address list \<Rightarrow> uint64 \<Rightarrow> hash res"

definition CodeHashAndPlatform :: "tee_crypto \<Rightarrow> string \<Rightarrow> (hash \<times> hash) res" where
  "CodeHashAndPlatform cr attestation =
     res_bind (ParseClaims cr attestation) (\<lambda>claims.
     res_bind (ClaimsCodeHash cr claims) (\<lambda>codeHash.
     res_bind (ClaimsPlatform cr claims) (\<lambda>platform.
     Inr (codeHash, platform))))"

text \<open>The proxy is recovered over the domain-separated hash bound to the info's chain id.\<close>

definition TeeProxyId :: "tee_crypto \<Rightarrow> sig_lib \<Rightarrow> SignedTeeInfo \<Rightarrow> (address \<times> address) res" where
  "TeeProxyId cr sig info =
     res_bind (ParsePubKey cr (ti_PublicKey info)) (\<lambda>pubKey.
     res_bind (TeeInfoHash cr info) (\<lambda>h.
     res_bind (ProxyInfoPayloadHash cr (ti_ChainID info) (BytesToHash sig h)) (\<lambda>infoSignHash.
     res_bind (SigToPub sig (TextHash sig (bytes_of_hash infoSignHash)) (ti_ProxySignature info)) (\<lambda>proxyPubKey.
     Inr (PubkeyToAddress sig pubKey, PubkeyToAddress sig proxyPubKey)))))"

section \<open>common.go\<close>

definition GetTeeProxyID ::
    "'w tee_http \<Rightarrow> tee_crypto \<Rightarrow> sig_lib \<Rightarrow> string \<Rightarrow> ('w, address \<times> address) io" where
  "GetTeeProxyID http cr sig proxyURL =
     io_bind (TeeInfo http proxyURL) (\<lambda>info. io_lift (TeeProxyId cr sig info))"

text \<open>The two constants of \<open>encoding.go\<close>: the ASCII text padded to 32 bytes, and the test code hash.\<close>

definition TestPlatform :: hash where
  "TestPlatform = 0x544553545f504c4154464f524d00000000000000000000000000000000000000"

definition TeeCodeHash :: hash where
  "TeeCodeHash = 0x194844cf417dde867073e5ab7199fa4d21fd82b5dbe2bdea8b3d7fc18d10fdc2"

definition GetCodeHashAndPlatform ::
    "tee_crypto \<Rightarrow> (hash \<Rightarrow> string) \<Rightarrow> env \<Rightarrow> SignedTeeInfo \<Rightarrow> (hash \<times> hash) res" where
  "GetCodeHashAndPlatform cr hashText getenv info =
     (let measured = (if getenv ''SIMULATED_TEE'' = ''true'' then Inr (TeeCodeHash, TestPlatform)
                      else CodeHashAndPlatform cr (ti_Attestation info));
          md = ti_MachineData info
      in res_bind measured (\<lambda>(codeHash, platform).
           if codeHash \<noteq> md_CodeHash md
           then Inl (''code hashes do not match: '' @ hashText codeHash @ '', '' @ hashText (md_CodeHash md))
           else if platform \<noteq> md_Platform md
           then Inl (''platforms do not matc: '' @ hashText platform @ '', '' @ hashText (md_Platform md))
           else Inr (codeHash, platform)))"

section \<open>policy\_consistency.go\<close>

definition policyInSync :: "uint64 \<Rightarrow> uint64 \<Rightarrow> bool" where
  "policyInSync onchainEpoch proxyPolicyID \<longleftrightarrow>
     proxyPolicyID = onchainEpoch \<or> proxyPolicyID = onchainEpoch + 1"

definition outOfSyncError :: "uint64 \<Rightarrow> uint64 \<Rightarrow> string" where
  "outOfSyncError onchainEpoch proxyPolicyID =
     (let rel = (if proxyPolicyID < onchainEpoch
                 then ''proxy is '' @ show_nat (unat (onchainEpoch - proxyPolicyID)) @ '' epoch(s) behind''
                 else ''proxy is '' @ show_nat (unat (proxyPolicyID - onchainEpoch)) @ '' epoch(s) ahead'')
      in ''FTDC proxy signing policy out of sync with on-chain reward epoch'' @
         '': proxy signing policy '' @ show_nat (unat proxyPolicyID) @
         '' vs on-chain current reward epoch '' @ show_nat (unat onchainEpoch) @ '' ('' @ rel @ ''); '' @
         ''data providers will reject the availability check with 404 \"no round\"; '' @
         ''wait for the proxy to catch up to the current signing policy, or check the proxy'' @ [CHR 0x27] @ ''s '' @
         ''initial_signing_policy_offset and C-chain indexer sync'')"

text \<open>\<open>rewardEpoch\<close> is the on-chain read: an error, nil, or the current epoch.\<close>

definition CheckFTDCProxyPolicyConsistency ::
    "'w tee_http \<Rightarrow> ('w \<Rightarrow> (int option) res) \<Rightarrow> string \<Rightarrow> ('w, unit) io" where
  "CheckFTDCProxyPolicyConsistency http rewardEpoch ftdcProxyURL w =
     (case rewardEpoch w of
        Inl _ \<Rightarrow> (Inr (), w)
      | Inr None \<Rightarrow> (Inr (), w)
      | Inr (Some onchain) \<Rightarrow>
          (case TeeInfo http ftdcProxyURL w of
             (Inl _, w') \<Rightarrow> (Inr (), w')
           | (Inr info, w') \<Rightarrow>
               (let onchainEpoch = Uint64 onchain; proxyPolicyID = ucast (ti_LastSigningPolicyID info)
                in if \<not> policyInSync onchainEpoch proxyPolicyID
                   then (Inl (outOfSyncError onchainEpoch proxyPolicyID), w')
                   else (Inr (), w'))))"

section \<open>governance.go\<close>

record ('w, 'tx) governance_chain =
  gv_Tx :: "('w, 'tx) tx_lib"
  gv_Transactor :: "unit res"
  LatestTeeGovernanceHash :: "'w \<Rightarrow> int \<Rightarrow> hash res"
  SendSetNewTeeGovernance :: "int \<Rightarrow> address list \<Rightarrow> uint64 \<Rightarrow> ('w, 'tx) io"

definition SetTeeGovernance ::
    "tee_crypto \<Rightarrow> ('w, 'tx) governance_chain \<Rightarrow> int \<Rightarrow> address list \<Rightarrow> uint64 \<Rightarrow> ('w, unit) io" where
  "SetTeeGovernance cr chain extensionId signers threshold w =
     (if length signers = 0
      then (Inl ''at least one governance signer is required (set GOVERNANCE_SIGNERS)'', w)
      else if threshold = 0 \<or> threshold > of_nat (length signers)
      then (Inl (''invalid GOVERNANCE_THRESHOLD '' @ show_nat (unat threshold) @ '' for '' @
                 show_nat (length signers) @ '' signer(s)''), w)
      else case GovernanceHash cr signers threshold of
        Inl e \<Rightarrow> (Inl (''computing governance hash: '' @ e), w)
      | Inr desiredHash \<Rightarrow>
          if LatestTeeGovernanceHash chain w extensionId = Inr desiredHash then (Inr (), w)
          else
            io_bind (io_lift (gv_Transactor chain)) (\<lambda>_.
            io_bind (io_wrap (\<lambda>e. ''SetNewTeeGovernance failed: '' @ e)
              (SendSetNewTeeGovernance chain extensionId signers threshold)) (\<lambda>tx.
            io_bind (CheckTx (gv_Tx chain) tx) (\<lambda>_. io_ret ()))) w)"

section \<open>Lemmas\<close>

lemma TeeProxyId_ok:
  "TeeProxyId cr sig info = Inr (tee, proxy) \<longleftrightarrow>
     (\<exists>pk h ph ppk. ParsePubKey cr (ti_PublicKey info) = Inr pk \<and> tee = PubkeyToAddress sig pk \<and>
        TeeInfoHash cr info = Inr h \<and>
        ProxyInfoPayloadHash cr (ti_ChainID info) (BytesToHash sig h) = Inr ph \<and>
        SigToPub sig (TextHash sig (bytes_of_hash ph)) (ti_ProxySignature info) = Inr ppk \<and>
        proxy = PubkeyToAddress sig ppk)"
  by (auto simp: TeeProxyId_def res_bind_Inr)

lemma GetCodeHashAndPlatform_ok:
  "GetCodeHashAndPlatform cr ht getenv info = Inr (c, p) \<Longrightarrow>
     c = md_CodeHash (ti_MachineData info) \<and> p = md_Platform (ti_MachineData info)"
  by (auto simp: GetCodeHashAndPlatform_def Let_def res_bind_Inr split: if_splits prod.splits)

lemma uint64_of_policy_id: "unat (ucast (p :: 32 word) :: uint64) = unat p"
  by (simp add: unsigned_ucast_eq take_bit_nat_eq_self order.strict_trans [OF unsigned_less])

lemma policyInSync_nat:
  assumes "e \<noteq> - 1"
  shows "policyInSync e p \<longleftrightarrow> unat p = unat e \<or> unat p = unat e + 1"
proof -
  have "unat (e + 1) = unat e + 1" using assms by (metis unatSuc add.commute plus_1_eq_Suc add_eq_0_iff)
  then show ?thesis unfolding policyInSync_def by (metis word_unat_eq_iff)
qed

text \<open>A concrete node that answers from the third request on, and a chain that mines everything.\<close>

definition demo_info :: SignedTeeInfo where
  "demo_info =
     \<lparr>ti_PublicKey = ''pk'', ti_ChainID = 114, ti_LastSigningPolicyID = 4, ti_ProxySignature = ''sig'',
      ti_DataSignature = replicate 65 (CHR 0x01),
      ti_MachineData = \<lparr>md_ExtensionID = 2, md_InitialOwner = 9, md_CodeHash = TeeCodeHash,
        md_Platform = TestPlatform, md_X = 1, md_Y = 2, md_GovernanceHash = 3\<rparr>,
      ti_Attestation = ''token''\<rparr>"

definition demo_http :: "nat tee_http" where
  "demo_http =
     \<lparr>Get = (\<lambda>url w. (if w < 2 then Inr (503, []) else Inr (200, ''body''), w)),
      Post = (\<lambda>url b w. (Inr (200, []), w)), Sleep = Suc,
      DecodeTeeInfo = (\<lambda>b. Inr demo_info), DecodeActionResponse = (\<lambda>b. Inr \<lparr>resp_Result = buildResult \<lparr>act_Data = \<lparr>ad_ID = 4, ad_SubmissionTag = [], ad_Message = []\<rparr>\<rparr>
        \<lparr>df_OPType = 0, df_OPCommand = 0, df_OriginalMessage = []\<rparr> [] 1 [], resp_Signature = []\<rparr>),
      ProxyURLBody = (\<lambda>u. Inr u), InitialOwnerBody = (\<lambda>a. Inr []), ExtensionIDBody = (\<lambda>h. Inr []),
      th_HashHex = (\<lambda>h. ''0x'')\<rparr>"

definition demo_crypto :: tee_crypto where
  "demo_crypto =
     \<lparr>ParseClaims = (\<lambda>s. Inl ''no token''), ClaimsCodeHash = (\<lambda>c. Inr 0), ClaimsPlatform = (\<lambda>c. Inr 0),
      ParsePubKey = (\<lambda>p. Inr p), TeeInfoHash = (\<lambda>i. Inr []), ProxyInfoPayloadHash = (\<lambda>c h. Inr h),
      GovernanceHash = (\<lambda>ss t. Inr (of_nat (length ss) + ucast t))\<rparr>"

definition demo_governance :: "(nat, nat) governance_chain" where
  "demo_governance =
     \<lparr>gv_Tx = \<lparr>TxHash = (\<lambda>t. of_nat t), TxHashHex = (\<lambda>h. ''0x''),
        WaitMined = (\<lambda>t w. (Inr \<lparr>rcpt_Status = 1, rcpt_TxHash = of_nat t, rcpt_BlockHash = 6, rcpt_BlockNumber = 5, rcpt_Logs = []\<rparr>, w)),
        TransactionByHash = (\<lambda>w h. Inl ''not found''), TxSender = (\<lambda>t. Inr 9),
        CallContract = (\<lambda>w t a. Inr []), UnpackRevert = (\<lambda>b. None)\<rparr>,
      gv_Transactor = Inr (), LatestTeeGovernanceHash = (\<lambda>w e. Inr (of_nat w)),
      SendSetNewTeeGovernance = (\<lambda>e ss t w. (Inr w, 100))\<rparr>"

section \<open>Properties\<close>

text \<open>C29. \<open>ActionResult\<close> makes at most fifteen requests: it returns the decoded body of the first
  attempt that is answered 200, made after a pause for each failed one before it; if none of the
  fifteen is, it fails.\<close>

theorem action_result_first_success:
  "let f = Get http (action_url http nodeURL actionID); before = (\<lambda>k. world_at k f (Sleep http) w)
   in (\<forall>k body w'. k < 15 \<and> (\<forall>j<k. \<not> ok_response (fst (f (before j)))) \<and>
         f (before k) = (Inr (200, body), w') \<longrightarrow>
           ActionResult_poll http nodeURL actionID w = (DecodeActionResponse http body, w')) \<and>
      ((\<forall>j<15. \<not> ok_response (fst (f (before j)))) \<longrightarrow>
           (\<exists>e. fst (ActionResult_poll http nodeURL actionID w) = Inl e))"
proof -
  let ?f = "Get http (action_url http nodeURL actionID)"
  let ?b = "\<lambda>k. world_at k ?f (Sleep http) w"
  have stops: "ActionResult_poll http nodeURL actionID w = (DecodeActionResponse http body, w')"
    if "k < 15" "\<forall>j<k. \<not> ok_response (fst (?f (?b j)))" "?f (?b k) = (Inr (200, body), w')" for k body w'
  proof -
    have "attempts repeats ?f (Sleep http) ok_response (Inl []) w = ?f (?b k)"
      using that by (intro attempts_stops) (auto simp: repeats_def ok_response_def)
    with that(3) show ?thesis by (simp add: ActionResult_poll_def)
  qed
  have fails: "\<exists>e. fst (ActionResult_poll http nodeURL actionID w) = Inl e"
    if "\<forall>j<15. \<not> ok_response (fst (?f (?b j)))"
  proof -
    have "\<forall>j<repeats. \<not> ok_response (fst (?f (?b j)))" using that by (simp only: repeats_def)
    moreover have "\<not> ok_response (Inl [])" by (simp add: ok_response_def)
    ultimately have "\<not> ok_response (fst (attempts repeats ?f (Sleep http) ok_response (Inl []) w))"
      by (rule attempts_exhausted)
    moreover obtain r w' where r: "attempts repeats ?f (Sleep http) ok_response (Inl []) w = (r, w')"
      by (metis surj_pair)
    ultimately have "\<not> ok_response r" by simp
    then consider e where "r = Inl e" | code body where "r = Inr (code, body)" "code \<noteq> 200"
      by (cases r) (auto simp: ok_response_def)
    then show ?thesis using r by cases (simp_all add: ActionResult_poll_def)
  qed
  show ?thesis unfolding Let_def using stops fails by blast
qed

theorem action_result_first_success_witness:
  "ActionResult_poll demo_http [] 4 0 = (DecodeActionResponse demo_http ''body'', 2)"
proof -
  have "(\<forall>j<2. \<not> ok_response (fst (Get demo_http u (world_at j (Get demo_http u) (Sleep demo_http) 0)))) \<and>
      Get demo_http u (world_at 2 (Get demo_http u) (Sleep demo_http) 0) = (Inr (200, ''body''), 2)" for u
    by (auto simp: demo_http_def ok_response_def numeral_eq_Suc less_Suc_eq)
  moreover have "(2 :: nat) < 15" by simp
  ultimately show ?thesis
    using action_result_first_success [of demo_http "[]" 4 0] unfolding Let_def by blast
qed

text \<open>C30. The policy gate blocks a registration only on a confirmed mismatch: it fails exactly when the
  epoch was read, the proxy's info was fetched and the proxy's policy id is neither the epoch nor
  the one after it (as numbers, for every epoch below the last 64-bit value).\<close>

theorem policy_gate_blocks_only_mismatch:
  assumes "\<And>e. rewardEpoch w = Inr (Some e) \<Longrightarrow> 0 \<le> e \<and> e < 2 ^ 64 - 1"
  shows "is_ok (fst (CheckFTDCProxyPolicyConsistency http rewardEpoch url w)) \<longleftrightarrow>
    \<not> (\<exists>e info. rewardEpoch w = Inr (Some e) \<and> fst (TeeInfo http url w) = Inr info \<and>
         unat (ti_LastSigningPolicyID info) \<noteq> nat e \<and> unat (ti_LastSigningPolicyID info) \<noteq> nat e + 1)"
proof -
  have sync: "policyInSync (Uint64 e) (ucast p) \<longleftrightarrow> unat p = nat e \<or> unat p = nat e + 1"
    if "rewardEpoch w = Inr (Some e)" for e and p :: "32 word"
  proof -
    have e: "0 \<le> e" "e < 2 ^ 64 - 1" using assms [OF that] by auto
    then have u: "unat (Uint64 e) = nat e"
      by (simp add: Uint64_def unat_eq_nat_uint uint_word_of_int)
    have "Uint64 e \<noteq> - 1"
    proof
      assume "Uint64 e = - 1"
      then have "nat e = unat (- 1 :: uint64)" using u by simp
      with e show False by (simp add: unat_eq_nat_uint uint_word_ariths mask_eq_exp_minus_1 flip: uint_nat)
    qed
    with u show ?thesis by (simp add: policyInSync_nat uint64_of_policy_id)
  qed
  show ?thesis
    using sync
    by (auto simp: CheckFTDCProxyPolicyConsistency_def Let_def split: sum.splits option.splits prod.splits)
qed

theorem policy_gate_blocks_only_mismatch_witness:
  "\<not> is_ok (fst (CheckFTDCProxyPolicyConsistency demo_http (\<lambda>_. Inr (Some 6)) ''proxy'' 2)) \<and>
   is_ok (fst (CheckFTDCProxyPolicyConsistency demo_http (\<lambda>_. Inr (Some 3)) ''proxy'' 2))"
  using policy_gate_blocks_only_mismatch [of "\<lambda>_. Inr (Some 6)" 2 demo_http "''proxy''"]
    policy_gate_blocks_only_mismatch [of "\<lambda>_. Inr (Some 3)" 2 demo_http "''proxy''"]
  by (simp add: TeeInfo_def demo_http_def io_simps demo_info_def)

text \<open>\<open>SetTeeGovernance\<close> never sends a transaction for an empty signer set, a zero threshold, a
  threshold above the number of signers, or a governance that is already the latest on chain; and
  when it succeeds without sending, the latest hash on chain is the one of the given signers and
  threshold, otherwise one transaction with exactly these arguments was mined.\<close>

theorem governance_is_idempotent:
  assumes len: "length signers < 2 ^ 64"
  shows "(signers = [] \<or> threshold = 0 \<or> length signers < unat threshold \<longrightarrow>
      (\<exists>e. SetTeeGovernance cr chain ext signers threshold w = (Inl e, w))) \<and>
    (GovernanceHash cr signers threshold = Inr h \<and> LatestTeeGovernanceHash chain w ext = Inr h \<longrightarrow>
      snd (SetTeeGovernance cr chain ext signers threshold w) = w) \<and>
    (\<forall>w'. SetTeeGovernance cr chain ext signers threshold w = (Inr (), w') \<longrightarrow>
      signers \<noteq> [] \<and> 0 < unat threshold \<and> unat threshold \<le> length signers \<and>
      (\<exists>d. GovernanceHash cr signers threshold = Inr d \<and>
        (LatestTeeGovernanceHash chain w ext = Inr d \<and> w' = w \<or>
         (\<exists>tx w1 rcpt. SendSetNewTeeGovernance chain ext signers threshold w = (Inr tx, w1) \<and>
            WaitMined (gv_Tx chain) tx w1 = (Inr rcpt, w') \<and> rcpt_Status rcpt \<noteq> 0))))"
proof -
  have cmp: "threshold > of_nat (length signers) \<longleftrightarrow> unat threshold > length signers"
    using len by (simp add: word_less_nat_alt unat_of_nat take_bit_nat_eq_self)
  have pos: "threshold = 0 \<longleftrightarrow> unat threshold = 0" by (simp add: unat_eq_0)
  show ?thesis
    unfolding SetTeeGovernance_def
    using cmp pos
    by (auto simp: io_ok CheckTx_ok split: sum.splits if_splits)
qed

theorem governance_is_idempotent_witness:
  "snd (SetTeeGovernance demo_crypto demo_governance 2 [1, 2] 2 4) = 4 \<and>
   SetTeeGovernance demo_crypto demo_governance 2 [1, 2] 2 5 = (Inr (), 100) \<and>
   (\<exists>e. SetTeeGovernance demo_crypto demo_governance 2 [1] 2 5 = (Inl e, 5))"
proof -
  have "length [1 :: address, 2] < 2 ^ 64" "length [1 :: address] < 2 ^ 64" by simp_all
  note one = governance_is_idempotent [OF this(1), of 2 demo_crypto demo_governance 2 4 4]
  note two = governance_is_idempotent [OF \<open>length [1 :: address] < 2 ^ 64\<close>, of 2 demo_crypto demo_governance 2 5 4]
  have "SetTeeGovernance demo_crypto demo_governance 2 [1, 2] 2 5 = (Inr (), 100)"
    by (simp add: SetTeeGovernance_def demo_crypto_def demo_governance_def io_simps CheckTx_def)
  with one two show ?thesis
    by (simp add: demo_crypto_def demo_governance_def)
qed

end
