(* ===== verification/Registration.thy ===== *)
theory Registration
  imports TeeCalls
begin

text \<open>
  \<open>go/tools/pkg/fccutils/registration.go\<close>: the resumable registration of a TEE machine.  The world
  is the file system, which holds the state file, beside everything else (chain and TEE nodes),
  which only the calls of the bindings and HTTP touch.  The JSON text of the state and the event
  parsers are parameters.
\<close>

section \<open>The state file\<close>

record registrationState =
  CompletedSteps :: string
  TeeAttestInstructionID :: hash
  InstructionID :: hash

record 'c World =
  files :: "string \<Rightarrow> bytes option"
  outside :: 'c

definition lift_io :: "('c, 'a) io \<Rightarrow> ('c World, 'a) io" where
  "lift_io m w = (case m (outside w) of (r, c) \<Rightarrow> (r, w\<lparr>outside := c\<rparr>))"

record state_codec =
  StateJSON :: "registrationState \<Rightarrow> bytes"
  ParseState :: "bytes \<Rightarrow> registrationState res"
  Writable :: "string \<Rightarrow> bool"

definition loadState :: "state_codec \<Rightarrow> string \<Rightarrow> 'c World \<Rightarrow> registrationState res" where
  "loadState sc path w =
     (case files w path of
        None \<Rightarrow> Inr \<lparr>CompletedSteps = [], TeeAttestInstructionID = 0, InstructionID = 0\<rparr>
      | Some data \<Rightarrow> map_err (\<lambda>e. ''failed to parse state file: '' @ e) (ParseState sc data))"

definition saveState :: "state_codec \<Rightarrow> string \<Rightarrow> registrationState \<Rightarrow> ('c World, unit) io" where
  "saveState sc path st w =
     (if Writable sc path then (Inr (), w\<lparr>files := (files w)(path \<mapsto> StateJSON sc st)\<rparr>)
      else (Inl ''failed to write state file: permission denied'', w))"

text \<open>A failed save is only a warning.\<close>

definition try_save :: "state_codec \<Rightarrow> string \<Rightarrow> registrationState \<Rightarrow> 'c World \<Rightarrow> 'c World" where
  "try_save sc path st w = snd (saveState sc path st w)"

definition remove_file :: "string \<Rightarrow> 'c World \<Rightarrow> 'c World" where
  "remove_file path w = w\<lparr>files := (files w)(path := None)\<rparr>"

section \<open>Chain calls\<close>

record TeeMachineData =
  tmd_ExtensionId :: int
  tmd_InitialOwner :: address
  tmd_CodeHash :: hash
  tmd_Platform :: hash
  tmd_X :: hash
  tmd_Y :: hash
  tmd_GovernanceHash :: hash

record AvailabilityProof =
  ap_Signatures :: "bytes list"
  ap_Header :: bytes
  ap_TeeId :: address
  ap_RequestBody :: bytes
  ap_ResponseBody :: bytes

record ('c, 'tx) machine_chain =
  mc_Tx :: "('c, 'tx) tx_lib"
  mc_Transactor :: "unit res"
  mc_Sender :: address
  GetTeeMachine :: "'c \<Rightarrow> address \<Rightarrow> address res"
  GetTeeMachineStatus :: "'c \<Rightarrow> address \<Rightarrow> (8 word) res"
  SendRegister :: "TeeMachineData \<Rightarrow> 8 word \<times> bytes \<times> bytes \<Rightarrow> address \<Rightarrow> string \<Rightarrow> address \<Rightarrow> int \<Rightarrow> ('c, 'tx) io"
  SendRequestTeeAttestation :: "address \<Rightarrow> address \<Rightarrow> int \<Rightarrow> ('c, 'tx) io"
  SendRequestAvailabilityCheck :: "address \<Rightarrow> hash \<Rightarrow> address \<Rightarrow> address \<Rightarrow> address \<Rightarrow> int \<Rightarrow> ('c, 'tx) io"
  SendToProduction :: "AvailabilityProof \<Rightarrow> ('c, 'tx) io"
  SendAddTeeVersion :: "int \<Rightarrow> bytes \<Rightarrow> hash \<Rightarrow> hash list \<Rightarrow> ('c, 'tx) io"
  ParseTeeInstructionsSent :: "bytes \<Rightarrow> hash res"
  ParseTeeAttestationRequested :: "bytes \<Rightarrow> hash res"
  RSVtoVRS :: "bytes \<Rightarrow> bytes res"
  UnmarshalProve :: "bytes \<Rightarrow> (bytes list \<times> bytes \<times> bytes \<times> bytes) res"
  DecodeHeader :: "bytes \<Rightarrow> bytes res"
  DecodeAvailabilityRequest :: "bytes \<Rightarrow> (address \<times> bytes) res"
  DecodeAvailabilityResponse :: "bytes \<Rightarrow> bytes res"
  NewTransactorFor :: "address \<Rightarrow> unit res"

definition instruction_fee :: int where
  "instruction_fee = 1000000000"

text \<open>The instruction id in the first log of a receipt that needs at least \<open>n\<close> logs.\<close>

definition PreRegistration ::
    "('c, 'tx) machine_chain \<Rightarrow> string \<Rightarrow> address \<Rightarrow> SignedTeeInfo \<Rightarrow> ('c, hash \<times> hash) io" where
  "PreRegistration ch hostURL proxyID info =
     io_bind (io_lift (mc_Transactor ch)) (\<lambda>_.
     let md = ti_MachineData info;
         data = \<lparr>tmd_ExtensionId = uint (md_ExtensionID md), tmd_InitialOwner = md_InitialOwner md,
                 tmd_CodeHash = md_CodeHash md, tmd_Platform = md_Platform md, tmd_X = md_X md, tmd_Y = md_Y md,
                 tmd_GovernanceHash = md_GovernanceHash md\<rparr>
     in if length (ti_DataSignature info) \<noteq> 65 then io_fail ''signature error''
        else io_bind (io_lift (RSVtoVRS ch (ti_DataSignature info))) (\<lambda>sigVRS.
          io_bind (io_wrap (\<lambda>e. ''error: '' @ e)
            (SendRegister ch data
              (word_of_int (of_char (sigVRS ! 0)), slice 1 33 sigVRS, slice 33 65 sigVRS)
              proxyID hostURL (mc_Sender ch) instruction_fee)) (\<lambda>tx.
          io_bind (CheckTx (mc_Tx ch) tx) (\<lambda>receipt.
          if length (rcpt_Logs receipt) < 2 then io_fail ''unexpected logs, this should not happen''
          else
            io_bind (io_wrap (\<lambda>e. ''failed to parse TeeAttestationRequested event: '' @ e)
              (io_lift (ParseTeeAttestationRequested ch (rcpt_Logs receipt ! 1)))) (\<lambda>challenge.
            io_bind (io_wrap (\<lambda>e. ''failed to parse TeeInstructionsSent event: '' @ e)
              (io_lift (ParseTeeInstructionsSent ch (rcpt_Logs receipt ! 0)))) (\<lambda>instructionID.
            io_ret (challenge, instructionID)))))))"

definition RequestTeeAttestation :: "('c, 'tx) machine_chain \<Rightarrow> address \<Rightarrow> ('c, hash) io" where
  "RequestTeeAttestation ch teeID =
     io_bind (io_lift (mc_Transactor ch)) (\<lambda>_.
     io_bind (io_wrap (\<lambda>e. ''error: '' @ e) (SendRequestTeeAttestation ch teeID (mc_Sender ch) instruction_fee)) (\<lambda>tx.
     io_bind (CheckTx (mc_Tx ch) tx) (\<lambda>receipt.
     if length (rcpt_Logs receipt) < 2 then io_fail ''unexpected logs, this should not happen''
     else io_wrap (\<lambda>e. ''failed to parse TeeInstructionsSent event: '' @ e)
            (io_lift (ParseTeeInstructionsSent ch (rcpt_Logs receipt ! 0))))))"

text \<open>The diagnosis of a refused call only logs (and reads), so it is left out here.\<close>

definition RequestFTDCAvailabilityCheck ::
    "('c, 'tx) machine_chain \<Rightarrow> address \<Rightarrow> address \<Rightarrow> hash \<Rightarrow> ('c, hash) io" where
  "RequestFTDCAvailabilityCheck ch teeID externalTeeID teeAttestInstructionID =
     io_bind (io_lift (mc_Transactor ch)) (\<lambda>_.
     io_bind (SendRequestAvailabilityCheck ch teeID teeAttestInstructionID externalTeeID (mc_Sender ch)
                (mc_Sender ch) instruction_fee) (\<lambda>tx.
     io_bind (CheckTx (mc_Tx ch) tx) (\<lambda>receipt.
     if rcpt_Logs receipt = [] then io_fail ''no logs found in receipt''
     else io_wrap (\<lambda>e. ''failed to parse TeeInstructionsSent event: '' @ e)
            (io_lift (ParseTeeInstructionsSent ch (rcpt_Logs receipt ! 0))))))"

definition GetFTDCAvailabilityCheckResult ::
    "'c tee_http \<Rightarrow> ('c, 'tx) machine_chain \<Rightarrow> string \<Rightarrow> hash \<Rightarrow> ('c, AvailabilityProof) io" where
  "GetFTDCAvailabilityCheckResult http ch hostURL instructionId =
     io_bind (ActionResult_poll http hostURL instructionId) (\<lambda>actionResult.
     io_bind (io_lift (UnmarshalProve ch (ar_Data (resp_Result actionResult)))) (\<lambda>(sigs, header, request, response).
     io_bind (io_lift (DecodeHeader ch header)) (\<lambda>hd.
     io_bind (io_lift (DecodeAvailabilityRequest ch request)) (\<lambda>(teeId, req).
     io_bind (io_lift (DecodeAvailabilityResponse ch response)) (\<lambda>resp.
     io_ret \<lparr>ap_Signatures = sigs, ap_Header = hd, ap_TeeId = teeId, ap_RequestBody = req,
             ap_ResponseBody = resp\<rparr>)))))"

definition teeStatusProduction :: "8 word" where
  "teeStatusProduction = 2"

definition ToProduction :: "('c, 'tx) machine_chain \<Rightarrow> AvailabilityProof \<Rightarrow> ('c, unit) io" where
  "ToProduction ch proof w =
     (if GetTeeMachineStatus ch w (ap_TeeId proof) = Inr teeStatusProduction then (Inr (), w)
      else
        io_bind (io_lift (mc_Transactor ch)) (\<lambda>_.
        io_bind (SendToProduction ch proof) (\<lambda>tx.
        io_bind (CheckTx (mc_Tx ch) tx) (\<lambda>_.
        io_bind (io_read (\<lambda>w. GetTeeMachine ch w (ap_TeeId proof))) (\<lambda>teeId.
        if teeId \<noteq> ap_TeeId proof then io_fail ''tee machine not set up correctly'' else io_ret ())))) w)"

definition stringToBytes32 :: "(string \<Rightarrow> string) \<Rightarrow> string \<Rightarrow> bytes res" where
  "stringToBytes32 quote s =
     (if length s > 32 then Inl (''version '' @ quote s @ '' exceeds 32 bytes'')
      else Inr (s @ replicate (32 - length s) (CHR 0x00)))"

definition AddTeeVersion ::
    "('c, 'tx) machine_chain \<Rightarrow> (string \<Rightarrow> string) \<Rightarrow> address \<Rightarrow> int \<Rightarrow> hash \<Rightarrow> hash \<Rightarrow> string \<Rightarrow> ('c, unit) io" where
  "AddTeeVersion ch quote privKey extensionId codeHash platform version =
     io_bind (io_lift (NewTransactorFor ch privKey)) (\<lambda>_.
     io_bind (io_lift (stringToBytes32 quote version)) (\<lambda>versionBytes.
     io_bind (io_wrap (\<lambda>e. ''TeeExtensionRegistry.AddTeeVersion failed: '' @ e)
       (SendAddTeeVersion ch extensionId versionBytes codeHash [platform])) (\<lambda>tx.
     io_bind (CheckTx (mc_Tx ch) tx) (\<lambda>_. io_ret ()))))"

section \<open>RegisterNode\<close>

text \<open>What a run is given: the library functions, the TEE's info, and the arguments.\<close>

record ('c, 'tx) reg_env =
  re_codec :: state_codec
  re_http :: "'c tee_http"
  re_chain :: "('c, 'tx) machine_chain"
  re_epoch :: "'c \<Rightarrow> (int option) res"
  re_info :: SignedTeeInfo
  re_hostURL :: string
  re_ftdcURL :: string
  re_ftdcTee :: address
  re_path :: string
  re_sleep1 :: "'c \<Rightarrow> 'c"

definition pause1 :: "('c, 'tx) reg_env \<Rightarrow> 'c World \<Rightarrow> 'c World" where
  "pause1 env w = w\<lparr>outside := re_sleep1 env (outside w)\<rparr>"

text \<open>Pre-registration (\<open>r\<close>): skipped when the state file has it; a machine already on chain only
  gets a fresh attestation.\<close>

definition step_r ::
    "('c, 'tx) reg_env \<Rightarrow> address \<Rightarrow> address \<Rightarrow> registrationState \<Rightarrow> ('c World, registrationState \<times> hash) io" where
  "step_r env teeID proxyID st w =
     (if CHR ''r'' \<in> set (CompletedSteps st) then (Inr (st, TeeAttestInstructionID st), pause1 env w)
      else
        let ch = re_chain env;
            run = (case GetTeeMachine ch (outside w) teeID of
                     Inr onchain \<Rightarrow> if onchain \<noteq> 0 then RequestTeeAttestation ch teeID
                       else io_bind (PreRegistration ch (re_hostURL env) proxyID (re_info env)) (\<lambda>(_, i). io_ret i)
                   | Inl _ \<Rightarrow> io_bind (PreRegistration ch (re_hostURL env) proxyID (re_info env)) (\<lambda>(_, i). io_ret i))
        in case lift_io run w of
             (Inl e, w') \<Rightarrow> (Inl e, w')
           | (Inr i, w') \<Rightarrow>
               (let st' = st\<lparr>CompletedSteps := CompletedSteps st @ ''r'', TeeAttestInstructionID := i\<rparr>
                in (Inr (st', i), pause1 env (try_save (re_codec env) (re_path env) st' w'))))"

definition step_R ::
    "('c, 'tx) reg_env \<Rightarrow> address \<Rightarrow> registrationState \<Rightarrow> ('c World, registrationState \<times> hash) io" where
  "step_R env teeID st w =
     (if CHR ''R'' \<in> set (CompletedSteps st) then (Inr (st, TeeAttestInstructionID st), pause1 env w)
      else case lift_io (RequestTeeAttestation (re_chain env) teeID) w of
             (Inl e, w') \<Rightarrow> (Inl e, w')
           | (Inr i, w') \<Rightarrow>
               (let st' = st\<lparr>CompletedSteps := CompletedSteps st @ ''R'', TeeAttestInstructionID := i\<rparr>
                in (Inr (st', i), pause1 env (try_save (re_codec env) (re_path env) st' w'))))"

definition step_a ::
    "('c, 'tx) reg_env \<Rightarrow> address \<Rightarrow> hash \<Rightarrow> registrationState \<Rightarrow> ('c World, registrationState \<times> hash) io" where
  "step_a env teeID teeAttestInstructionID st w =
     (if CHR ''a'' \<in> set (CompletedSteps st) then (Inr (st, InstructionID st), pause1 env w)
      else case lift_io (io_bind (CheckFTDCProxyPolicyConsistency (re_http env) (re_epoch env) (re_ftdcURL env)) (\<lambda>_.
                  RequestFTDCAvailabilityCheck (re_chain env) teeID (re_ftdcTee env) teeAttestInstructionID)) w of
             (Inl e, w') \<Rightarrow> (Inl e, w')
           | (Inr i, w') \<Rightarrow>
               (let st' = st\<lparr>CompletedSteps := CompletedSteps st @ ''a'', InstructionID := i\<rparr>
                in (Inr (st', i), pause1 env (try_save (re_codec env) (re_path env) st' w'))))"

definition step_p :: "('c, 'tx) reg_env \<Rightarrow> hash \<Rightarrow> ('c World, unit) io" where
  "step_p env instructionID =
     lift_io (io_bind (GetFTDCAvailabilityCheckResult (re_http env) (re_chain env) (re_ftdcURL env) instructionID)
       (ToProduction (re_chain env)))"

text \<open>The steps the command selects.\<close>

definition run_r ::
    "('c, 'tx) reg_env \<Rightarrow> address \<Rightarrow> address \<Rightarrow> string \<Rightarrow> registrationState \<Rightarrow>
     ('c World, registrationState \<times> hash) io" where
  "run_r env teeID proxyID command st =
     (if CHR ''r'' \<in> set command then step_r env teeID proxyID st else io_ret (st, 0))"

definition run_R ::
    "('c, 'tx) reg_env \<Rightarrow> address \<Rightarrow> string \<Rightarrow> registrationState \<Rightarrow> hash \<Rightarrow>
     ('c World, registrationState \<times> hash) io" where
  "run_R env teeID command st att =
     (if CHR ''R'' \<in> set command then step_R env teeID st else io_ret (st, att))"

definition run_a ::
    "('c, 'tx) reg_env \<Rightarrow> address \<Rightarrow> string \<Rightarrow> registrationState \<Rightarrow> hash \<Rightarrow> hash \<Rightarrow>
     ('c World, registrationState \<times> hash) io" where
  "run_a env teeID command st att given =
     (if CHR ''a'' \<in> set command then step_a env teeID att st else io_ret (st, given))"

definition run_p :: "('c, 'tx) reg_env \<Rightarrow> string \<Rightarrow> hash \<Rightarrow> ('c World, unit) io" where
  "run_p env command iid = (if CHR ''p'' \<in> set command then step_p env iid else io_ret ())"

definition RegisterNode ::
    "('c, 'tx) reg_env \<Rightarrow> (address \<times> address) res \<Rightarrow> (string \<Rightarrow> hash) \<Rightarrow> string \<Rightarrow> string \<Rightarrow> ('c World, unit) io" where
  "RegisterNode env ids hexToHash command instructionIDstring =
     io_bind (io_lift ids) (\<lambda>(teeID, proxyID).
     io_bind (io_read (loadState (re_codec env) (re_path env))) (\<lambda>st0.
     io_bind (run_r env teeID proxyID command st0) (\<lambda>(st1, att1).
     io_bind (run_R env teeID command st1 att1) (\<lambda>(st2, att2).
     io_bind (run_a env teeID command st2 att2 (hexToHash instructionIDstring)) (\<lambda>(st3, iid).
     io_bind (run_p env command iid) (\<lambda>_ w.
       (Inr (), remove_file (re_path env) w)))))))"

section \<open>The state file keeps the progress\<close>

definition codec_ok :: "state_codec \<Rightarrow> bool" where
  "codec_ok sc \<longleftrightarrow> (\<forall>st. ParseState sc (StateJSON sc st) = Inr st)"

definition synced :: "('c, 'tx) reg_env \<Rightarrow> registrationState \<Rightarrow> 'c World \<Rightarrow> bool" where
  "synced env st w \<longleftrightarrow> loadState (re_codec env) (re_path env) w = Inr st"

lemma files_lift_io [simp]: "files (snd (lift_io m w)) = files w"
  by (simp add: lift_io_def split: prod.splits)

lemma files_lift_io_eq: "lift_io m w = (r, w') \<Longrightarrow> files w' = files w"
  using files_lift_io [of m w] by simp

lemma synced_files: "files w' = files w \<Longrightarrow> synced env st w' = synced env st w"
  by (simp add: synced_def loadState_def)

lemma synced_pause [simp]: "synced env st (pause1 env' w) = synced env st w"
  by (rule synced_files) (simp add: pause1_def)

lemma synced_save:
  assumes "codec_ok (re_codec env)" and "Writable (re_codec env) (re_path env)"
  shows "synced env st (try_save (re_codec env) (re_path env) st w)"
  using assms by (simp add: synced_def loadState_def try_save_def saveState_def codec_ok_def)

definition sound_env :: "('c, 'tx) reg_env \<Rightarrow> bool" where
  "sound_env env \<longleftrightarrow> codec_ok (re_codec env) \<and> Writable (re_codec env) (re_path env)"

text \<open>The contract of one step of the registration: it fails with the state file as it was, or
  leaves in the file the state it returns, which extends the steps completed before.\<close>

locale resumable_step =
  fixes env :: "('c, 'tx) reg_env"
    and step :: "registrationState \<Rightarrow> ('c World, registrationState \<times> hash) io"
    and letter :: char
  assumes fails_keeping: "step st w = (Inl e, w') \<Longrightarrow> files w' = files w"
    and done_recorded: "step st w = (Inr (st', i), w') \<Longrightarrow> synced env st w \<Longrightarrow> sound_env env \<Longrightarrow>
      synced env st' w' \<and> set (CompletedSteps st') = insert letter (set (CompletedSteps st))"
begin

lemma guarded_fails:
  "(if letter \<in> set command then step st else io_ret (st, dflt)) w = (Inl e, w') \<Longrightarrow> files w' = files w"
  by (auto simp: io_ret_def fails_keeping split: if_splits)

lemma guarded_done:
  assumes "(if letter \<in> set command then step st else io_ret (st, dflt)) w = (Inr (st', i), w')" and "synced env st w" and "sound_env env"
  shows "synced env st' w' \<and>
    set (CompletedSteps st') = set (CompletedSteps st) \<union> ({letter} \<inter> set command)"
  using assms done_recorded by (auto simp: io_ret_def split: if_splits)

end

interpretation pre_registration: resumable_step env "step_r env teeID proxyID" "CHR ''r''"
  for env :: "('c, 'tx) reg_env" and teeID proxyID
proof
  fix st and w w' :: "'c World" and e
  assume "step_r env teeID proxyID st w = (Inl e, w')"
  then show "files w' = files w"
    by (auto simp: step_r_def Let_def dest: files_lift_io_eq split: if_splits prod.splits sum.splits)
next
  fix st st' i and w w' :: "'c World"
  assume "step_r env teeID proxyID st w = (Inr (st', i), w')" "synced env st w" "sound_env env"
  then show "synced env st' w' \<and> set (CompletedSteps st') = insert (CHR ''r'') (set (CompletedSteps st))"
    using synced_save [of env]
    by (auto simp: step_r_def Let_def sound_env_def split: if_splits prod.splits sum.splits)
qed

interpretation attestation: resumable_step env "step_R env teeID" "CHR ''R''"
  for env :: "('c, 'tx) reg_env" and teeID
proof
  fix st and w w' :: "'c World" and e
  assume "step_R env teeID st w = (Inl e, w')"
  then show "files w' = files w"
    by (auto simp: step_R_def Let_def dest: files_lift_io_eq split: if_splits prod.splits sum.splits)
next
  fix st st' i and w w' :: "'c World"
  assume "step_R env teeID st w = (Inr (st', i), w')" "synced env st w" "sound_env env"
  then show "synced env st' w' \<and> set (CompletedSteps st') = insert (CHR ''R'') (set (CompletedSteps st))"
    using synced_save [of env]
    by (auto simp: step_R_def Let_def sound_env_def split: if_splits prod.splits sum.splits)
qed

interpretation availability: resumable_step env "step_a env teeID att" "CHR ''a''"
  for env :: "('c, 'tx) reg_env" and teeID att
proof
  fix st and w w' :: "'c World" and e
  assume "step_a env teeID att st w = (Inl e, w')"
  then show "files w' = files w"
    by (auto simp: step_a_def Let_def dest: files_lift_io_eq split: if_splits prod.splits sum.splits)
next
  fix st st' i and w w' :: "'c World"
  assume "step_a env teeID att st w = (Inr (st', i), w')" "synced env st w" "sound_env env"
  then show "synced env st' w' \<and> set (CompletedSteps st') = insert (CHR ''a'') (set (CompletedSteps st))"
    using synced_save [of env]
    by (auto simp: step_a_def Let_def sound_env_def split: if_splits prod.splits sum.splits)
qed

section \<open>A run of RegisterNode\<close>

lemma RegisterNode_runs:
  "RegisterNode env (Inr (teeID, proxyID)) hx command istr w =
     io_bind (io_read (loadState (re_codec env) (re_path env))) (\<lambda>st0.
     io_bind (run_r env teeID proxyID command st0) (\<lambda>(st1, att1).
     io_bind (run_R env teeID command st1 att1) (\<lambda>(st2, att2).
     io_bind (run_a env teeID command st2 att2 (hx istr)) (\<lambda>(st3, iid).
     io_bind (run_p env command iid) (\<lambda>_ w. (Inr (), remove_file (re_path env) w)))))) w"
  by (simp add: RegisterNode_def)

lemmas run_r_fails = pre_registration.guarded_fails [where dflt = 0, folded run_r_def]
lemmas run_r_done = pre_registration.guarded_done [where dflt = 0, folded run_r_def]
lemmas run_R_fails = attestation.guarded_fails [folded run_R_def]
lemmas run_R_done = attestation.guarded_done [folded run_R_def]
lemmas run_a_fails = availability.guarded_fails [folded run_a_def]
lemmas run_a_done = availability.guarded_done [folded run_a_def]

lemma run_p_files: "files (snd (run_p env command iid w)) = files w"
  by (simp add: run_p_def step_p_def io_ret_def)

definition letters :: "string \<Rightarrow> char set" where
  "letters command = set command \<inter> {CHR ''r'', CHR ''R'', CHR ''a''}"

lemma RegisterNode_fails_synced:
  assumes env: "sound_env env" and st0: "synced env st0 w"
    and run: "RegisterNode env (Inr (teeID, proxyID)) hx command istr w = (Inl e, w')"
  shows "\<exists>st. synced env st w' \<and> set (CompletedSteps st0) \<subseteq> set (CompletedSteps st) \<and>
    set (CompletedSteps st) \<subseteq> set (CompletedSteps st0) \<union> letters command"
proof -
  have load: "loadState (re_codec env) (re_path env) w = Inr st0" using st0 by (simp add: synced_def)
  obtain x1 w1 where r: "run_r env teeID proxyID command st0 w = (x1, w1)" by (metis surj_pair)
  show ?thesis
  proof (cases x1)
    case (Inl e1)
    then have "w' = w1" using run by (simp add: RegisterNode_runs io_bind_def io_read_def load r)
    moreover have "files w1 = files w" using run_r_fails [OF r [unfolded Inl]] .
    ultimately have "synced env st0 w'" using st0 synced_files by blast
    then show ?thesis by blast
  next
    case (Inr y1)
    obtain st1 att1 where y1: "y1 = (st1, att1)" by force
    have s1: "synced env st1 w1" "set (CompletedSteps st1) = set (CompletedSteps st0) \<union> ({CHR ''r''} \<inter> set command)"
      using run_r_done [OF r [unfolded Inr y1] st0 env] by auto
    obtain x2 w2 where R: "run_R env teeID command st1 att1 w1 = (x2, w2)" by (metis surj_pair)
    show ?thesis
    proof (cases x2)
      case Inl2: (Inl e2)
      then have "w' = w2"
        using run by (simp add: RegisterNode_runs io_bind_def io_read_def load r Inr y1 R)
      moreover have "synced env st1 w2" using run_R_fails R Inl2 s1(1) by (metis synced_files)
      ultimately show ?thesis using s1(2) by (intro exI [of _ st1]) (auto simp: letters_def)
    next
      case Inr2: (Inr y2)
      obtain st2 att2 where y2: "y2 = (st2, att2)" by force
      have s2: "synced env st2 w2" "set (CompletedSteps st2) = set (CompletedSteps st1) \<union> ({CHR ''R''} \<inter> set command)"
        using run_R_done [OF R [unfolded Inr2 y2] s1(1) env] by auto
      obtain x3 w3 where a: "run_a env teeID command st2 att2 (hx istr) w2 = (x3, w3)" by (metis surj_pair)
      show ?thesis
      proof (cases x3)
        case Inl3: (Inl e3)
        then have "w' = w3"
          using run by (simp add: RegisterNode_runs io_bind_def io_read_def load r Inr y1 R Inr2 y2 a)
        moreover have "synced env st2 w3" using run_a_fails a Inl3 s2(1) by (metis synced_files)
        ultimately show ?thesis using s1(2) s2(2) by (intro exI [of _ st2]) (auto simp: letters_def)
      next
        case Inr3: (Inr y3)
        obtain st3 iid where y3: "y3 = (st3, iid)" by force
        have s3: "synced env st3 w3" "set (CompletedSteps st3) = set (CompletedSteps st2) \<union> ({CHR ''a''} \<inter> set command)"
          using run_a_done [OF a [unfolded Inr3 y3] s2(1) env] by auto
        have "w' = snd (run_p env command iid w3)"
          using run
          by (simp add: RegisterNode_runs io_bind_def io_read_def load r Inr y1 R Inr2 y2 a Inr3 y3
              split: prod.splits sum.splits)
        then have "synced env st3 w'" using run_p_files s3(1) by (metis synced_files)
        with s1(2) s2(2) s3(2) show ?thesis by (intro exI [of _ st3]) (auto simp: letters_def)
      qed
    qed
  qed
qed

text \<open>A concrete library: the state as two hashes and the steps, and an operator without a key, so
  that every transaction fails.\<close>

definition demo_codec :: state_codec where
  "demo_codec =
     \<lparr>StateJSON = (\<lambda>st. bytes_of_hash (TeeAttestInstructionID st) @ bytes_of_hash (InstructionID st) @
        CompletedSteps st),
      ParseState = (\<lambda>b. Inr \<lparr>CompletedSteps = drop 64 b, TeeAttestInstructionID = hash_of_bytes (take 32 b),
        InstructionID = hash_of_bytes (take 32 (drop 32 b))\<rparr>),
      Writable = (\<lambda>p. True)\<rparr>"

definition demo_machines :: "(nat, nat) machine_chain" where
  "demo_machines =
     \<lparr>mc_Tx = gv_Tx demo_governance, mc_Transactor = Inl ''no key'', mc_Sender = 9,
      GetTeeMachine = (\<lambda>c a. Inl ''unknown''), GetTeeMachineStatus = (\<lambda>c a. Inr 2),
      SendRegister = (\<lambda>d s p u b v c. (Inr c, c)), SendRequestTeeAttestation = (\<lambda>t b v c. (Inr c, c)),
      SendRequestAvailabilityCheck = (\<lambda>t i e b p v c. (Inr c, c)), SendToProduction = (\<lambda>p c. (Inr c, c)),
      SendAddTeeVersion = (\<lambda>e v h ps c. (Inr c, c)), ParseTeeInstructionsSent = (\<lambda>l. Inr 6),
      ParseTeeAttestationRequested = (\<lambda>l. Inr 5), RSVtoVRS = (\<lambda>s. Inr s),
      UnmarshalProve = (\<lambda>b. Inl ''none''), DecodeHeader = (\<lambda>b. Inr b),
      DecodeAvailabilityRequest = (\<lambda>b. Inr (1, b)), DecodeAvailabilityResponse = (\<lambda>b. Inr b),
      NewTransactorFor = (\<lambda>k. Inr ())\<rparr>"

definition demo_reg :: "(nat, nat) reg_env" where
  "demo_reg =
     \<lparr>re_codec = demo_codec, re_http = demo_http, re_chain = demo_machines, re_epoch = (\<lambda>c. Inr None),
      re_info = demo_info, re_hostURL = ''h'', re_ftdcURL = ''f'', re_ftdcTee = 8, re_path = ''state.json'',
      re_sleep1 = Suc\<rparr>"

definition demo_world :: "registrationState \<Rightarrow> nat World" where
  "demo_world st = \<lparr>files = [''state.json'' \<mapsto> StateJSON demo_codec st], outside = 0\<rparr>"

lemma demo_codec_ok: "codec_ok demo_codec"
  by (simp add: codec_ok_def demo_codec_def)

lemma demo_load: "loadState (re_codec demo_reg) (re_path demo_reg) (demo_world st) = Inr st"
  using demo_codec_ok by (simp add: loadState_def demo_world_def demo_reg_def codec_ok_def)

section \<open>Properties\<close>





text \<open>Putting a TEE into production is idempotent: a machine already in production costs no
  transaction, and success otherwise means that a transaction with exactly the given proof was mined
  and the chain afterwards reports a machine with the proof's identity.\<close>

theorem to_production_is_idempotent:
  assumes "ToProduction ch proof w = (Inr (), w')"
  shows "(GetTeeMachineStatus ch w (ap_TeeId proof) = Inr 2 \<and> w' = w) \<or>
    (\<exists>tx w1 rcpt. SendToProduction ch proof w = (Inr tx, w1) \<and> WaitMined (mc_Tx ch) tx w1 = (Inr rcpt, w') \<and>
       rcpt_Status rcpt \<noteq> 0 \<and> GetTeeMachine ch w' (ap_TeeId proof) = Inr (ap_TeeId proof))"
  using assms
  by (auto simp: ToProduction_def teeStatusProduction_def io_ok CheckTx_ok split: if_splits)

theorem to_production_is_idempotent_witness:
  "ToProduction demo_machines
     \<lparr>ap_Signatures = [], ap_Header = [], ap_TeeId = 1, ap_RequestBody = [], ap_ResponseBody = []\<rparr> 3 = (Inr (), 3) \<and>
   GetTeeMachineStatus demo_machines 3 1 = Inr 2"
proof -
  have run: "ToProduction demo_machines
     \<lparr>ap_Signatures = [], ap_Header = [], ap_TeeId = 1, ap_RequestBody = [], ap_ResponseBody = []\<rparr> 3 = (Inr (), 3)"
    by (simp add: ToProduction_def demo_machines_def teeStatusProduction_def)
  from to_production_is_idempotent [OF run] run show ?thesis by (auto simp: demo_machines_def)
qed

end
