(* ===== verification/Polling.thy ===== *)
theory Polling
  imports Prelude
begin

text \<open>
  The unbounded polling loops of the tools (\<open>for \{ probe; select \{ deadline; pause \} \}\<close>): a probe
  may answer, and a pause may end the loop instead because the deadline has passed.  Not returning is
  the value \<open>None\<close>; the locale shows that a deadline that comes nearer makes the loop return.
\<close>

partial_function (option) poll ::
    "('w \<Rightarrow> 'r option \<times> 'w) \<Rightarrow> ('w \<Rightarrow> 'r option \<times> 'w) \<Rightarrow> 'w \<Rightarrow> ('r \<times> 'w) option" where
  "poll probe pause w =
     (case probe w of
        (Some r, w1) \<Rightarrow> Some (r, w1)
      | (None, w1) \<Rightarrow>
          (case pause w1 of (Some r, w2) \<Rightarrow> Some (r, w2) | (None, w2) \<Rightarrow> poll probe pause w2))"

text \<open>The world before the k-th probe, when neither a probe nor a pause has ended the loop.\<close>

primrec poll_world :: "nat \<Rightarrow> ('w \<Rightarrow> 'r option \<times> 'w) \<Rightarrow> ('w \<Rightarrow> 'r option \<times> 'w) \<Rightarrow> 'w \<Rightarrow> 'w" where
  "poll_world 0 probe pause w = w"
| "poll_world (Suc k) probe pause w = poll_world k probe pause (snd (pause (snd (probe w))))"

definition silent :: "('w \<Rightarrow> 'r option \<times> 'w) \<Rightarrow> ('w \<Rightarrow> 'r option \<times> 'w) \<Rightarrow> 'w \<Rightarrow> bool" where
  "silent probe pause w \<longleftrightarrow> fst (probe w) = None \<and> fst (pause (snd (probe w))) = None"

lemma poll_silent: "silent probe pause w \<Longrightarrow> poll probe pause w = poll probe pause (snd (pause (snd (probe w))))"
  by (subst poll.simps) (auto simp: silent_def split: prod.splits option.splits)

lemma poll_skip:
  "\<forall>j<k. silent probe pause (poll_world j probe pause w) \<Longrightarrow>
     poll probe pause w = poll probe pause (poll_world k probe pause w)"
proof (induction k arbitrary: w)
  case (Suc k)
  have "silent probe pause w" using Suc.prems by force
  moreover have "\<forall>j<k. silent probe pause (poll_world j probe pause (snd (pause (snd (probe w)))))"
    using Suc.prems by force
  ultimately show ?case using Suc.IH by (simp add: poll_silent)
qed simp

lemma poll_hit:
  assumes "\<forall>j<k. silent probe pause (poll_world j probe pause w)"
    and "probe (poll_world k probe pause w) = (Some r, w')"
  shows "poll probe pause w = Some (r, w')"
  using poll_skip [OF assms(1)] assms(2) by (simp add: poll.simps)

text \<open>A result is an answer of some probe, or of the pause after it, with silence before.\<close>

lemma poll_result:
  assumes "poll probe pause w = Some (r, w')"
  shows "\<exists>k. (\<forall>j<k. silent probe pause (poll_world j probe pause w)) \<and>
    (probe (poll_world k probe pause w) = (Some r, w') \<or>
     (\<exists>v. probe (poll_world k probe pause w) = (None, v) \<and> pause v = (Some r, w')))"
proof -
  let ?P = "\<lambda>probe pause w rw. \<exists>k. (\<forall>j<k. silent probe pause (poll_world j probe pause w)) \<and>
    (probe (poll_world k probe pause w) = (Some (fst rw), snd rw) \<or>
     (\<exists>v. probe (poll_world k probe pause w) = (None, v) \<and> pause v = (Some (fst rw), snd rw)))"
  have "?P probe pause w (r, w')"
  proof (rule poll.raw_induct [where P = ?P, OF _ assms])
    fix f :: "('w \<Rightarrow> 'r option \<times> 'w) \<Rightarrow> ('w \<Rightarrow> 'r option \<times> 'w) \<Rightarrow> 'w \<Rightarrow> ('r \<times> 'w) option"
      and probe pause :: "'w \<Rightarrow> 'r option \<times> 'w" and w rw
    assume IH: "\<And>probe pause w rw. f probe pause w = Some rw \<Longrightarrow> ?P probe pause w rw"
      and eq: "(case probe w of (Some r, w1) \<Rightarrow> Some (r, w1)
        | (None, w1) \<Rightarrow> (case pause w1 of (Some r, w2) \<Rightarrow> Some (r, w2) | (None, w2) \<Rightarrow> f probe pause w2)) = Some rw"
    show "?P probe pause w rw"
    proof (cases "silent probe pause w")
      case False
      with eq show ?thesis
        by (intro exI [of _ 0]) (auto simp: silent_def split: prod.splits option.splits)
    next
      case True
      with eq have "f probe pause (snd (pause (snd (probe w)))) = Some rw"
        by (auto simp: silent_def split: prod.splits option.splits)
      from IH [OF this] obtain k where k:
        "\<forall>j<k. silent probe pause (poll_world j probe pause (snd (pause (snd (probe w)))))"
        "probe (poll_world (Suc k) probe pause w) = (Some (fst rw), snd rw) \<or>
         (\<exists>v. probe (poll_world (Suc k) probe pause w) = (None, v) \<and> pause v = (Some (fst rw), snd rw))"
        by auto
      have "\<forall>j<Suc k. silent probe pause (poll_world j probe pause w)"
        using k(1) True by (auto simp: less_Suc_eq_0_disj)
      with k(2) show ?thesis by blast
    qed
  qed
  then show ?thesis by simp
qed

text \<open>A poller whose deadline comes nearer with every pause and is not put off by a probe.\<close>

locale polling =
  fixes probe pause :: "'w \<Rightarrow> 'r option \<times> 'w"
    and left :: "'w \<Rightarrow> nat"
    and fair :: bool
  assumes probe_left: "fair \<Longrightarrow> left (snd (probe w)) \<le> left w"
    and pause_left: "fair \<Longrightarrow> pause w = (None, w') \<Longrightarrow> left w' < left w"
begin

lemma returns:
  assumes fair
  shows "\<exists>r w'. poll probe pause w = Some (r, w')"
proof (induction "left w" arbitrary: w rule: less_induct)
  case less
  show ?case
  proof (cases "silent probe pause w")
    case True
    obtain w2 where w2: "pause (snd (probe w)) = (None, w2)"
      using True by (cases "pause (snd (probe w))") (auto simp: silent_def)
    have "left w2 < left w" using pause_left [OF assms w2] probe_left [OF assms, of w] by simp
    with less [of w2] poll_silent [OF True] w2 show ?thesis by simp
  next
    case False
    then show ?thesis
      by (subst poll.simps) (auto simp: silent_def split: prod.splits option.splits)
  qed
qed

text \<open>The pauses that can pass without ending the loop are bounded by what is left.\<close>

lemma silent_bound:
  assumes fair and "\<forall>j<k. silent probe pause (poll_world j probe pause w)"
  shows "left (poll_world k probe pause w) + k \<le> left w"
  using assms(2)
proof (induction k arbitrary: w)
  case (Suc k)
  obtain w2 where w2: "pause (snd (probe w)) = (None, w2)"
    using Suc.prems by (cases "pause (snd (probe w))") (force simp: silent_def)
  have "left w2 < left w" using pause_left [OF assms(1) w2] probe_left [OF assms(1), of w] by simp
  moreover have "left (poll_world k probe pause w2) + k \<le> left w2"
    using Suc.prems w2 by (intro Suc.IH) (auto dest: spec [of _ "Suc _"])
  ultimately show ?case using w2 by simp
qed simp

end

section \<open>Commands that poll\<close>

text \<open>A command that contains such a loop may not return either: its value is an option.\<close>

type_synonym ('w, 'a) pio = "'w \<Rightarrow> ('a res \<times> 'w) option"

definition total :: "('w, 'a) io \<Rightarrow> ('w, 'a) pio" where
  "total m w = Some (m w)"

definition pio_bind :: "('w, 'a) pio \<Rightarrow> ('a \<Rightarrow> ('w, 'b) pio) \<Rightarrow> ('w, 'b) pio" where
  "pio_bind m f w =
     (case m w of
        None \<Rightarrow> None
      | Some (Inl e, w') \<Rightarrow> Some (Inl e, w')
      | Some (Inr x, w') \<Rightarrow> f x w')"

definition pio_wrap :: "(string \<Rightarrow> string) \<Rightarrow> ('w, 'a) pio \<Rightarrow> ('w, 'a) pio" where
  "pio_wrap g m w = map_option (\<lambda>(r, w'). (map_err g r, w')) (m w)"

text \<open>The error handed to the caller as a value, where the code goes on after it.\<close>

definition pio_try :: "('w, 'a) pio \<Rightarrow> ('w, 'a res) pio" where
  "pio_try m w = map_option (\<lambda>(r, w'). (Inr r, w')) (m w)"

lemma total_ok: "total m w = Some (Inr x, w') \<longleftrightarrow> m w = (Inr x, w')"
  by (simp add: total_def)

lemma pio_bind_ok:
  "pio_bind m f w = Some (Inr y, w'') \<longleftrightarrow> (\<exists>x w'. m w = Some (Inr x, w') \<and> f x w' = Some (Inr y, w''))"
  by (auto simp: pio_bind_def split: option.splits prod.splits sum.splits)

lemma pio_wrap_ok: "pio_wrap g m w = Some (Inr y, w') \<longleftrightarrow> m w = Some (Inr y, w')"
  by (cases "m w") (auto simp: pio_wrap_def)

lemma pio_try_ok: "pio_try m w = Some (Inr r, w') \<longleftrightarrow> m w = Some (r, w')"
  by (cases "m w") (auto simp: pio_try_def)

lemmas pio_ok = total_ok pio_bind_ok pio_wrap_ok pio_try_ok

text \<open>A command that returns from every world.\<close>

definition total_pio :: "('w, 'a) pio \<Rightarrow> bool" where
  "total_pio m \<longleftrightarrow> (\<forall>w. m w \<noteq> None)"

lemma total_pio_total [intro, simp]: "total_pio (total m)"
  by (simp add: total_pio_def total_def)

lemma total_pio_bind [intro]: "total_pio m \<Longrightarrow> (\<And>x. total_pio (f x)) \<Longrightarrow> total_pio (pio_bind m f)"
  by (force simp: total_pio_def pio_bind_def split: option.splits prod.splits sum.splits)

lemma total_pio_try [intro]: "total_pio m \<Longrightarrow> total_pio (pio_try m)"
  by (auto simp: total_pio_def pio_try_def)

lemma total_pio_wrap [intro]: "total_pio m \<Longrightarrow> total_pio (pio_wrap g m)"
  by (auto simp: total_pio_def pio_wrap_def)

end
