(* ===== verification/Fdc.thy ===== *)
theory Fdc
  imports Support AegisTypes GoJson Polling
begin

text \<open>
  \<open>go/tools/pkg/fdc\<close>: the Flare Data Connector's Web2Json flow (\<open>web2json.go\<close>) and the weather feed
  a policy is settled on (\<open>openmeteo.go\<close>).  The structs of the attestation are those of
  \<open>contracts/interfaces/IWeb2Json.sol\<close> and \<open>InstructionSender.sol\<close>.  HTTP is a function of the
  world; the JSON decoder, go-ethereum's ABI package and the FdcHub bindings are parameters.
\<close>

section \<open>Attestation data\<close>

record RequestBody =
  rb_Url :: string
  rb_HttpMethod :: string
  rb_Headers :: string
  rb_QueryParams :: string
  rb_Body :: string
  rb_PostProcessJq :: string
  rb_AbiSignature :: string

record Web2JsonResponse =
  wr_AttestationType :: hash
  wr_SourceId :: hash
  wr_VotingRound :: uint64
  wr_LowestUsedTimestamp :: uint64
  wr_RequestBody :: RequestBody
  wr_AbiEncodedData :: bytes

record Web2JsonProof =
  wp_MerkleProof :: "bytes list"
  wp_Data :: Web2JsonResponse

record WeatherReading =
  LatitudeMicroDeg :: int
  LongitudeMicroDeg :: int
  RainfallTenthsMm :: int

section \<open>Constants and the client\<close>

definition AttestationTypeWeb2Json :: string where
  "AttestationTypeWeb2Json = ''Web2Json''"

definition SourceIDPublicWeb2 :: string where
  "SourceIDPublicWeb2 = ''PublicWeb2''"

definition DefaultVerifierURL :: string where
  "DefaultVerifierURL = ''https://fdc-verifiers-testnet.flare.network''"

definition DefaultDALayerURL :: string where
  "DefaultDALayerURL = ''https://ctn2-data-availability.flare.network''"

definition DefaultAPIKey :: string where
  "DefaultAPIKey = ''00000000-0000-0000-0000-000000000000''"

record Client =
  VerifierURL :: string
  DALayerURL :: string
  APIKey :: string

definition envOr :: "env \<Rightarrow> string \<Rightarrow> string \<Rightarrow> string" where
  "envOr getenv key fallback = (if getenv key \<noteq> [] then getenv key else fallback)"

definition NewClient :: "env \<Rightarrow> Client" where
  "NewClient getenv =
     \<lparr>VerifierURL = envOr getenv ''FDC_VERIFIER_URL'' DefaultVerifierURL,
      DALayerURL = envOr getenv ''FDC_DA_LAYER_URL'' DefaultDALayerURL,
      APIKey = envOr getenv ''FDC_API_KEY'' DefaultAPIKey\<rparr>"

record PrepareRequestResponse =
  pr_Status :: string
  pr_ABIEncodedRequest :: string

record DaProofResponse =
  da_AttestationType :: string
  da_Proof :: "string list"
  da_ResponseHex :: string

text \<open>A POST that reaches the server yields its status and what reading the body gives.  An ABI
  method is its list of inputs, each with its tuple layout.\<close>

record 'ty abi_input =
  ai_IsTuple :: bool
  ai_RawNames :: "string list"
  ai_Elems :: "'ty list"
  ai_Type :: 'ty

record ('w, 'ty) fdc_lib =
  fl_Quote :: "string \<Rightarrow> string"
  HexErrorText :: "string \<Rightarrow> string"
  NewRequest :: "string \<Rightarrow> unit res"
  DoPost :: "string \<Rightarrow> (string \<times> string) list \<Rightarrow> bytes \<Rightarrow> ('w, int \<times> bytes res) io"
  UnmarshalPrepare :: "bytes \<Rightarrow> PrepareRequestResponse res"
  UnmarshalProof :: "bytes \<Rightarrow> DaProofResponse res"
  GetAbi :: "(string \<Rightarrow> 'ty abi_input list option) res"
  UnpackResponse :: "'ty \<Rightarrow> bytes \<Rightarrow> Web2JsonResponse list res"
  UnpackReading :: "'ty \<Rightarrow> bytes \<Rightarrow> WeatherReading list res"
  CtxPause :: "'w \<Rightarrow> bool \<times> 'w"

definition hexutilDecode :: "(string \<Rightarrow> string) \<Rightarrow> string \<Rightarrow> bytes res" where
  "hexutilDecode errText s =
     (let trimmed = TrimPrefix (TrimSpace s) ''0x''
      in case hex_decode trimmed of
           None \<Rightarrow> Inl (''invalid hex: '' @ errText trimmed)
         | Some decoded \<Rightarrow> Inr decoded)"

definition toPayload :: "RequestBody \<Rightarrow> string" where
  "toPayload rb =
     json_object [(''url'', json_string (rb_Url rb)), (''httpMethod'', json_string (rb_HttpMethod rb)),
       (''headers'', json_string (rb_Headers rb)), (''queryParams'', json_string (rb_QueryParams rb)),
       (''body'', json_string (rb_Body rb)), (''postProcessJq'', json_string (rb_PostProcessJq rb)),
       (''abiSignature'', json_string (rb_AbiSignature rb))]"

definition EncodeAttestationName :: "(string \<Rightarrow> string) \<Rightarrow> string \<Rightarrow> string res" where
  "EncodeAttestationName quote name =
     (if length name > 32 then Inl (''attestation name '' @ quote name @ '' exceeds 32 bytes'')
      else Inr (''0x'' @ hex_encode (name @ replicate (32 - length name) (CHR 0x00))))"

section \<open>Talking to the verifier and the DA Layer\<close>

definition max_body :: nat where
  "max_body = 1048576"

definition post ::
    "('w, 'ty) fdc_lib \<Rightarrow> Client \<Rightarrow> string \<Rightarrow> bytes \<Rightarrow> ('w, bytes) io" where
  "post lib c url payload =
     io_bind (io_wrap (\<lambda>e. ''building request for '' @ url @ '': '' @ e) (io_lift (NewRequest lib url))) (\<lambda>_.
     io_bind (io_wrap (\<lambda>e. ''calling '' @ url @ '': '' @ e)
       (DoPost lib url [(''Content-Type'', ''application/json''), (''X-API-KEY'', APIKey c)] payload))
       (\<lambda>(status, content).
     io_bind (io_wrap (\<lambda>e. ''reading response from '' @ url @ '': '' @ e) (io_lift content)) (\<lambda>full.
     let body = take max_body full
     in if status \<noteq> 200
        then io_fail (url @ '' returned '' @ show_int status @ '': '' @ TrimSpace body)
        else io_ret body)))"

definition PrepareRequest :: "('w, 'ty) fdc_lib \<Rightarrow> Client \<Rightarrow> RequestBody \<Rightarrow> ('w, bytes) io" where
  "PrepareRequest lib c requestBody =
     io_bind (io_lift (EncodeAttestationName (fl_Quote lib) AttestationTypeWeb2Json)) (\<lambda>attestationType.
     io_bind (io_lift (EncodeAttestationName (fl_Quote lib) SourceIDPublicWeb2)) (\<lambda>sourceID.
     let payload = json_object [(''attestationType'', json_string attestationType),
                     (''sourceId'', json_string sourceID), (''requestBody'', toPayload requestBody)];
         url = TrimSuffix (VerifierURL c) ''/'' @ ''/verifier/web2/Web2Json/prepareRequest''
     in io_bind (post lib c url payload) (\<lambda>body.
        io_bind (io_wrap (\<lambda>e. ''decoding prepareRequest response: '' @ e) (io_lift (UnmarshalPrepare lib body)))
          (\<lambda>parsed.
        if pr_Status parsed \<noteq> ''VALID'' then io_fail (''verifier rejected the request: '' @ pr_Status parsed)
        else io_wrap (\<lambda>e. ''decoding abiEncodedRequest: '' @ e)
               (io_lift (hexutilDecode (HexErrorText lib) (pr_ABIEncodedRequest parsed)))))))"

definition find_data_input :: "'ty abi_input list \<Rightarrow> 'ty option" where
  "find_data_input inputs =
     foldr (\<lambda>inp rest. if \<not> ai_IsTuple inp then rest
                        else case map_of (zip (ai_RawNames inp) (ai_Elems inp)) ''data'' of
                               Some t \<Rightarrow> Some t | None \<Rightarrow> rest) inputs None"

definition web2JsonResponseType :: "('w, 'ty) fdc_lib \<Rightarrow> 'ty res" where
  "web2JsonResponseType lib =
     (case GetAbi lib of
        Inl e \<Rightarrow> Inl (''loading InstructionSender ABI: '' @ e)
      | Inr methods \<Rightarrow>
          (case methods ''evaluate'' of
             None \<Rightarrow> Inl ''InstructionSender ABI has no evaluate method''
           | Some inputs \<Rightarrow>
               (case find_data_input inputs of
                  Some t \<Rightarrow> Inr t
                | None \<Rightarrow> Inl ''evaluate has no Web2Json proof parameter'')))"

fun decode_nodes :: "(string \<Rightarrow> string) \<Rightarrow> nat \<Rightarrow> string list \<Rightarrow> (bytes list) res" where
  "decode_nodes errText i [] = Inr []"
| "decode_nodes errText i (node # nodes) =
     (case hexutilDecode errText node of
        Inl e \<Rightarrow> Inl (''decoding merkle proof node '' @ show_nat i @ '': '' @ e)
      | Inr raw \<Rightarrow>
          if length raw \<noteq> 32
          then Inl (''merkle proof node '' @ show_nat i @ '' is '' @ show_nat (length raw) @ '' bytes, want 32'')
          else res_bind (decode_nodes errText (i + 1) nodes) (\<lambda>rest. Inr (raw # rest)))"

definition DecodeProof :: "('w, 'ty) fdc_lib \<Rightarrow> string list \<Rightarrow> string \<Rightarrow> Web2JsonProof res" where
  "DecodeProof lib merkleProof responseHex =
     res_bind (map_err (\<lambda>e. ''decoding response_hex: '' @ e) (hexutilDecode (HexErrorText lib) responseHex))
       (\<lambda>responseBytes.
     res_bind (web2JsonResponseType lib) (\<lambda>responseType.
     res_bind (map_err (\<lambda>e. ''ABI-decoding attestation response: '' @ e)
                 (UnpackResponse lib responseType responseBytes)) (\<lambda>values.
     case values of
       [response] \<Rightarrow>
         res_bind (decode_nodes (HexErrorText lib) 0 merkleProof) (\<lambda>nodes.
         Inr \<lparr>wp_MerkleProof = nodes, wp_Data = response\<rparr>)
     | _ \<Rightarrow> Inl (''expected 1 value in attestation response, got '' @ show_nat (length values)))))"

text \<open>\<open>None\<close> stands for the nil proof of a round that is not finalized.\<close>

definition FetchProof ::
    "('w, 'ty) fdc_lib \<Rightarrow> Client \<Rightarrow> uint64 \<Rightarrow> bytes \<Rightarrow> ('w, Web2JsonProof option) io" where
  "FetchProof lib c votingRoundID abiEncodedRequest w =
     (let payload = json_object [(''requestBytes'', json_string (''0x'' @ hex_encode abiEncodedRequest)),
                      (''votingRoundId'', show_nat (unat votingRoundID))];
          url = TrimSuffix (DALayerURL c) ''/'' @ ''/api/v1/fdc/proof-by-request-round-raw''
      in case post lib c url payload w of
           (Inl e, w') \<Rightarrow> (if Contains e ''attestation request not found'' then Inr None else Inl e, w')
         | (Inr body, w') \<Rightarrow>
             (case UnmarshalProof lib body of
                Inl e \<Rightarrow> (Inl (''decoding proof response: '' @ e), w')
              | Inr parsed \<Rightarrow>
                  if da_ResponseHex parsed = [] then (Inr None, w')
                  else (res_bind (DecodeProof lib (da_Proof parsed) (da_ResponseHex parsed)) (\<lambda>p. Inr (Some p)), w')))"

text \<open>One round of \<open>WaitForProof\<close>: an error or a proof ends it, and so does the context.\<close>

definition proof_probe ::
    "('w, 'ty) fdc_lib \<Rightarrow> Client \<Rightarrow> uint64 \<Rightarrow> bytes \<Rightarrow> 'w \<Rightarrow> Web2JsonProof res option \<times> 'w" where
  "proof_probe lib c rnd request w =
     (case FetchProof lib c rnd request w of
        (Inl e, w') \<Rightarrow> (Some (Inl e), w')
      | (Inr (Some proof), w') \<Rightarrow> (Some (Inr proof), w')
      | (Inr None, w') \<Rightarrow> (None, w'))"

definition proof_pause :: "('w, 'ty) fdc_lib \<Rightarrow> uint64 \<Rightarrow> 'w \<Rightarrow> Web2JsonProof res option \<times> 'w" where
  "proof_pause lib rnd w =
     (case CtxPause lib w of
        (True, w') \<Rightarrow>
          (Some (Inl (''no proof for voting round '' @ show_nat (unat rnd) @ '' within the timeout '' @ em_dash @
                      '' the round may not have been finalized'')), w')
      | (False, w') \<Rightarrow> (None, w'))"

definition WaitForProof ::
    "('w, 'ty) fdc_lib \<Rightarrow> Client \<Rightarrow> uint64 \<Rightarrow> bytes \<Rightarrow> 'w \<Rightarrow> (Web2JsonProof res \<times> 'w) option" where
  "WaitForProof lib c rnd request = poll (proof_probe lib c rnd request) (proof_pause lib rnd)"

definition DecodeWeatherReading :: "('w, 'ty) fdc_lib \<Rightarrow> Web2JsonProof option \<Rightarrow> WeatherReading res" where
  "DecodeWeatherReading lib prf =
     (case prf of
        None \<Rightarrow> Inl ''proof is nil''
      | Some p \<Rightarrow>
          res_bind (map_err (\<lambda>e. ''loading InstructionSender ABI: '' @ e) (GetAbi lib)) (\<lambda>methods.
          case methods ''weatherReadingAbi'' of
            Some [input] \<Rightarrow>
              res_bind (map_err (\<lambda>e. ''ABI-decoding weather reading: '' @ e)
                 (UnpackReading lib (ai_Type input) (wr_AbiEncodedData (wp_Data p)))) (\<lambda>values.
              case values of
                [reading] \<Rightarrow> Inr reading
              | _ \<Rightarrow> Inl (''expected 1 weather reading, got '' @ show_nat (length values)))
          | _ \<Rightarrow> Inl ''InstructionSender ABI does not expose WeatherReading''))"

section \<open>Submitting a request\<close>

record ('w, 'tx) fdc_chain =
  fc_Tx :: "('w, 'tx) tx_lib"
  fc_Transactor :: "unit res"
  fc_Hub :: "address option"
  FeeConfigurations :: "'w \<Rightarrow> address \<Rightarrow> address res"
  ParseFeeAbi :: "unit res"
  GetRequestFee :: "'w \<Rightarrow> address \<Rightarrow> bytes \<Rightarrow> abi_value list res"
  SendRequestAttestation :: "address \<Rightarrow> bytes \<Rightarrow> int \<Rightarrow> ('w, 'tx) io"
  HeaderTime :: "'w \<Rightarrow> hash \<Rightarrow> uint64 res"
  FirstVotingRoundStartTs :: "'w \<Rightarrow> uint64 res"
  VotingEpochDurationSeconds :: "'w \<Rightarrow> uint64 res"

definition no_hub :: string where
  "no_hub = ''FdcHub address is not configured '' @ em_dash @ '' check the deployed addresses file''"

definition RequestFee :: "('w, 'tx) fdc_chain \<Rightarrow> 'w \<Rightarrow> bytes \<Rightarrow> int res" where
  "RequestFee ch w abiEncodedRequest =
     (case fc_Hub ch of
        None \<Rightarrow> Inl no_hub
      | Some hub \<Rightarrow>
          res_bind (map_err (\<lambda>e. ''reading fdcRequestFeeConfigurations: '' @ e) (FeeConfigurations ch w hub))
            (\<lambda>feeConfig.
          res_bind (map_err (\<lambda>e. ''parsing request fee ABI: '' @ e) (ParseFeeAbi ch)) (\<lambda>_.
          res_bind (map_err (\<lambda>e. ''calling getRequestFee: '' @ e)
                      (GetRequestFee ch w feeConfig abiEncodedRequest)) (\<lambda>out.
          case out of
            [AbiBigInt fee] \<Rightarrow> Inr fee
          | [v] \<Rightarrow> Inl (''getRequestFee returned '' @ go_type_name v @ '', want uint256'')
          | _ \<Rightarrow> Inl (''getRequestFee returned '' @ show_nat (length out) @ '' values, want 1'')))))"

definition VotingRoundID :: "('w, 'tx) fdc_chain \<Rightarrow> 'w \<Rightarrow> uint64 \<Rightarrow> uint64 res" where
  "VotingRoundID ch w timestamp =
     res_bind (map_err (\<lambda>e. ''reading firstVotingRoundStartTs: '' @ e) (FirstVotingRoundStartTs ch w)) (\<lambda>first.
     res_bind (map_err (\<lambda>e. ''reading votingEpochDurationSeconds: '' @ e) (VotingEpochDurationSeconds ch w))
       (\<lambda>duration.
     if duration = 0 then Inl ''votingEpochDurationSeconds is zero''
     else if timestamp < first
     then Inl (''timestamp '' @ show_nat (unat timestamp) @ '' precedes the first voting round'')
     else Inr ((timestamp - first) div duration)))"

definition SubmitRequest :: "('w, 'tx) fdc_chain \<Rightarrow> bytes \<Rightarrow> ('w, uint64 \<times> hash) io" where
  "SubmitRequest ch abiEncodedRequest =
     (case fc_Hub ch of
        None \<Rightarrow> io_fail no_hub
      | Some hub \<Rightarrow>
          io_bind (io_read (\<lambda>w. RequestFee ch w abiEncodedRequest)) (\<lambda>fee.
          io_bind (io_wrap (\<lambda>e. ''creating transactor: '' @ e) (io_lift (fc_Transactor ch))) (\<lambda>_.
          io_bind (io_wrap (\<lambda>e. ''requestAttestation: '' @ e)
            (SendRequestAttestation ch hub abiEncodedRequest fee)) (\<lambda>tx.
          io_bind (io_wrap (\<lambda>e. ''requestAttestation: '' @ e) (CheckTx (fc_Tx ch) tx)) (\<lambda>receipt.
          io_bind (io_wrap (\<lambda>e. ''reading submission block: '' @ e)
            (io_read (\<lambda>w. HeaderTime ch w (rcpt_BlockHash receipt)))) (\<lambda>time.
          io_bind (io_read (\<lambda>w. VotingRoundID ch w time)) (\<lambda>rnd.
          io_ret (rnd, rcpt_TxHash receipt))))))))"

section \<open>openmeteo.go\<close>

definition OpenMeteoArchiveURL :: string where
  "OpenMeteoArchiveURL = ''https://archive-api.open-meteo.com/v1/archive''"

record DroughtFeed =
  LatitudeDeg :: string
  LongitudeDeg :: string
  StartDate :: string
  EndDate :: string

definition DroughtFeed_Validate :: "DroughtFeed \<Rightarrow> unit res" where
  "DroughtFeed_Validate f =
     (if LatitudeDeg f = [] then Inl ''drought feed: latitude is empty''
      else if LongitudeDeg f = [] then Inl ''drought feed: longitude is empty''
      else if StartDate f = [] then Inl ''drought feed: start date is empty''
      else if EndDate f = [] then Inl ''drought feed: end date is empty''
      else Inr ())"

definition queryParams :: "DroughtFeed \<Rightarrow> string" where
  "queryParams f =
     json_object (zip [''latitude'', ''longitude'', ''start_date'', ''end_date'', ''daily'', ''timezone'']
       (map json_string [LatitudeDeg f, LongitudeDeg f, StartDate f, EndDate f, ''precipitation_sum'', ''UTC'']))"

text \<open>A double quote inside a text of the source.\<close>

definition dq :: "string \<Rightarrow> string" where
  "dq s = map (\<lambda>c. if c = CHR ''`'' then CHR 0x22 else c) s"

definition weatherReadingABISignature :: string where
  "weatherReadingABISignature = dq (
     ''{`components`:['' @
     ''{`internalType`:`int256`,`name`:`latitudeMicroDeg`,`type`:`int256`},'' @
     ''{`internalType`:`int256`,`name`:`longitudeMicroDeg`,`type`:`int256`},'' @
     ''{`internalType`:`uint256`,`name`:`rainfallTenthsMm`,`type`:`uint256`}],'' @
     ''`name`:`reading`,`type`:`tuple`}'')"

definition rainfallJq :: string where
  "rainfallJq = dq (
     ''{latitudeMicroDeg: (.latitude*1000000|tostring|split(`.`)|.[0]|tonumber), '' @
     ''longitudeMicroDeg: (.longitude*1000000|tostring|split(`.`)|.[0]|tonumber), '' @
     ''rainfallTenthsMm: ([0]+(.daily.precipitation_sum|map(select(.!=null)))|add*10|tostring|split(`.`)|.[0]|tonumber)}'')"

definition DroughtFeed_RequestBody :: "DroughtFeed \<Rightarrow> RequestBody res" where
  "DroughtFeed_RequestBody f =
     res_bind (DroughtFeed_Validate f) (\<lambda>_.
     Inr \<lparr>rb_Url = OpenMeteoArchiveURL, rb_HttpMethod = ''GET'', rb_Headers = ''{}'',
          rb_QueryParams = queryParams f, rb_Body = ''{}'', rb_PostProcessJq = rainfallJq,
          rb_AbiSignature = weatherReadingABISignature\<rparr>)"

end
