(* ===== verification/AegisPolicy.thy ===== *)
theory AegisPolicy
  imports Fdc
begin

text \<open>
  The policies of the \<open>aegis\<close> command (\<open>go/tools/cmd/aegis/policy.go\<close>) and the two files it keeps:
  the state file with one record per policy name, and the list the web demo reads
  (\<open>webconfig.go\<close>).  The disk maps paths to contents; an operation on it may also fail for a reason
  of its own.  The JSON coding of the files, \<open>common.HexToHash\<close> and \<open>Hash.Hex\<close> are parameters; a
  timestamp is its UTC nanoseconds.
\<close>

section \<open>The catalog\<close>

record policyTemplate =
  pt_prefix :: "16 word"
  pt_description :: string
  pt_feed :: DroughtFeed

definition defaultPolicyName :: string where
  "defaultPolicyName = ''drought-surabaya''"

definition policyCatalog :: "string \<Rightarrow> policyTemplate option" where
  "policyCatalog =
     [''drought-surabaya'' \<mapsto>
        \<lparr>pt_prefix = 0xa3d1, pt_description = ''dry season over Surabaya, expected to pay'',
         pt_feed = \<lparr>LatitudeDeg = ''-7.25'', LongitudeDeg = ''112.75'', StartDate = ''2025-06-01'',
                    EndDate = ''2025-08-31''\<rparr>\<rparr>,
      ''monsoon-surabaya'' \<mapsto>
        \<lparr>pt_prefix = 0xa3d2, pt_description = ''wet season over the same point, expected to pay nothing'',
         pt_feed = \<lparr>LatitudeDeg = ''-7.25'', LongitudeDeg = ''112.75'', StartDate = ''2024-12-01'',
                    EndDate = ''2025-02-28''\<rparr>\<rparr>]"

definition policyNames :: "string list" where
  "policyNames = [''drought-surabaya'', ''monsoon-surabaya'']"

definition policyNameList :: string where
  "policyNameList = Join policyNames '', ''"

section \<open>Records and the libraries they pass through\<close>

record policyRecord =
  pc_Name :: string
  pc_PolicyID :: string
  pc_CreatedAt :: int
  pc_RequestHash :: string
  pc_AbiEncodedRequest :: string
  pc_ModelRegistered :: bool
  pc_RegisterInstructionID :: string
  pc_VotingRound :: uint64
  pc_EvaluateInstructionID :: string
  pc_PayoutUnits :: string
  pc_SettleTx :: string
  pc_Settled :: bool

type_synonym policies = "string \<Rightarrow> policyRecord option"

record webRequestBody =
  wb_URL :: string
  wb_HTTPMethod :: string
  wb_Headers :: string
  wb_QueryParams :: string
  wb_Body :: string
  wb_PostProcessJq :: string
  wb_AbiSignature :: string

record webPolicy =
  wp_Name :: string
  wp_PolicyID :: string
  wp_Description :: string
  wp_Latitude :: string
  wp_Longitude :: string
  wp_StartDate :: string
  wp_EndDate :: string
  wp_RequestBody :: webRequestBody
  wp_CreatedAt :: int

record webPolicyFile =
  wf_Note :: string
  wf_Policies :: "webPolicy list"

type_synonym disk = "string \<Rightarrow> bytes option"

text \<open>A disk operation that fails says why; a missing file is not such a failure.\<close>

record cli_lib =
  ReadFailure :: "string \<Rightarrow> string option"
  MkdirFailure :: "string \<Rightarrow> string option"
  WriteFailure :: "string \<Rightarrow> string option"
  NotExistText :: "string \<Rightarrow> string"
  DirOf :: "string \<Rightarrow> string"
  EncodeState :: "policies \<Rightarrow> bytes res"
  DecodeState :: "bytes \<Rightarrow> policies option res"
  EncodeWeb :: "webPolicyFile \<Rightarrow> bytes res"
  DecodeWeb :: "bytes \<Rightarrow> webPolicyFile res"
  cl_HexToHash :: "string \<Rightarrow> hash"
  cl_HashHex :: "hash \<Rightarrow> string"

datatype file_answer = FileContent bytes | FileMissing | FileError string

definition read_file :: "cli_lib \<Rightarrow> disk \<Rightarrow> string \<Rightarrow> file_answer" where
  "read_file lib d path =
     (case ReadFailure lib path of
        Some e \<Rightarrow> FileError e
      | None \<Rightarrow> (case d path of Some b \<Rightarrow> FileContent b | None \<Rightarrow> FileMissing))"

text \<open>\<open>os.MkdirAll\<close> of the directory, then \<open>os.WriteFile\<close>, each with its own message.\<close>

definition write_file :: "cli_lib \<Rightarrow> string \<Rightarrow> bytes \<Rightarrow> (disk, unit) io" where
  "write_file lib path content d =
     (case MkdirFailure lib (DirOf lib path) of
        Some e \<Rightarrow> (Inl (''creating '' @ DirOf lib path @ '': '' @ e), d)
      | None \<Rightarrow>
          (case WriteFailure lib path of
             Some e \<Rightarrow> (Inl (''writing '' @ path @ '': '' @ e), d)
           | None \<Rightarrow> (Inr (), d(path \<mapsto> content))))"

section \<open>Models\<close>

definition demoModel :: ModelParameters where
  "demoModel =
     \<lparr>TriggerTenthsMm = 1200, ExitTenthsMm = 400, SumInsuredUnits = Some 5000000, PayoutFactorBps = 9000,
      MinPayoutUnits = Some 100000\<rparr>"

definition loadModel :: "cli_lib \<Rightarrow> disk \<Rightarrow> string \<Rightarrow> ModelParameters res" where
  "loadModel lib d path =
     (if path = [] then Inr demoModel
      else case read_file lib d path of
        FileError e \<Rightarrow> Inl (''reading model file: '' @ e)
      | FileMissing \<Rightarrow> Inl (''reading model file: '' @ NotExistText lib path)
      | FileContent raw \<Rightarrow>
          (case json_Unmarshal (model_field False) raw zero_model of
             None \<Rightarrow> Inl (''model file '' @ path @ '' is not valid model JSON'')
           | Some model \<Rightarrow>
               if SumInsuredUnits model = None \<or> MinPayoutUnits model = None
               then Inl (''model file '' @ path @ '' is missing sumInsuredUnits or minPayoutUnits'')
               else if ExitTenthsMm model \<ge> TriggerTenthsMm model
               then Inl (''model file '' @ path @ '' has an exit level at or above the trigger level'')
               else Inr model))"

definition show_big :: "int option \<Rightarrow> string" where
  "show_big v = (case v of Some i \<Rightarrow> show_int i | None \<Rightarrow> ''<nil>'')"

definition secretStrings :: "ModelParameters \<Rightarrow> string list" where
  "secretStrings m =
     [show_nat (unat (TriggerTenthsMm m)), show_nat (unat (ExitTenthsMm m)), show_big (SumInsuredUnits m),
      show_nat (unat (PayoutFactorBps m)), show_big (MinPayoutUnits m)]"

definition assertSealed :: "ModelParameters \<Rightarrow> bytes \<Rightarrow> unit res" where
  "assertSealed model ciphertext =
     (if list_ex (Contains ciphertext) (secretStrings model)
      then Inl ''refusing to send: the sealed model still contains a parameter in the clear'' else Inr ())"

text \<open>The 30 random bytes are an argument: what \<open>rand.Read\<close> gave.\<close>

definition newPolicyID :: "16 word \<Rightarrow> bytes res \<Rightarrow> hash res" where
  "newPolicyID pre nonce =
     (case nonce of
        Inl e \<Rightarrow> Inl (''drawing a policy nonce: '' @ e)
      | Inr bs \<Rightarrow> Inr (hash_of_bytes (be_bytes 2 (unat pre) @ bs)))"

section \<open>The state file\<close>

record demoState =
  ds_path :: string
  ds_Policies :: policies

definition record_id :: "cli_lib \<Rightarrow> policyRecord \<Rightarrow> hash" where
  "record_id lib r = cl_HexToHash lib (pc_PolicyID r)"

definition loadState_cli :: "cli_lib \<Rightarrow> disk \<Rightarrow> string \<Rightarrow> demoState res" where
  "loadState_cli lib d path =
     (case read_file lib d path of
        FileMissing \<Rightarrow> Inr \<lparr>ds_path = path, ds_Policies = Map.empty\<rparr>
      | FileError e \<Rightarrow> Inl (''reading '' @ path @ '': '' @ e)
      | FileContent raw \<Rightarrow>
          (case DecodeState lib raw of
             Inl e \<Rightarrow> Inl (''parsing '' @ path @ '': '' @ e)
           | Inr ps \<Rightarrow> Inr \<lparr>ds_path = path,
                           ds_Policies = (case ps of None \<Rightarrow> Map.empty | Some m \<Rightarrow> m)\<rparr>))"

definition save_state :: "cli_lib \<Rightarrow> demoState \<Rightarrow> (disk, unit) io" where
  "save_state lib s =
     (case EncodeState lib (ds_Policies s) of
        Inl e \<Rightarrow> io_fail (''encoding demo state: '' @ e)
      | Inr raw \<Rightarrow> write_file lib (ds_path s) (raw @ [CHR 0x0A]))"

definition get_policy :: "demoState \<Rightarrow> string \<Rightarrow> policyRecord option" where
  "get_policy s name = ds_Policies s name"

definition put_policy :: "policyRecord \<Rightarrow> demoState \<Rightarrow> demoState" where
  "put_policy r s = s\<lparr>ds_Policies := (ds_Policies s)(pc_Name r \<mapsto> r)\<rparr>"

definition saveWith :: "cli_lib \<Rightarrow> policyRecord \<Rightarrow> demoState \<Rightarrow> (disk, demoState) io" where
  "saveWith lib r s =
     (let s' = put_policy r s in io_bind (save_state lib s') (\<lambda>_. io_ret s'))"

text \<open>Which policy a run works on; the answer says whether it was minted.\<close>

definition new_record :: "string \<Rightarrow> string \<Rightarrow> int \<Rightarrow> policyRecord" where
  "new_record name pid createdAt =
     \<lparr>pc_Name = name, pc_PolicyID = pid, pc_CreatedAt = createdAt, pc_RequestHash = [],
      pc_AbiEncodedRequest = [], pc_ModelRegistered = False, pc_RegisterInstructionID = [], pc_VotingRound = 0,
      pc_EvaluateInstructionID = [], pc_PayoutUnits = [], pc_SettleTx = [], pc_Settled = False\<rparr>"

definition currentPolicy ::
    "cli_lib \<Rightarrow> bytes res \<Rightarrow> int \<Rightarrow> demoState \<Rightarrow> string \<Rightarrow> policyTemplate \<Rightarrow> bool \<Rightarrow> (policyRecord \<times> bool) res" where
  "currentPolicy lib nonce now state name template forceNew =
     (case get_policy state name of
        Some existing \<Rightarrow>
          if \<not> pc_Settled existing \<and> \<not> forceNew then Inr (existing, False)
          else res_bind (newPolicyID (pt_prefix template) nonce)
                 (\<lambda>pid. Inr (new_record name (cl_HashHex lib pid) now, True))
      | None \<Rightarrow> res_bind (newPolicyID (pt_prefix template) nonce)
                 (\<lambda>pid. Inr (new_record name (cl_HashHex lib pid) now, True)))"

section \<open>The web demo's list\<close>

definition webPolicyNote :: string where
  "webPolicyNote =
     ''Generated by aegis register-model --web-config. '' @
     ''Public data only: the attestation request each policy is bound to, never a model parameter. '' @
     ''The page verifies every entry against policyTriggerRequestHash on chain before offering it.''"

definition toWebRequestBody :: "RequestBody \<Rightarrow> webRequestBody" where
  "toWebRequestBody rb =
     \<lparr>wb_URL = rb_Url rb, wb_HTTPMethod = rb_HttpMethod rb, wb_Headers = rb_Headers rb,
      wb_QueryParams = rb_QueryParams rb, wb_Body = rb_Body rb, wb_PostProcessJq = rb_PostProcessJq rb,
      wb_AbiSignature = rb_AbiSignature rb\<rparr>"

text \<open>The first entry with the id is replaced; without one the entry is appended.\<close>

fun replace_or_append :: "webPolicy \<Rightarrow> webPolicy list \<Rightarrow> webPolicy list" where
  "replace_or_append e [] = [e]"
| "replace_or_append e (p # ps) =
     (if wp_PolicyID p = wp_PolicyID e then e # ps else p # replace_or_append e ps)"

definition web_entry :: "policyRecord \<Rightarrow> policyTemplate \<Rightarrow> RequestBody \<Rightarrow> webPolicy" where
  "web_entry r template body =
     \<lparr>wp_Name = pc_Name r, wp_PolicyID = pc_PolicyID r, wp_Description = pt_description template,
      wp_Latitude = LatitudeDeg (pt_feed template), wp_Longitude = LongitudeDeg (pt_feed template),
      wp_StartDate = StartDate (pt_feed template), wp_EndDate = EndDate (pt_feed template),
      wp_RequestBody = toWebRequestBody body, wp_CreatedAt = pc_CreatedAt r\<rparr>"

definition upsertWebPolicy :: "cli_lib \<Rightarrow> string \<Rightarrow> policyRecord \<Rightarrow> policyTemplate \<Rightarrow> (disk, unit) io" where
  "upsertWebPolicy lib path r template d =
     (case DroughtFeed_RequestBody (pt_feed template) of
        Inl e \<Rightarrow> (Inl (''building the attestation request for the web config: '' @ e), d)
      | Inr body \<Rightarrow>
          (let current = (case read_file lib d path of
                            FileMissing \<Rightarrow> Inr []
                          | FileError e \<Rightarrow> Inl (''reading '' @ path @ '': '' @ e)
                          | FileContent raw \<Rightarrow>
                              (case DecodeWeb lib raw of
                                 Inl e \<Rightarrow> Inl (''parsing '' @ path @ '': '' @ e)
                               | Inr f \<Rightarrow> Inr (wf_Policies f)))
           in case current of
                Inl e \<Rightarrow> (Inl e, d)
              | Inr ps \<Rightarrow>
                  (case EncodeWeb lib \<lparr>wf_Note = webPolicyNote,
                                      wf_Policies = replace_or_append (web_entry r template body) ps\<rparr> of
                     Inl e \<Rightarrow> (Inl (''encoding the web config: '' @ e), d)
                   | Inr encoded \<Rightarrow> write_file lib path (encoded @ [CHR 0x0A]) d)))"

definition readWebPolicies :: "cli_lib \<Rightarrow> disk \<Rightarrow> string \<Rightarrow> webPolicy list res" where
  "readWebPolicies lib d path =
     (case read_file lib d path of
        FileMissing \<Rightarrow> Inr []
      | FileError e \<Rightarrow> Inl (''reading '' @ path @ '': '' @ e)
      | FileContent raw \<Rightarrow>
          (case DecodeWeb lib raw of
             Inl e \<Rightarrow> Inl (''parsing '' @ path @ '': '' @ e) | Inr f \<Rightarrow> Inr (wf_Policies f)))"

section \<open>What a restart has to put back\<close>

text \<open>\<open>add\<close>: a policy whose id is already there is dropped; ids are compared as hashes.\<close>

definition add_target :: "cli_lib \<Rightarrow> policyRecord list \<Rightarrow> policyRecord \<Rightarrow> policyRecord list" where
  "add_target lib targets r =
     (if record_id lib r \<in> record_id lib ` set targets then targets else targets @ [r])"

definition web_target :: "webPolicy \<Rightarrow> policyRecord" where
  "web_target entry = new_record (wp_Name entry) (wp_PolicyID entry) (wp_CreatedAt entry)"

definition known_web :: "webPolicy \<Rightarrow> bool" where
  "known_web entry \<longleftrightarrow> policyCatalog (wp_Name entry) \<noteq> None"

definition restoreTargets :: "cli_lib \<Rightarrow> disk \<Rightarrow> demoState \<Rightarrow> string \<Rightarrow> policyRecord list res" where
  "restoreTargets lib d state webConfig =
     (let own = foldl (add_target lib) [] (List.map_filter (get_policy state) policyNames)
      in if webConfig = [] then Inr own
         else res_bind (readWebPolicies lib d webConfig) (\<lambda>web.
                Inr (foldl (add_target lib) own (map web_target (filter known_web (rev web))))))"

definition modelFor :: "cli_lib \<Rightarrow> (string \<Rightarrow> string \<Rightarrow> string) \<Rightarrow> disk \<Rightarrow> string \<Rightarrow> string \<Rightarrow> (ModelParameters \<times> string) res" where
  "modelFor lib join d dir name =
     (let path = join dir (name @ ''.json'')
      in if d path = None
         then Inr (demoModel, ''no file at '' @ path @ '', using the model built into this command'')
         else res_bind (loadModel lib d path) (\<lambda>model. Inr (model, ''loaded from '' @ path)))"

end
