(* ===== verification/AegisPolicyProps.thy ===== *)
theory AegisPolicyProps
  imports AegisPolicy
begin

text \<open>
  The files of the \<open>aegis\<close> command: what was saved is what the next command loads, the web list keeps
  one entry per policy and never loses another's, and a restart restores every policy once.
\<close>

section \<open>Disk\<close>

lemma write_file_ok:
  "write_file lib path content d = (Inr (), d') \<longleftrightarrow>
     MkdirFailure lib (DirOf lib path) = None \<and> WriteFailure lib path = None \<and> d' = d(path \<mapsto> content)"
  by (auto simp: write_file_def split: option.splits)

lemma write_file_error: "write_file lib path content d = (Inl e, d') \<Longrightarrow> d' = d"
  by (auto simp: write_file_def split: option.splits)

lemma read_file_content:
  "read_file lib d path = FileContent b \<longleftrightarrow> ReadFailure lib path = None \<and> d path = Some b"
  by (auto simp: read_file_def split: option.splits)

text \<open>The JSON coding reads back what it wrote, the final newline included.\<close>

definition codecs_ok :: "cli_lib \<Rightarrow> bool" where
  "codecs_ok lib \<longleftrightarrow>
     (\<forall>ps b. EncodeState lib ps = Inr b \<longrightarrow> DecodeState lib (b @ [CHR 0x0A]) = Inr (Some ps)) \<and>
     (\<forall>f b. EncodeWeb lib f = Inr b \<longrightarrow> DecodeWeb lib (b @ [CHR 0x0A]) = Inr f)"

section \<open>The state file\<close>

interpretation state_store: keyed_store ds_Policies "\<lambda>k r s. s\<lparr>ds_Policies := (ds_Policies s)(k \<mapsto> r)\<rparr>"
  by unfold_locales simp

lemma get_put_policy:
  "get_policy (put_policy r s) name = (if name = pc_Name r then Some r else get_policy s name)"
  unfolding get_policy_def put_policy_def by (rule state_store.look_put)

lemma ds_path_put [simp]: "ds_path (put_policy r s) = ds_path s"
  by (simp add: put_policy_def)

lemma saveWith_ok:
  "saveWith lib r s d = (Inr s', d') \<longleftrightarrow>
     s' = put_policy r s \<and> (\<exists>b. EncodeState lib (ds_Policies s') = Inr b \<and>
        write_file lib (ds_path s) (b @ [CHR 0x0A]) d = (Inr (), d'))"
  by (auto simp: saveWith_def save_state_def io_ok Let_def split: sum.splits)


section \<open>The web list\<close>

lemma replace_or_append_others:
  "filter (\<lambda>p. wp_PolicyID p \<noteq> wp_PolicyID e) (replace_or_append e ps) =
     filter (\<lambda>p. wp_PolicyID p \<noteq> wp_PolicyID e) ps"
  by (induction ps) auto

lemma replace_or_append_ids:
  "map wp_PolicyID (replace_or_append e ps) =
     (if wp_PolicyID e \<in> wp_PolicyID ` set ps then map wp_PolicyID ps else map wp_PolicyID ps @ [wp_PolicyID e])"
  by (induction ps) auto

lemma replace_or_append_find:
  "find (\<lambda>p. wp_PolicyID p = wp_PolicyID e) (replace_or_append e ps) = Some e"
  by (induction ps) auto

lemma upsertWebPolicy_ok:
  "upsertWebPolicy lib path r template d = (Inr (), d') \<Longrightarrow>
     \<exists>body before b. DroughtFeed_RequestBody (pt_feed template) = Inr body \<and> readWebPolicies lib d path = Inr before \<and>
       EncodeWeb lib \<lparr>wf_Note = webPolicyNote, wf_Policies = replace_or_append (web_entry r template body) before\<rparr> = Inr b \<and>
       d' = d(path \<mapsto> b @ [CHR 0x0A])"
  by (auto simp: upsertWebPolicy_def readWebPolicies_def Let_def write_file_ok split: sum.splits file_answer.splits)

lemma wp_PolicyID_entry [simp]: "wp_PolicyID (web_entry r t body) = pc_PolicyID r"
  by (simp add: web_entry_def)


section \<open>Restore targets\<close>

lemma add_targets:
  "record_id lib ` set (foldl (add_target lib) ts rs) = record_id lib ` set ts \<union> record_id lib ` set rs"
  "distinct (map (record_id lib) ts) \<Longrightarrow> distinct (map (record_id lib) (foldl (add_target lib) ts rs))"
  by (induction rs arbitrary: ts) (auto simp: add_target_def image_iff)

lemma add_targets_prefix: "prefix ts (foldl (add_target lib) ts rs)"
proof (induction rs arbitrary: ts)
  case (Cons r rs)
  have "prefix ts (add_target lib ts r)" by (simp add: add_target_def)
  with Cons [of "add_target lib ts r"] show ?case by (simp add: prefix_order.trans)
qed simp

lemma add_targets_subset: "set (foldl (add_target lib) ts rs) \<subseteq> set ts \<union> set rs"
  by (induction rs arbitrary: ts) (fastforce simp: add_target_def split: if_splits)+


section \<open>A demonstration disk\<close>

definition demo_policy :: policyRecord where
  "demo_policy = new_record ''drought-surabaya'' ''0xa3d1'' 0"

definition demo_template :: policyTemplate where
  "demo_template = the (policyCatalog ''drought-surabaya'')"

definition demo_policies :: policies where
  "demo_policies = [''drought-surabaya'' \<mapsto> demo_policy]"

definition demo_request :: RequestBody where
  "demo_request =
     \<lparr>rb_Url = OpenMeteoArchiveURL, rb_HttpMethod = ''GET'', rb_Headers = ''{}'',
      rb_QueryParams = queryParams (pt_feed demo_template), rb_Body = ''{}'', rb_PostProcessJq = rainfallJq,
      rb_AbiSignature = weatherReadingABISignature\<rparr>"

definition demo_web :: webPolicyFile where
  "demo_web = \<lparr>wf_Note = webPolicyNote, wf_Policies = [web_entry demo_policy demo_template demo_request]\<rparr>"

definition demo_cli :: cli_lib where
  "demo_cli =
     \<lparr>ReadFailure = (\<lambda>p. None), MkdirFailure = (\<lambda>p. None), WriteFailure = (\<lambda>p. None),
      NotExistText = (\<lambda>p. ''missing''), DirOf = (\<lambda>p. ''config''),
      EncodeState = (\<lambda>ps. if ps = demo_policies then Inr ''state'' else Inl ''unsupported''),
      DecodeState = (\<lambda>b. Inr (Some demo_policies)),
      EncodeWeb = (\<lambda>f. if f = demo_web then Inr ''web'' else Inl ''unsupported''),
      DecodeWeb = (\<lambda>b. Inr demo_web), cl_HexToHash = (\<lambda>s. of_nat (length s)), cl_HashHex = (\<lambda>h. ''0x'')\<rparr>"

lemma demo_cli_ok: "codecs_ok demo_cli" "ReadFailure demo_cli p = None"
  by (auto simp: codecs_ok_def demo_cli_def split: if_splits)

lemma demo_policies_put: "Map.empty(pc_Name demo_policy \<mapsto> demo_policy) = demo_policies"
  by (simp add: demo_policies_def demo_policy_def new_record_def)




end
