(* ===== verification/Revert.thy ===== *)
theory Revert
  imports Support
begin

text \<open>
  \<open>go/tools/pkg/fccutils/revert.go\<close> and \<open>diag.go\<close>: what can be read off a refused call.  A
  diagnosis is the log line the code emits, as a value; the contract interfaces it searches are
  an argument, each with its custom errors in the order the map range visits them.
\<close>

section \<open>revert.go\<close>

definition decodeRevertHex :: "(bytes \<Rightarrow> string option) \<Rightarrow> string \<Rightarrow> string" where
  "decodeRevertHex unpack hexStr0 =
     (let hexStr = TrimPrefix hexStr0 ''0x''
      in case hex_decode hexStr of
           None \<Rightarrow> []
         | Some decoded \<Rightarrow>
             if length decoded < 4 then []
             else case unpack decoded of Some reason \<Rightarrow> reason | None \<Rightarrow> ''0x'' @ hexStr)"

definition DecodeRevertReason :: "(bytes \<Rightarrow> string option) \<Rightarrow> rpc_error option \<Rightarrow> string" where
  "DecodeRevertReason unpack err =
     (case err of
        None \<Rightarrow> []
      | Some e \<Rightarrow> (case rpc_data e of StringData hexStr \<Rightarrow> decodeRevertHex unpack hexStr | _ \<Rightarrow> []))"

text \<open>The replayed call is given by its answer.\<close>

definition SimulateAndDecodeRevert :: "(bytes \<Rightarrow> string option) \<Rightarrow> rpc_error + bytes \<Rightarrow> string" where
  "SimulateAndDecodeRevert unpack answer =
     (case answer of
        Inl err \<Rightarrow>
          (let reason = DecodeRevertReason unpack (Some err)
           in if reason \<noteq> [] then reason else rpc_message err)
      | Inr result \<Rightarrow> if length result \<ge> 4 then decodeRevertHex unpack (hex_encode result) else [])"

section \<open>diag.go\<close>

record abi_error =
  ae_name :: string
  ae_selector :: bytes
  ae_unpack :: "bytes \<Rightarrow> string res"

datatype diagnosis =
    AbiUnavailable string
  | PackFailed string
  | UnexpectedSuccess
  | NoRevertData string
  | DataTooShort bytes
  | ReasonString string
  | CustomError string string string bytes
  | CustomErrorBadArgs string string string bytes
  | UnknownSelector bytes bytes

text \<open>\<open>common.FromHex\<close> belongs to go-ethereum.\<close>

definition extractRevertData :: "(string \<Rightarrow> bytes) \<Rightarrow> rpc_error option \<Rightarrow> bytes" where
  "extractRevertData fromHex err =
     (case err of
        None \<Rightarrow> []
      | Some e \<Rightarrow> (case rpc_data e of StringData d \<Rightarrow> fromHex d | BytesData d \<Rightarrow> d | _ \<Rightarrow> []))"

definition error_string_selector :: bytes where
  "error_string_selector = [CHR 0x08, CHR 0xC3, CHR 0x79, CHR 0xA0]"

text \<open>An interface that does not load is skipped; the first error with the selector is the answer.\<close>

fun search_errors :: "(string \<times> abi_error list res) list \<Rightarrow> bytes \<Rightarrow> diagnosis option" where
  "search_errors [] revertData = None"
| "search_errors ((src, Inl _) # rest) revertData = search_errors rest revertData"
| "search_errors ((src, Inr errs) # rest) revertData =
     (case find (\<lambda>e. ae_selector e = take 4 revertData) errs of
        None \<Rightarrow> search_errors rest revertData
      | Some e \<Rightarrow>
          (case ae_unpack e (drop 4 revertData) of
             Inl err \<Rightarrow> Some (CustomErrorBadArgs src (ae_name e) err revertData)
           | Inr args \<Rightarrow> Some (CustomError src (ae_name e) args revertData)))"

text \<open>The common body of \<open>diagAvailabilityCheckRevert\<close> and \<open>diagToProductionRevert\<close>; they differ in
  the interface and the call data only.\<close>

definition diag_revert ::
    "(string \<Rightarrow> bytes) \<Rightarrow> (bytes \<Rightarrow> string option) \<Rightarrow> (string \<times> abi_error list res) list \<Rightarrow>
     'abi res \<Rightarrow> ('abi \<Rightarrow> bytes res) \<Rightarrow> (bytes \<Rightarrow> rpc_error option) \<Rightarrow> diagnosis" where
  "diag_revert fromHex unpack sources abi pack call =
     (case abi of
        Inl e \<Rightarrow> AbiUnavailable e
      | Inr a \<Rightarrow>
          (case pack a of
             Inl e \<Rightarrow> PackFailed e
           | Inr calldata \<Rightarrow>
               (case call calldata of
                  None \<Rightarrow> UnexpectedSuccess
                | Some callErr \<Rightarrow>
                    (let revertData = extractRevertData fromHex (Some callErr)
                     in if revertData = [] then NoRevertData (rpc_message callErr)
                        else if length revertData < 4 then DataTooShort revertData
                        else
                          case (if take 4 revertData = error_string_selector then unpack revertData else None) of
                            Some reason \<Rightarrow> ReasonString reason
                          | None \<Rightarrow>
                              (case search_errors sources revertData of
                                 Some d \<Rightarrow> d
                               | None \<Rightarrow> UnknownSelector (take 4 revertData) revertData)))))"

section \<open>Lemmas\<close>

lemma decodeRevertHex_bytes:
  "decodeRevertHex unpack (hex_encode b) =
     (if length b < 4 then [] else case unpack b of Some r \<Rightarrow> r | None \<Rightarrow> ''0x'' @ hex_encode b)"
  by (simp add: decodeRevertHex_def TrimPrefix_hex_encode)

lemma decodeRevertHex_0x: "decodeRevertHex unpack (''0x'' @ hex_encode b) = decodeRevertHex unpack (hex_encode b)"
  by (simp add: decodeRevertHex_def TrimPrefix_hex_encode) (simp add: TrimPrefix_def)

lemmas decodeRevertHex_0x_cons = decodeRevertHex_0x [simplified]

text \<open>C31. Revert data survives decoding whichever way the node reports it: for data of at least four
  bytes the hex text in an error's data field, with or without the 0x prefix, and the raw bytes in a
  successful answer yield the same text, which is the reason when the data is an \<open>Error(string)\<close>
  and otherwise the data's own hex, never the empty string unless the reason is empty.\<close>

theorem revert_data_is_decoded_uniformly:
  assumes "4 \<le> length b"
  shows "let text = (case unpack b of Some r \<Rightarrow> r | None \<Rightarrow> ''0x'' @ hex_encode b)
    in DecodeRevertReason unpack (Some \<lparr>rpc_message = msg, rpc_data = StringData (''0x'' @ hex_encode b)\<rparr>) = text \<and>
       DecodeRevertReason unpack (Some \<lparr>rpc_message = msg, rpc_data = StringData (hex_encode b)\<rparr>) = text \<and>
       SimulateAndDecodeRevert unpack (Inr b) = text \<and>
       SimulateAndDecodeRevert unpack (Inl \<lparr>rpc_message = msg, rpc_data = StringData (''0x'' @ hex_encode b)\<rparr>) =
         (if text = [] then msg else text) \<and>
       (unpack b = None \<longrightarrow> text \<noteq> [])"
  using assms
  by (simp add: Let_def DecodeRevertReason_def SimulateAndDecodeRevert_def decodeRevertHex_0x_cons
      decodeRevertHex_bytes not_less split: option.splits)

theorem revert_data_is_decoded_uniformly_witness:
  "SimulateAndDecodeRevert (\<lambda>_. None) (Inr ''abcd'') = ''0x61626364''"
proof -
  have "4 \<le> length ''abcd''" by simp
  from revert_data_is_decoded_uniformly [OF this, of "\<lambda>_. None" "''m''"]
  have "SimulateAndDecodeRevert (\<lambda>_. None) (Inr ''abcd'') = ''0x'' @ hex_encode ''abcd''"
    by (simp add: Let_def del: hex_encode.simps)
  also have "\<dots> = ''0x61626364''" by code_simp
  finally show ?thesis .
qed

end
