(* ===== verification/Instructions.thy ===== *)
theory Instructions
  imports Revert
begin

text \<open>
  \<open>go/tools/pkg/utils/instructions.go\<close>: sending instructions through the InstructionSender
  contract.  The generated binding is the record \<open>sender_lib\<close>: one function sends a call with a
  value (nil for a call that pays nothing), others pack, simulate and read.  The generated
  request-body and proof structs are type parameters.
\<close>

section \<open>The binding\<close>

datatype 'proof sender_call =
    CallSetExtensionId
  | CallRegisterModel bytes
  | CallRegisterPolicyTrigger hash hash
  | CallEvaluate hash address 'proof

fun call_name :: "'proof sender_call \<Rightarrow> string" where
  "call_name CallSetExtensionId = ''setExtensionId''"
| "call_name (CallRegisterModel _) = ''registerModel''"
| "call_name (CallRegisterPolicyTrigger _ _) = ''registerPolicyTrigger''"
| "call_name (CallEvaluate _ _ _) = ''evaluate''"

record ('w, 'tx, 'body, 'proof) sender_lib =
  is_Tx :: "('w, 'tx) tx_lib"
  is_Transactor :: "unit res"
  is_From :: address
  BindSender :: "address \<Rightarrow> unit res"
  SendCall :: "address \<Rightarrow> 'proof sender_call \<Rightarrow> int option \<Rightarrow> 'w \<Rightarrow> (rpc_error + 'tx) \<times> 'w"
  SendDeploy :: "address \<Rightarrow> address \<Rightarrow> address \<Rightarrow> ('w, address \<times> 'tx) io"
  PackCall :: "'proof sender_call \<Rightarrow> bytes option"
  Simulate :: "'w \<Rightarrow> address \<Rightarrow> address \<Rightarrow> int option \<Rightarrow> bytes \<Rightarrow> rpc_error + bytes"
  TriggerHashCall :: "'w \<Rightarrow> address \<Rightarrow> 'body \<Rightarrow> hash res"
  PolicyTriggerCall :: "'w \<Rightarrow> address \<Rightarrow> hash \<Rightarrow> hash res"
  LastRoundCall :: "'w \<Rightarrow> address \<Rightarrow> hash \<Rightarrow> uint64 res"
  is_ParseInstructionsSent :: "bytes \<Rightarrow> hash res"

section \<open>The fee\<close>

text \<open>\<open>FEE_WEI\<close> replaces the default when it is a decimal integer.\<close>

definition DefaultFee :: "env \<Rightarrow> int" where
  "DefaultFee getenv =
     (let feeStr = getenv ''FEE_WEI''
      in if feeStr \<noteq> [] then (case SetString10 feeStr of Some fee \<Rightarrow> fee | None \<Rightarrow> 1000000000000)
         else 1000000000000)"

section \<open>Deploying and binding the sender\<close>

definition DeployInstructionSender ::
    "('w, 'tx, 'body, 'proof) sender_lib \<Rightarrow> Addresses \<Rightarrow> ('w, address) io" where
  "DeployInstructionSender lib addresses =
     io_bind (io_wrap (\<lambda>e. ''failed to create transactor: '' @ e) (io_lift (is_Transactor lib))) (\<lambda>_.
     io_bind (io_wrap (\<lambda>e. ''failed to deploy contract: '' @ e)
       (SendDeploy lib (FlareTeeManager addresses) (FlareTeeManager addresses) (FdcVerification addresses)))
       (\<lambda>(address, tx).
     io_bind (io_wrap (\<lambda>e. ''deployment tx not mined within 2 minutes (tx: '' @
                 TxHashHex (is_Tx lib) (TxHash (is_Tx lib) tx) @ ''): '' @ e) (WaitMined (is_Tx lib) tx)) (\<lambda>receipt.
     if rcpt_Status receipt \<noteq> 1 then io_fail ''contract deployment failed'' else io_ret address)))"

text \<open>What a refused or reverted call is replayed for: its text, or the empty string.\<close>

definition replay_reason ::
    "('w, 'tx, 'body, 'proof) sender_lib \<Rightarrow> 'w \<Rightarrow> address \<Rightarrow> 'proof sender_call \<Rightarrow> int option \<Rightarrow> string" where
  "replay_reason lib w contract call fee =
     (case PackCall lib call of
        None \<Rightarrow> []
      | Some callData \<Rightarrow>
          SimulateAndDecodeRevert (UnpackRevert (is_Tx lib)) (Simulate lib w (is_From lib) contract fee callData))"

definition refused_reason ::
    "('w, 'tx, 'body, 'proof) sender_lib \<Rightarrow> 'w \<Rightarrow> address \<Rightarrow> 'proof sender_call \<Rightarrow> int option \<Rightarrow> rpc_error \<Rightarrow> string" where
  "refused_reason lib w contract call fee err =
     (let reason = DecodeRevertReason (UnpackRevert (is_Tx lib)) (Some err)
      in if reason = [] then replay_reason lib w contract call fee else reason)"

definition with_reason :: "string \<Rightarrow> string \<Rightarrow> string" where
  "with_reason msg reason = (if reason \<noteq> [] then msg @ '' (revert reason: '' @ reason @ '')'' else msg)"

definition SetExtensionId_sender ::
    "('w, 'tx, 'body, 'proof) sender_lib \<Rightarrow> address \<Rightarrow> ('w, unit) io" where
  "SetExtensionId_sender lib contract =
     io_bind (io_wrap (\<lambda>e. ''failed to bind contract: '' @ e) (io_lift (BindSender lib contract))) (\<lambda>_.
     io_bind (io_wrap (\<lambda>e. ''failed to create transactor: '' @ e) (io_lift (is_Transactor lib))) (\<lambda>_ w.
     case SendCall lib contract CallSetExtensionId None w of
       (Inl err, w') \<Rightarrow>
         (Inl (with_reason (''failed to call setExtensionId: '' @ rpc_message err)
            (refused_reason lib w' contract CallSetExtensionId None err)), w')
     | (Inr tx, w') \<Rightarrow>
         (case WaitMined (is_Tx lib) tx w' of
            (Inl e, w'') \<Rightarrow> (Inl (''failed waiting for transaction: '' @ e), w'')
          | (Inr receipt, w'') \<Rightarrow>
              if rcpt_Status receipt \<noteq> 1 then
                (Inl (with_reason ''setExtensionId transaction failed''
                   (replay_reason lib w'' contract CallSetExtensionId None)), w'')
              else (Inr (), w''))))"

section \<open>Instructions\<close>

text \<open>The id is read from the first log of the mined transaction.\<close>

definition sendInstruction ::
    "('w, 'tx, 'body, 'proof) sender_lib \<Rightarrow> env \<Rightarrow> address \<Rightarrow> 'proof sender_call \<Rightarrow> ('w, hash \<times> hash) io" where
  "sendInstruction lib getenv contract call =
     io_bind (io_wrap (\<lambda>e. ''failed to bind contract: '' @ e) (io_lift (BindSender lib contract))) (\<lambda>_.
     io_bind (io_wrap (\<lambda>e. ''failed to create transactor: '' @ e) (io_lift (is_Transactor lib))) (\<lambda>_ w.
     let fee = Some (DefaultFee getenv) in
     case SendCall lib contract call fee w of
       (Inl err, w') \<Rightarrow>
         (Inl (with_reason (''failed to send '' @ call_name call @ '': '' @ rpc_message err)
            (refused_reason lib w' contract call fee err)), w')
     | (Inr tx, w') \<Rightarrow>
         (case WaitMined (is_Tx lib) tx w' of
            (Inl e, w'') \<Rightarrow> (Inl (''failed waiting for transaction: '' @ e), w'')
          | (Inr receipt, w'') \<Rightarrow>
              if rcpt_Status receipt \<noteq> 1 then
                (Inl (call_name call @ '' transaction failed with status: '' @ show_nat (unat (rcpt_Status receipt))), w'')
              else (case rcpt_Logs receipt of
                      [] \<Rightarrow> (Inl ''no logs found in receipt'', w'')
                    | log0 # _ \<Rightarrow>
                        (case is_ParseInstructionsSent lib log0 of
                           Inl e \<Rightarrow> (Inl (''failed to parse TeeInstructionsSent event: '' @ e), w'')
                         | Inr instructionId \<Rightarrow> (Inr (instructionId, rcpt_TxHash receipt), w''))))))"

definition SendRegisterModel ::
    "('w, 'tx, 'body, 'proof) sender_lib \<Rightarrow> env \<Rightarrow> address \<Rightarrow> bytes \<Rightarrow> ('w, hash \<times> hash) io" where
  "SendRegisterModel lib getenv contract encryptedModel =
     sendInstruction lib getenv contract (CallRegisterModel encryptedModel)"

definition SendEvaluate ::
    "('w, 'tx, 'body, 'proof) sender_lib \<Rightarrow> env \<Rightarrow> address \<Rightarrow> hash \<Rightarrow> address \<Rightarrow> 'proof \<Rightarrow> ('w, hash \<times> hash) io" where
  "SendEvaluate lib getenv contract policyID payoutTo proof =
     sendInstruction lib getenv contract (CallEvaluate policyID payoutTo proof)"

definition SendRegisterPolicyTrigger ::
    "('w, 'tx, 'body, 'proof) sender_lib \<Rightarrow> address \<Rightarrow> hash \<Rightarrow> hash \<Rightarrow> ('w, hash) io" where
  "SendRegisterPolicyTrigger lib contract policyID requestBodyHash =
     io_bind (io_wrap (\<lambda>e. ''failed to bind contract: '' @ e) (io_lift (BindSender lib contract))) (\<lambda>_.
     io_bind (io_wrap (\<lambda>e. ''failed to create transactor: '' @ e) (io_lift (is_Transactor lib))) (\<lambda>_ w.
     case SendCall lib contract (CallRegisterPolicyTrigger policyID requestBodyHash) None w of
       (Inl err, w') \<Rightarrow>
         (Inl (with_reason (''failed to send registerPolicyTrigger: '' @ rpc_message err)
            (DecodeRevertReason (UnpackRevert (is_Tx lib)) (Some err))), w')
     | (Inr tx, w') \<Rightarrow>
         io_bind (io_wrap (\<lambda>e. ''registerPolicyTrigger: '' @ e) (CheckTx (is_Tx lib) tx))
           (\<lambda>receipt. io_ret (rcpt_TxHash receipt)) w'))"

definition TriggerRequestHash ::
    "('w, 'tx, 'body, 'proof) sender_lib \<Rightarrow> 'w \<Rightarrow> address \<Rightarrow> 'body \<Rightarrow> hash res" where
  "TriggerRequestHash lib w contract requestBody =
     res_bind (map_err (\<lambda>e. ''failed to bind contract: '' @ e) (BindSender lib contract)) (\<lambda>_.
     map_err (\<lambda>e. ''failed to call triggerRequestHash: '' @ e) (TriggerHashCall lib w contract requestBody))"

section \<open>Lemmas\<close>

lemma DefaultFee_set: "getenv ''FEE_WEI'' = show_nat n \<Longrightarrow> DefaultFee getenv = int n"
  by (simp add: DefaultFee_def)

text \<open>The only run of \<open>sendInstruction\<close> that returns an id.\<close>

lemma sendInstruction_ok:
  "sendInstruction lib getenv contract call w = (Inr (iid, txh), w') \<longleftrightarrow>
     BindSender lib contract = Inr () \<and> is_Transactor lib = Inr () \<and>
     (\<exists>tx w1 rcpt log0 rest. SendCall lib contract call (Some (DefaultFee getenv)) w = (Inr tx, w1) \<and>
        WaitMined (is_Tx lib) tx w1 = (Inr rcpt, w') \<and> rcpt_Status rcpt = 1 \<and>
        rcpt_Logs rcpt = log0 # rest \<and> is_ParseInstructionsSent lib log0 = Inr iid \<and> txh = rcpt_TxHash rcpt)"
  by (auto simp: sendInstruction_def io_ok Let_def split: prod.splits sum.splits if_splits list.splits)

lemma SendRegisterPolicyTrigger_ok:
  "SendRegisterPolicyTrigger lib contract pid h w = (Inr txh, w') \<Longrightarrow>
     \<exists>tx w1 rcpt. SendCall lib contract (CallRegisterPolicyTrigger pid h) None w = (Inr tx, w1) \<and>
        WaitMined (is_Tx lib) tx w1 = (Inr rcpt, w') \<and> rcpt_Status rcpt \<noteq> 0 \<and> txh = rcpt_TxHash rcpt"
  by (auto simp: SendRegisterPolicyTrigger_def io_ok CheckTx_ok split: prod.splits sum.splits)

lemma with_reason_not_Nil: "msg \<noteq> [] \<Longrightarrow> with_reason msg r \<noteq> []"
  by (simp add: with_reason_def)

section \<open>Properties\<close>


text \<open>A chain whose world counts transactions; every call is mined with one log that carries its id.\<close>

definition demo_sender_tx :: "(nat, nat) tx_lib" where
  "demo_sender_tx =
     \<lparr>TxHash = (\<lambda>t. of_nat t), TxHashHex = (\<lambda>h. ''0x''),
      WaitMined = (\<lambda>t w. (Inr \<lparr>rcpt_Status = 1, rcpt_TxHash = of_nat t, rcpt_BlockHash = 6,
        rcpt_BlockNumber = 5, rcpt_Logs = [''event'']\<rparr>, w)),
      TransactionByHash = (\<lambda>w h. Inl ''not found''), TxSender = (\<lambda>t. Inr 9),
      CallContract = (\<lambda>w t a. Inr []), UnpackRevert = (\<lambda>b. None)\<rparr>"

definition demo_sender :: "(nat, nat, 'body, 'proof) sender_lib" where
  "demo_sender =
     \<lparr>is_Tx = demo_sender_tx, is_Transactor = Inr (), is_From = 9, BindSender = (\<lambda>a. Inr ()),
      SendCall = (\<lambda>a c v w. (Inr w, w + 1)), SendDeploy = (\<lambda>a b c w. (Inr (100, w), w + 1)),
      PackCall = (\<lambda>c. Some (call_name c)), Simulate = (\<lambda>w a b v d. Inr []),
      TriggerHashCall = (\<lambda>w a b. Inr 77), PolicyTriggerCall = (\<lambda>w a p. Inr 0),
      LastRoundCall = (\<lambda>w a p. Inr 0), is_ParseInstructionsSent = (\<lambda>log. Inr 55)\<rparr>"


end
