(* ===== verification/AegisConfig.thy ===== *)
theory AegisConfig
  imports AegisPolicyProps Instructions TeeCalls
begin

text \<open>
  What the \<open>aegis\<close> commands share: the settings (\<open>config.go\<close>), the payout pool (\<open>pool.go\<close>), waiting
  for the enclave (\<open>actions.go\<close>) and the terminal text (\<open>output.go\<close>).  The world is the disk and the
  network; \<open>os.Stat\<close>, \<open>godotenv.Load\<close>, \<open>common.IsHexAddress\<close> and \<open>common.HexToAddress\<close> are parameters.
\<close>

section \<open>The world\<close>

record 'c cli_world =
  cw_disk :: disk
  cw_net :: 'c

definition on_disk :: "(disk, 'a) io \<Rightarrow> ('c cli_world, 'a) io" where
  "on_disk m w = (case m (cw_disk w) of (r, d) \<Rightarrow> (r, w\<lparr>cw_disk := d\<rparr>))"

definition on_net :: "('c, 'a) io \<Rightarrow> ('c cli_world, 'a) io" where
  "on_net m w = (case m (cw_net w) of (r, n) \<Rightarrow> (r, w\<lparr>cw_net := n\<rparr>))"

definition net_poll :: "('c, 'a) pio \<Rightarrow> ('c cli_world, 'a) pio" where
  "net_poll m w = map_option (\<lambda>(r, n). (r, w\<lparr>cw_net := n\<rparr>)) (m (cw_net w))"

lemma on_net_ok: "on_net m w = (Inr x, w') \<longleftrightarrow> m (cw_net w) = (Inr x, cw_net w') \<and> cw_disk w' = cw_disk w"
  by (cases w; cases w') (auto simp: on_net_def split: prod.splits)

lemma on_disk_ok: "on_disk m w = (Inr x, w') \<longleftrightarrow> m (cw_disk w) = (Inr x, cw_disk w') \<and> cw_net w' = cw_net w"
  by (cases w; cases w') (auto simp: on_disk_def split: prod.splits)

lemma net_poll_ok:
  "net_poll m w = Some (Inr x, w') \<longleftrightarrow> m (cw_net w) = Some (Inr x, cw_net w') \<and> cw_disk w' = cw_disk w"
  by (cases w; cases w') (auto simp: net_poll_def)

lemma total_net_poll: "total_pio m \<Longrightarrow> total_pio (net_poll m)"
  by (simp add: total_pio_def net_poll_def)

section \<open>Terminal text\<close>

definition paint :: "bool \<Rightarrow> string \<Rightarrow> string \<Rightarrow> string" where
  "paint colour code s = (if colour then code @ s @ [CHR 0x1B] @ ''[0m'' else s)"

definition shorten :: "string \<Rightarrow> string" where
  "shorten h = (if length h \<le> 20 then h else take 10 h @ ''...'' @ drop (length h - 8) h)"

definition firstNonEmpty :: "string list \<Rightarrow> string" where
  "firstNonEmpty vs = (case find (\<lambda>v. v \<noteq> []) vs of Some v \<Rightarrow> v | None \<Rightarrow> [])"

text \<open>\<open>%d\<close> of the whole part and of the fraction, the latter padded to six digits by \<open>%06d\<close>.\<close>

definition formatTenths :: "int \<Rightarrow> string" where
  "formatTenths tenths =
     (let (whole, frac) = QuoRem tenths 10 in show_int whole @ ''.'' @ show_int \<bar>frac\<bar>)"

definition formatMicroDegrees :: "int \<Rightarrow> string" where
  "formatMicroDegrees micro =
     (let pre = (if micro < 0 then ''-'' else []);
          (whole, frac) = QuoRem \<bar>micro\<bar> 1000000
      in pre @ show_int whole @ ''.'' @ leftPad (show_int frac) 6)"

definition trimZeroBytes :: "bytes \<Rightarrow> string" where
  "trimZeroBytes b = filter (\<lambda>c. c \<noteq> CHR 0x00) b"

section \<open>The project root\<close>

text \<open>\<open>filepath.Dir\<close> and \<open>filepath.Join\<close> on the clean path \<open>os.Getwd\<close> returns.\<close>

definition path_dir :: "string \<Rightarrow> string" where
  "path_dir p =
     (case dropWhile (\<lambda>c. c \<noteq> CHR ''/'') (rev p) of
        [] \<Rightarrow> ''.''
      | _ # r \<Rightarrow> if r = [] then ''/'' else rev r)"

definition path_join :: "string \<Rightarrow> string \<Rightarrow> string" where
  "path_join dir name = (if dir = ''/'' then dir @ name else dir @ ''/'' @ name)"

definition is_root :: "(string \<Rightarrow> bool) \<Rightarrow> string \<Rightarrow> bool" where
  "is_root stat dir \<longleftrightarrow> stat (path_join dir ''docker-compose.yaml'') \<and> stat (path_join dir ''go/tools'')"

definition path_depth :: "string \<Rightarrow> nat" where
  "path_depth p = (if p = ''.'' then 0 else if CHR ''/'' \<in> set p then length p + 1 else 1)"

lemma path_dir_shallower:
  assumes "path_dir p \<noteq> p"
  shows "path_depth (path_dir p) < path_depth p"
proof (cases "dropWhile (\<lambda>c. c \<noteq> CHR ''/'') (rev p)")
  case Nil
  from Nil have "path_dir p = ''.''" by (simp only: path_dir_def list.case)
  moreover from Nil have "CHR ''/'' \<notin> set p" by (simp only: dropWhile_eq_Nil_conv set_rev) blast
  ultimately show ?thesis using assms by (simp add: path_depth_def)
next
  case (Cons c r)
  then have "c = CHR ''/''" using hd_dropWhile [of "\<lambda>c. c \<noteq> CHR ''/''" "rev p"] by simp
  with Cons have "takeWhile (\<lambda>c. c \<noteq> CHR ''/'') (rev p) @ CHR ''/'' # r = rev p"
    using takeWhile_dropWhile_id [of "\<lambda>c. c \<noteq> CHR ''/''" "rev p"] by simp
  then obtain t where p: "rev p = t @ CHR ''/'' # r" by metis
  have "CHR ''/'' \<in> set (rev p)" by (simp add: p)
  then have s: "CHR ''/'' \<in> set p" by simp
  have l: "length p = length t + Suc (length r)" using arg_cong [OF p, of length] by simp
  show ?thesis
  proof (cases "r = []")
    case True
    with Cons have d: "path_dir p = ''/''" by (simp add: path_dir_def)
    have "length p \<noteq> 1"
    proof
      assume "length p = 1"
      with s have "p = ''/''" by (cases p) auto
      with assms d show False by simp
    qed
    with l True s d show ?thesis by (auto simp: path_depth_def)
  next
    case False
    with Cons have "path_dir p = rev r" by (simp add: path_dir_def)
    with l s show ?thesis by (auto simp: path_depth_def)
  qed
qed

text \<open>The walk up: the working directory or its nearest ancestor that holds the layout.\<close>

function projectRoot :: "(string \<Rightarrow> bool) \<Rightarrow> string \<Rightarrow> string res" where
  "projectRoot stat dir =
     (if is_root stat dir then Inr dir
      else if path_dir dir = dir
      then Inl ''could not find the project root: run this from inside the repository''
      else projectRoot stat (path_dir dir))"
  by pat_completeness auto

termination
  by (relation "measure (\<lambda>(stat, dir). path_depth dir)") (auto simp: path_dir_shallower)

declare projectRoot.simps [simp del]

section \<open>Settings\<close>

record settings =
  cfg_root :: string
  cfg_chainURL :: string
  cfg_proxyURL :: string
  cfg_addressesFile :: string
  cfg_stateURL :: string
  cfg_instructionSender :: address
  cfg_settlement :: address
  cfg_policyName :: string
  cfg_payoutTo :: address
  cfg_stateFile :: string

record commonFlags =
  cf_policy :: string
  cf_chainURL :: string
  cf_proxyURL :: string
  cf_stateURL :: string
  cf_stateFile :: string
  cf_payoutTo :: string
  cf_instrSend :: string
  cf_settlement :: string

definition defaultStateURL :: string where
  "defaultStateURL = ''http://127.0.0.1:7703/state''"

definition defaultPayoutTo :: string where
  "defaultPayoutTo = ''0x000000000000000000000000000000000000dEaD''"

definition default_flags :: "bool \<Rightarrow> commonFlags" where
  "default_flags withPolicy =
     \<lparr>cf_policy = (if withPolicy then defaultPolicyName else []), cf_chainURL = [], cf_proxyURL = [],
      cf_stateURL = defaultStateURL, cf_stateFile = [], cf_payoutTo = defaultPayoutTo, cf_instrSend = [],
      cf_settlement = []\<rparr>"

record host_lib =
  ho_Getwd :: "string res"
  ho_Stat :: "string \<Rightarrow> bool"
  ho_StatError :: "string \<Rightarrow> string"
  ho_Chdir :: "string \<Rightarrow> unit res"
  ho_LoadEnv :: "string \<Rightarrow> env \<Rightarrow> env res"
  ho_IsHexAddress :: "string \<Rightarrow> bool"
  ho_HexToAddress :: "string \<Rightarrow> address"
  ho_Quote :: "string \<Rightarrow> string"

text \<open>The env files that exist are loaded in turn; the first that cannot be loaded ends it.\<close>

fun load_env_files :: "host_lib \<Rightarrow> string \<Rightarrow> string list \<Rightarrow> env \<Rightarrow> env res" where
  "load_env_files h rootdir [] getenv = Inr getenv"
| "load_env_files h rootdir (name # names) getenv =
     (if \<not> ho_Stat h (path_join rootdir name) then load_env_files h rootdir names getenv
      else case ho_LoadEnv h (path_join rootdir name) getenv of
        Inl e \<Rightarrow> Inl (''loading '' @ name @ '': '' @ e)
      | Inr getenv' \<Rightarrow> load_env_files h rootdir names getenv')"

definition hex_address :: "host_lib \<Rightarrow> string \<Rightarrow> string \<Rightarrow> address res" where
  "hex_address h label s =
     (if ho_IsHexAddress h s then Inr (ho_HexToAddress h s)
      else Inl (label @ '' '' @ ho_Quote h s @ '' is not an address''))"

definition required :: "string \<Rightarrow> string \<Rightarrow> string res" where
  "required msg s = (if s = [] then Inl msg else Inr s)"

definition addresses_path :: "env \<Rightarrow> string" where
  "addresses_path getenv =
     (if getenv ''ADDRESSES_FILE'' \<noteq> [] then getenv ''ADDRESSES_FILE''
      else path_join (path_join ''config'' (firstNonEmpty [getenv ''CHAIN'', ''coston2'']))
             ''deployed-addresses.json'')"

definition resolve_settings :: "host_lib \<Rightarrow> string \<Rightarrow> env \<Rightarrow> commonFlags \<Rightarrow> settings res" where
  "resolve_settings h rootdir getenv c =
     res_bind (required ''no chain url: set CHAIN_URL in .env or pass --chain-url''
       (firstNonEmpty [cf_chainURL c, getenv ''CHAIN_URL''])) (\<lambda>chainURL.
     let addressesFile = addresses_path getenv
     in if \<not> ho_Stat h addressesFile
        then Inl (''addresses file '' @ addressesFile @ '' is not readable: '' @ ho_StatError h addressesFile)
        else
     res_bind (required (''no InstructionSender address: expected INSTRUCTION_SENDER in config/extension.env, '' @
                         ''written by scripts/pre-build.sh'')
       (firstNonEmpty [cf_instrSend c, getenv ''INSTRUCTION_SENDER''])) (\<lambda>sender.
     res_bind (hex_address h ''InstructionSender'' sender) (\<lambda>instructionSender.
     res_bind (required (''no PolicySettlement address: expected POLICY_SETTLEMENT in config/settlement.env, '' @
                         ''written by cmd/deploy-settlement'')
       (firstNonEmpty [cf_settlement c, getenv ''POLICY_SETTLEMENT''])) (\<lambda>settlementAddr.
     res_bind (hex_address h ''PolicySettlement'' settlementAddr) (\<lambda>settlement.
     res_bind (hex_address h ''payout recipient'' (cf_payoutTo c)) (\<lambda>payoutTo.
     if cf_policy c \<noteq> [] \<and> policyCatalog (cf_policy c) = None
     then Inl (''unknown policy '' @ ho_Quote h (cf_policy c) @ '', expected one of '' @ policyNameList)
     else Inr
       \<lparr>cfg_root = rootdir, cfg_chainURL = chainURL, cfg_proxyURL = cf_proxyURL c, cfg_addressesFile = addressesFile,
        cfg_stateURL = cf_stateURL c, cfg_instructionSender = instructionSender, cfg_settlement = settlement,
        cfg_policyName = cf_policy c, cfg_payoutTo = payoutTo,
        cfg_stateFile = (if cf_stateFile c = [] then path_join (path_join rootdir ''config'') ''demo-state.json''
                         else cf_stateFile c)\<rparr>))))))"

text \<open>Beside the settings, the environment as the files have completed it.\<close>

definition resolve :: "host_lib \<Rightarrow> env \<Rightarrow> commonFlags \<Rightarrow> (settings \<times> env) res" where
  "resolve h getenv c =
     res_bind (map_err (\<lambda>e. ''reading the working directory: '' @ e) (ho_Getwd h)) (\<lambda>wd.
     res_bind (projectRoot (ho_Stat h) wd) (\<lambda>rootdir.
     res_bind (map_err (\<lambda>e. ''entering the project root '' @ rootdir @ '': '' @ e) (ho_Chdir h rootdir)) (\<lambda>_.
     res_bind (load_env_files h rootdir [''.env'', ''config/extension.env'', ''config/settlement.env''] getenv) (\<lambda>env.
     res_bind (resolve_settings h rootdir env c) (\<lambda>s. Inr (s, env))))))"

section \<open>The extension proxy\<close>

definition proxyReachable :: "'c tee_http \<Rightarrow> string \<Rightarrow> 'c \<Rightarrow> bool \<times> 'c" where
  "proxyReachable http url w =
     (case Get http (url @ ''/info'') w of
        (Inl _, w') \<Rightarrow> (False, w')
      | (Inr (code, _), w') \<Rightarrow> (code = 200, w'))"

fun first_reachable :: "'c tee_http \<Rightarrow> string list \<Rightarrow> 'c \<Rightarrow> string option \<times> 'c" where
  "first_reachable http [] w = (None, w)"
| "first_reachable http (url # urls) w =
     (case proxyReachable http url w of
        (True, w') \<Rightarrow> (Some url, w')
      | (False, w') \<Rightarrow> first_reachable http urls w')"

definition requireProxy :: "'c tee_http \<Rightarrow> settings \<Rightarrow> ('c, settings) io" where
  "requireProxy http s w =
     (if cfg_proxyURL s \<noteq> [] then (Inr s, w)
      else case first_reachable http [''http://127.0.0.1:6674'', ''http://127.0.0.1:6664''] w of
        (Some url, w') \<Rightarrow> (Inr (s\<lparr>cfg_proxyURL := url\<rparr>), w')
      | (None, w') \<Rightarrow>
          (Inl (''no extension proxy answered at http://127.0.0.1:6674 or http://127.0.0.1:6664. '' @
                ''Is the stack running? Start it with ./scripts/start-services.sh, or pass --proxy''), w'))"

section \<open>The pool\<close>

record payoutPool =
  pl_token :: ERC20
  pl_executor :: address
  pl_symbol :: string
  pl_decimals :: "8 word"

definition resolvePool ::
    "('c, 'tx) settle_chain \<Rightarrow> ('c, 'tx) token_lib \<Rightarrow> ('c \<Rightarrow> address \<Rightarrow> address res) \<Rightarrow> env \<Rightarrow> 'c \<Rightarrow> address \<Rightarrow> payoutPool res" where
  "resolvePool chain lib executorCall getenv w settlementAddress =
     res_bind (map_err (\<lambda>e. ''binding PolicySettlement at '' @ tk_AddressHex lib settlementAddress @ '': '' @ e)
       (NewPolicySettlement chain settlementAddress)) (\<lambda>_.
     res_bind (map_err (\<lambda>e. ''reading payoutExecutor: '' @ e) (executorCall w settlementAddress)) (\<lambda>executor.
     if executor = 0
     then Inl (tk_AddressHex lib settlementAddress @
               '' has no payout executor. Run cmd/deploy-settlement, which wires one up'')
     else
     res_bind (map_err (\<lambda>e. ''resolving the payout asset: '' @ e) (ResolveFxrp lib getenv w)) (\<lambda>asset.
     res_bind (NewERC20 lib asset) (\<lambda>token.
     res_bind (Metadata lib token w) (\<lambda>(symbol, decimals).
     Inr \<lparr>pl_token = token, pl_executor = executor, pl_symbol = symbol, pl_decimals = decimals\<rparr>)))))"

definition pool_balance :: "('c, 'tx) token_lib \<Rightarrow> payoutPool \<Rightarrow> 'c \<Rightarrow> address \<Rightarrow> int res" where
  "pool_balance lib p w account =
     map_err (\<lambda>e. ''reading the balance of '' @ tk_AddressHex lib account @ '': '' @ e)
       (BalanceOf lib (pl_token p) account w)"

definition pool_format :: "payoutPool \<Rightarrow> int option \<Rightarrow> string" where
  "pool_format p amount = FormatUnits amount (pl_decimals p) @ '' '' @ pl_symbol p"

section \<open>Waiting for the enclave\<close>

text \<open>The loop remembers the last error for its message; \<open>expired\<close> is the test of the deadline,
  which sleeps when it has not passed.\<close>

definition action_probe ::
    "'c tee_http \<Rightarrow> string \<Rightarrow> hash \<Rightarrow> 'c \<times> string \<Rightarrow> ActionResponse res option \<times> ('c \<times> string)" where
  "action_probe http proxyURL iid s =
     (case ActionResult_poll http proxyURL iid (fst s) of
        (Inr resp, w') \<Rightarrow> (Some (Inr resp), (w', snd s))
      | (Inl e, w') \<Rightarrow> (None, (w', e)))"

definition action_pause ::
    "'c tee_http \<Rightarrow> ('c \<Rightarrow> bool \<times> 'c) \<Rightarrow> hash \<Rightarrow> string \<Rightarrow> 'c \<times> string \<Rightarrow> ActionResponse res option \<times> ('c \<times> string)" where
  "action_pause http expired iid timeout s =
     (case expired (fst s) of
        (True, w') \<Rightarrow>
          (Some (Inl (''no action result for instruction '' @ th_HashHex http iid @ '' after '' @ timeout @
             ''. The enclave may be busy, or a second TEE machine may be registered for this extension and '' @
             ''holding the instruction (TUTORIAL.md appendix A13). Last error: '' @ snd s)), (w', snd s))
      | (False, w') \<Rightarrow> (None, (w', snd s)))"

definition waitForActionResult ::
    "'c tee_http \<Rightarrow> ('c \<Rightarrow> bool \<times> 'c) \<Rightarrow> string \<Rightarrow> hash \<Rightarrow> string \<Rightarrow> ('c, ActionResponse) pio" where
  "waitForActionResult http expired proxyURL iid timeout w =
     map_option (\<lambda>(r, s). (r, fst s))
       (poll (action_probe http proxyURL iid) (action_pause http expired iid timeout) (w, []))"

end
