(* ===== verification/AegisCommands.thy ===== *)
theory AegisCommands
  imports AegisConfig
begin

text \<open>
  The commands of \<open>go/tools/cmd/aegis\<close>: \<open>register-model\<close>, \<open>evaluate\<close>, \<open>reregister-all\<close>, \<open>reveal\<close> and
  \<open>status\<close>, each from its parsed flags on.  What a command prints is left out unless it is its answer;
  what it reads, sends, writes and refuses is kept.  A command that waits for the enclave or
  for a proof is a \<open>pio\<close>: its value is \<open>None\<close> when it does not return.
\<close>

section \<open>What the commands are linked with\<close>

record ('c, 'tx, 'ty) aegis_env =
  ae_lib :: cli_lib
  ae_host :: host_lib
  ae_getenv :: env
  ae_http :: "'c tee_http"
  ae_NewDeadline :: "'c \<Rightarrow> 'c"
  ae_expired :: "'c \<Rightarrow> bool \<times> 'c"
  ae_NewContext :: "'c \<Rightarrow> 'c"
  ae_sender :: "('c, 'tx, RequestBody, Web2JsonProof) sender_lib"
  ae_fdc :: "('c, 'ty) fdc_lib"
  ae_hub :: "('c, 'tx) fdc_chain"
  ae_chain :: "('c, 'tx) settle_chain"
  ae_token :: "('c, 'tx) token_lib"
  ae_executor :: "'c \<Rightarrow> address \<Rightarrow> address res"
  ae_sig :: sig_lib
  ae_crypto :: tee_crypto
  ae_abi :: abi_lib
  ae_chainID :: int
  ae_connect :: "settings \<Rightarrow> unit res"
  ae_Encrypt :: "bytes \<Rightarrow> bytes \<Rightarrow> ('c, bytes) io"
  ae_HashText :: "hash \<Rightarrow> string"
  ae_Nonce :: "'c \<Rightarrow> bytes res \<times> 'c"
  ae_Now :: "'c \<Rightarrow> int"
  ae_DecodeStateResponse :: "bytes \<Rightarrow> StateResponse res"
  ae_ActiveMachines :: "'c \<Rightarrow> int \<Rightarrow> address list res"

abbreviation hex_of :: "('c, 'tx, 'ty) aegis_env \<Rightarrow> hash \<Rightarrow> string" where
  "hex_of E \<equiv> cl_HashHex (ae_lib E)"

text \<open>Waiting for the enclave starts a new deadline, two minutes from now.\<close>

definition wait_action ::
    "('c, 'tx, 'ty) aegis_env \<Rightarrow> settings \<Rightarrow> hash \<Rightarrow> ('c, ActionResponse) pio" where
  "wait_action E cfg iid w =
     waitForActionResult (ae_http E) (ae_expired E) (cfg_proxyURL cfg) iid ''2m0s'' (ae_NewDeadline E w)"

section \<open>register-model\<close>

definition bindTrigger ::
    "('c, 'tx, 'ty) aegis_env \<Rightarrow> settings \<Rightarrow> policyRecord \<Rightarrow> RequestBody \<Rightarrow> ('c, policyRecord) io" where
  "bindTrigger E cfg r requestBody =
     (let lib = ae_sender E; contract = cfg_instructionSender cfg
      in io_bind (io_wrap (\<lambda>e. ''asking the contract for the request hash: '' @ e)
           (io_read (\<lambda>w. TriggerRequestHash lib w contract requestBody))) (\<lambda>requestHash.
         let r' = r\<lparr>pc_RequestHash := hex_of E requestHash\<rparr>
         in io_bind (io_wrap (\<lambda>e. ''binding InstructionSender: '' @ e) (io_lift (BindSender lib contract))) (\<lambda>_.
            io_bind (io_wrap (\<lambda>e. ''reading the current binding: '' @ e)
              (io_read (\<lambda>w. PolicyTriggerCall lib w contract (record_id (ae_lib E) r)))) (\<lambda>existing.
            if existing = requestHash then io_ret r'
            else if existing \<noteq> 0
            then io_fail (''policy '' @ pc_PolicyID r @ '' is already bound to '' @ hex_of E existing @
                          '', and the binding is write once. Run with --new for a fresh policy id'')
            else
              io_bind (io_wrap (\<lambda>e. ''registerPolicyTrigger: '' @ e)
                (SendRegisterPolicyTrigger lib contract (record_id (ae_lib E) r) requestHash)) (\<lambda>_.
              io_ret r')))))"

text \<open>What goes on chain is the ciphertext, and only after it was searched for the parameters.\<close>

definition seal_and_send ::
    "('c, 'tx, 'ty) aegis_env \<Rightarrow> settings \<Rightarrow> policyRecord \<Rightarrow> ModelParameters \<Rightarrow> ('c, hash) io" where
  "seal_and_send E cfg r model =
     io_bind (io_wrap (\<lambda>e. ''fetching the TEE public key: '' @ e) (TeeInfo (ae_http E) (cfg_proxyURL cfg))) (\<lambda>teeInfo.
     io_bind (io_wrap (\<lambda>e. ''parsing the TEE public key: '' @ e)
       (io_lift (ParsePubKey (ae_crypto E) (ti_PublicKey teeInfo)))) (\<lambda>pub.
     io_bind (io_wrap (\<lambda>e. ''encoding the register request: '' @ e)
       (io_lift (RegisterModelRequest_Encode (ae_HashText E) \<lparr>rm_PolicyID = record_id (ae_lib E) r, rm_Model = model\<rparr>))) (\<lambda>plaintext.
     io_bind (io_wrap (\<lambda>e. ''sealing the model: '' @ e) (ae_Encrypt E pub plaintext)) (\<lambda>ciphertext.
     io_bind (io_lift (assertSealed model ciphertext)) (\<lambda>_.
     io_bind (io_wrap (\<lambda>e. ''registerModel: '' @ e)
       (SendRegisterModel (ae_sender E) (ae_getenv E) (cfg_instructionSender cfg) ciphertext)) (\<lambda>(iid, txh).
     io_ret iid))))))"

definition sealModel ::
    "('c, 'tx, 'ty) aegis_env \<Rightarrow> settings \<Rightarrow> policyRecord \<Rightarrow> ModelParameters \<Rightarrow> ('c, policyRecord) pio" where
  "sealModel E cfg r model =
     pio_bind (total (seal_and_send E cfg r model)) (\<lambda>iid.
     pio_bind (wait_action E cfg iid) (\<lambda>resp.
     total (if ar_Status (resp_Result resp) = 0
            then io_fail (''the enclave rejected the model: '' @ ar_Log (resp_Result resp))
            else io_ret (r\<lparr>pc_RegisterInstructionID := hex_of E iid, pc_ModelRegistered := True\<rparr>))))"

abbreviation net :: "('c, 'a) io \<Rightarrow> ('c cli_world, 'a) pio" where
  "net m \<equiv> total (on_net m)"

abbreviation save_record ::
    "('c, 'tx, 'ty) aegis_env \<Rightarrow> policyRecord \<Rightarrow> demoState \<Rightarrow> ('c cli_world, demoState) pio" where
  "save_record E r s \<equiv> total (on_disk (saveWith (ae_lib E) r s))"

definition load_all ::
    "('c, 'tx, 'ty) aegis_env \<Rightarrow> settings \<Rightarrow> ('c cli_world, demoState) io" where
  "load_all E cfg = io_bind (io_lift (ae_connect E cfg)) (\<lambda>_.
     io_read (\<lambda>w. loadState_cli (ae_lib E) (cw_disk w) (cfg_stateFile cfg)))"

definition draw_policy ::
    "('c, 'tx, 'ty) aegis_env \<Rightarrow> demoState \<Rightarrow> string \<Rightarrow> policyTemplate \<Rightarrow> bool \<Rightarrow> ('c, policyRecord \<times> bool) io" where
  "draw_policy E state name template forceNew w =
     (case ae_Nonce E w of
        (nonce, w') \<Rightarrow>
          (if (case get_policy state name of Some r \<Rightarrow> \<not> pc_Settled r \<and> \<not> forceNew | None \<Rightarrow> False)
           then (currentPolicy (ae_lib E) nonce (ae_Now E w) state name template forceNew, w)
           else (currentPolicy (ae_lib E) nonce (ae_Now E w') state name template forceNew, w')))"

definition runRegisterModel ::
    "('c, 'tx, 'ty) aegis_env \<Rightarrow> commonFlags \<Rightarrow> string \<Rightarrow> bool \<Rightarrow> string \<Rightarrow> ('c cli_world, policyRecord) pio" where
  "runRegisterModel E flags modelFile forceNew webConfig =
     pio_bind (total (io_lift (resolve (ae_host E) (ae_getenv E) flags))) (\<lambda>(cfg0, getenv).
     pio_bind (total (io_read (\<lambda>w. loadModel (ae_lib E) (cw_disk w) modelFile))) (\<lambda>model.
     pio_bind (net (requireProxy (ae_http E) cfg0)) (\<lambda>cfg.
     pio_bind (total (load_all E cfg)) (\<lambda>state.
     let template = the (policyCatalog (cfg_policyName cfg))
     in pio_bind (net (draw_policy E state (cfg_policyName cfg) template forceNew)) (\<lambda>(r, minted).
        pio_bind (total (io_wrap (\<lambda>e. ''building the attestation request: '' @ e)
          (io_lift (DroughtFeed_RequestBody (pt_feed template))))) (\<lambda>requestBody.
        pio_bind (net (io_wrap (\<lambda>e. ''the verifier refused the request: '' @ e)
          (PrepareRequest (ae_fdc E) (NewClient getenv) requestBody))) (\<lambda>encoded.
        let r1 = r\<lparr>pc_AbiEncodedRequest := ''0x'' @ hex_encode encoded\<rparr>
        in pio_bind (net (bindTrigger E cfg r1 requestBody)) (\<lambda>r2.
           pio_bind (save_record E r2 state) (\<lambda>state2.
           pio_bind (net_poll (sealModel E cfg r2 model)) (\<lambda>r3.
           pio_bind (save_record E r3 state2) (\<lambda>state3.
           total (if webConfig \<noteq> []
             then io_bind (on_disk (upsertWebPolicy (ae_lib E) webConfig r3 template)) (\<lambda>_. io_ret r3)
             else io_ret r3))))))))))))"

section \<open>evaluate\<close>

definition proofAttempts :: nat where
  "proofAttempts = 3"

definition attest_failed :: "uint64 \<Rightarrow> string \<Rightarrow> string" where
  "attest_failed rnd e =
     ''no proof after '' @ show_nat proofAttempts @ '' rounds, the last was '' @ show_nat (unat rnd) @
     ''. The round finalizes either way, so this means the data providers did not attest the request. '' @
     ''Check the source API is reachable and not rate limiting them. Last error: '' @ e"

text \<open>Waiting for the proof under a context of its own; the goroutine and the ticker that prints progress
  are the step relation of \<open>ProofWait\<close>.\<close>

definition waitForProof ::
    "('c, 'tx, 'ty) aegis_env \<Rightarrow> Client \<Rightarrow> uint64 \<Rightarrow> bytes \<Rightarrow> ('c, Web2JsonProof) pio" where
  "waitForProof E c rnd request w = WaitForProof (ae_fdc E) c rnd request (ae_NewContext E w)"

text \<open>\<open>n\<close> rounds are left; every round starts with its own request and its own timeout.\<close>

primrec attest_rounds ::
    "nat \<Rightarrow> ('c, 'tx, 'ty) aegis_env \<Rightarrow> Client \<Rightarrow> bytes \<Rightarrow> policyRecord \<Rightarrow> demoState \<Rightarrow>
     ('c cli_world, Web2JsonProof \<times> policyRecord \<times> demoState) pio" where
  "attest_rounds 0 E c request r state = total (io_fail [])"
| "attest_rounds (Suc n) E c request r state =
     pio_bind (net (io_wrap (\<lambda>e. ''submitting the attestation request: '' @ e) (SubmitRequest (ae_hub E) request)))
       (\<lambda>(rnd, txh).
     let r' = r\<lparr>pc_VotingRound := rnd\<rparr>
     in pio_bind (save_record E r' state) (\<lambda>state'.
        pio_bind (net_poll (pio_try (waitForProof E c rnd request))) (\<lambda>answer.
        case answer of
          Inr p \<Rightarrow> total (io_ret (p, r', state'))
        | Inl e \<Rightarrow>
            if n = 0 then total (io_fail (attest_failed rnd e))
            else attest_rounds n E c request r' state')))"

definition attest ::
    "('c, 'tx, 'ty) aegis_env \<Rightarrow> Client \<Rightarrow> bytes \<Rightarrow> policyRecord \<Rightarrow> demoState \<Rightarrow>
     ('c cli_world, Web2JsonProof \<times> policyRecord \<times> demoState) pio" where
  "attest = attest_rounds proofAttempts"

text \<open>The checks on the enclave's answer.\<close>

definition check_decision ::
    "('c, 'tx, 'ty) aegis_env \<Rightarrow> settings \<Rightarrow> policyRecord \<Rightarrow> ActionResponse \<Rightarrow> EvaluateResponse res" where
  "check_decision E cfg r response =
     (if ar_Status (resp_Result response) = 0
      then Inl (''the enclave could not evaluate the policy: '' @ ar_Log (resp_Result response) @
                ''. If the stack restarted since the model was registered, enclave memory is gone by design. '' @
                ''Run: aegis register-model --policy '' @ cfg_policyName cfg)
      else
     res_bind (map_err (\<lambda>e. ''decoding the decision: '' @ e)
       (DecodeEvaluateResponse (ae_abi E) (ar_Data (resp_Result response)))) (\<lambda>decision.
     if er_PolicyID decision \<noteq> record_id (ae_lib E) r
     then Inl (''the decision is for policy '' @ hex_of E (er_PolicyID decision) @ '', expected '' @ pc_PolicyID r)
     else if er_PayoutTo decision \<noteq> cfg_payoutTo cfg
     then Inl (''the decision pays '' @ tk_AddressHex (ae_token E) (er_PayoutTo decision) @ '', expected '' @
               tk_AddressHex (ae_token E) (cfg_payoutTo cfg))
     else if resp_Signature response = []
     then Inl ''the action result carries no TEE signature, so nothing could settle it''
     else Inr decision))"

definition scoreInEnclave ::
    "('c, 'tx, 'ty) aegis_env \<Rightarrow> settings \<Rightarrow> policyRecord \<Rightarrow> Web2JsonProof \<Rightarrow> demoState \<Rightarrow>
     ('c cli_world, EvaluateResponse \<times> ActionResponse \<times> policyRecord \<times> demoState) pio" where
  "scoreInEnclave E cfg r prf state =
     pio_bind (net (io_wrap (\<lambda>e. ''evaluate: '' @ e)
       (SendEvaluate (ae_sender E) (ae_getenv E) (cfg_instructionSender cfg) (record_id (ae_lib E) r)
          (cfg_payoutTo cfg) prf))) (\<lambda>(iid, txh).
     let r1 = r\<lparr>pc_EvaluateInstructionID := hex_of E iid\<rparr>
     in pio_bind (save_record E r1 state) (\<lambda>state1.
        pio_bind (net_poll (wait_action E cfg iid)) (\<lambda>response.
        pio_bind (total (io_lift (check_decision E cfg r1 response))) (\<lambda>decision.
        let r2 = r1\<lparr>pc_PayoutUnits := show_big (er_PayoutAmount decision)\<rparr>
        in pio_bind (save_record E r2 state1) (\<lambda>state2.
           total (io_ret (decision, response, r2, state2)))))))"

text \<open>The error of \<open>payout.Settle\<close> is the third component of its answer.\<close>

definition settle_io ::
    "('c, 'tx, 'ty) aegis_env \<Rightarrow> settings \<Rightarrow> ActionResponse \<Rightarrow> ('c, hash) io" where
  "settle_io E cfg response w =
     (case Settle (ae_sig E) (ae_chain E) (ae_chainID E) (cfg_settlement cfg) (Some response) w of
        ((txh, dec, Some e), w') \<Rightarrow> (Inl (''settle: '' @ e), w')
      | ((txh, dec, None), w') \<Rightarrow> (Inr txh, w'))"

definition settleDecision ::
    "('c, 'tx, 'ty) aegis_env \<Rightarrow> settings \<Rightarrow> payoutPool \<Rightarrow> policyRecord \<Rightarrow> EvaluateResponse \<Rightarrow> ActionResponse \<Rightarrow>
     int \<Rightarrow> int \<Rightarrow> demoState \<Rightarrow> ('c cli_world, policyRecord) pio" where
  "settleDecision E cfg pool r decision response poolBefore recipientBefore state =
     pio_bind (net (settle_io E cfg response)) (\<lambda>txh.
     let r' = r\<lparr>pc_SettleTx := hex_of E txh, pc_Settled := True\<rparr>
     in pio_bind (save_record E r' state) (\<lambda>_.
        pio_bind (net (io_read (\<lambda>w. pool_balance (ae_token E) pool w (pl_executor pool)))) (\<lambda>poolAfter.
        pio_bind (net (io_read (\<lambda>w. pool_balance (ae_token E) pool w (cfg_payoutTo cfg)))) (\<lambda>recipientAfter.
        pio_bind (net (io_read (\<lambda>w. SettlementOf (ae_chain E) (hex_of E) w (cfg_settlement cfg)
                                       (record_id (ae_lib E) r)))) (\<lambda>onchain.
        let poolDelta = poolBefore - poolAfter; recipientDelta = recipientAfter - recipientBefore;
            amount = the (er_PayoutAmount decision)
        in if amount = 0 then total (io_ret r')
           else if recipientDelta \<noteq> amount \<or> poolDelta \<noteq> amount
           then total (io_fail (''the enclave signed '' @ pool_format pool (Some amount) @ '' but the pool moved '' @
                  pool_format pool (Some poolDelta) @ '' and the recipient received '' @
                  pool_format pool (Some recipientDelta)))
           else total (io_ret r'))))))"

definition open_policy ::
    "('c, 'tx, 'ty) aegis_env \<Rightarrow> settings \<Rightarrow> demoState \<Rightarrow> policyRecord res" where
  "open_policy E cfg state =
     (let name = cfg_policyName cfg; again = ''Run: aegis register-model --policy '' @ name
      in case get_policy state name of
           None \<Rightarrow> Inl (''no policy '' @ ho_Quote (ae_host E) name @ '' yet. '' @ again)
         | Some r \<Rightarrow>
             if \<not> pc_ModelRegistered r
             then Inl (''policy '' @ pc_PolicyID r @ '' has no model in the enclave. '' @ again)
             else if pc_Settled r
             then Inl (''policy '' @ pc_PolicyID r @ '' is already settled, and a policy pays once. '' @ again @ '' --new'')
             else Inr r)"

definition stored_request :: "settings \<Rightarrow> policyRecord \<Rightarrow> bytes res" where
  "stored_request cfg r =
     (case hex_decode (TrimPrefix (pc_AbiEncodedRequest r) ''0x'') of
        Some (b # bs) \<Rightarrow> Inr (b # bs)
      | _ \<Rightarrow> Inl (''the stored attestation request for '' @ cfg_policyName cfg @
                  '' is unusable. Run: aegis register-model --policy '' @ cfg_policyName cfg))"

text \<open>From the loaded state on; \<open>runEvaluate\<close> puts the settings, the proxy and the state before it.\<close>

definition evaluate_policy ::
    "('c, 'tx, 'ty) aegis_env \<Rightarrow> env \<Rightarrow> settings \<Rightarrow> demoState \<Rightarrow> ('c cli_world, policyRecord) pio" where
  "evaluate_policy E getenv cfg state =
     pio_bind (total (io_lift (open_policy E cfg state))) (\<lambda>r.
     pio_bind (total (io_lift (stored_request cfg r))) (\<lambda>request.
     pio_bind (net (io_read (\<lambda>w. resolvePool (ae_chain E) (ae_token E) (ae_executor E) getenv w (cfg_settlement cfg)))) (\<lambda>pool.
     pio_bind (net (io_read (\<lambda>w. pool_balance (ae_token E) pool w (pl_executor pool)))) (\<lambda>poolBefore.
     pio_bind (net (io_read (\<lambda>w. pool_balance (ae_token E) pool w (cfg_payoutTo cfg)))) (\<lambda>recipientBefore.
     pio_bind (attest E (NewClient getenv) request r state) (\<lambda>(prf, r1, state1).
     pio_bind (total (io_wrap (\<lambda>e. ''decoding the attested reading: '' @ e)
       (io_lift (DecodeWeatherReading (ae_fdc E) (Some prf))))) (\<lambda>reading.
     pio_bind (scoreInEnclave E cfg r1 prf state1) (\<lambda>(decision, response, r2, state2).
     settleDecision E cfg pool r2 decision response poolBefore recipientBefore state2))))))))"

definition runEvaluate :: "('c, 'tx, 'ty) aegis_env \<Rightarrow> commonFlags \<Rightarrow> ('c cli_world, policyRecord) pio" where
  "runEvaluate E flags =
     pio_bind (total (io_lift (resolve (ae_host E) (ae_getenv E) flags))) (\<lambda>(cfg0, getenv).
     pio_bind (net (requireProxy (ae_http E) cfg0)) (\<lambda>cfg.
     pio_bind (total (load_all E cfg)) (\<lambda>state.
     evaluate_policy E getenv cfg state)))"

section \<open>reveal\<close>

definition state_body :: nat where
  "state_body = 8192"

definition enclaveModelCount :: "('c, 'tx, 'ty) aegis_env \<Rightarrow> string \<Rightarrow> ('c, int) io" where
  "enclaveModelCount E stateURL =
     io_bind (Get (ae_http E) stateURL) (\<lambda>(code, body).
     if code \<noteq> 200 then io_fail (''state endpoint answered '' @ show_int code)
     else io_bind (io_lift (ae_DecodeStateResponse E (take state_body body))) (\<lambda>s.
          io_ret (RegisteredModels (sr_State s))))"

text \<open>What the enclave gives away: the count and the version text.\<close>

definition runReveal :: "('c, 'tx, 'ty) aegis_env \<Rightarrow> commonFlags \<Rightarrow> ('c, int \<times> string) io" where
  "runReveal E flags =
     io_bind (io_lift (resolve (ae_host E) (ae_getenv E) flags)) (\<lambda>(cfg, getenv).
     io_bind (io_wrap (\<lambda>e. ''the enclave state endpoint is not reachable: '' @ e @
                ''. Nothing was revealed, but nothing was proved either. '' @
                ''Start the read only bridge with ./scripts/state-bridge.sh start'')
       (Get (ae_http E) (cfg_stateURL cfg))) (\<lambda>(code, body).
     if code \<noteq> 200
     then io_fail (''the endpoint answered '' @ show_int code @ '', so this attempt proved nothing'')
     else io_bind (io_wrap (\<lambda>e. ''the response is not the state envelope this extension serves: '' @ e)
            (io_lift (ae_DecodeStateResponse E (take state_body body)))) (\<lambda>s.
          io_ret (RegisteredModels (sr_State s), trimZeroBytes (bytes_of_hash (sr_StateVersion s))))))"

section \<open>status\<close>

datatype settlement_line = StillOpen | NothingOwed hash | PaidTo string address hash

record policy_status =
  ps_PolicyID :: hash
  ps_Trigger :: "hash option"
  ps_LastRound :: "uint64 option"
  ps_Settlement :: settlement_line
  ps_SettleTx :: string

definition settlement_status :: "payoutPool \<Rightarrow> Settlement \<Rightarrow> settlement_line" where
  "settlement_status pool s =
     (if \<not> st_Settled s then StillOpen
      else if st_Amount s = 0 then NothingOwed (st_InstructionID s)
      else PaidTo (pool_format pool (Some (st_Amount s))) (st_PayoutTo s) (st_InstructionID s))"

definition one_status ::
    "('c, 'tx, 'ty) aegis_env \<Rightarrow> settings \<Rightarrow> payoutPool \<Rightarrow> 'c \<Rightarrow> policyRecord \<Rightarrow> policy_status res" where
  "one_status E cfg pool w r =
     (let lib = ae_sender E; contract = cfg_instructionSender cfg; pid = record_id (ae_lib E) r
      in res_bind (map_err (\<lambda>e. ''reading the policy trigger: '' @ e) (PolicyTriggerCall lib w contract pid)) (\<lambda>bound.
         res_bind (map_err (\<lambda>e. ''reading the last attested voting round: '' @ e) (LastRoundCall lib w contract pid)) (\<lambda>rnd.
         res_bind (SettlementOf (ae_chain E) (hex_of E) w (cfg_settlement cfg) pid) (\<lambda>settled.
         Inr \<lparr>ps_PolicyID = pid, ps_Trigger = (if bound = 0 then None else Some bound),
              ps_LastRound = (if rnd = 0 then None else Some rnd),
              ps_Settlement = settlement_status pool settled, ps_SettleTx = pc_SettleTx r\<rparr>))))"

fun status_of ::
    "('c, 'tx, 'ty) aegis_env \<Rightarrow> settings \<Rightarrow> payoutPool \<Rightarrow> 'c \<Rightarrow> demoState \<Rightarrow> string list \<Rightarrow>
     (string \<times> policy_status option) list res" where
  "status_of E cfg pool w state [] = Inr []"
| "status_of E cfg pool w state (name # names) =
     res_bind (case get_policy state name of
                 None \<Rightarrow> Inr None
               | Some r \<Rightarrow> res_bind (one_status E cfg pool w r) (\<lambda>s. Inr (Some s))) (\<lambda>line.
     res_bind (status_of E cfg pool w state names) (\<lambda>rest. Inr ((name, line) # rest)))"

definition runStatus ::
    "('c, 'tx, 'ty) aegis_env \<Rightarrow> commonFlags \<Rightarrow> bool \<Rightarrow>
     ('c cli_world, (string \<times> policy_status option) list \<times> int \<times> int option) io" where
  "runStatus E flags allFlag =
     io_bind (io_lift (resolve (ae_host E) (ae_getenv E) flags)) (\<lambda>(cfg, getenv).
     io_bind (load_all E cfg) (\<lambda>state.
     io_bind (io_wrap (\<lambda>e. ''binding InstructionSender: '' @ e)
       (io_lift (BindSender (ae_sender E) (cfg_instructionSender cfg)))) (\<lambda>_.
     io_bind (io_read (\<lambda>w. resolvePool (ae_chain E) (ae_token E) (ae_executor E) getenv (cw_net w) (cfg_settlement cfg))) (\<lambda>pool.
     io_bind (io_read (\<lambda>w. status_of E cfg pool (cw_net w) state
                 (if allFlag then policyNames else [cfg_policyName cfg]))) (\<lambda>ls.
     io_bind (io_read (\<lambda>w. pool_balance (ae_token E) pool (cw_net w) (pl_executor pool))) (\<lambda>balance w.
     case on_net (enclaveModelCount E (cfg_stateURL cfg)) w of
       (Inl e, w') \<Rightarrow> (Inr (ls, balance, None), w')
     | (Inr n, w') \<Rightarrow> (Inr (ls, balance, Some n), w')))))))"

section \<open>reregister-all\<close>

definition defaultModelsDir :: string where
  "defaultModelsDir = ''config/demo-models''"

definition defaultWebPolicies :: string where
  "defaultWebPolicies = ''web/policies.json''"

text \<open>\<open>None\<close>: the policy is to be restored.\<close>

definition skipReason ::
    "('c, 'tx, 'ty) aegis_env \<Rightarrow> settings \<Rightarrow> 'c \<Rightarrow> policyRecord \<Rightarrow> string option res" where
  "skipReason E cfg w r =
     (let pid = record_id (ae_lib E) r
      in res_bind (map_err (\<lambda>e. ''reading the policy trigger for '' @ pc_PolicyID r @ '': '' @ e)
           (PolicyTriggerCall (ae_sender E) w (cfg_instructionSender cfg) pid)) (\<lambda>bound.
         if bound = 0 then Inr (Some ''not bound on chain, so nothing can settle it'')
         else if pc_RequestHash r \<noteq> [] \<and> bound \<noteq> cl_HexToHash (ae_lib E) (pc_RequestHash r)
         then Inr (Some (''bound to '' @ hex_of E bound @ '' on chain, not to the request in the state file''))
         else res_bind (SettlementOf (ae_chain E) (hex_of E) w (cfg_settlement cfg) pid) (\<lambda>settled.
              Inr (if st_Settled settled then Some ''already settled, a policy pays once'' else None))))"

definition checkEnclaveRegistered :: "('c, 'tx, 'ty) aegis_env \<Rightarrow> settings \<Rightarrow> ('c, unit) io" where
  "checkEnclaveRegistered E cfg =
     (if cfg_proxyURL cfg = [] then io_ret ()
      else
     io_bind (io_wrap (\<lambda>e. ''asking the proxy which enclave is running: '' @ e) (TeeInfo (ae_http E) (cfg_proxyURL cfg)))
       (\<lambda>teeInfo.
     io_bind (io_wrap (\<lambda>e. ''deriving the TEE id: '' @ e) (io_lift (TeeProxyId (ae_crypto E) (ae_sig E) teeInfo)))
       (\<lambda>(teeID, _).
     let ext = uint (md_ExtensionID (ti_MachineData teeInfo))
     in io_bind (io_wrap (\<lambda>e. ''reading the active TEE machines for extension '' @ show_int ext @ '': '' @ e)
          (io_read (\<lambda>w. ae_ActiveMachines E w ext))) (\<lambda>active.
        if teeID \<in> set active then io_ret ()
        else io_fail (''the enclave now running ('' @ tk_AddressHex (ae_token E) teeID @
               '') is not an active machine for extension '' @ show_int ext @ '', so nothing sent to it '' @
               ''will ever be processed. A restart mints a new TEE identity, which has to be registered before '' @
               ''models can go back in. Run: bash ./scripts/post-build.sh, then pause the machine the restart '' @
               ''replaced (TUTORIAL.md appendix A13)'')))))"

text \<open>One target: the counts of the restored and of the skipped, and the state, go on.\<close>

definition restore_one ::
    "('c, 'tx, 'ty) aegis_env \<Rightarrow> settings \<Rightarrow> string \<Rightarrow> bool \<Rightarrow> policyRecord \<Rightarrow> nat \<times> nat \<times> demoState \<Rightarrow>
     ('c cli_world, nat \<times> nat \<times> demoState) pio" where
  "restore_one E cfg modelsDir dryRun target st =
     (case st of (restored, skipped, state) \<Rightarrow>
        pio_bind (net (io_read (\<lambda>w. skipReason E cfg w target))) (\<lambda>reason.
        if reason \<noteq> None then total (io_ret (restored, skipped + 1, state))
        else
          pio_bind (total (io_read (\<lambda>w. modelFor (ae_lib E) path_join (cw_disk w) modelsDir (pc_Name target)))) (\<lambda>(model, source).
          if dryRun then total (io_ret (restored + 1, skipped, state))
          else
            pio_bind (net_poll (sealModel E cfg target model)) (\<lambda>target'.
            if (case get_policy state (pc_Name target) of Some x \<Rightarrow> pc_PolicyID x = pc_PolicyID target | None \<Rightarrow> False)
            then pio_bind (save_record E target' state) (\<lambda>state'. total (io_ret (restored + 1, skipped, state')))
            else total (io_ret (restored + 1, skipped, state))))))"

primrec restore_all ::
    "('c, 'tx, 'ty) aegis_env \<Rightarrow> settings \<Rightarrow> string \<Rightarrow> bool \<Rightarrow> policyRecord list \<Rightarrow> nat \<times> nat \<times> demoState \<Rightarrow>
     ('c cli_world, nat \<times> nat \<times> demoState) pio" where
  "restore_all E cfg modelsDir dryRun [] st = total (io_ret st)"
| "restore_all E cfg modelsDir dryRun (t # ts) st =
     pio_bind (restore_one E cfg modelsDir dryRun t st) (restore_all E cfg modelsDir dryRun ts)"

text \<open>The model count is only shown; that it cannot be read is not an error.\<close>

definition show_count :: "('c, 'tx, 'ty) aegis_env \<Rightarrow> settings \<Rightarrow> ('c, unit) io" where
  "show_count E cfg w = (Inr (), snd (enclaveModelCount E (cfg_stateURL cfg) w))"

text \<open>A dry run goes on without a proxy.\<close>

definition optional_proxy :: "'c tee_http \<Rightarrow> bool \<Rightarrow> settings \<Rightarrow> ('c, settings) io" where
  "optional_proxy http dryRun cfg w =
     (case requireProxy http cfg w of
        (Inl e, w') \<Rightarrow> if dryRun then (Inr cfg, w') else (Inl e, w')
      | (Inr cfg', w') \<Rightarrow> (Inr cfg', w'))"

definition runReregisterAll ::
    "('c, 'tx, 'ty) aegis_env \<Rightarrow> commonFlags \<Rightarrow> string \<Rightarrow> string \<Rightarrow> bool \<Rightarrow> ('c cli_world, nat \<times> nat) pio" where
  "runReregisterAll E flags modelsDir webConfig dryRun =
     pio_bind (total (io_lift (resolve (ae_host E) (ae_getenv E) flags))) (\<lambda>(cfg0, getenv).
     pio_bind (net (optional_proxy (ae_http E) dryRun cfg0)) (\<lambda>cfg.
     pio_bind (total (load_all E cfg)) (\<lambda>state.
     pio_bind (total (io_read (\<lambda>w. restoreTargets (ae_lib E) (cw_disk w) state webConfig))) (\<lambda>targets.
     if targets = [] then total (io_ret (0, 0))
     else
       pio_bind (net (checkEnclaveRegistered E cfg)) (\<lambda>_.
       pio_bind (net (show_count E cfg)) (\<lambda>_.
       pio_bind (total (io_wrap (\<lambda>e. ''binding InstructionSender: '' @ e)
         (io_lift (BindSender (ae_sender E) (cfg_instructionSender cfg))))) (\<lambda>_.
       pio_bind (restore_all E cfg modelsDir dryRun targets (0, 0, state)) (\<lambda>(restored, skipped, state').
       if dryRun then total (io_ret (restored, skipped))
       else pio_bind (net (show_count E cfg)) (\<lambda>_. total (io_ret (restored, skipped)))))))))))"

end
