(* ===== verification/FdcProps.thy ===== *)
theory FdcProps
  imports Fdc
begin

text \<open>
  What the FDC client guarantees: hex blobs and attestation names read back, proofs are well formed, the
  voting round covers the submission block, waiting for a proof ends, and a request body belongs
  to one weather feed.
\<close>

section \<open>A demonstration client\<close>

text \<open>The world counts the pauses that are left; the round is provable from the third last on.\<close>

definition demo_body :: RequestBody where
  "demo_body = \<lparr>rb_Url = [], rb_HttpMethod = [], rb_Headers = [], rb_QueryParams = [], rb_Body = [],
     rb_PostProcessJq = [], rb_AbiSignature = []\<rparr>"

definition demo_fdc_response :: Web2JsonResponse where
  "demo_fdc_response = \<lparr>wr_AttestationType = 1, wr_SourceId = 2, wr_VotingRound = 7, wr_LowestUsedTimestamp = 0,
     wr_RequestBody = demo_body, wr_AbiEncodedData = ''data''\<rparr>"

definition demo_reading :: WeatherReading where
  "demo_reading = \<lparr>LatitudeMicroDeg = - 7250000, LongitudeMicroDeg = 112750000, RainfallTenthsMm = 120\<rparr>"

definition demo_fdc :: "(nat, unit) fdc_lib" where
  "demo_fdc =
     \<lparr>fl_Quote = id, HexErrorText = id, NewRequest = (\<lambda>u. Inr ()),
      DoPost = (\<lambda>u h p w. (Inr (200, Inr (if w \<le> 3 then ''done'' else ''open'')), w)),
      UnmarshalPrepare = (\<lambda>b. Inl ''none''),
      UnmarshalProof = (\<lambda>b. Inr \<lparr>da_AttestationType = [], da_Proof = [],
                              da_ResponseHex = (if b = ''done'' then hex_encode ''r'' else [])\<rparr>),
      GetAbi = Inr [''evaluate'' \<mapsto> [\<lparr>ai_IsTuple = True, ai_RawNames = [''data''], ai_Elems = [()], ai_Type = ()\<rparr>],
                    ''weatherReadingAbi'' \<mapsto> [\<lparr>ai_IsTuple = True, ai_RawNames = [], ai_Elems = [], ai_Type = ()\<rparr>]],
      UnpackResponse = (\<lambda>t b. Inr [demo_fdc_response]), UnpackReading = (\<lambda>t b. Inr [demo_reading]),
      CtxPause = (\<lambda>w. (w = 0, w - 1))\<rparr>"

definition demo_client :: Client where
  "demo_client = \<lparr>VerifierURL = ''v'', DALayerURL = ''d'', APIKey = ''k''\<rparr>"

lemma demo_type: "web2JsonResponseType demo_fdc = Inr ()"
  by (simp add: web2JsonResponseType_def demo_fdc_def find_data_input_def)

lemma demo_unpack: "UnpackResponse demo_fdc () b = Inr [demo_fdc_response]"
  by (simp add: demo_fdc_def)

section \<open>Hex blobs\<close>

lemma hexutilDecode_hex:
  "hexutilDecode errText (hex_encode b) = Inr b" "hexutilDecode errText (''0x'' @ hex_encode b) = Inr b"
proof -
  show "hexutilDecode errText (hex_encode b) = Inr b"
    by (simp only: hexutilDecode_def TrimSpace_hex TrimPrefix_hex_encode Let_def) simp
  have "TrimPrefix (''0x'' @ hex_encode b) ''0x'' = hex_encode b" by (simp add: TrimPrefix_def)
  then show "hexutilDecode errText (''0x'' @ hex_encode b) = Inr b"
    by (simp only: hexutilDecode_def TrimSpace_hex Let_def) simp
qed

lemma decode_nodes_ok:
  "decode_nodes errText i texts = Inr nodes \<longleftrightarrow>
     list_all2 (\<lambda>t n. hexutilDecode errText t = Inr n \<and> length n = 32) texts nodes"
proof (induction texts arbitrary: i nodes)
  case (Cons t ts)
  show ?case
    by (cases nodes) (auto simp: res_bind_Inr Cons.IH split: sum.splits)
qed auto

lemma DecodeProof_ok:
  "DecodeProof lib texts respHex = Inr p \<longleftrightarrow>
     (\<exists>b ty. hexutilDecode (HexErrorText lib) respHex = Inr b \<and> web2JsonResponseType lib = Inr ty \<and>
        UnpackResponse lib ty b = Inr [wp_Data p] \<and>
        list_all2 (\<lambda>t n. hexutilDecode (HexErrorText lib) t = Inr n \<and> length n = 32) texts (wp_MerkleProof p))"
proof (cases p)
  case (fields nodes resp)
  then show ?thesis
    by (simp add: DecodeProof_def res_bind_Inr case_single_Inr decode_nodes_ok)
qed



section \<open>Voting rounds\<close>

lemma VotingRoundID_ok:
  assumes "FirstVotingRoundStartTs ch w = Inr first" and "VotingEpochDurationSeconds ch w = Inr duration"
  shows "VotingRoundID ch w ts = Inr r \<longleftrightarrow> duration \<noteq> 0 \<and> first \<le> ts \<and> r = (ts - first) div duration"
  using assms by (auto simp: VotingRoundID_def not_less)

lemma voting_round_interval:
  fixes ts first duration :: uint64
  assumes "duration \<noteq> 0" and "first \<le> ts"
  defines "r \<equiv> (ts - first) div duration"
  shows "unat first + unat r * unat duration \<le> unat ts"
    and "unat ts < unat first + (unat r + 1) * unat duration"
proof -
  have d: "0 < unat duration" using assms(1) by (simp add: unat_gt_0)
  have s: "unat (ts - first) = unat ts - unat first" using assms(2) by (simp add: unat_sub)
  have le: "unat first \<le> unat ts" using assms(2) by (simp add: word_le_nat_alt)
  have r: "unat r = (unat ts - unat first) div unat duration" by (simp add: r_def unat_div s)
  have "unat r * unat duration \<le> unat ts - unat first" by (simp add: r)
  with le show "unat first + unat r * unat duration \<le> unat ts" by simp
  have "unat ts - unat first < (unat r + 1) * unat duration"
    using d unfolding r by (simp add: dividend_less_div_times)
  then show "unat ts < unat first + (unat r + 1) * unat duration" using le by simp
qed

lemma SubmitRequest_ok:
  "SubmitRequest ch req w = (Inr (r, txh), w') \<longleftrightarrow>
     (\<exists>hub fee tx w1 rcpt time. fc_Hub ch = Some hub \<and> RequestFee ch w req = Inr fee \<and> fc_Transactor ch = Inr () \<and>
        SendRequestAttestation ch hub req fee w = (Inr tx, w1) \<and> CheckTx (fc_Tx ch) tx w1 = (Inr rcpt, w') \<and>
        HeaderTime ch w' (rcpt_BlockHash rcpt) = Inr time \<and> VotingRoundID ch w' time = Inr r \<and>
        txh = rcpt_TxHash rcpt)"
  by (auto simp: SubmitRequest_def io_ok split: option.splits)

text \<open>C34. A submitted attestation request has paid the fee the hub asked for, is in a transaction that
  did not revert, and the round returned is the one the submission block falls in: its time lies in
  the round's interval, computed without wrap-around, and in no other round's.\<close>

theorem submitted_round_covers_block:
  assumes "SubmitRequest ch req w = (Inr (r, txh), w')"
    and "FirstVotingRoundStartTs ch w' = Inr first" and "VotingEpochDurationSeconds ch w' = Inr duration"
  shows "\<exists>hub fee tx w1 rcpt time. fc_Hub ch = Some hub \<and> RequestFee ch w req = Inr fee \<and>
      SendRequestAttestation ch hub req fee w = (Inr tx, w1) \<and> WaitMined (fc_Tx ch) tx w1 = (Inr rcpt, w') \<and>
      rcpt_Status rcpt \<noteq> 0 \<and> txh = rcpt_TxHash rcpt \<and> HeaderTime ch w' (rcpt_BlockHash rcpt) = Inr time \<and>
      (\<forall>n. unat first + n * unat duration \<le> unat time \<and> unat time < unat first + (n + 1) * unat duration
            \<longleftrightarrow> n = unat r)"
proof -
  from assms(1) obtain hub fee tx w1 rcpt time where run:
    "fc_Hub ch = Some hub" "RequestFee ch w req = Inr fee"
    "SendRequestAttestation ch hub req fee w = (Inr tx, w1)" "CheckTx (fc_Tx ch) tx w1 = (Inr rcpt, w')"
    "HeaderTime ch w' (rcpt_BlockHash rcpt) = Inr time" "VotingRoundID ch w' time = Inr r" "txh = rcpt_TxHash rcpt"
    by (auto simp: SubmitRequest_ok)
  from run(6) VotingRoundID_ok [OF assms(2,3)] have r:
    "duration \<noteq> 0" "first \<le> time" "r = (time - first) div duration" by auto
  note iv = voting_round_interval [OF r(1,2), folded r(3)]
  have "n = unat r" if n: "unat first + n * unat duration \<le> unat time" "unat time < unat first + (n + 1) * unat duration" for n
  proof -
    have "n * unat duration < (unat r + 1) * unat duration" "unat r * unat duration < (n + 1) * unat duration"
      using n iv by linarith+
    then have "n < unat r + 1" "unat r < n + 1" using mult_less_cancel2 by blast+
    then show ?thesis by simp
  qed
  with iv have "\<forall>n. unat first + n * unat duration \<le> unat time \<and> unat time < unat first + (n + 1) * unat duration
      \<longleftrightarrow> n = unat r" by blast
  moreover from run(4) have "WaitMined (fc_Tx ch) tx w1 = (Inr rcpt, w')" "rcpt_Status rcpt \<noteq> 0"
    by (simp_all add: CheckTx_ok)
  ultimately show ?thesis using run by blast
qed

definition demo_hub :: "(nat, nat) fdc_chain" where
  "demo_hub =
     \<lparr>fc_Tx = \<lparr>TxHash = (\<lambda>t. of_nat t), TxHashHex = (\<lambda>h. ''0x''),
        WaitMined = (\<lambda>t w. (Inr \<lparr>rcpt_Status = 1, rcpt_TxHash = of_nat t, rcpt_BlockHash = 6,
          rcpt_BlockNumber = 5, rcpt_Logs = []\<rparr>, w)),
        TransactionByHash = (\<lambda>w h. Inl ''not found''), TxSender = (\<lambda>t. Inr 9),
        CallContract = (\<lambda>w t a. Inr []), UnpackRevert = (\<lambda>b. None)\<rparr>,
      fc_Transactor = Inr (), fc_Hub = Some 5, FeeConfigurations = (\<lambda>w a. Inr 8), ParseFeeAbi = Inr (),
      GetRequestFee = (\<lambda>w a b. Inr [AbiBigInt 12]), SendRequestAttestation = (\<lambda>a b v w. (Inr w, w + 1)),
      HeaderTime = (\<lambda>w h. Inr 1000), FirstVotingRoundStartTs = (\<lambda>w. Inr 100),
      VotingEpochDurationSeconds = (\<lambda>w. Inr 90)\<rparr>"

theorem submitted_round_covers_block_witness:
  "SubmitRequest demo_hub ''req'' 17 = (Inr (10, 17), 18) \<and>
     (\<exists>time. HeaderTime demo_hub 18 6 = Inr time \<and> 100 + 10 * 90 \<le> unat time \<and> unat time < 100 + 11 * 90)"
proof -
  have run: "SubmitRequest demo_hub ''req'' 17 = (Inr (10, 17), 18)"
    by (simp add: SubmitRequest_ok demo_hub_def RequestFee_def CheckTx_ok VotingRoundID_def)
  moreover have "FirstVotingRoundStartTs demo_hub 18 = Inr 100" "VotingEpochDurationSeconds demo_hub 18 = Inr 90"
    by (simp_all add: demo_hub_def)
  from submitted_round_covers_block [OF run this]
  obtain rcpt tx w1 time where t: "WaitMined (fc_Tx demo_hub) tx w1 = (Inr rcpt, 18)"
    "HeaderTime demo_hub 18 (rcpt_BlockHash rcpt) = Inr time"
    "unat (100 :: uint64) + unat (10 :: uint64) * unat (90 :: uint64) \<le> unat time \<and>
     unat time < unat (100 :: uint64) + (unat (10 :: uint64) + 1) * unat (90 :: uint64)" by blast
  have "HeaderTime demo_hub 18 6 = Inr time" using t(2) by (simp add: demo_hub_def)
  with t(3) show ?thesis using run by auto
qed

section \<open>Waiting for a proof\<close>

text \<open>A context whose deadline comes nearer with every pause, and that HTTP does not put off.\<close>

definition fair_clock :: "('w, 'ty) fdc_lib \<Rightarrow> ('w \<Rightarrow> nat) \<Rightarrow> bool" where
  "fair_clock lib left \<longleftrightarrow>
     (\<forall>w w'. CtxPause lib w = (False, w') \<longrightarrow> left w' < left w) \<and>
     (\<forall>u h p w. left (snd (DoPost lib u h p w)) \<le> left w)"

lemma post_world:
  "snd (post lib c url payload w) = w \<or>
   snd (post lib c url payload w) = snd (DoPost lib url [(''Content-Type'', ''application/json''), (''X-API-KEY'', APIKey c)] payload w)"
  by (auto simp: post_def io_bind_def io_wrap_def io_lift_def io_fail_def io_ret_def Let_def
      split: prod.splits sum.splits if_splits)

lemma FetchProof_world: "\<exists>url payload. snd (FetchProof lib c rnd req w) = snd (post lib c url payload w)"
proof -
  let ?p = "post lib c (TrimSuffix (DALayerURL c) ''/'' @ ''/api/v1/fdc/proof-by-request-round-raw'')
    (json_object [(''requestBytes'', json_string (''0x'' @ hex_encode req)), (''votingRoundId'', show_nat (unat rnd))]) w"
  have "snd (FetchProof lib c rnd req w) = snd ?p"
    by (cases ?p; cases "fst ?p") (simp_all add: FetchProof_def Let_def split: sum.splits)
  then show ?thesis by blast
qed

lemma FetchProof_left:
  assumes "fair_clock lib left"
  shows "left (snd (FetchProof lib c rnd req w)) \<le> left w"
proof -
  obtain url payload where p: "snd (FetchProof lib c rnd req w) = snd (post lib c url payload w)"
    using FetchProof_world [of lib c rnd req w] by blast
  show ?thesis
    using assms post_world [of lib c url payload w] unfolding p by (auto simp: fair_clock_def)
qed

lemma proof_probe_world: "snd (proof_probe lib c rnd req w) = snd (FetchProof lib c rnd req w)"
  by (auto simp: proof_probe_def split: prod.splits sum.splits option.splits)

interpretation proof_poll: polling "proof_probe lib c rnd req" "proof_pause lib rnd" left "fair_clock lib left"
  for lib :: "('w, 'ty) fdc_lib" and c rnd req and left :: "'w \<Rightarrow> nat"
proof
  show "fair_clock lib left \<Longrightarrow> left (snd (proof_probe lib c rnd req w)) \<le> left w" for w
    by (simp add: proof_probe_world FetchProof_left)
  show "fair_clock lib left \<Longrightarrow> proof_pause lib rnd w = (None, w') \<Longrightarrow> left w' < left w" for w w'
    by (auto simp: proof_pause_def fair_clock_def split: prod.splits bool.splits)
qed


lemma demo_fetch:
  "FetchProof demo_fdc c rnd req 3 = (Inr (Some \<lparr>wp_MerkleProof = [], wp_Data = demo_fdc_response\<rparr>), 3)"
proof -
  have dec: "DecodeProof demo_fdc [] (hex_encode ''r'') = Inr \<lparr>wp_MerkleProof = [], wp_Data = demo_fdc_response\<rparr>"
    by (simp add: DecodeProof_ok hexutilDecode_hex demo_type demo_unpack del: hex_encode.simps)
  have "post demo_fdc c url payload 3 = (Inr ''done'', 3)" for url payload
    by (simp add: post_def io_simps demo_fdc_def max_body_def Let_def)
  moreover have "UnmarshalProof demo_fdc ''done'' =
      Inr \<lparr>da_AttestationType = [], da_Proof = [], da_ResponseHex = hex_encode ''r''\<rparr>"
    by (simp add: demo_fdc_def del: hex_encode.simps)
  moreover have "hex_encode ''r'' \<noteq> []" by simp
  ultimately show ?thesis by (simp add: FetchProof_def dec Let_def del: hex_encode.simps)
qed


section \<open>One request body, one feed\<close>

definition plain_feed :: "DroughtFeed \<Rightarrow> bool" where
  "plain_feed f \<longleftrightarrow> list_all (list_all ascii) [LatitudeDeg f, LongitudeDeg f, StartDate f, EndDate f]"

lemma RequestBody_ok:
  "DroughtFeed_RequestBody f = Inr b \<longleftrightarrow>
     LatitudeDeg f \<noteq> [] \<and> LongitudeDeg f \<noteq> [] \<and> StartDate f \<noteq> [] \<and> EndDate f \<noteq> [] \<and>
     b = \<lparr>rb_Url = OpenMeteoArchiveURL, rb_HttpMethod = ''GET'', rb_Headers = ''{}'',
          rb_QueryParams = queryParams f, rb_Body = ''{}'', rb_PostProcessJq = rainfallJq,
          rb_AbiSignature = weatherReadingABISignature\<rparr>"
  by (auto simp: DroughtFeed_RequestBody_def DroughtFeed_Validate_def)

text \<open>C36. A feed that is fully specified has a request body, a feed with an empty field has none, and
  the body determines the feed: two feeds written in ASCII with the same body, hence the same
  on-chain trigger, name the same place and the same window.\<close>

theorem request_body_determines_feed:
  assumes "plain_feed f" and "plain_feed g"
  shows "is_ok (DroughtFeed_RequestBody f) = ([] \<notin> {LatitudeDeg f, LongitudeDeg f, StartDate f, EndDate f}) \<and>
    (\<forall>b. DroughtFeed_RequestBody f = Inr b \<and> DroughtFeed_RequestBody g = Inr b \<longrightarrow> f = g)"
proof (intro conjI allI impI)
  show "is_ok (DroughtFeed_RequestBody f) = ([] \<notin> {LatitudeDeg f, LongitudeDeg f, StartDate f, EndDate f})"
    by (auto simp: DroughtFeed_RequestBody_def DroughtFeed_Validate_def)
  fix b
  assume "DroughtFeed_RequestBody f = Inr b \<and> DroughtFeed_RequestBody g = Inr b"
  then have "queryParams f = queryParams g" by (auto simp: RequestBody_ok)
  then have "[LatitudeDeg f, LongitudeDeg f, StartDate f, EndDate f, ''precipitation_sum'', ''UTC''] =
      [LatitudeDeg g, LongitudeDeg g, StartDate g, EndDate g, ''precipitation_sum'', ''UTC'']"
    unfolding queryParams_def
    by (rule json_object_inj [rotated 4]) (use assms in \<open>simp_all add: plain_feed_def ascii_def\<close>)
  then show "f = g" by (cases f; cases g) simp
qed

theorem request_body_determines_feed_witness:
  "is_ok (DroughtFeed_RequestBody
     \<lparr>LatitudeDeg = ''-7.25'', LongitudeDeg = ''112.75'', StartDate = ''2025-06-01'', EndDate = ''2025-08-31''\<rparr>)"
proof -
  have "plain_feed \<lparr>LatitudeDeg = ''-7.25'', LongitudeDeg = ''112.75'', StartDate = ''2025-06-01'', EndDate = ''2025-08-31''\<rparr>"
    by (simp add: plain_feed_def ascii_def)
  from request_body_determines_feed [OF this this] show ?thesis by simp
qed

end
