(* ===== verification/AegisClaims.thy ===== *)
theory AegisClaims
  imports AegisCommands FdcProps PayoutClaims
begin

text \<open>
  What the \<open>aegis\<close> commands guarantee: a policy is bound once and to the feed it was created from, a
  decision is settled only when it is the enclave's for this policy and the money moved exactly as
  decided, and every command returns.
\<close>

section \<open>Binding\<close>

text \<open>C19. The trigger binding is write once from this side too.  \<open>bindTrigger\<close> records the hash the
  contract computes for the feed's request; it sends nothing when the policy is already bound to it,
  refuses without sending when the policy is bound to any other request, and sends
  \<open>registerPolicyTrigger\<close> with exactly that policy and hash only when it is unbound; it succeeds only
  when that transaction did not revert.\<close>

theorem trigger_binding_is_write_once:
  assumes "TriggerRequestHash (ae_sender E) w (cfg_instructionSender cfg) body = Inr h"
    and "PolicyTriggerCall (ae_sender E) w (cfg_instructionSender cfg) (record_id (ae_lib E) r) = Inr existing"
  shows "(\<forall>r' w'. bindTrigger E cfg r body w = (Inr r', w') \<longrightarrow>
        r' = r\<lparr>pc_RequestHash := cl_HashHex (ae_lib E) h\<rparr> \<and>
        (existing = h \<and> w' = w \<or>
         existing = 0 \<and> (\<exists>tx w1 rcpt.
           SendCall (ae_sender E) (cfg_instructionSender cfg)
             (CallRegisterPolicyTrigger (record_id (ae_lib E) r) h) None w = (Inr tx, w1) \<and>
           WaitMined (is_Tx (ae_sender E)) tx w1 = (Inr rcpt, w') \<and> rcpt_Status rcpt \<noteq> 0))) \<and>
    (existing \<noteq> h \<longrightarrow> existing \<noteq> 0 \<longrightarrow> (\<exists>e. bindTrigger E cfg r body w = (Inl e, w)))"
proof -
  have b: "BindSender (ae_sender E) (cfg_instructionSender cfg) = Inr ()"
    using assms(1) by (auto simp: TriggerRequestHash_def res_bind_Inr)
  have run: "bindTrigger E cfg r body w =
      (let r' = r\<lparr>pc_RequestHash := cl_HashHex (ae_lib E) h\<rparr>
       in if existing = h then (Inr r', w)
          else if existing \<noteq> 0
          then (Inl (''policy '' @ pc_PolicyID r @ '' is already bound to '' @ hex_of E existing @
                '', and the binding is write once. Run with --new for a fresh policy id''), w)
          else io_bind (io_wrap (\<lambda>e. ''registerPolicyTrigger: '' @ e)
                 (SendRegisterPolicyTrigger (ae_sender E) (cfg_instructionSender cfg) (record_id (ae_lib E) r) h))
                 (\<lambda>_. io_ret r') w)"
    using assms b
    by (simp add: bindTrigger_def Let_def io_bind_def io_wrap_def io_read_def io_lift_def io_ret_def io_fail_def)
  show ?thesis
    unfolding run Let_def using SendRegisterPolicyTrigger_ok
    by (fastforce simp: io_ok split: if_splits)
qed

section \<open>Settling\<close>

lemma settle_io_ok:
  "settle_io E cfg resp w = (Inr txh, w') \<longleftrightarrow>
     (\<exists>dec. Settle (ae_sig E) (ae_chain E) (ae_chainID E) (cfg_settlement cfg) (Some resp) w = ((txh, dec, None), w'))"
  by (auto simp: settle_io_def split: prod.splits option.splits)

lemma check_decision_ok:
  "check_decision E cfg r resp = Inr dec \<longleftrightarrow>
     ar_Status (resp_Result resp) \<noteq> 0 \<and> DecodeEvaluateResponse (ae_abi E) (ar_Data (resp_Result resp)) = Inr dec \<and>
     er_PolicyID dec = record_id (ae_lib E) r \<and> er_PayoutTo dec = cfg_payoutTo cfg \<and> resp_Signature resp \<noteq> []"
  by (auto simp: check_decision_def res_bind_Inr)

lemma pool_balance_ok: "pool_balance lib p w a = Inr b \<longleftrightarrow> BalanceOf lib (pl_token p) a w = Inr b"
  by (simp add: pool_balance_def)

lemma open_policy_ok:
  "open_policy E cfg state = Inr r \<longleftrightarrow>
     get_policy state (cfg_policyName cfg) = Some r \<and> pc_ModelRegistered r \<and> \<not> pc_Settled r"
  by (auto simp: open_policy_def Let_def split: option.splits)

lemma saveWith_path: "saveWith lib r s d = (Inr s', d') \<Longrightarrow> ds_path s' = ds_path s"
  by (auto simp: saveWith_ok put_policy_def)

lemma attest_rounds_record:
  fixes E :: "('c, 'tx, 'ty) aegis_env"
  shows "attest_rounds n E c req r state w = Some (Inr (p, r', state'), w') \<Longrightarrow>
     pc_PolicyID r' = pc_PolicyID r \<and> pc_Name r' = pc_Name r \<and> ds_path state' = ds_path state"
proof (induction n arbitrary: r state w)
  case (Suc n)
  then obtain rnd txh state1 w1 answer w2 where
    "on_disk (saveWith (ae_lib E) (r\<lparr>pc_VotingRound := rnd\<rparr>) state) (w1 :: 'c cli_world) = (Inr state1, w2)" and
    next_round: "(case answer of Inr p \<Rightarrow> total (io_ret (p, r\<lparr>pc_VotingRound := rnd\<rparr>, state1))
       | Inl e \<Rightarrow> if n = 0 then total (io_fail (attest_failed rnd e))
           else attest_rounds n E c req (r\<lparr>pc_VotingRound := rnd\<rparr>) state1) txh = Some (Inr (p, r', state'), w')"
    by (simp only: attest_rounds.simps pio_ok Let_def split_paired_Ex prod.case) (elim exE conjE, rule that, assumption+)
  then have path: "ds_path state1 = ds_path state" using saveWith_path by (auto simp: on_disk_ok)
  show ?case
  proof (cases answer)
    case (Inl e)
    with next_round show ?thesis
      using path Suc.IH [of "r\<lparr>pc_VotingRound := rnd\<rparr>" state1 txh]
      by (auto simp: pio_ok io_ok split: if_splits)
  next
    case (Inr q)
    with next_round path show ?thesis by (auto simp: pio_ok io_ok)
  qed
qed (simp add: total_def io_fail_def)

lemma check_decision_record [simp]:
  "check_decision E cfg (r\<lparr>pc_EvaluateInstructionID := x\<rparr>) resp = check_decision E cfg r resp"
  by (simp add: check_decision_def record_id_def Let_def cong: if_cong)

lemma scoreInEnclave_ok:
  assumes "scoreInEnclave E cfg r p state w = Some (Inr (dec, resp, r', state'), w')"
  shows "check_decision E cfg r resp = Inr dec \<and> pc_PolicyID r' = pc_PolicyID r \<and>
    (\<exists>iid txh w1 w2. SendEvaluate (ae_sender E) (ae_getenv E) (cfg_instructionSender cfg) (record_id (ae_lib E) r)
        (cfg_payoutTo cfg) p (cw_net w) = (Inr (iid, txh), w1) \<and> wait_action E cfg iid w1 = Some (Inr resp, w2))"
proof -
  from assms obtain iid txh w1 st2 w2 resp' w3 dec' st3 w4 where
    "on_net (SendEvaluate (ae_sender E) (ae_getenv E) (cfg_instructionSender cfg) (record_id (ae_lib E) r)
       (cfg_payoutTo cfg) p) w = (Inr (iid, txh), w1)"
    "on_disk (saveWith (ae_lib E) (r\<lparr>pc_EvaluateInstructionID := hex_of E iid\<rparr>) state) w1 = (Inr st2, w2)"
    "net_poll (wait_action E cfg iid) w2 = Some (Inr resp', w3)"
    "check_decision E cfg r resp' = Inr dec'"
    "(dec', resp', r\<lparr>pc_EvaluateInstructionID := hex_of E iid, pc_PayoutUnits := show_big (er_PayoutAmount dec')\<rparr>, st3) =
     (dec, resp, r', state')"
    by (auto simp: scoreInEnclave_def pio_ok io_ok on_net_ok Let_def)
  then show ?thesis by (auto simp: on_net_ok on_disk_ok net_poll_ok)
qed

lemma settleDecision_ok:
  assumes "settleDecision E cfg pool r dec resp pb rb state w = Some (Inr r', w')"
  obtains txh d v pa ra where
    "Settle (ae_sig E) (ae_chain E) (ae_chainID E) (cfg_settlement cfg) (Some resp) (cw_net w) = ((txh, d, None), v)"
    "BalanceOf (ae_token E) (pl_token pool) (pl_executor pool) v = Inr pa"
    "BalanceOf (ae_token E) (pl_token pool) (cfg_payoutTo cfg) v = Inr ra"
    "the (er_PayoutAmount dec) \<noteq> 0 \<longrightarrow> pb - pa = the (er_PayoutAmount dec) \<and> ra - rb = the (er_PayoutAmount dec)"
    "pc_Settled r'" "pc_PolicyID r' = pc_PolicyID r"
proof -
  let ?r = "\<lambda>txh. r\<lparr>pc_SettleTx := hex_of E txh, pc_Settled := True\<rparr>"
  let ?a = "the (er_PayoutAmount dec)"
  from assms obtain txh w1 st2 w2 pa w3 ra w4 where
    r: "on_net (settle_io E cfg resp) w = (Inr txh, w1)"
    "on_disk (saveWith (ae_lib E) (?r txh) state) w1 = (Inr st2, w2)"
    "on_net (io_read (\<lambda>w. pool_balance (ae_token E) pool w (pl_executor pool))) w2 = (Inr pa, w3)"
    "on_net (io_read (\<lambda>w. pool_balance (ae_token E) pool w (cfg_payoutTo cfg))) w3 = (Inr ra, w4)"
    "?a = 0 \<or> ra - rb = ?a \<and> pb - pa = ?a" "r' = ?r txh"
    by (simp only: settleDecision_def pio_ok Let_def)
      (elim exE conjE, rule that, assumption+, auto simp: pio_ok io_ok split: if_splits)
  from r(1) obtain d where
    "Settle (ae_sig E) (ae_chain E) (ae_chainID E) (cfg_settlement cfg) (Some resp) (cw_net w) = ((txh, d, None), cw_net w1)"
    by (auto simp: on_net_ok settle_io_ok)
  with r(2-) show thesis
    by (intro that [of txh d "cw_net w1" pa ra]) (auto simp: on_net_ok on_disk_ok io_read_ok pool_balance_ok)
qed

text \<open>C7. The command that moves money does so only on the enclave's word.  When \<open>aegis evaluate\<close>
  succeeds, the policy was known, had its model registered and was not settled; the instruction it
  sent carried the proof the attestation of the stored request returned; the enclave answered that very
  instruction with a signed result of nonzero status whose decoded decision is for this policy and this
  recipient; \<open>Settle\<close> took that result without error; and unless nothing was owed, the executor of
  the pool lost and the recipient gained exactly the decided amount between the readings
  before and after.  The record it returns is this policy's, marked settled.\<close>

theorem evaluate_moves_the_decided_amount:
  assumes "evaluate_policy E getenv cfg state w = Some (Inr r', w')"
  shows "\<exists>r req pool prf r1 state1 resp dec iid etx txh d pb rb pa ra u1 u2 v2 v3 v4 v5.
    get_policy state (cfg_policyName cfg) = Some r \<and> pc_ModelRegistered r \<and> \<not> pc_Settled r \<and>
    stored_request cfg r = Inr req \<and>
    resolvePool (ae_chain E) (ae_token E) (ae_executor E) getenv (cw_net w) (cfg_settlement cfg) = Inr pool \<and>
    attest E (NewClient getenv) req r state u1 = Some (Inr (prf, r1, state1), u2) \<and>
    BalanceOf (ae_token E) (pl_token pool) (pl_executor pool) (cw_net w) = Inr pb \<and>
    BalanceOf (ae_token E) (pl_token pool) (cfg_payoutTo cfg) (cw_net w) = Inr rb \<and>
    SendEvaluate (ae_sender E) (ae_getenv E) (cfg_instructionSender cfg) (record_id (ae_lib E) r) (cfg_payoutTo cfg)
      prf (cw_net u2) = (Inr (iid, etx), v2) \<and>
    wait_action E cfg iid v2 = Some (Inr resp, v3) \<and>
    ar_Status (resp_Result resp) \<noteq> 0 \<and> DecodeEvaluateResponse (ae_abi E) (ar_Data (resp_Result resp)) = Inr dec \<and>
    er_PolicyID dec = record_id (ae_lib E) r \<and> er_PayoutTo dec = cfg_payoutTo cfg \<and> resp_Signature resp \<noteq> [] \<and>
    Settle (ae_sig E) (ae_chain E) (ae_chainID E) (cfg_settlement cfg) (Some resp) v4 = ((txh, d, None), v5) \<and>
    BalanceOf (ae_token E) (pl_token pool) (pl_executor pool) v5 = Inr pa \<and>
    BalanceOf (ae_token E) (pl_token pool) (cfg_payoutTo cfg) v5 = Inr ra \<and>
    (the (er_PayoutAmount dec) \<noteq> 0 \<longrightarrow>
       pb - pa = the (er_PayoutAmount dec) \<and> ra - rb = the (er_PayoutAmount dec)) \<and>
    pc_Settled r' \<and> pc_PolicyID r' = pc_PolicyID r"
proof -
  from assms obtain r q1 req q2 pool q3 pb q4 rb w1 pf r1 state1 w2 reading q5 dec resp r2 state2 w3 where
    e: "total (io_lift (open_policy E cfg state)) w = Some (Inr r, q1)"
    "total (io_lift (stored_request cfg r)) q1 = Some (Inr req, q2)"
    "net (io_read (\<lambda>w. resolvePool (ae_chain E) (ae_token E) (ae_executor E) getenv w (cfg_settlement cfg))) q2 =
       Some (Inr pool, q3)"
    "net (io_read (\<lambda>w. pool_balance (ae_token E) pool w (pl_executor pool))) q3 = Some (Inr pb, q4)"
    "net (io_read (\<lambda>w. pool_balance (ae_token E) pool w (cfg_payoutTo cfg))) q4 = Some (Inr rb, w1)"
    "attest E (NewClient getenv) req r state w1 = Some (Inr (pf, r1, state1), w2)"
    "total (io_wrap (\<lambda>e. ''decoding the attested reading: '' @ e)
       (io_lift (DecodeWeatherReading (ae_fdc E) (Some pf)))) w2 = Some (Inr reading, q5)"
    "scoreInEnclave E cfg r1 pf state1 q5 = Some (Inr (dec, resp, r2, state2), w3)"
    "settleDecision E cfg pool r2 dec resp pb rb state2 w3 = Some (Inr r', w')"
    unfolding evaluate_policy_def pio_bind_ok split_paired_Ex prod.case
    by (elim exE conjE) (rule that, assumption+)
  then have a: "open_policy E cfg state = Inr r" "stored_request cfg r = Inr req" "q5 = w2"
    "resolvePool (ae_chain E) (ae_token E) (ae_executor E) getenv (cw_net w) (cfg_settlement cfg) = Inr pool"
    "BalanceOf (ae_token E) (pl_token pool) (pl_executor pool) (cw_net w) = Inr pb"
    "BalanceOf (ae_token E) (pl_token pool) (cfg_payoutTo cfg) (cw_net w) = Inr rb"
    by (auto simp: total_ok io_ok on_net_ok pool_balance_ok)
  have id: "pc_PolicyID r1 = pc_PolicyID r"
    using attest_rounds_record [OF e(6) [unfolded attest_def]] by simp
  then have rid: "record_id (ae_lib E) r1 = record_id (ae_lib E) r" by (simp add: record_id_def)
  from scoreInEnclave_ok [OF e(8)] obtain iid etx v2 v3 where
    s: "check_decision E cfg r1 resp = Inr dec" "pc_PolicyID r2 = pc_PolicyID r1"
    "SendEvaluate (ae_sender E) (ae_getenv E) (cfg_instructionSender cfg) (record_id (ae_lib E) r1)
        (cfg_payoutTo cfg) pf (cw_net q5) = (Inr (iid, etx), v2)" "wait_action E cfg iid v2 = Some (Inr resp, v3)"
    by blast
  from settleDecision_ok [OF e(9)] obtain txh d v5 pa ra where
    t: "Settle (ae_sig E) (ae_chain E) (ae_chainID E) (cfg_settlement cfg) (Some resp) (cw_net w3) = ((txh, d, None), v5)"
    "BalanceOf (ae_token E) (pl_token pool) (pl_executor pool) v5 = Inr pa"
    "BalanceOf (ae_token E) (pl_token pool) (cfg_payoutTo cfg) v5 = Inr ra"
    "the (er_PayoutAmount dec) \<noteq> 0 \<longrightarrow> pb - pa = the (er_PayoutAmount dec) \<and> ra - rb = the (er_PayoutAmount dec)"
    "pc_Settled r'" "pc_PolicyID r' = pc_PolicyID r2" .
  note facts = a [unfolded open_policy_ok] s(1) [unfolded check_decision_ok] s(2-) t
  show ?thesis
    by (rule exI [of _ r], rule exI [of _ req], rule exI [of _ pool], rule exI [of _ pf], rule exI [of _ r1],
        rule exI [of _ state1], rule exI [of _ resp], rule exI [of _ dec], rule exI [of _ iid], rule exI [of _ etx],
        rule exI [of _ txh], rule exI [of _ d], rule exI [of _ pb], rule exI [of _ rb], rule exI [of _ pa],
        rule exI [of _ ra], rule exI [of _ w1], rule exI [of _ w2], rule exI [of _ v2], rule exI [of _ v3],
        rule exI [of _ "cw_net w3"], rule exI [of _ v5])
      (use facts e(6) id rid in simp)
qed

section \<open>Every command returns\<close>

definition fair_proxy :: "'c tee_http \<Rightarrow> ('c \<Rightarrow> bool \<times> 'c) \<Rightarrow> ('c \<Rightarrow> nat) \<Rightarrow> bool" where
  "fair_proxy http expired left \<longleftrightarrow>
     (\<forall>w w'. expired w = (False, w') \<longrightarrow> left w' < left w) \<and>
     (\<forall>u w. left (snd (Get http u w)) \<le> left w) \<and> (\<forall>w. left (Sleep http w) \<le> left w)"

lemma attempts_left:
  assumes "\<And>w. left (snd (f w)) \<le> (left w :: nat)" and "\<And>w. left (pause w) \<le> left w"
  shows "left (snd (attempts n f pause stop r w)) \<le> left w"
proof (induction n arbitrary: r w)
  case (Suc n)
  obtain r' w' where f: "f w = (r', w')" by (cases "f w")
  then have "left w' \<le> left w" using assms(1) [of w] by simp
  moreover have "left (snd (attempts n f pause stop r' (pause w'))) \<le> left w'"
    using Suc [of r' "pause w'"] assms(2) [of w'] by simp
  ultimately show ?case using f by simp
qed simp

lemma ActionResult_poll_left:
  assumes "fair_proxy http expired left"
  shows "left (snd (ActionResult_poll http url iid w)) \<le> left w"
proof -
  have "left (snd (attempts repeats (Get http (action_url http url iid)) (Sleep http) ok_response (Inl []) w)) \<le> left w"
    using assms by (intro attempts_left) (auto simp: fair_proxy_def)
  then show ?thesis by (auto simp: ActionResult_poll_def split: prod.splits sum.splits)
qed

interpretation action_poll: polling "action_probe http url iid" "action_pause http expired iid timeout"
    "\<lambda>s. left (fst s)" "fair_proxy http expired left"
  for http :: "'c tee_http" and url iid expired timeout and left :: "'c \<Rightarrow> nat"
proof
  fix s :: "'c \<times> string"
  assume fair: "fair_proxy http expired left"
  show "left (fst (snd (action_probe http url iid s))) \<le> left (fst s)"
    using ActionResult_poll_left [OF fair, of url iid "fst s"]
    by (auto simp: action_probe_def split: prod.splits sum.splits)
next
  fix s s' :: "'c \<times> string"
  assume "fair_proxy http expired left" and "action_pause http expired iid timeout s = (None, s')"
  then show "left (fst s') < left (fst s)"
    by (auto simp: action_pause_def fair_proxy_def split: prod.splits bool.splits)
qed

lemma waitForActionResult_returns:
  "fair_proxy http expired left \<Longrightarrow> total_pio (waitForActionResult http expired url iid timeout)"
  using action_poll.returns unfolding total_pio_def waitForActionResult_def by (metis option.map_disc_iff option.simps(3))

definition fair_env :: "('c, 'tx, 'ty) aegis_env \<Rightarrow> bool" where
  "fair_env E \<longleftrightarrow> (\<exists>left. fair_proxy (ae_http E) (ae_expired E) left) \<and> (\<exists>left. fair_clock (ae_fdc E) left)"

lemma wait_action_returns: "fair_env E \<Longrightarrow> total_pio (wait_action E cfg iid)"
  using waitForActionResult_returns by (fastforce simp: fair_env_def total_pio_def wait_action_def)

lemma sealModel_returns: "fair_env E \<Longrightarrow> total_pio (sealModel E cfg r model)"
  unfolding sealModel_def by (intro total_pio_bind total_pio_total wait_action_returns)

lemma waitForProof_returns: "fair_env E \<Longrightarrow> total_pio (waitForProof E c rnd req)"
  using proof_poll.returns unfolding fair_env_def waitForProof_def WaitForProof_def total_pio_def by fastforce

lemma attest_rounds_returns: "fair_env E \<Longrightarrow> total_pio (attest_rounds n E c req r state)"
proof (induction n arbitrary: r state)
  case (Suc n)
  then show ?case
    by (auto simp: Let_def intro!: total_pio_bind total_net_poll total_pio_try waitForProof_returns
        split: prod.splits sum.splits)
qed simp

lemma scoreInEnclave_returns: "fair_env E \<Longrightarrow> total_pio (scoreInEnclave E cfg r p state)"
  unfolding scoreInEnclave_def Let_def
  by (auto intro!: total_pio_bind total_net_poll wait_action_returns split: prod.splits)

lemma settleDecision_returns: "total_pio (settleDecision E cfg pool r dec resp pb rb state)"
  unfolding settleDecision_def Let_def by (auto intro!: total_pio_bind)

lemma restore_all_returns: "fair_env E \<Longrightarrow> total_pio (restore_all E cfg dir dry ts st)"
proof (induction ts arbitrary: st)
  case (Cons t ts)
  have "total_pio (restore_one E cfg dir dry t st)"
    unfolding restore_one_def
    by (auto intro!: total_pio_bind total_net_poll sealModel_returns Cons.prems split: prod.splits)
  with Cons show ?case by (auto intro!: total_pio_bind)
qed simp

text \<open>No command hangs: when the deadlines come nearer while a command waits, \<open>register-model\<close>,
  \<open>evaluate\<close> and \<open>reregister-all\<close> return from every world and for every choice of flags, with a
  result or with an error, however the chain, the enclave and the data providers answer.\<close>

theorem commands_return:
  assumes "fair_env E"
  shows "runRegisterModel E flags modelFile forceNew webConfig w \<noteq> None \<and> runEvaluate E flags w \<noteq> None \<and>
    runReregisterAll E flags modelsDir webConfig dryRun w \<noteq> None"
proof -
  have "total_pio (runRegisterModel E flags modelFile forceNew webConfig)"
    unfolding runRegisterModel_def Let_def
    by (auto intro!: total_pio_bind total_net_poll sealModel_returns assms split: prod.splits)
  moreover have "total_pio (evaluate_policy E getenv cfg state)" for getenv cfg state
    unfolding evaluate_policy_def attest_def
    by (auto intro!: total_pio_bind attest_rounds_returns scoreInEnclave_returns settleDecision_returns assms
        split: prod.splits)
  then have "total_pio (runEvaluate E flags)"
    unfolding runEvaluate_def by (auto intro!: total_pio_bind split: prod.splits)
  moreover have "total_pio (runReregisterAll E flags modelsDir webConfig dryRun)"
    unfolding runReregisterAll_def
    by (auto intro!: total_pio_bind restore_all_returns assms split: prod.splits)
  ultimately show ?thesis by (simp add: total_pio_def)
qed

section \<open>A demonstration environment\<close>

text \<open>One policy, its model registered, whose season pays 450000 units: the world is a counter of
  transactions, every poll is answered at once, and the pool pays on the settlement.\<close>

definition demo_record :: policyRecord where
  "demo_record = demo_policy\<lparr>pc_ModelRegistered := True, pc_AbiEncodedRequest := ''0x'' @ hex_encode ''r''\<rparr>"

definition demo_loaded_state :: demoState where
  "demo_loaded_state = \<lparr>ds_path = ''st'', ds_Policies = [''drought-surabaya'' \<mapsto> demo_record]\<rparr>"

definition demo_settings :: settings where
  "demo_settings =
     \<lparr>cfg_root = ''/r'', cfg_chainURL = ''c'', cfg_proxyURL = ''p'', cfg_addressesFile = ''a'', cfg_stateURL = ''s'',
      cfg_instructionSender = 3, cfg_settlement = 3, cfg_policyName = ''drought-surabaya'', cfg_payoutTo = 0x1234,
      cfg_stateFile = ''st''\<rparr>"

definition demo_token :: "(nat, nat) token_lib" where
  "demo_token =
     \<lparr>tk_HexToAddress = (\<lambda>s. 70), tk_AddressHex = (\<lambda>a. ''0x''), ParseRegistryABI = Inr (), ParseManagerABI = Inr (),
      ParseErc20ABI = Inr (), GetContractAddressByName = (\<lambda>w a n. Inr (AbiAddress 71)),
      FAssetCall = (\<lambda>w a. Inr (AbiAddress 72)),
      BalanceOfCall = (\<lambda>w t a. Inr (AbiBigInt (if a = 50 then (if w = 5 then 550000 else 1000000)
                                             else (if w = 5 then 450000 else 0)))),
      SymbolCall = (\<lambda>w t. Inr (AbiString ''FXRP'')), DecimalsCall = (\<lambda>w t. Inr (AbiUint8 6)),
      SendTransfer = (\<lambda>t a v w. (Inr w, w + 1)), tk_TxHash = (\<lambda>t. of_nat t)\<rparr>"

definition demo_env :: "(nat, nat, unit) aegis_env" where
  "demo_env =
     \<lparr>ae_lib = demo_cli\<lparr>cl_HexToHash := (\<lambda>s. 7), EncodeState := (\<lambda>ps. Inr ''state'')\<rparr>,
      ae_host = \<lparr>ho_Getwd = Inr ''/r'', ho_Stat = (\<lambda>p. False), ho_StatError = (\<lambda>p. []), ho_Chdir = (\<lambda>p. Inr ()),
        ho_LoadEnv = (\<lambda>p g. Inr g), ho_IsHexAddress = (\<lambda>s. True), ho_HexToAddress = (\<lambda>s. 3), ho_Quote = id\<rparr>,
      ae_getenv = (\<lambda>k. []),
      ae_http = demo_http\<lparr>Get := (\<lambda>u w. (Inr (200, ''body''), w)), DecodeActionResponse := (\<lambda>b. Inr demo_response)\<rparr>,
      ae_NewDeadline = (\<lambda>w. w), ae_expired = (\<lambda>w. (True, w)), ae_NewContext = (\<lambda>w. 3),
      ae_sender = demo_sender, ae_fdc = demo_fdc, ae_hub = demo_hub, ae_chain = demo_chain, ae_token = demo_token,
      ae_executor = (\<lambda>w a. Inr 50), ae_sig = demo_sig, ae_crypto = demo_crypto, ae_abi = solidity_abi, ae_chainID = 114,
      ae_connect = (\<lambda>s. Inr ()), ae_Encrypt = (\<lambda>k m w. (Inr ''sealed'', w)), ae_HashText = hex_hash_text,
      ae_Nonce = (\<lambda>w. (Inr (replicate 32 (CHR 0x01)), w)), ae_Now = int,
      ae_DecodeStateResponse = (\<lambda>b. Inl ''none''), ae_ActiveMachines = (\<lambda>w e. Inr [])\<rparr>"

lemmas demo_env_simps =
  demo_env_def [THEN arg_cong [of _ _ ae_lib]] demo_env_def [THEN arg_cong [of _ _ ae_getenv]]
  demo_env_def [THEN arg_cong [of _ _ ae_http]] demo_env_def [THEN arg_cong [of _ _ ae_NewDeadline]]
  demo_env_def [THEN arg_cong [of _ _ ae_expired]] demo_env_def [THEN arg_cong [of _ _ ae_NewContext]]
  demo_env_def [THEN arg_cong [of _ _ ae_sender]] demo_env_def [THEN arg_cong [of _ _ ae_fdc]]
  demo_env_def [THEN arg_cong [of _ _ ae_hub]] demo_env_def [THEN arg_cong [of _ _ ae_chain]]
  demo_env_def [THEN arg_cong [of _ _ ae_token]] demo_env_def [THEN arg_cong [of _ _ ae_executor]]
  demo_env_def [THEN arg_cong [of _ _ ae_sig]] demo_env_def [THEN arg_cong [of _ _ ae_abi]]
  demo_env_def [THEN arg_cong [of _ _ ae_chainID]]

lemmas demo_env_parts = demo_env_simps [simplified aegis_env.simps]

theorem trigger_binding_is_write_once_witness:
  "\<exists>r w. bindTrigger demo_env demo_settings demo_record demo_request 17 = (Inr r, w) \<and> w = 18 \<and>
     pc_RequestHash r = ''0x''"
proof -
  have "TriggerRequestHash (ae_sender demo_env) 17 (cfg_instructionSender demo_settings) demo_request = Inr 77"
    and "PolicyTriggerCall (ae_sender demo_env) 17 (cfg_instructionSender demo_settings)
           (record_id (ae_lib demo_env) demo_record) = Inr 0"
    by (simp_all add: demo_env_parts TriggerRequestHash_def demo_sender_def)
  note once = trigger_binding_is_write_once [OF this, THEN conjunct1, rule_format]
  obtain r w where run: "bindTrigger demo_env demo_settings demo_record demo_request 17 = (Inr r, w)"
    by (simp add: bindTrigger_def io_simps Let_def demo_env_parts TriggerRequestHash_def demo_sender_def
        SendRegisterPolicyTrigger_def demo_sender_tx_def CheckTx_def)
  from once [OF run] have "r = demo_record\<lparr>pc_RequestHash := ''0x''\<rparr>" "w = 18"
    by (auto simp: demo_env_parts demo_cli_def demo_sender_def demo_sender_tx_def)
  with run show ?thesis by simp
qed

lemma demo_save:
  "on_disk (saveWith (ae_lib demo_env) r s) \<lparr>cw_disk = d, cw_net = n\<rparr> =
     (Inr (put_policy r s), \<lparr>cw_disk = d(ds_path s \<mapsto> ''state'' @ [CHR 0x0A]), cw_net = n\<rparr>)"
  by (simp add: on_disk_ok saveWith_ok write_file_ok) (simp add: demo_env_parts demo_cli_def put_policy_def)

lemma demo_proof:
  "WaitForProof demo_fdc c rnd req 3 = Some (Inr \<lparr>wp_MerkleProof = [], wp_Data = demo_fdc_response\<rparr>, 3)"
  by (simp add: WaitForProof_def poll.simps proof_probe_def demo_fetch)

lemma demo_answer: "wait_action demo_env demo_settings iid w = Some (Inr demo_response, w)"
proof -
  have "attempts repeats (\<lambda>w. (Inr (200, ''body''), w)) p ok_response r w = (Inr (200, ''body''), w)" for p r
    by (simp add: repeats_def numeral_eq_Suc ok_response_def)
  then show ?thesis
    by (simp add: wait_action_def waitForActionResult_def poll.simps action_probe_def ActionResult_poll_def demo_env_parts
        demo_http_def)
qed

lemma demo_decoded:
  "DecodeEvaluateResponse solidity_abi (tuple_bytes 7 450000 0x1234) =
     Inr \<lparr>er_PolicyID = 7, er_PayoutAmount = Some 450000, er_PayoutTo = 0x1234\<rparr>"
  by (simp add: DecodeEvaluateResponse_def decodeEvaluateTuple_def solidity_abi_def evaluateTupleSize_def
      tuple_values_tuple_bytes)

lemma demo_checked:
  "pc_PolicyID r = pc_PolicyID demo_record \<Longrightarrow> check_decision demo_env demo_settings r demo_response =
     Inr \<lparr>er_PolicyID = 7, er_PayoutAmount = Some 450000, er_PayoutTo = 0x1234\<rparr>"
  by (simp add: check_decision_ok)
    (simp add: demo_env_parts demo_response_def demo_settings_def record_id_def demo_cli_def demo_decoded)

lemma demo_settled:
  "\<exists>d. Settle demo_sig demo_chain 114 3 (Some demo_response) w = ((of_nat w, Some d, None), w + 1)"
proof -
  obtain d where "DecodeDecision demo_sig 114 demo_response = Inr d" using demo_decision by blast
  then show ?thesis by (simp add: Settle_def Uint64_def demo_chain_def demo_tx_def CheckTx_def Let_def)
qed

abbreviation demo_at :: "disk \<Rightarrow> nat \<Rightarrow> nat cli_world" where
  "demo_at d n \<equiv> \<lparr>cw_disk = d, cw_net = n\<rparr>"

lemma demo_attest:
  "\<exists>p r' s' d'. attest demo_env c ''r'' r s (demo_at d 17) = Some (Inr (p, r', s'), demo_at d' 3) \<and>
     pc_PolicyID r' = pc_PolicyID r"
proof -
  have "SubmitRequest demo_hub ''r'' 17 = (Inr (10, 17), 18)"
    by (simp add: SubmitRequest_ok demo_hub_def RequestFee_def CheckTx_ok VotingRoundID_def)
  then show ?thesis
    unfolding attest_def proofAttempts_def attest_rounds.simps(2) [of 2, unfolded Suc_numeral semiring_norm]
    by (simp add: pio_bind_def total_def on_net_def io_wrap_def demo_env_parts Let_def net_poll_def pio_try_def
        waitForProof_def demo_proof io_ret_def demo_save [unfolded demo_env_parts])
qed

lemma demo_scored:
  assumes "pc_PolicyID r = pc_PolicyID demo_record"
  shows "\<exists>dec r' s' d'. scoreInEnclave demo_env demo_settings r p s (demo_at d 3) =
     Some (Inr (dec, demo_response, r', s'), demo_at d' 4) \<and> er_PayoutAmount dec = Some 450000"
proof -
  have "SendEvaluate (demo_sender :: (nat, nat, RequestBody, Web2JsonProof) sender_lib) (\<lambda>k. []) a pid to p 3 =
      (Inr (55, 3), 4)" for a pid to
    by (simp add: SendEvaluate_def sendInstruction_ok demo_sender_def demo_sender_tx_def)
  then show ?thesis
    using assms
    by (simp add: scoreInEnclave_def pio_bind_def total_def on_net_def io_wrap_def io_lift_def io_ret_def Let_def net_poll_def
        demo_env_parts demo_save [unfolded demo_env_parts] demo_answer demo_checked)
qed

lemma demo_settle:
  assumes "er_PayoutAmount dec = Some 450000" and "pl_executor p = 50"
  shows "\<exists>r'. settleDecision demo_env demo_settings p r dec demo_response 1000000 0 s (demo_at d 4) =
      Some (Inr r', demo_at (d(ds_path s \<mapsto> ''state'' @ [CHR 0x0A])) 5)"
proof -
  have "settle_io demo_env demo_settings demo_response 4 = (Inr 4, 5)"
    using demo_settled [of 4] by (auto simp: settle_io_def demo_env_parts demo_settings_def)
  moreover have "SettlementOf demo_chain h 5 3 pid = Inr \<lparr>st_Settled = False, st_PayoutTo = 0, st_Amount = 0, st_InstructionID = 0\<rparr>"
    for h pid by (simp add: SettlementOf_def demo_chain_def)
  moreover have "BalanceOf demo_token t 50 5 = Inr 550000" "BalanceOf demo_token t 0x1234 5 = Inr 450000" for t
    by (simp_all add: BalanceOf_def demo_token_def)
  moreover have "cfg_settlement demo_settings = 3" "cfg_payoutTo demo_settings = 0x1234"
    by (simp_all add: demo_settings_def)
  ultimately show ?thesis
    using assms
    by (simp add: settleDecision_def pio_bind_def total_def on_net_def io_read_def io_ret_def Let_def pool_balance_def
        demo_env_parts demo_save [unfolded demo_env_parts])
qed

theorem evaluate_moves_the_decided_amount_witness:
  "\<exists>r' w'. evaluate_policy demo_env (\<lambda>k. []) demo_settings demo_loaded_state (demo_at Map.empty 17) = Some (Inr r', w') \<and>
     pc_Settled r' \<and> cw_net w' = 5"
proof -
  let ?w = "demo_at Map.empty 17"
  let ?pool = "\<lparr>pl_token = \<lparr>erc_Address = 72\<rparr>, pl_executor = 50, pl_symbol = ''FXRP'', pl_decimals = 6\<rparr>"
  have "open_policy demo_env demo_settings demo_loaded_state = Inr demo_record"
    by (simp add: open_policy_ok get_policy_def demo_loaded_state_def demo_settings_def demo_record_def demo_policy_def
        new_record_def del: hex_encode.simps)
  moreover have "stored_request demo_settings demo_record = Inr ''r''"
    by (simp add: stored_request_def demo_record_def TrimPrefix_def del: hex_encode.simps)
  moreover have "resolvePool demo_chain demo_token (\<lambda>w a. Inr 50) (\<lambda>k. []) 17 3 = Inr ?pool"
    by (simp add: resolvePool_def demo_chain_def ResolveFxrp_def NewERC20_def Metadata_def demo_token_def)
  moreover have "BalanceOf demo_token t 50 17 = Inr 1000000" "BalanceOf demo_token t 0x1234 17 = Inr 0" for t
    by (simp_all add: BalanceOf_def demo_token_def)
  moreover obtain q r1 s1 d1 where at:
    "attest demo_env (NewClient (\<lambda>k. [])) ''r'' demo_record demo_loaded_state ?w = Some (Inr (q, r1, s1), demo_at d1 3)"
    "pc_PolicyID r1 = pc_PolicyID demo_record" using demo_attest by blast
  moreover have "DecodeWeatherReading demo_fdc (Some q) = Inr demo_reading"
    by (simp add: DecodeWeatherReading_def demo_fdc_def)
  moreover obtain dec r2 s2 d2 where sc:
    "scoreInEnclave demo_env demo_settings r1 q s1 (demo_at d1 3) = Some (Inr (dec, demo_response, r2, s2), demo_at d2 4)"
    "er_PayoutAmount dec = Some 450000" using demo_scored [OF at(2)] by blast
  moreover obtain r' d' where
    "settleDecision demo_env demo_settings ?pool r2 dec demo_response 1000000 0 s2 (demo_at d2 4) = Some (Inr r', demo_at d' 5)"
    using demo_settle [OF sc(2), where p = ?pool and r = r2 and s = s2 and d = d2] by auto
  moreover have "cfg_settlement demo_settings = 3" "cfg_payoutTo demo_settings = 0x1234"
    by (simp_all add: demo_settings_def)
  ultimately have run: "evaluate_policy demo_env (\<lambda>k. []) demo_settings demo_loaded_state ?w = Some (Inr r', demo_at d' 5)"
    by (simp add: evaluate_policy_def pio_bind_def total_def on_net_def io_read_def io_lift_def io_wrap_def pool_balance_def
        demo_env_parts)
  from evaluate_moves_the_decided_amount [OF run] have "pc_Settled r'" by blast
  with run show ?thesis by auto
qed

theorem commands_return_witness:
  "\<exists>r w'. runEvaluate demo_env (default_flags True) (demo_at Map.empty 17) = Some (r, w') \<and>
     runReregisterAll demo_env (default_flags False) defaultModelsDir defaultWebPolicies True (demo_at Map.empty 17) \<noteq> None"
proof -
  have "fair_env demo_env"
    by (simp add: fair_env_def fair_proxy_def fair_clock_def demo_env_parts)
      (intro conjI exI [of _ "\<lambda>w. 0 :: nat"] exI [of _ "\<lambda>w. w :: nat"], auto simp: demo_fdc_def)
  from commands_return [OF this] show ?thesis by fastforce
qed

end
