(* ===== verification/ExtensionSetup.thy ===== *)
theory ExtensionSetup
  imports Support
begin

text \<open>
  \<open>go/tools/pkg/fccutils/extension.go\<close>: registering the extension and granting what it needs.  Each
  grant is checked first and sent only when it is missing.  The registry and allow-list bindings are
  the record \<open>setup_chain\<close>; a parsed event that the code uses only as a sign of success is a unit.
\<close>

section \<open>The bindings\<close>

record ('w, 'tx) setup_chain =
  su_Tx :: "('w, 'tx) tx_lib"
  su_Transactor :: "unit res"
  su_Deployer :: address
  EVMType :: hash
  SendRegisterExtension :: "address \<Rightarrow> address \<Rightarrow> ('w, 'tx) io"
  ParseExtensionRegistered :: "bytes \<Rightarrow> int res"
  ParseContractsSet :: "bytes \<Rightarrow> unit res"
  IsMachineOwner :: "'w \<Rightarrow> int \<Rightarrow> address \<Rightarrow> bool res"
  IsProjectOwner :: "'w \<Rightarrow> int \<Rightarrow> address \<Rightarrow> bool res"
  SendAddMachineOwners :: "int \<Rightarrow> address list \<Rightarrow> ('w, 'tx) io"
  SendAddProjectOwners :: "int \<Rightarrow> address list \<Rightarrow> ('w, 'tx) io"
  ParseMachineOwnersAdded :: "bytes \<Rightarrow> unit res"
  ParseProjectOwnersAdded :: "bytes \<Rightarrow> unit res"
  KeyTypeSupported :: "'w \<Rightarrow> int \<Rightarrow> hash \<Rightarrow> bool res"
  SendAddKeyTypes :: "int \<Rightarrow> hash list \<Rightarrow> ('w, 'tx) io"

section \<open>Operations\<close>

definition registerExtension ::
    "('w, 'tx) setup_chain \<Rightarrow> address \<Rightarrow> address \<Rightarrow> ('w, int) io" where
  "registerExtension ch instructionsSender stateVerifier =
     io_bind (io_wrap (\<lambda>e. ''TeeExtensionRegistry.Register failed: '' @ e)
       (SendRegisterExtension ch stateVerifier instructionsSender)) (\<lambda>tx.
     io_bind (io_wrap (\<lambda>e. ''Register transaction failed: '' @ e) (CheckTx (su_Tx ch) tx)) (\<lambda>receipt.
     case rcpt_Logs receipt of
       log0 # log1 # _ \<Rightarrow>
         io_bind (io_wrap (\<lambda>e. ''failed to parse TeeExtensionRegistered event: '' @ e)
           (io_lift (ParseExtensionRegistered ch log0))) (\<lambda>extensionId.
         io_bind (io_wrap (\<lambda>e. ''failed to parse TeeExtensionContractsSet event: '' @ e)
           (io_lift (ParseContractsSet ch log1))) (\<lambda>_.
         io_ret extensionId))
     | logs \<Rightarrow> io_fail (''expected at least 2 logs from Register() transaction, got '' @ show_nat (length logs) @
                 '' '' @ em_dash @ '' the registry contract may have changed or be behind a proxy'')))"

text \<open>The two allow-list calls differ in the contract method and in their names.\<close>

definition allow_owners ::
    "('w, 'tx) setup_chain \<Rightarrow> string \<Rightarrow> string \<Rightarrow> (int \<Rightarrow> address list \<Rightarrow> ('w, 'tx) io) \<Rightarrow> (bytes \<Rightarrow> unit res) \<Rightarrow>
     int \<Rightarrow> address list \<Rightarrow> ('w, unit) io" where
  "allow_owners ch method event send parse extensionId owners =
     io_bind (io_wrap (\<lambda>e. method @ '' failed: '' @ e) (send extensionId owners)) (\<lambda>tx.
     io_bind (io_wrap (\<lambda>e. method @ '' transaction failed: '' @ e) (CheckTx (su_Tx ch) tx)) (\<lambda>receipt.
     case rcpt_Logs receipt of
       [] \<Rightarrow> io_fail (''no logs in '' @ method @ '' transaction '' @ em_dash @ '' unexpected'')
     | log0 # _ \<Rightarrow> io_wrap (\<lambda>e. ''failed to parse '' @ event @ '' event: '' @ e) (io_lift (parse log0))))"

definition allowTeeMachineOwners :: "('w, 'tx) setup_chain \<Rightarrow> int \<Rightarrow> address list \<Rightarrow> ('w, unit) io" where
  "allowTeeMachineOwners ch =
     allow_owners ch ''AddAllowedTeeMachineOwners'' ''AllowedTeeMachineOwnersAdded''
       (SendAddMachineOwners ch) (ParseMachineOwnersAdded ch)"

definition allowTeeProjectManagerOwners :: "('w, 'tx) setup_chain \<Rightarrow> int \<Rightarrow> address list \<Rightarrow> ('w, unit) io" where
  "allowTeeProjectManagerOwners ch =
     allow_owners ch ''AddAllowedTeeWalletProjectOwners'' ''AllowedTeeWalletProjectOwnersAdded''
       (SendAddProjectOwners ch) (ParseProjectOwnersAdded ch)"

definition isKeyTypeSupportedCall :: "('w, 'tx) setup_chain \<Rightarrow> 'w \<Rightarrow> int \<Rightarrow> hash \<Rightarrow> bool res" where
  "isKeyTypeSupportedCall ch w extensionId keyType = KeyTypeSupported ch w extensionId keyType"

definition IsKeyTypeSupported :: "('w, 'tx) setup_chain \<Rightarrow> 'w \<Rightarrow> int \<Rightarrow> hash \<Rightarrow> bool res" where
  "IsKeyTypeSupported ch w extensionId keyType = isKeyTypeSupportedCall ch w extensionId keyType"

definition addSupportedKeyTypesTx :: "('w, 'tx) setup_chain \<Rightarrow> int \<Rightarrow> hash list \<Rightarrow> ('w, unit) io" where
  "addSupportedKeyTypesTx ch extensionId keyTypes =
     io_bind (SendAddKeyTypes ch extensionId keyTypes) (\<lambda>tx.
     io_bind (CheckTx (su_Tx ch) tx) (\<lambda>_. io_ret ()))"

definition AddSupportedKeyTypes :: "('w, 'tx) setup_chain \<Rightarrow> int \<Rightarrow> hash list \<Rightarrow> ('w, unit) io" where
  "AddSupportedKeyTypes ch extensionId keyTypes =
     io_bind (io_lift (su_Transactor ch)) (\<lambda>_. addSupportedKeyTypesTx ch extensionId keyTypes)"

text \<open>The shape of the three grants: look, and act only when the answer is no.\<close>

definition ensure :: "('w \<Rightarrow> bool res) \<Rightarrow> ('w, unit) io \<Rightarrow> ('w, unit) io" where
  "ensure flag act = io_bind (io_read flag) (\<lambda>already. if already then io_ret () else act)"

definition grant_machine :: "('w, 'tx) setup_chain \<Rightarrow> int \<Rightarrow> ('w, unit) io" where
  "grant_machine ch ext =
     ensure (\<lambda>w. map_err (\<lambda>e. ''failed checking TEE machine owner status: '' @ e) (IsMachineOwner ch w ext (su_Deployer ch)))
       (io_wrap (\<lambda>e. ''failed adding TEE machine owners (extension exists as ID '' @ show_int ext @
                     '' but owners not set): '' @ e) (allowTeeMachineOwners ch ext [su_Deployer ch]))"

definition grant_project :: "('w, 'tx) setup_chain \<Rightarrow> int \<Rightarrow> ('w, unit) io" where
  "grant_project ch ext =
     ensure (\<lambda>w. map_err (\<lambda>e. ''failed checking wallet project owner status: '' @ e) (IsProjectOwner ch w ext (su_Deployer ch)))
       (io_wrap (\<lambda>e. ''failed adding wallet project owners (extension exists as ID '' @ show_int ext @
                     '' but owners not set): '' @ e) (allowTeeProjectManagerOwners ch ext [su_Deployer ch]))"

definition grant_key :: "('w, 'tx) setup_chain \<Rightarrow> int \<Rightarrow> ('w, unit) io" where
  "grant_key ch ext =
     ensure (\<lambda>w. IsKeyTypeSupported ch w ext (EVMType ch)) (AddSupportedKeyTypes ch ext [EVMType ch])"

definition SetupExtension :: "('w, 'tx) setup_chain \<Rightarrow> address \<Rightarrow> address \<Rightarrow> ('w, int) io" where
  "SetupExtension ch instructionsSender stateVerifier =
     io_bind (io_lift (su_Transactor ch)) (\<lambda>_.
     io_bind (registerExtension ch instructionsSender stateVerifier) (\<lambda>extensionID.
     io_bind (grant_machine ch extensionID) (\<lambda>_.
     io_bind (grant_project ch extensionID) (\<lambda>_.
     io_bind (grant_key ch extensionID) (\<lambda>_.
     io_ret extensionID)))))"

section \<open>Granting\<close>

text \<open>A grant that works: acting sets the flag, and keeps what was granted before.\<close>

locale granting =
  fixes flag :: "'w \<Rightarrow> bool res"
    and act :: "('w, unit) io"
    and earlier :: "'w \<Rightarrow> bool"
    and honest :: bool
  assumes act_sets: "honest \<Longrightarrow> act w = (Inr (), w') \<Longrightarrow> flag w' = Inr True"
    and act_keeps: "honest \<Longrightarrow> earlier w \<Longrightarrow> act w = (Inr (), w') \<Longrightarrow> earlier w'"
begin

lemma ensured:
  assumes honest and "ensure flag act w = (Inr (), w')" and "earlier w"
  shows "flag w' = Inr True \<and> earlier w'"
  using assms act_sets act_keeps by (auto simp: ensure_def io_ok split: if_splits)

end

lemma ensure_idle: "flag w = Inr True \<Longrightarrow> ensure flag act w = (Inr (), w)"
  by (simp add: ensure_def io_bind_def io_read_def io_ret_def)

lemma allow_owners_ok:
  "allow_owners ch m ev send parse ext owners w = (Inr (), w') \<Longrightarrow>
     \<exists>tx w1 r. send ext owners w = (Inr tx, w1) \<and> CheckTx (su_Tx ch) tx w1 = (Inr r, w')"
  by (auto simp: allow_owners_def io_ok)

text \<open>The contracts keep their word: a transaction that did not revert has set what it was sent for and
  has unset nothing.\<close>

definition honest_registry :: "('w, 'tx) setup_chain \<Rightarrow> bool" where
  "honest_registry ch \<longleftrightarrow>
     (\<forall>ext own w tx w1 r w2. SendAddMachineOwners ch ext [own] w = (Inr tx, w1) \<and> CheckTx (su_Tx ch) tx w1 = (Inr r, w2) \<longrightarrow>
        IsMachineOwner ch w2 ext own = Inr True) \<and>
     (\<forall>ext own w tx w1 r w2. SendAddProjectOwners ch ext [own] w = (Inr tx, w1) \<and> CheckTx (su_Tx ch) tx w1 = (Inr r, w2) \<longrightarrow>
        IsProjectOwner ch w2 ext own = Inr True \<and>
        (\<forall>e a. IsMachineOwner ch w e a = Inr True \<longrightarrow> IsMachineOwner ch w2 e a = Inr True)) \<and>
     (\<forall>ext k w tx w1 r w2. SendAddKeyTypes ch ext [k] w = (Inr tx, w1) \<and> CheckTx (su_Tx ch) tx w1 = (Inr r, w2) \<longrightarrow>
        KeyTypeSupported ch w2 ext k = Inr True \<and>
        (\<forall>e a. IsMachineOwner ch w e a = Inr True \<longrightarrow> IsMachineOwner ch w2 e a = Inr True) \<and>
        (\<forall>e a. IsProjectOwner ch w e a = Inr True \<longrightarrow> IsProjectOwner ch w2 e a = Inr True))"

interpretation machine_grant: granting
  "\<lambda>w. map_err (\<lambda>e. ''failed checking TEE machine owner status: '' @ e) (IsMachineOwner ch w ext (su_Deployer ch))"
  "io_wrap (\<lambda>e. ''failed adding TEE machine owners (extension exists as ID '' @ show_int ext @
      '' but owners not set): '' @ e) (allowTeeMachineOwners ch ext [su_Deployer ch])"
  "\<lambda>w. True" "honest_registry ch"
  for ch :: "('w, 'tx) setup_chain" and ext
  by unfold_locales
    (fastforce simp: io_wrap_ok allowTeeMachineOwners_def honest_registry_def dest!: allow_owners_ok)+

interpretation project_grant: granting
  "\<lambda>w. map_err (\<lambda>e. ''failed checking wallet project owner status: '' @ e) (IsProjectOwner ch w ext (su_Deployer ch))"
  "io_wrap (\<lambda>e. ''failed adding wallet project owners (extension exists as ID '' @ show_int ext @
      '' but owners not set): '' @ e) (allowTeeProjectManagerOwners ch ext [su_Deployer ch])"
  "\<lambda>w. IsMachineOwner ch w ext (su_Deployer ch) = Inr True" "honest_registry ch"
  for ch :: "('w, 'tx) setup_chain" and ext
  by unfold_locales
    (fastforce simp: io_wrap_ok allowTeeProjectManagerOwners_def honest_registry_def dest!: allow_owners_ok)+

lemma AddSupportedKeyTypes_ok:
  "AddSupportedKeyTypes ch ext ks w = (Inr (), w') \<Longrightarrow>
     \<exists>tx w1 r. SendAddKeyTypes ch ext ks w = (Inr tx, w1) \<and> CheckTx (su_Tx ch) tx w1 = (Inr r, w')"
  by (auto simp: AddSupportedKeyTypes_def addSupportedKeyTypesTx_def io_ok)

interpretation key_grant: granting
  "\<lambda>w. IsKeyTypeSupported ch w ext (EVMType ch)" "AddSupportedKeyTypes ch ext [EVMType ch]"
  "\<lambda>w. IsMachineOwner ch w ext (su_Deployer ch) = Inr True \<and> IsProjectOwner ch w ext (su_Deployer ch) = Inr True"
  "honest_registry ch"
  for ch :: "('w, 'tx) setup_chain" and ext
  by unfold_locales
    (fastforce simp: IsKeyTypeSupported_def isKeyTypeSupportedCall_def honest_registry_def dest!: AddSupportedKeyTypes_ok)+

text \<open>The parts of a setup that succeeds, and what its grants leave behind.\<close>

lemma SetupExtension_ok:
  assumes "SetupExtension ch sender verifier w = (Inr ext, w')"
  obtains w2 w3 w4 where "registerExtension ch sender verifier w = (Inr ext, w2)"
    "grant_machine ch ext w2 = (Inr (), w3)" "grant_project ch ext w3 = (Inr (), w4)" "grant_key ch ext w4 = (Inr (), w')"
  using assms by (auto simp: SetupExtension_def io_ok)

lemma registerExtension_ok:
  assumes "registerExtension ch sender verifier w = (Inr ext, w2)"
  obtains tx w1 r log0 log1 rest where "SendRegisterExtension ch verifier sender w = (Inr tx, w1)"
    "CheckTx (su_Tx ch) tx w1 = (Inr r, w2)" "rcpt_Logs r = log0 # log1 # rest" "ParseExtensionRegistered ch log0 = Inr ext"
  using assms by (auto simp: registerExtension_def io_ok)

lemma grants_in_place:
  assumes "honest_registry ch" and "grant_machine ch ext w2 = (Inr (), w3)" and "grant_project ch ext w3 = (Inr (), w4)"
    and "grant_key ch ext w4 = (Inr (), w')"
  shows "IsMachineOwner ch w' ext (su_Deployer ch) = Inr True \<and> IsProjectOwner ch w' ext (su_Deployer ch) = Inr True \<and>
    KeyTypeSupported ch w' ext (EVMType ch) = Inr True"
proof -
  have m: "IsMachineOwner ch w3 ext (su_Deployer ch) = Inr True"
    using machine_grant.ensured [OF assms(1) assms(2) [unfolded grant_machine_def]] by simp
  have p: "IsProjectOwner ch w4 ext (su_Deployer ch) = Inr True \<and> IsMachineOwner ch w4 ext (su_Deployer ch) = Inr True"
    using project_grant.ensured [OF assms(1) assms(3) [unfolded grant_project_def] m] by simp
  then show ?thesis
    using key_grant.ensured [OF assms(1) assms(4) [unfolded grant_key_def]] by (simp add: IsKeyTypeSupported_def isKeyTypeSupportedCall_def)
qed

section \<open>Properties\<close>

text \<open>C25. When \<open>SetupExtension\<close> returns an id, that id is the one announced by the first log of a
  registration that did not revert, and in the final state the deployer may run machines and wallet
  projects for it and the EVM key type is supported.  A grant the registration already came
  with is not sent again: with all three in place nothing is sent after the registration.\<close>

theorem setup_extension_grants_everything:
  assumes "honest_registry ch" and "SetupExtension ch sender verifier w = (Inr ext, w')"
  shows "IsMachineOwner ch w' ext (su_Deployer ch) = Inr True \<and> IsProjectOwner ch w' ext (su_Deployer ch) = Inr True \<and>
    KeyTypeSupported ch w' ext (EVMType ch) = Inr True \<and>
    (\<exists>tx w1 r w2 log0 log1 rest. SendRegisterExtension ch verifier sender w = (Inr tx, w1) \<and>
       CheckTx (su_Tx ch) tx w1 = (Inr r, w2) \<and> rcpt_Logs r = log0 # log1 # rest \<and>
       ParseExtensionRegistered ch log0 = Inr ext \<and>
       (IsMachineOwner ch w2 ext (su_Deployer ch) = Inr True \<and> IsProjectOwner ch w2 ext (su_Deployer ch) = Inr True \<and>
        KeyTypeSupported ch w2 ext (EVMType ch) = Inr True \<longrightarrow> w' = w2))"
proof -
  from assms(2) obtain w2 w3 w4 where run: "registerExtension ch sender verifier w = (Inr ext, w2)"
    "grant_machine ch ext w2 = (Inr (), w3)" "grant_project ch ext w3 = (Inr (), w4)" "grant_key ch ext w4 = (Inr (), w')"
    by (rule SetupExtension_ok)
  from run(1) obtain tx w1 r log0 log1 rest where reg: "SendRegisterExtension ch verifier sender w = (Inr tx, w1)"
    "CheckTx (su_Tx ch) tx w1 = (Inr r, w2)" "rcpt_Logs r = log0 # log1 # rest" "ParseExtensionRegistered ch log0 = Inr ext"
    by (rule registerExtension_ok)
  note grants = grants_in_place [OF assms(1) run(2-4)]
  have "w' = w2" if "IsMachineOwner ch w2 ext (su_Deployer ch) = Inr True" "IsProjectOwner ch w2 ext (su_Deployer ch) = Inr True"
    "KeyTypeSupported ch w2 ext (EVMType ch) = Inr True"
    using run(2-4) that
    by (simp add: grant_machine_def grant_project_def grant_key_def ensure_idle IsKeyTypeSupported_def isKeyTypeSupportedCall_def)
  with reg grants show ?thesis by blast
qed

text \<open>A registry whose world records the grants: bit by bit the machine owner, the project owner and the key.\<close>

definition demo_setup :: "(bool \<times> bool \<times> bool, nat) setup_chain" where
  "demo_setup =
     \<lparr>su_Tx = \<lparr>TxHash = of_nat, TxHashHex = (\<lambda>h. ''0x''),
        WaitMined = (\<lambda>t w. (Inr \<lparr>rcpt_Status = 1, rcpt_TxHash = of_nat t, rcpt_BlockHash = 6, rcpt_BlockNumber = 5,
           rcpt_Logs = [''registered'', ''set'']\<rparr>, w)),
        TransactionByHash = (\<lambda>w h. Inl ''not found''), TxSender = (\<lambda>t. Inr 9),
        CallContract = (\<lambda>w t a. Inr []), UnpackRevert = (\<lambda>b. None)\<rparr>,
      su_Transactor = Inr (), su_Deployer = 9, EVMType = 3,
      SendRegisterExtension = (\<lambda>a b w. (Inr 1, w)), ParseExtensionRegistered = (\<lambda>b. Inr 42),
      ParseContractsSet = (\<lambda>b. Inr ()), IsMachineOwner = (\<lambda>w e a. Inr (fst w)),
      IsProjectOwner = (\<lambda>w e a. Inr (fst (snd w))),
      SendAddMachineOwners = (\<lambda>e os w. (Inr 2, (True, snd w))),
      SendAddProjectOwners = (\<lambda>e os w. (Inr 3, (fst w, True, snd (snd w)))),
      ParseMachineOwnersAdded = (\<lambda>b. Inr ()), ParseProjectOwnersAdded = (\<lambda>b. Inr ()),
      KeyTypeSupported = (\<lambda>w e k. Inr (snd (snd w))),
      SendAddKeyTypes = (\<lambda>e ks w. (Inr 4, (fst w, fst (snd w), True)))\<rparr>"

theorem setup_extension_grants_everything_witness:
  "SetupExtension demo_setup 5 0 (False, False, False) = (Inr 42, (True, True, True)) \<and>
     KeyTypeSupported demo_setup (True, True, True) 42 3 = Inr True"
proof -
  have honest: "honest_registry demo_setup"
    unfolding honest_registry_def by (auto simp: CheckTx_ok) (simp_all add: demo_setup_def)
  have run: "SetupExtension demo_setup 5 0 (False, False, False) = (Inr 42, (True, True, True))"
    by (simp add: SetupExtension_def registerExtension_def grant_machine_def grant_project_def grant_key_def ensure_def
        allowTeeMachineOwners_def allowTeeProjectManagerOwners_def allow_owners_def AddSupportedKeyTypes_def addSupportedKeyTypesTx_def
        IsKeyTypeSupported_def isKeyTypeSupportedCall_def CheckTx_def io_simps demo_setup_def)
  from setup_extension_grants_everything [OF honest run] have "KeyTypeSupported demo_setup (True, True, True) 42 (EVMType demo_setup) = Inr True"
    by blast
  with run show ?thesis by (simp add: demo_setup_def)
qed

end
