(* ===== verification/Bridges.thy ===== *)
theory Bridges
  imports Extension
begin

text \<open>
  \<open>go/tools/cmd/state-bridge\<close> and \<open>go/tools/cmd/result-bridge\<close>: two HTTP servers, each of one
  path, that forward a GET to one upstream and nothing else.  \<open>http.ServeMux\<close> is modelled with what the
  routes use: escaped path segments, a wildcard segment, methods, and the redirect of a path that is
  not clean.  The upstream client, \<open>url.PathUnescape\<close> and the path cleaning are parameters.
\<close>

section \<open>The mux\<close>

datatype segment = Lit string | Wild

text \<open>\<open>up_Get\<close> yields the status and the body, whose reading may fail by itself.\<close>

record 'w bridge_lib =
  up_Get :: "string \<Rightarrow> ('w, int \<times> bytes res) io"
  PathUnescape :: "string \<Rightarrow> string"
  CleanPath :: "string \<Rightarrow> string"

text \<open>A wildcard matches one segment, not the empty one after a final slash.\<close>

definition segment_matches :: "(string \<Rightarrow> string) \<Rightarrow> segment \<Rightarrow> string \<Rightarrow> bool" where
  "segment_matches unescape pat seg = (case pat of Lit l \<Rightarrow> unescape seg = l | Wild \<Rightarrow> seg \<noteq> [])"

definition path_segments :: "string \<Rightarrow> string list" where
  "path_segments path = tl (Split (CHR ''/'') path)"

definition path_matches :: "(string \<Rightarrow> string) \<Rightarrow> segment list \<Rightarrow> string \<Rightarrow> bool" where
  "path_matches unescape pat path \<longleftrightarrow> list_all2 (segment_matches unescape) pat (path_segments path)"

text \<open>\<open>PathValue\<close> of the wildcard that ends a pattern.\<close>

definition PathValue :: "(string \<Rightarrow> string) \<Rightarrow> string \<Rightarrow> string" where
  "PathValue unescape path = unescape (last (path_segments path))"

record bridge_response =
  br_Status :: int
  br_Header :: "(string \<times> string) list"
  br_Body :: bytes

definition error_response :: "(string \<times> string) list \<Rightarrow> string \<Rightarrow> int \<Rightarrow> bridge_response" where
  "error_response headers msg code =
     \<lparr>br_Status = code,
      br_Header = headers @ [(''Content-Type'', ''text/plain; charset=utf-8''), (''X-Content-Type-Options'', ''nosniff'')],
      br_Body = msg @ [CHR 0x0A]\<rparr>"

definition cors :: "(string \<times> string) list" where
  "cors = [(''Access-Control-Allow-Origin'', ''*'')]"

definition preflight :: bridge_response where
  "preflight =
     \<lparr>br_Status = 204, br_Header = cors @ [(''Access-Control-Allow-Methods'', ''GET, OPTIONS'')], br_Body = []\<rparr>"

text \<open>A server with a GET and an OPTIONS handler on one pattern.\<close>

definition serve_bridge ::
    "'w bridge_lib \<Rightarrow> segment list \<Rightarrow> (string \<Rightarrow> 'w \<Rightarrow> bridge_response \<times> 'w) \<Rightarrow> string \<Rightarrow> string \<Rightarrow> 'w \<Rightarrow>
     bridge_response \<times> 'w" where
  "serve_bridge lib pat get meth path w =
     (if meth \<noteq> ''CONNECT'' \<and> CleanPath lib path \<noteq> path
      then (\<lparr>br_Status = 301, br_Header = [(''Location'', CleanPath lib path)], br_Body = []\<rparr>, w)
      else case mux_scan 0 [(''GET'', path_matches (PathUnescape lib) pat), (''OPTIONS'', path_matches (PathUnescape lib) pat)]
                  meth path of
        MuxFound i \<Rightarrow> if i = 0 then get path w else (preflight, w)
      | MuxMethodNotAllowed \<Rightarrow> (error_response [(''Allow'', ''GET, HEAD, OPTIONS'')] ''Method Not Allowed'' 405, w)
      | MuxNotFound \<Rightarrow> (error_response [] ''404 page not found'' 404, w))"

section \<open>Forwarding\<close>

definition no_store :: "(string \<times> string) list" where
  "no_store = cors @ [(''Cache-Control'', ''no-store'')]"

definition forward ::
    "'w bridge_lib \<Rightarrow> nat \<Rightarrow> string \<Rightarrow> string \<Rightarrow> string \<Rightarrow> 'w \<Rightarrow> bridge_response \<times> 'w" where
  "forward lib limit reaching reading url w =
     (case up_Get lib url w of
        (Inl e, w') \<Rightarrow> (error_response no_store (reaching @ e) 502, w')
      | (Inr (code, Inl e), w') \<Rightarrow> (error_response no_store (reading @ e) 502, w')
      | (Inr (code, Inr body), w') \<Rightarrow>
          (\<lparr>br_Status = code, br_Header = no_store @ [(''Content-Type'', ''application/json'')],
            br_Body = take limit body\<rparr>, w'))"

section \<open>state-bridge\<close>

definition maxStateBytes :: nat where
  "maxStateBytes = 8192"

definition state_bridge ::
    "'w bridge_lib \<Rightarrow> string \<Rightarrow> string \<Rightarrow> string \<Rightarrow> 'w \<Rightarrow> bridge_response \<times> 'w" where
  "state_bridge lib upstream =
     serve_bridge lib [Lit ''state'']
       (\<lambda>path. forward lib maxStateBytes ''reaching the enclave: '' ''reading enclave response: '' upstream)"

section \<open>result-bridge\<close>

definition maxResultBytes :: nat where
  "maxResultBytes = 65536"

definition isInstructionID :: "string \<Rightarrow> bool" where
  "isInstructionID s \<longleftrightarrow> length s = 66 \<and> HasPrefix s ''0x'' \<and> list_all is_hex (drop 2 s)"

definition result_bridge ::
    "'w bridge_lib \<Rightarrow> string \<Rightarrow> string \<Rightarrow> string \<Rightarrow> 'w \<Rightarrow> bridge_response \<times> 'w" where
  "result_bridge lib upstream =
     serve_bridge lib [Lit ''action'', Lit ''result'', Wild]
       (\<lambda>path w.
          let pid = PathValue (PathUnescape lib) path
          in if \<not> isInstructionID pid then (error_response no_store ''not an instruction id'' 400, w)
             else forward lib maxResultBytes ''reaching the extension proxy: '' ''reading the proxy response: ''
                    (TrimSuffix upstream ''/'' @ ''/action/result/'' @ pid) w)"

section \<open>What reaches the upstream\<close>

lemma serve_bridge_cases:
  "serve_bridge lib pat get meth path w =
     (if meth \<noteq> ''CONNECT'' \<and> CleanPath lib path \<noteq> path
      then (\<lparr>br_Status = 301, br_Header = [(''Location'', CleanPath lib path)], br_Body = []\<rparr>, w)
      else if \<not> path_matches (PathUnescape lib) pat path then (error_response [] ''404 page not found'' 404, w)
      else if meth = ''GET'' \<or> meth = ''HEAD'' then get path w
      else if meth = ''OPTIONS'' then (preflight, w)
      else (error_response [(''Allow'', ''GET, HEAD, OPTIONS'')] ''Method Not Allowed'' 405, w))"
  by (auto simp: serve_bridge_def method_matches_def)

lemma forward_cong: "up_Get lib url = up_Get lib' url \<Longrightarrow> forward lib n a b url = forward lib' n a b url"
  by (simp add: forward_def fun_eq_iff)

lemma forward_ok:
  "up_Get lib url w = (Inr (code, Inr body), w') \<Longrightarrow> forward lib n a b url w =
     (\<lparr>br_Status = code, br_Header = no_store @ [(''Content-Type'', ''application/json'')], br_Body = take n body\<rparr>, w')"
  by (simp add: forward_def)

text \<open>C22. Neither bridge is a way to anything but its one resource.  Whatever method and path a client
  sends, the result bridge behaves the same with any other upstream that agrees on the GETs of
  \<open>/action/result/0x\<close> followed by 64 hex digits, and the state bridge with any other that agrees on the
  state URL: nothing else is ever asked for.  A method other than GET and HEAD never
  reaches the upstream, and a GET of a well-formed instruction id is answered with the upstream's
  own status and its body, unchanged up to the cap.\<close>

theorem bridges_reach_only_their_resource:
  assumes same: "PathUnescape lib' = PathUnescape lib" "CleanPath lib' = CleanPath lib"
  shows "(\<forall>meth path. (\<forall>pid. length pid = 66 \<and> prefix ''0x'' pid \<and> list_all is_hex (drop 2 pid) \<longrightarrow>
           up_Get lib' (TrimSuffix up ''/'' @ ''/action/result/'' @ pid) =
           up_Get lib (TrimSuffix up ''/'' @ ''/action/result/'' @ pid)) \<longrightarrow>
        result_bridge lib' up meth path = result_bridge lib up meth path) \<and>
    (\<forall>meth path. up_Get lib' up = up_Get lib up \<longrightarrow> state_bridge lib' up meth path = state_bridge lib up meth path) \<and>
    (\<forall>meth path w. meth \<noteq> ''GET'' \<and> meth \<noteq> ''HEAD'' \<longrightarrow>
        snd (result_bridge lib up meth path w) = w \<and> snd (state_bridge lib up meth path w) = w) \<and>
    (\<forall>path seg w code body w'. CleanPath lib path = path \<and>
        map (PathUnescape lib) (path_segments path) = [''action'', ''result'', seg] \<and>
        last (path_segments path) \<noteq> [] \<and> isInstructionID seg \<and>
        up_Get lib (TrimSuffix up ''/'' @ ''/action/result/'' @ seg) w = (Inr (code, Inr body), w') \<longrightarrow>
        result_bridge lib up ''GET'' path w =
          (\<lparr>br_Status = code, br_Header = no_store @ [(''Content-Type'', ''application/json'')],
            br_Body = take 65536 body\<rparr>, w'))"
proof (intro conjI allI impI)
  fix meth path
  assume "\<forall>pid. length pid = 66 \<and> prefix ''0x'' pid \<and> list_all is_hex (drop 2 pid) \<longrightarrow>
    up_Get lib' (TrimSuffix up ''/'' @ ''/action/result/'' @ pid) = up_Get lib (TrimSuffix up ''/'' @ ''/action/result/'' @ pid)"
  then have "isInstructionID pid \<Longrightarrow> forward lib' n a b (TrimSuffix up ''/'' @ ''/action/result/'' @ pid) =
      forward lib n a b (TrimSuffix up ''/'' @ ''/action/result/'' @ pid)" for pid n a b
    by (intro forward_cong) (simp add: isInstructionID_def HasPrefix_def)
  then show "result_bridge lib' up meth path = result_bridge lib up meth path"
    by (simp add: fun_eq_iff result_bridge_def serve_bridge_cases same Let_def)
next
  fix meth path
  assume "up_Get lib' up = up_Get lib up"
  from forward_cong [OF this] show "state_bridge lib' up meth path = state_bridge lib up meth path"
    by (simp add: fun_eq_iff state_bridge_def serve_bridge_cases same)
next
  fix meth path w
  assume "meth \<noteq> ''GET'' \<and> meth \<noteq> ''HEAD''"
  then show "snd (result_bridge lib up meth path w) = w" and "snd (state_bridge lib up meth path w) = w"
    by (simp_all add: result_bridge_def state_bridge_def serve_bridge_cases)
next
  fix path seg w code body w'
  assume a: "CleanPath lib path = path \<and>
    map (PathUnescape lib) (path_segments path) = [''action'', ''result'', seg] \<and>
    last (path_segments path) \<noteq> [] \<and> isInstructionID seg \<and>
    up_Get lib (TrimSuffix up ''/'' @ ''/action/result/'' @ seg) w = (Inr (code, Inr body), w')"
  then obtain x y z where segs: "path_segments path = [x, y, z]" "PathUnescape lib x = ''action''"
    "PathUnescape lib y = ''result''" "PathUnescape lib z = seg" "z \<noteq> []"
    by (auto simp: map_eq_Cons_conv)
  then have "path_matches (PathUnescape lib) [Lit ''action'', Lit ''result'', Wild] path"
    and "PathValue (PathUnescape lib) path = seg"
    by (simp_all add: path_matches_def segment_matches_def PathValue_def)
  then show "result_bridge lib up ''GET'' path w =
      (\<lparr>br_Status = code, br_Header = no_store @ [(''Content-Type'', ''application/json'')], br_Body = take 65536 body\<rparr>, w')"
    using a by (simp add: result_bridge_def serve_bridge_cases forward_ok maxResultBytes_def)
qed

definition demo_upstream :: "nat bridge_lib" where
  "demo_upstream =
     \<lparr>up_Get = (\<lambda>u w. (Inr (404, Inr ''not yet''), w + 1)), PathUnescape = id, CleanPath = id\<rparr>"

theorem bridges_reach_only_their_resource_witness:
  "result_bridge demo_upstream ''http://p/'' ''GET'' (''/action/result/0x'' @ replicate 64 (CHR ''a'')) 7 =
     (\<lparr>br_Status = 404, br_Header = no_store @ [(''Content-Type'', ''application/json'')], br_Body = ''not yet''\<rparr>, 8) \<and>
   snd (result_bridge demo_upstream ''http://p/'' ''POST'' ''/action'' 7) = 7"
proof -
  let ?path = "''/action/result/0x'' @ replicate 64 (CHR ''a'')" and ?id = "''0x'' @ replicate 64 (CHR ''a'')"
  note only = bridges_reach_only_their_resource [of demo_upstream demo_upstream "''http://p/''", OF refl refl]
  have split: "Split (CHR ''/'') (replicate n (CHR ''a'')) = [replicate n (CHR ''a'')]" for n
    by (induction n) auto
  have "map (PathUnescape demo_upstream) (path_segments ?path) = [''action'', ''result'', ?id]"
    and "last (path_segments ?path) \<noteq> []"
    by (simp_all add: path_segments_def split demo_upstream_def del: replicate_numeral)
  moreover have "isInstructionID ?id"
    by (simp add: isInstructionID_def HasPrefix_def is_hex_def hex_val_def list_all_iff del: replicate_numeral)
  ultimately show ?thesis
    using only by (simp add: demo_upstream_def del: replicate_numeral)
qed

end
