(* ===== verification/RunTest.thy ===== *)
theory RunTest
  imports AegisClaims
begin

text \<open>
  \<open>go/tools/cmd/run-test\<close>, the end-to-end test: it plays the insurer, so it can compute what
  the enclave should decide.  A fatal error is the error of the command.  What is only logged is left
  out; packing and simulating a settlement, the deployed code and Keccak are parameters beside
  those the \<open>aegis\<close> commands use.
\<close>

section \<open>What the test is linked with\<close>

record ('c, 'tx, 'ty) test_env =
  te_env :: "('c, 'tx, 'ty) aegis_env"
  te_connect :: "string \<Rightarrow> string \<Rightarrow> unit res"
  te_Wait :: "'c \<Rightarrow> 'c"
  te_SettlementAbi :: "(string \<Rightarrow> bytes option) res"
  te_PackSettle :: "ActionResponse \<Rightarrow> bytes res"
  te_SimulateSettle :: "'c \<Rightarrow> address \<Rightarrow> bytes \<Rightarrow> rpc_error + bytes"
  te_SenderAbi :: "unit res"
  te_PackEvaluate :: "hash \<Rightarrow> address \<Rightarrow> Web2JsonProof \<Rightarrow> bytes res"
  te_CodeAt :: "'c \<Rightarrow> address \<Rightarrow> bytes res"
  te_Keccak :: "bytes \<Rightarrow> bytes"
  te_ToLower :: "string \<Rightarrow> string"

definition testPayoutTo :: address where
  "testPayoutTo = 0xdEaD"

section \<open>Policies under test\<close>

record testPolicy =
  tp_label :: string
  tp_id :: hash
  tp_feed :: DroughtFeed
  tp_shouldTrigger :: bool
  tp_request :: bytes
  tp_round :: uint64
  tp_proof :: "Web2JsonProof option"
  tp_decision :: "ActionResponse option"

text \<open>Two bytes of prefix, then as much of the nonce as fits, then zeros.\<close>

definition policyID :: "16 word \<Rightarrow> bytes \<Rightarrow> hash" where
  "policyID pre runNonce = hash_of_bytes (take 32 (be_bytes 2 (unat pre) @ runNonce @ replicate 30 (CHR 0x00)))"

definition test_policy :: "string \<Rightarrow> 16 word \<Rightarrow> bytes \<Rightarrow> bool \<Rightarrow> string \<Rightarrow> string \<Rightarrow> testPolicy" where
  "test_policy label pre runNonce shouldTrigger startDate endDate =
     \<lparr>tp_label = label, tp_id = policyID pre runNonce,
      tp_feed = \<lparr>LatitudeDeg = ''-7.25'', LongitudeDeg = ''112.75'', StartDate = startDate, EndDate = endDate\<rparr>,
      tp_shouldTrigger = shouldTrigger, tp_request = [], tp_round = 0, tp_proof = None, tp_decision = None\<rparr>"

definition testPolicies :: "bytes \<Rightarrow> testPolicy list" where
  "testPolicies runNonce =
     [test_policy ''dry season (drought)'' 0xa3d1 runNonce True ''2025-06-01'' ''2025-08-31'',
      test_policy ''wet season (normal)'' 0xa3d2 runNonce False ''2024-12-01'' ''2025-02-28'']"

definition newRunNonce :: "('c, 'tx, 'ty) aegis_env \<Rightarrow> ('c, bytes) io" where
  "newRunNonce E = io_wrap (\<lambda>e. ''drawing a run nonce: '' @ e) (ae_Nonce E)"

definition testModel :: ModelParameters where
  "testModel =
     \<lparr>TriggerTenthsMm = 1200, ExitTenthsMm = 400, SumInsuredUnits = Some 5000000, PayoutFactorBps = 9000,
      MinPayoutUnits = Some 100000\<rparr>"

definition test_secrets :: "string list" where
  "test_secrets = secretStrings testModel"

section \<open>The insurer's own arithmetic\<close>

text \<open>\<open>big.Int.Div\<close> is Euclidean and panics on zero.\<close>

definition BigDiv :: "int \<Rightarrow> int \<Rightarrow> int option" where
  "BigDiv x y = (if y = 0 then None else if 0 < y then Some (x div y) else Some (- (x div - y)))"

text \<open>\<open>None\<close>: the function panics.\<close>

definition expectedPayout :: "ModelParameters \<Rightarrow> int \<Rightarrow> int option" where
  "expectedPayout m rainfall =
     (let trigger = u64 (TriggerTenthsMm m); exit = u64 (ExitTenthsMm m)
      in if rainfall \<ge> trigger then Some 0
         else
           (let shortfall0 = trigger - rainfall; span = trigger - exit;
                shortfall = (if shortfall0 > span then span else shortfall0)
            in case (SumInsuredUnits m, MinPayoutUnits m) of
                 (Some sumInsured, Some minPayout) \<Rightarrow>
                   (case BigDiv (sumInsured * shortfall * u64 (PayoutFactorBps m)) (span * 10000) of
                      None \<Rightarrow> None
                    | Some payout0 \<Rightarrow>
                        (let payout = (if payout0 > sumInsured then sumInsured else payout0)
                         in if payout < minPayout then Some 0 else Some payout))
               | _ \<Rightarrow> None))"

section \<open>Leak checks\<close>

fun assertNoSecrets :: "string \<Rightarrow> bytes list \<Rightarrow> unit res" where
  "assertNoSecrets label [] = Inr ()"
| "assertNoSecrets label (blob # blobs) =
     (if list_ex (Contains blob) test_secrets then Inl (''FAIL: '' @ label @ '' leaks a model parameter'')
      else assertNoSecrets label blobs)"

definition assertSealed_test :: "bytes \<Rightarrow> bytes \<Rightarrow> unit res" where
  "assertSealed_test plaintext ciphertext =
     (if Contains ciphertext plaintext then Inl ''FAIL: registerModel message carries the plaintext model''
      else assertNoSecrets ''registerModel instruction message'' [ciphertext])"

definition assertSeasonMakesSense :: "testPolicy \<Rightarrow> int \<Rightarrow> unit res" where
  "assertSeasonMakesSense p rainfall =
     (let window = ''FAIL ('' @ tp_label p @ ''): window '' @ StartDate (tp_feed p) @ ''..'' @ EndDate (tp_feed p) @
                   '' attested '' @ show_int rainfall @ '' tenths of mm, which is '';
          trigger = u64 (TriggerTenthsMm testModel)
      in if tp_shouldTrigger p \<and> rainfall \<ge> trigger then Inl (window @ ''not a drought under this model'')
         else if \<not> tp_shouldTrigger p \<and> rainfall < trigger then Inl (window @ ''below the trigger'')
         else Inr ())"

section \<open>The pool\<close>

record test_pool =
  po_token :: ERC20
  po_executor :: address
  po_symbol :: string
  po_decimals :: "8 word"

definition po_format :: "test_pool \<Rightarrow> int \<Rightarrow> string" where
  "po_format p amount = FormatUnits (Some amount) (po_decimals p)"

definition balanceOf :: "('c, 'tx, 'ty) aegis_env \<Rightarrow> test_pool \<Rightarrow> address \<Rightarrow> ('c, int) io" where
  "balanceOf E p account =
     io_wrap (\<lambda>e. ''reading balance of '' @ tk_AddressHex (ae_token E) account @ '': '' @ e)
       (io_read (BalanceOf (ae_token E) (po_token p) account))"

definition checkPoolCanCover ::
    "('c, 'tx, 'ty) aegis_env \<Rightarrow> address \<Rightarrow> int \<Rightarrow> ('c, test_pool) io" where
  "checkPoolCanCover E settlementAddress worstCase =
     (let tk = ae_token E; here = tk_AddressHex tk settlementAddress
      in io_bind (io_wrap (\<lambda>e. ''binding PolicySettlement at '' @ here @ '': '' @ e)
           (io_lift (NewPolicySettlement (ae_chain E) settlementAddress))) (\<lambda>_.
         io_bind (io_wrap (\<lambda>e. ''reading payoutExecutor: '' @ e) (io_read (\<lambda>w. ae_executor E w settlementAddress))) (\<lambda>executor.
         if executor = 0
         then io_fail (''FAIL: '' @ here @ '' has no payout executor '' @ em_dash @
                       '' run cmd/deploy-settlement, which wires one up'')
         else
         io_bind (io_wrap (\<lambda>e. ''resolving FXRP: '' @ e) (io_read (ResolveFxrp tk (ae_getenv E)))) (\<lambda>fxrp.
         io_bind (io_lift (NewERC20 tk fxrp)) (\<lambda>token.
         io_bind (io_read (Metadata tk token)) (\<lambda>(symbol, decimals).
         let pool = \<lparr>po_token = token, po_executor = executor, po_symbol = symbol, po_decimals = decimals\<rparr>
         in io_bind (balanceOf E pool executor) (\<lambda>balance.
            if balance < worstCase
            then io_fail (''FAIL: the pool holds '' @ po_format pool balance @ '' '' @ symbol @
                   '' but this model can owe up to '' @ po_format pool worstCase @ '' '' @ em_dash @
                   '' fund it with cmd/fund-pool (mint test FXRP as described in TUTORIAL.md '' @
                   [CHR 0xC2, CHR 0xA7] @ ''8)'')
            else io_ret pool)))))))"

section \<open>Steps on one policy\<close>

definition bindPolicyTrigger ::
    "('c, 'tx, 'ty) aegis_env \<Rightarrow> address \<Rightarrow> testPolicy \<Rightarrow> RequestBody \<Rightarrow> ('c, unit) io" where
  "bindPolicyTrigger E contract p requestBody =
     (let lib = ae_sender E; label = '' ('' @ tp_label p @ '')''
      in io_bind (io_wrap (\<lambda>e. ''triggerRequestHash'' @ label @ '': '' @ e)
           (io_read (\<lambda>w. TriggerRequestHash lib w contract requestBody))) (\<lambda>requestHash.
         io_bind (io_wrap (\<lambda>e. ''bind InstructionSender: '' @ e) (io_lift (BindSender lib contract))) (\<lambda>_.
         io_bind (io_wrap (\<lambda>e. ''read policy trigger'' @ label @ '': '' @ e)
           (io_read (\<lambda>w. PolicyTriggerCall lib w contract (tp_id p)))) (\<lambda>existing.
         if existing = requestHash then io_ret ()
         else if existing \<noteq> 0
         then io_fail (''FAIL'' @ label @ '': policy is bound to trigger '' @ hex_of E existing @
                '', but this run's feed hashes to '' @ hex_of E requestHash @ '' '' @ em_dash @
                '' redeploy the contract or use a fresh policy id'')
         else io_bind (io_wrap (\<lambda>e. ''registerPolicyTrigger'' @ label @ '': '' @ e)
                (SendRegisterPolicyTrigger lib contract (tp_id p) requestHash)) (\<lambda>_. io_ret ())))))"

text \<open>Steps 2 and 3.\<close>

definition encode_and_bind ::
    "('c, 'tx, 'ty) aegis_env \<Rightarrow> address \<Rightarrow> testPolicy \<Rightarrow> ('c, testPolicy) io" where
  "encode_and_bind E contract p =
     io_bind (io_wrap (\<lambda>e. ''building request body ('' @ tp_label p @ ''): '' @ e)
       (io_lift (DroughtFeed_RequestBody (tp_feed p)))) (\<lambda>requestBody.
     io_bind (io_wrap (\<lambda>e. ''prepareRequest ('' @ tp_label p @ ''): '' @ e)
       (PrepareRequest (ae_fdc E) (NewClient (ae_getenv E)) requestBody)) (\<lambda>encoded.
     let p' = p\<lparr>tp_request := encoded\<rparr>
     in io_bind (bindPolicyTrigger E contract p' requestBody) (\<lambda>_. io_ret p')))"

definition submit_policy :: "('c, 'tx, 'ty) aegis_env \<Rightarrow> testPolicy \<Rightarrow> ('c, testPolicy) io" where
  "submit_policy E p =
     io_bind (io_wrap (\<lambda>e. ''submit attestation request ('' @ tp_label p @ ''): '' @ e)
       (SubmitRequest (ae_hub E) (tp_request p))) (\<lambda>(rnd, txh). io_ret (p\<lparr>tp_round := rnd\<rparr>))"

definition registerModel ::
    "('c, 'tx, 'ty) test_env \<Rightarrow> address \<Rightarrow> string \<Rightarrow> bytes \<Rightarrow> testPolicy \<Rightarrow> ('c, testPolicy) io" where
  "registerModel T contract proxyURL pub p =
     (let E = te_env T; label = '' ('' @ tp_label p @ '')''
      in io_bind (io_wrap (\<lambda>e. ''encode register model request'' @ label @ '': '' @ e)
           (io_lift (RegisterModelRequest_Encode (ae_HashText E) \<lparr>rm_PolicyID = tp_id p, rm_Model = testModel\<rparr>))) (\<lambda>plaintext.
         io_bind (io_wrap (\<lambda>e. ''ECIES encrypt'' @ label @ '': '' @ e) (ae_Encrypt E pub plaintext)) (\<lambda>ciphertext.
         io_bind (io_lift (assertSealed_test plaintext ciphertext)) (\<lambda>_.
         io_bind (io_wrap (\<lambda>e. ''registerModel'' @ label @ '': '' @ e)
           (SendRegisterModel (ae_sender E) (ae_getenv E) contract ciphertext)) (\<lambda>(registerID, _) w.
         io_bind (io_wrap (\<lambda>e. ''poll registerModel'' @ label @ '': '' @ e)
           (ActionResult_poll (ae_http E) proxyURL registerID)) (\<lambda>resp.
         if ar_Status (resp_Result resp) = 0
         then io_fail (''registerModel instruction failed'' @ label @ '': '' @ ar_Log (resp_Result resp))
         else io_bind (io_lift (assertNoSecrets ''registerModel action result''
                [ar_Log (resp_Result resp), ar_Data (resp_Result resp)])) (\<lambda>_. io_ret p)) (te_Wait T w))))))"

text \<open>\<open>n\<close> waits are left; the first waits for the round the request already is in.\<close>

primrec collectProof ::
    "nat \<Rightarrow> ('c, 'tx, 'ty) aegis_env \<Rightarrow> testPolicy \<Rightarrow> ('c, testPolicy) pio" where
  "collectProof 0 E p = total (io_fail [])"
| "collectProof (Suc n) E p =
     pio_bind (pio_try (\<lambda>w. WaitForProof (ae_fdc E) (NewClient (ae_getenv E)) (tp_round p) (tp_request p)
                              (ae_NewContext E w))) (\<lambda>answer.
     case answer of
       Inr pf \<Rightarrow> total (io_ret (p\<lparr>tp_proof := Some pf\<rparr>))
     | Inl e \<Rightarrow>
         if n = 0
         then total (io_fail (''retrieve proof ('' @ tp_label p @ ''): giving up after '' @ show_nat proofAttempts @
                '' rounds '' @ em_dash @ '' the last was '' @ show_nat (unat (tp_round p)) @
                ''. The round finalizes either way, so this means data providers did not attest '' @
                ''the request; check the source API is reachable and not rate-limiting them: '' @ e))
         else pio_bind (total (io_wrap (\<lambda>e. ''re-submit attestation request ('' @ tp_label p @ ''): '' @ e)
                (SubmitRequest (ae_hub E) (tp_request p)))) (\<lambda>(rnd, txh). collectProof n E (p\<lparr>tp_round := rnd\<rparr>)))"

definition read_weather :: "('c, 'tx, 'ty) aegis_env \<Rightarrow> testPolicy \<Rightarrow> ('c, WeatherReading) io" where
  "read_weather E p =
     io_wrap (\<lambda>e. ''decode weather reading ('' @ tp_label p @ ''): '' @ e)
       (io_lift (DecodeWeatherReading (ae_fdc E) (tp_proof p)))"

text \<open>Step 6.\<close>

definition collect_and_check :: "('c, 'tx, 'ty) aegis_env \<Rightarrow> testPolicy \<Rightarrow> ('c, testPolicy) pio" where
  "collect_and_check E p =
     pio_bind (collectProof proofAttempts E p) (\<lambda>p'.
     total (io_bind (read_weather E p') (\<lambda>reading.
            io_bind (io_lift (assertSeasonMakesSense p' (RainfallTenthsMm reading))) (\<lambda>_. io_ret p'))))"

definition runEvaluate_test ::
    "('c, 'tx, 'ty) test_env \<Rightarrow> address \<Rightarrow> string \<Rightarrow> testPolicy \<Rightarrow> ('c, int \<times> testPolicy) io" where
  "runEvaluate_test T contract proxyURL p =
     (let E = te_env T; label = '' ('' @ tp_label p @ '')''
      in case tp_proof p of
           None \<Rightarrow> io_fail ''invalid memory address or nil pointer dereference''
         | Some pf \<Rightarrow>
         io_bind (io_wrap (\<lambda>e. ''evaluate'' @ label @ '': '' @ e)
           (SendEvaluate (ae_sender E) (ae_getenv E) contract (tp_id p) testPayoutTo pf)) (\<lambda>(evaluateID, _) w.
         io_bind (io_wrap (\<lambda>e. ''poll evaluate'' @ label @ '': '' @ e)
           (ActionResult_poll (ae_http E) proxyURL evaluateID)) (\<lambda>resp.
         if ar_Status (resp_Result resp) = 0
         then io_fail (''evaluate instruction failed'' @ label @ '': '' @ ar_Log (resp_Result resp))
         else io_bind (io_wrap (\<lambda>e. ''decode evaluate response'' @ label @ '': '' @ e)
                (io_lift (DecodeEvaluateResponse (ae_abi E) (ar_Data (resp_Result resp))))) (\<lambda>decision.
         if er_PolicyID decision \<noteq> tp_id p
         then io_fail (''FAIL'' @ label @ '': decision is for policy '' @ hex_of E (er_PolicyID decision) @
                '', expected '' @ hex_of E (tp_id p))
         else if er_PayoutTo decision \<noteq> testPayoutTo
         then io_fail (''FAIL'' @ label @ '': payout address '' @ tk_AddressHex (ae_token E) (er_PayoutTo decision) @
                '', expected '' @ tk_AddressHex (ae_token E) testPayoutTo)
         else if resp_Signature resp = []
         then io_fail (''FAIL'' @ label @ '': action result carries no TEE signature'')
         else io_bind (io_lift (assertNoSecrets (''evaluate action result'' @ label)
                [ar_Log (resp_Result resp), ar_Data (resp_Result resp)])) (\<lambda>_.
              io_ret (the (er_PayoutAmount decision), p\<lparr>tp_decision := Some resp\<rparr>)))) (te_Wait T w)))"

text \<open>Step 8, with the decision compared to the insurer's own figure; an undefined figure is a panic.\<close>

definition evaluate_and_check ::
    "('c, 'tx, 'ty) test_env \<Rightarrow> address \<Rightarrow> string \<Rightarrow> testPolicy \<Rightarrow> ('c, testPolicy) io" where
  "evaluate_and_check T contract proxyURL p =
     io_bind (read_weather (te_env T) p) (\<lambda>reading.
     io_bind (runEvaluate_test T contract proxyURL p) (\<lambda>(payout, p').
     let rain = RainfallTenthsMm reading; fail = ''FAIL ('' @ tp_label p @ ''): ''
     in case expectedPayout testModel rain of
          None \<Rightarrow> io_fail ''panic''
        | Some expected \<Rightarrow>
            if payout \<noteq> expected
            then io_fail (fail @ ''payout '' @ show_int payout @ '' wei does not match the model's '' @
                   show_int expected @ '' wei for '' @ show_int rain @ '' tenths of mm'')
            else if tp_shouldTrigger p \<and> payout = 0
            then io_fail (fail @ ''attested rainfall '' @ show_int rain @ '' tenths of mm should have paid out, got zero'')
            else if \<not> tp_shouldTrigger p \<and> payout \<noteq> 0
            then io_fail (fail @ ''rainfall above the trigger must not pay out, got '' @ show_int payout @ '' units'')
            else io_ret p'))"

definition settle_test ::
    "('c, 'tx, 'ty) aegis_env \<Rightarrow> address \<Rightarrow> testPolicy \<Rightarrow> ActionResponse \<Rightarrow> ('c, Decision) io" where
  "settle_test E settlementAddress p response w =
     (case Settle (ae_sig E) (ae_chain E) (ae_chainID E) settlementAddress (Some response) w of
        ((txh, dec, Some e), w') \<Rightarrow> (Inl (''settle ('' @ tp_label p @ ''): '' @ e), w')
      | ((txh, Some d, None), w') \<Rightarrow> (Inr d, w')
      | ((txh, None, None), w') \<Rightarrow> (Inl ''invalid memory address or nil pointer dereference'', w'))"

definition check_deltas :: "test_pool \<Rightarrow> testPolicy \<Rightarrow> int \<Rightarrow> int \<Rightarrow> int \<Rightarrow> unit res" where
  "check_deltas pool p amount recipientDelta poolDelta =
     (if recipientDelta \<noteq> amount
      then Inl (''FAIL ('' @ tp_label p @ ''): the enclave decided '' @ po_format pool amount @ '' '' @ po_symbol pool @
             '' but the recipient received '' @ po_format pool recipientDelta)
      else if poolDelta \<noteq> amount
      then Inl (''FAIL ('' @ tp_label p @ ''): the pool moved '' @ po_format pool poolDelta @ '' '' @ po_symbol pool @
             '' for a '' @ po_format pool amount @ '' payout'')
      else Inr ())"

definition check_record ::
    "('c, 'tx, 'ty) aegis_env \<Rightarrow> test_pool \<Rightarrow> testPolicy \<Rightarrow> hash \<Rightarrow> int \<Rightarrow> Settlement \<Rightarrow> unit res" where
  "check_record E pool p instruction amount s =
     (let fail = ''FAIL ('' @ tp_label p @ ''): ''
      in if \<not> st_Settled s then Inl (fail @ ''policy is not recorded as settled'')
         else if st_Amount s \<noteq> amount
         then Inl (fail @ ''recorded '' @ po_format pool (st_Amount s) @ '' '' @ po_symbol pool @ '', decision said '' @
                po_format pool amount)
         else if st_InstructionID s \<noteq> instruction
         then Inl (fail @ ''recorded instruction '' @ hex_of E (st_InstructionID s) @ '', settled '' @ hex_of E instruction)
         else if tp_shouldTrigger p
         then (if st_PayoutTo s \<noteq> testPayoutTo
               then Inl (fail @ ''recorded recipient '' @ tk_AddressHex (ae_token E) (st_PayoutTo s) @ '', expected '' @
                      tk_AddressHex (ae_token E) testPayoutTo)
               else Inr ())
         else if amount \<noteq> 0
         then Inl (fail @ ''a wet-season policy settled for '' @ po_format pool amount @ '' '' @ po_symbol pool)
         else Inr ())"

definition settlePolicy ::
    "('c, 'tx, 'ty) aegis_env \<Rightarrow> address \<Rightarrow> test_pool \<Rightarrow> testPolicy \<Rightarrow> ('c, testPolicy) io" where
  "settlePolicy E settlementAddress pool p =
     (case tp_decision p of
        None \<Rightarrow> io_fail (''FAIL ('' @ tp_label p @ ''): no decision to settle'')
      | Some response \<Rightarrow>
          io_bind (balanceOf E pool testPayoutTo) (\<lambda>recipientBefore.
          io_bind (balanceOf E pool (po_executor pool)) (\<lambda>poolBefore.
          io_bind (settle_test E settlementAddress p response) (\<lambda>decision.
          io_bind (balanceOf E pool testPayoutTo) (\<lambda>recipientAfter.
          io_bind (balanceOf E pool (po_executor pool)) (\<lambda>poolAfter.
          io_bind (io_lift (check_deltas pool p (dec_PayoutAmount decision) (recipientAfter - recipientBefore)
                              (poolBefore - poolAfter))) (\<lambda>_.
          io_bind (io_read (\<lambda>w. SettlementOf (ae_chain E) (hex_of E) w settlementAddress (tp_id p))) (\<lambda>s.
          io_bind (io_lift (check_record E pool p (ar_ID (resp_Result response)) (dec_PayoutAmount decision) s)) (\<lambda>_.
          io_ret p)))))))))"

section \<open>Attacks that must fail\<close>

fun replayGuardSelectors :: "(string \<Rightarrow> bytes option) \<Rightarrow> string list \<Rightarrow> string list res" where
  "replayGuardSelectors errors [] = Inr []"
| "replayGuardSelectors errors (name # names) =
     (case errors name of
        None \<Rightarrow> Inl (''PolicySettlement ABI has no '' @ name @ '' error '' @ em_dash @ '' was the replay guard renamed?'')
      | Some eid \<Rightarrow> res_bind (replayGuardSelectors errors names) (\<lambda>rest. Inr (hex_encode (take 4 eid) # rest)))"

definition matchesAnySelector :: "(string \<Rightarrow> string) \<Rightarrow> string \<Rightarrow> string list \<Rightarrow> bool" where
  "matchesAnySelector toLower revertData selectors =
     (let trimmed = toLower (TrimPrefix revertData ''0x'') in list_ex (HasPrefix trimmed) selectors)"

definition assertReplayRejected ::
    "('c, 'tx, 'ty) test_env \<Rightarrow> address \<Rightarrow> testPolicy \<Rightarrow> ('c, unit) io" where
  "assertReplayRejected T settlementAddress p =
     (let E = te_env T
      in io_bind (io_wrap (\<lambda>e. ''loading PolicySettlement ABI: '' @ e) (io_lift (te_SettlementAbi T))) (\<lambda>errors.
         case tp_decision p of
           None \<Rightarrow> io_fail ''invalid memory address or nil pointer dereference''
         | Some response \<Rightarrow>
         io_bind (io_wrap (\<lambda>e. ''packing replayed settle: '' @ e) (io_lift (te_PackSettle T response))) (\<lambda>callData.
         io_bind (io_read (\<lambda>w. Inr (SimulateAndDecodeRevert (UnpackRevert (is_Tx (ae_sender E)))
                                  (te_SimulateSettle T w settlementAddress callData)))) (\<lambda>reason.
         io_bind (io_lift (replayGuardSelectors errors [''DecisionAlreadySettled'', ''PolicyAlreadySettled''])) (\<lambda>guards.
         if matchesAnySelector (te_ToLower T) reason guards then io_ret ()
         else io_fail (''FAIL: replaying a settled decision was not rejected by a replay guard (got: '' @
                ho_Quote (ae_host E) reason @ '', expected one of ['' @ Join guards '' '' @ ''])''))))))"

definition selector :: "('c, 'tx, 'ty) test_env \<Rightarrow> string \<Rightarrow> bytes" where
  "selector T signature = take 4 (te_Keccak T signature)"

definition raw_evaluate :: string where
  "raw_evaluate = ''evaluate(bytes32,uint256,address)''"

definition attested_evaluate :: string where
  "attested_evaluate =
     ''evaluate(bytes32,address,(bytes32[],(bytes32,bytes32,uint64,uint64,'' @
     ''(string,string,string,string,string,string,string),(bytes))))''"

definition assertRawRainfallPathRemoved :: "('c, 'tx, 'ty) test_env \<Rightarrow> address \<Rightarrow> ('c, unit) io" where
  "assertRawRainfallPathRemoved T contract =
     (let here = tk_AddressHex (ae_token (te_env T)) contract
      in io_bind (io_wrap (\<lambda>e. ''reading deployed bytecode: '' @ e) (io_read (\<lambda>w. te_CodeAt T w contract))) (\<lambda>code.
         if code = [] then io_fail (''no contract deployed at '' @ here)
         else if Contains code (selector T raw_evaluate)
         then io_fail (''FAIL: deployed contract still dispatches evaluate(bytes32,uint256,address) (selector 0x'' @
                hex_encode (selector T raw_evaluate) @ '') '' @ em_dash @
                '' unattested rainfall can still reach the enclave'')
         else if \<not> Contains code (selector T attested_evaluate)
         then io_fail (''FAIL: deployed contract does not dispatch the attested evaluate (selector 0x'' @
                hex_encode (selector T attested_evaluate) @ '') '' @ em_dash @ '' is '' @ here @
                '' the contract this test just deployed?'')
         else io_ret ()))"

definition assertForeignAttestationRejected ::
    "('c, 'tx, 'ty) test_env \<Rightarrow> address \<Rightarrow> testPolicy list \<Rightarrow> ('c, unit) io" where
  "assertForeignAttestationRejected T contract policies =
     (let E = te_env T; lib = ae_sender E
      in case policies of
           victim # other # _ \<Rightarrow>
             io_bind (io_wrap (\<lambda>e. ''loading InstructionSender ABI: '' @ e) (io_lift (te_SenderAbi T))) (\<lambda>_.
             case tp_proof other of
               None \<Rightarrow> io_fail ''invalid memory address or nil pointer dereference''
             | Some pf \<Rightarrow>
             io_bind (io_wrap (\<lambda>e. ''packing cross-policy evaluate: '' @ e)
               (io_lift (te_PackEvaluate T (tp_id victim) testPayoutTo pf))) (\<lambda>callData.
             io_bind (io_read (\<lambda>w. Inr (SimulateAndDecodeRevert (UnpackRevert (is_Tx lib))
                  (Simulate lib w (is_From lib) contract (Some (DefaultFee (ae_getenv E))) callData)))) (\<lambda>reason.
             if Contains reason ''attestation is not this policy's trigger'' then io_ret ()
             else io_fail (''FAIL: an attestation of another policy's feed was not rejected as expected (got: '' @
                    ho_Quote (ae_host E) reason @ '')''))))
         | _ \<Rightarrow> io_ret ())"

section \<open>The run\<close>

primrec each :: "('a \<Rightarrow> ('w, 'b) pio) \<Rightarrow> 'a list \<Rightarrow> ('w, 'b list) pio" where
  "each f [] = total (io_ret [])"
| "each f (x # xs) = pio_bind (f x) (\<lambda>y. pio_bind (each f xs) (\<lambda>ys. total (io_ret (y # ys))))"

text \<open>An extension id that is already set is no obstacle.\<close>

definition ensure_extension_id :: "('c, 'tx, 'ty) aegis_env \<Rightarrow> address \<Rightarrow> ('c, unit) io" where
  "ensure_extension_id E contract w =
     (case SetExtensionId_sender (ae_sender E) contract w of
        (Inl e, w') \<Rightarrow>
          (if Contains e ''already set'' \<or> Contains e ''Extension ID already set'' then Inr ()
           else Inl (''setExtensionId failed '' @ em_dash @
                  '' is the extension registered? Check pre-build.sh completed. Error: '' @ e), w')
      | (Inr _, w') \<Rightarrow> (Inr (), w'))"

definition settle_all ::
    "('c, 'tx, 'ty) test_env \<Rightarrow> address \<Rightarrow> test_pool \<Rightarrow> testPolicy list \<Rightarrow> ('c, unit) pio" where
  "settle_all T settlementAddress pool ps =
     pio_bind (each (\<lambda>p. total (settlePolicy (te_env T) settlementAddress pool p)) ps) (\<lambda>_.
     total (assertReplayRejected T settlementAddress (hd ps)))"

definition run_policies ::
    "('c, 'tx, 'ty) test_env \<Rightarrow> string \<Rightarrow> address \<Rightarrow> address \<Rightarrow> test_pool \<Rightarrow> testPolicy list \<Rightarrow> ('c, unit) pio" where
  "run_policies T pf contract settlementAddress pool ps0 =
     (let E = te_env T
      in pio_bind (each (\<lambda>p. total (encode_and_bind E contract p)) ps0) (\<lambda>ps1.
         pio_bind (each (\<lambda>p. total (submit_policy E p)) ps1) (\<lambda>ps2.
         pio_bind (total (io_wrap (\<lambda>e. ''fetch TEE info: '' @ e) (TeeInfo (ae_http E) pf))) (\<lambda>teeInfo.
         pio_bind (total (io_wrap (\<lambda>e. ''parse TEE public key: '' @ e)
           (io_lift (ParsePubKey (ae_crypto E) (ti_PublicKey teeInfo))))) (\<lambda>pub.
         pio_bind (each (\<lambda>p. total (registerModel T contract pf pub p)) ps2) (\<lambda>ps3.
         pio_bind (each (collect_and_check E) ps3) (\<lambda>ps4.
         pio_bind (total (assertRawRainfallPathRemoved T contract)) (\<lambda>_.
         pio_bind (total (assertForeignAttestationRejected T contract ps4)) (\<lambda>_.
         pio_bind (each (\<lambda>p. total (evaluate_and_check T contract pf p)) ps4) (\<lambda>ps5.
         settle_all T settlementAddress pool ps5))))))))))"

definition run_test_main ::
    "('c, 'tx, 'ty) test_env \<Rightarrow> string \<Rightarrow> string \<Rightarrow> string \<Rightarrow> string \<Rightarrow> string \<Rightarrow> ('c, unit) pio" where
  "run_test_main T af cf pf instructionSenderF settlementF =
     (let E = te_env T; tk = ae_token E
      in if instructionSenderF = []
         then total (io_fail ''--instructionSender flag is required (or set INSTRUCTION_SENDER in .env)'')
         else if settlementF = []
         then total (io_fail (''--settlement flag is required (or set POLICY_SETTLEMENT in config/settlement.env). '' @
                ''Deploy it with: go run ./cmd/deploy-settlement --instructionSender <address>''))
         else
           (let contract = tk_HexToAddress tk instructionSenderF; settlementAddress = tk_HexToAddress tk settlementF
            in pio_bind (total (io_lift (te_connect T af cf))) (\<lambda>_.
               pio_bind (total (newRunNonce E)) (\<lambda>nonce.
               pio_bind (total (checkPoolCanCover E settlementAddress (the (SumInsuredUnits testModel)))) (\<lambda>pool.
               pio_bind (total (ensure_extension_id E contract)) (\<lambda>_.
               run_policies T pf contract settlementAddress pool (testPolicies nonce)))))))"

end
