(* ===== verification/RunTestClaims.thy ===== *)
theory RunTestClaims
  imports RunTest
begin

text \<open>
  What a passing end-to-end run establishes.  The test's own arithmetic is the enclave's scoring
  function, so a run that passes has seen the enclave decide, and the chain pay, exactly what the
  attested rainfall entitles each policy to.
\<close>

section \<open>The insurer's arithmetic is the enclave's\<close>

lemma expectedPayout_evaluatePayout:
  assumes "Validate m = Inr ()" and "0 \<le> r"
  shows "\<exists>p. expectedPayout m r = Some p \<and> evaluatePayout m (Some r) = Inr p"
proof -
  obtain s p where m: "SumInsuredUnits m = Some s" "MinPayoutUnits m = Some p" "0 < s" "0 \<le> p"
    and ramp: "u64 (ExitTenthsMm m) < u64 (TriggerTenthsMm m)"
    using assms(1) by (rule ValidE)
  then show ?thesis
    using assms by (simp add: expectedPayout_def evaluatePayout_def BigDiv_def bps_def Let_def)
qed

lemma Validate_testModel: "Validate testModel = Inr ()"
  by (simp add: Validate_ok_iff testModel_def)

section \<open>Steps of a passing run\<close>

lemma each_ok:
  "each f xs w = Some (Inr ys, w') \<Longrightarrow> list_all2 (\<lambda>x y. \<exists>v v'. f x v = Some (Inr y, v')) xs ys"
proof (induction xs arbitrary: w ys)
  case Nil
  then show ?case by (simp add: total_ok io_ret_ok)
next
  case (Cons x xs)
  then show ?case by (fastforce simp: pio_ok io_ok)
qed

definition same_policy :: "testPolicy \<Rightarrow> testPolicy \<Rightarrow> bool" where
  "same_policy p q \<longleftrightarrow> tp_id q = tp_id p \<and> tp_shouldTrigger q = tp_shouldTrigger p"

lemma same_policy_updates [simp]:
  "same_policy p (p\<lparr>tp_request := a\<rparr>)" "same_policy p (p\<lparr>tp_round := b\<rparr>)"
  "same_policy p (p\<lparr>tp_proof := c\<rparr>)" "same_policy p (p\<lparr>tp_decision := d\<rparr>)" "same_policy p p"
  by (simp_all add: same_policy_def)

lemma same_policy_trans: "same_policy p q \<Longrightarrow> same_policy q r \<Longrightarrow> same_policy p r"
  by (simp add: same_policy_def)

lemma encode_and_bind_same: "encode_and_bind E c p w = (Inr q, w') \<Longrightarrow> same_policy p q"
  by (auto simp: encode_and_bind_def io_ok Let_def)

lemma submit_policy_same: "submit_policy E p w = (Inr q, w') \<Longrightarrow> same_policy p q"
  by (auto simp: submit_policy_def io_ok)

lemma registerModel_same: "registerModel T c u k p w = (Inr q, w') \<Longrightarrow> q = p"
  by (auto simp: registerModel_def io_ok Let_def split: if_splits)

lemma collectProof_same: "collectProof n E p w = Some (Inr q, w') \<Longrightarrow> same_policy p q"
proof (induction n arbitrary: p w)
  case (Suc n)
  from Suc.prems obtain answer w1 where a:
    "(case answer of Inr pf \<Rightarrow> total (io_ret (p\<lparr>tp_proof := Some pf\<rparr>))
      | Inl e \<Rightarrow>
         if n = 0
         then total (io_fail (''retrieve proof ('' @ tp_label p @ ''): giving up after '' @ show_nat proofAttempts @
                '' rounds '' @ em_dash @ '' the last was '' @ show_nat (unat (tp_round p)) @
                ''. The round finalizes either way, so this means data providers did not attest '' @
                ''the request; check the source API is reachable and not rate-limiting them: '' @ e))
         else pio_bind (total (io_wrap (\<lambda>e. ''re-submit attestation request ('' @ tp_label p @ ''): '' @ e)
                (SubmitRequest (ae_hub E) (tp_request p)))) (\<lambda>(rnd, txh). collectProof n E (p\<lparr>tp_round := rnd\<rparr>)))
       w1 = Some (Inr q, w')"
    by (simp only: collectProof.simps pio_ok) (elim exE conjE, rule that, assumption)
  show ?case
  proof (cases answer)
    case (Inl e)
    with a obtain rnd w2 where "collectProof n E (p\<lparr>tp_round := rnd\<rparr>) w2 = Some (Inr q, w')"
      by (auto simp: pio_ok io_ok split: if_splits)
    from Suc.IH [OF this] show ?thesis by (rule same_policy_trans [rotated]) simp
  next
    case (Inr pf)
    with a show ?thesis by (auto simp: pio_ok io_ok)
  qed
qed (simp add: total_ok io_ok)

lemma collect_and_check_same: "collect_and_check E p w = Some (Inr q, w') \<Longrightarrow> same_policy p q"
  by (auto simp: collect_and_check_def pio_ok io_ok dest!: collectProof_same)

lemma evaluate_and_check_ok:
  assumes "evaluate_and_check T c u p w = (Inr q, w')"
  obtains pf reading iid etx y y1 y2 resp dec where
    "DecodeWeatherReading (ae_fdc (te_env T)) (Some pf) = Inr reading"
    "SendEvaluate (ae_sender (te_env T)) (ae_getenv (te_env T)) c (tp_id p) testPayoutTo pf y = (Inr (iid, etx), y1)"
    "ActionResult_poll (ae_http (te_env T)) u iid (te_Wait T y1) = (Inr resp, y2)" "q = p\<lparr>tp_decision := Some resp\<rparr>"
    "DecodeEvaluateResponse (ae_abi (te_env T)) (ar_Data (resp_Result resp)) = Inr dec"
    "er_PolicyID dec = tp_id p" "er_PayoutTo dec = testPayoutTo"
    "expectedPayout testModel (RainfallTenthsMm reading) = Some (the (er_PayoutAmount dec))"
    "tp_shouldTrigger p \<longleftrightarrow> the (er_PayoutAmount dec) \<noteq> 0"
proof -
  from assms obtain reading w1 payout w2 where r:
    "read_weather (te_env T) p w = (Inr reading, w1)" "runEvaluate_test T c u p w1 = (Inr (payout, q), w2)"
    "expectedPayout testModel (RainfallTenthsMm reading) = Some payout" "tp_shouldTrigger p \<longleftrightarrow> payout \<noteq> 0"
    by (auto simp: evaluate_and_check_def io_bind_ok Let_def io_ok split: option.splits if_splits)
  from r(2) obtain pf iid etx y1 y2 resp dec where
    "tp_proof p = Some pf"
    "SendEvaluate (ae_sender (te_env T)) (ae_getenv (te_env T)) c (tp_id p) testPayoutTo pf w1 = (Inr (iid, etx), y1)"
    "ActionResult_poll (ae_http (te_env T)) u iid (te_Wait T y1) = (Inr resp, y2)"
    "DecodeEvaluateResponse (ae_abi (te_env T)) (ar_Data (resp_Result resp)) = Inr dec"
    "er_PolicyID dec = tp_id p" "er_PayoutTo dec = testPayoutTo" "payout = the (er_PayoutAmount dec)"
    "q = p\<lparr>tp_decision := Some resp\<rparr>"
    by (auto simp: runEvaluate_test_def io_ok Let_def split: option.splits if_splits)
  with r show thesis
    by (intro that [of pf reading w1 iid etx y1 resp y2 dec]) (auto simp: read_weather_def io_ok)
qed

lemma settlePolicy_ok:
  assumes "settlePolicy E a pool p w = (Inr q, w')" and "tp_decision p = Some resp"
  obtains txh d v rb pb ra pa s where
    "Settle (ae_sig E) (ae_chain E) (ae_chainID E) a (Some resp) w = ((txh, Some d, None), v)"
    "BalanceOf (ae_token E) (po_token pool) testPayoutTo w = Inr rb"
    "BalanceOf (ae_token E) (po_token pool) (po_executor pool) w = Inr pb"
    "BalanceOf (ae_token E) (po_token pool) testPayoutTo v = Inr ra"
    "BalanceOf (ae_token E) (po_token pool) (po_executor pool) v = Inr pa"
    "ra - rb = dec_PayoutAmount d" "pb - pa = dec_PayoutAmount d"
    "SettlementOf (ae_chain E) (hex_of E) v a (tp_id p) = Inr s"
    "st_Settled s" "st_Amount s = dec_PayoutAmount d" "st_InstructionID s = ar_ID (resp_Result resp)"
proof -
  from assms obtain d v rb pb ra pa s where
    "settle_test E a p resp w = (Inr d, v)"
    "BalanceOf (ae_token E) (po_token pool) testPayoutTo w = Inr rb"
    "BalanceOf (ae_token E) (po_token pool) (po_executor pool) w = Inr pb"
    "BalanceOf (ae_token E) (po_token pool) testPayoutTo v = Inr ra"
    "BalanceOf (ae_token E) (po_token pool) (po_executor pool) v = Inr pa"
    "check_deltas pool p (dec_PayoutAmount d) (ra - rb) (pb - pa) = Inr ()"
    "SettlementOf (ae_chain E) (hex_of E) v a (tp_id p) = Inr s"
    "check_record E pool p (ar_ID (resp_Result resp)) (dec_PayoutAmount d) s = Inr ()"
    by (auto simp: settlePolicy_def balanceOf_def io_ok)
  moreover from this(1) obtain txh where
    "Settle (ae_sig E) (ae_chain E) (ae_chainID E) a (Some resp) w = ((txh, Some d, None), v)"
    by (auto simp: settle_test_def split: prod.splits option.splits)
  ultimately show thesis
    by (intro that [of txh d v rb pb ra pa s])
      (auto simp: check_deltas_def check_record_def Let_def split: if_splits)
qed

text \<open>The stages a policy of a passing run has gone through.\<close>

lemma each_same:
  assumes "each f xs w = Some (Inr ys, w')" and "\<And>x v y v'. f x v = Some (Inr y, v') \<Longrightarrow> same_policy x y"
  shows "list_all2 same_policy xs ys"
  using each_ok [OF assms(1)] by (rule list_all2_mono) (use assms(2) in blast)

lemma list_all2_same_trans:
  "list_all2 same_policy xs ys \<Longrightarrow> list_all2 same_policy ys zs \<Longrightarrow> list_all2 same_policy xs zs"
  by (rule list_all2_trans [of same_policy same_policy same_policy, OF same_policy_trans])

lemma run_policies_stages:
  assumes "run_policies T u c a pool ps0 w = Some (Inr (), w')"
  obtains ps4 ps5 where "list_all2 same_policy ps0 ps4"
    "list_all2 (\<lambda>p q. \<exists>v v'. evaluate_and_check T c u p v = (Inr q, v')) ps4 ps5"
    "\<forall>q\<in>set ps5. \<exists>v v' r. settlePolicy (te_env T) a pool q v = (Inr r, v')"
proof -
  let ?E = "te_env T"
  from assms obtain ps1 v1 ps2 v2 pub v3 ps3 v4 ps4 v5 v6 ps5 v7 where
    r: "each (\<lambda>p. total (encode_and_bind ?E c p)) ps0 w = Some (Inr ps1, v1)"
    "each (\<lambda>p. total (submit_policy ?E p)) ps1 v1 = Some (Inr ps2, v2)"
    "each (\<lambda>p. total (registerModel T c u pub p)) ps2 v3 = Some (Inr ps3, v4)"
    "each (collect_and_check ?E) ps3 v4 = Some (Inr ps4, v5)"
    "each (\<lambda>p. total (evaluate_and_check T c u p)) ps4 v6 = Some (Inr ps5, v7)"
    "settle_all T a pool ps5 v7 = Some (Inr (), w')"
    unfolding run_policies_def Let_def pio_bind_ok by (elim exE conjE) (rule that, assumption+)
  have "list_all2 same_policy ps0 ps1"
    using r(1) by (rule each_same) (auto simp: total_ok dest: encode_and_bind_same)
  moreover have "list_all2 same_policy ps1 ps2"
    using r(2) by (rule each_same) (auto simp: total_ok dest: submit_policy_same)
  moreover have "list_all2 same_policy ps2 ps3"
    using r(3) by (rule each_same) (auto simp: total_ok dest: registerModel_same)
  moreover have "list_all2 same_policy ps3 ps4"
    using r(4) by (rule each_same) (rule collect_and_check_same)
  ultimately have "list_all2 same_policy ps0 ps4" using list_all2_same_trans by blast
  moreover from each_ok [OF r(5)]
  have "list_all2 (\<lambda>p q. \<exists>v v'. evaluate_and_check T c u p v = (Inr q, v')) ps4 ps5" by (simp add: total_ok)
  moreover from r(6) obtain rs v8 where "each (\<lambda>p. total (settlePolicy ?E a pool p)) ps5 v7 = Some (Inr rs, v8)"
    by (auto simp: settle_all_def pio_ok)
  from each_ok [OF this] have "\<forall>q\<in>set ps5. \<exists>v v' r. settlePolicy ?E a pool q v = (Inr r, v')"
    by (fastforce simp: total_ok list_all2_conv_all_nth in_set_conv_nth)
  ultimately show thesis by (rule that)
qed

lemma run_test_stages:
  assumes "run_test_main T af cf u sf tf w = Some (Inr (), w')"
  obtains nonce pool v v' where
    "checkPoolCanCover (te_env T) (tk_HexToAddress (ae_token (te_env T)) tf) 5000000 v = (Inr pool, v')"
    "\<exists>v v'. run_policies T u (tk_HexToAddress (ae_token (te_env T)) sf) (tk_HexToAddress (ae_token (te_env T)) tf) pool
       (testPolicies nonce) v = Some (Inr (), v')"
  using assms unfolding run_test_main_def Let_def
  by (simp add: pio_ok io_ok testModel_def split: if_splits) blast

section \<open>A passing run\<close>

lemma Settle_decision:
  "Settle lib ch cid a (Some resp) w = ((txh, Some d, None), w') \<Longrightarrow> DecodeDecision lib (Uint64 cid) resp = Inr d"
  by (auto simp: Settle_def Let_def split: sum.splits prod.splits)

lemma evaluated_and_settled:
  assumes same: "same_policy p q4"
    and ev: "evaluate_and_check T c u q4 x = (Inr q5, x')"
    and st: "settlePolicy (te_env T) a pool q5 y = (Inr r, y')"
    and std: "standard_bytes (ae_sig (te_env T))" and abi: "ae_abi (te_env T) = solidity_abi"
  shows "\<exists>pf reading iid etx resp txh d y y1 y2 v v' rb pb ra pa s.
       DecodeWeatherReading (ae_fdc (te_env T)) (Some pf) = Inr reading \<and>
       SendEvaluate (ae_sender (te_env T)) (ae_getenv (te_env T)) c (tp_id p) testPayoutTo pf y = (Inr (iid, etx), y1) \<and>
       ActionResult_poll (ae_http (te_env T)) u iid (te_Wait T y1) = (Inr resp, y2) \<and>
       Settle (ae_sig (te_env T)) (ae_chain (te_env T)) (ae_chainID (te_env T)) a (Some resp) v = ((txh, Some d, None), v') \<and>
       dec_PolicyID d = tp_id p \<and> dec_PayoutTo d = testPayoutTo \<and>
       (0 \<le> RainfallTenthsMm reading \<longrightarrow>
          evaluatePayout testModel (Some (RainfallTenthsMm reading)) = Inr (dec_PayoutAmount d)) \<and>
       (tp_shouldTrigger p \<longleftrightarrow> dec_PayoutAmount d \<noteq> 0) \<and>
       BalanceOf (ae_token (te_env T)) (po_token pool) testPayoutTo v = Inr rb \<and>
       BalanceOf (ae_token (te_env T)) (po_token pool) (po_executor pool) v = Inr pb \<and>
       BalanceOf (ae_token (te_env T)) (po_token pool) testPayoutTo v' = Inr ra \<and>
       BalanceOf (ae_token (te_env T)) (po_token pool) (po_executor pool) v' = Inr pa \<and>
       ra - rb = dec_PayoutAmount d \<and> pb - pa = dec_PayoutAmount d \<and>
       SettlementOf (ae_chain (te_env T)) (hex_of (te_env T)) v' a (tp_id p) = Inr s \<and>
       st_Settled s \<and> st_Amount s = dec_PayoutAmount d"
proof -
  from ev obtain pf reading iid etx z z1 z2 resp dec where e:
    "DecodeWeatherReading (ae_fdc (te_env T)) (Some pf) = Inr reading"
    "SendEvaluate (ae_sender (te_env T)) (ae_getenv (te_env T)) c (tp_id q4) testPayoutTo pf z = (Inr (iid, etx), z1)"
    "ActionResult_poll (ae_http (te_env T)) u iid (te_Wait T z1) = (Inr resp, z2)" "q5 = q4\<lparr>tp_decision := Some resp\<rparr>"
    "DecodeEvaluateResponse (ae_abi (te_env T)) (ar_Data (resp_Result resp)) = Inr dec"
    "er_PolicyID dec = tp_id q4" "er_PayoutTo dec = testPayoutTo"
    "expectedPayout testModel (RainfallTenthsMm reading) = Some (the (er_PayoutAmount dec))"
    "tp_shouldTrigger q4 \<longleftrightarrow> the (er_PayoutAmount dec) \<noteq> 0"
    by (rule evaluate_and_check_ok)
  from e(4) have "tp_decision q5 = Some resp" by simp
  from st this obtain txh d v rb pb ra pa s where s:
    "Settle (ae_sig (te_env T)) (ae_chain (te_env T)) (ae_chainID (te_env T)) a (Some resp) y = ((txh, Some d, None), v)"
    "BalanceOf (ae_token (te_env T)) (po_token pool) testPayoutTo y = Inr rb"
    "BalanceOf (ae_token (te_env T)) (po_token pool) (po_executor pool) y = Inr pb"
    "BalanceOf (ae_token (te_env T)) (po_token pool) testPayoutTo v = Inr ra"
    "BalanceOf (ae_token (te_env T)) (po_token pool) (po_executor pool) v = Inr pa"
    "ra - rb = dec_PayoutAmount d" "pb - pa = dec_PayoutAmount d"
    "SettlementOf (ae_chain (te_env T)) (hex_of (te_env T)) v a (tp_id q5) = Inr s"
    "st_Settled s" "st_Amount s = dec_PayoutAmount d"
    by (rule settlePolicy_ok)
  have dec: "dec = \<lparr>er_PolicyID = dec_PolicyID d, er_PayoutAmount = Some (dec_PayoutAmount d), er_PayoutTo = dec_PayoutTo d\<rparr>"
    using DecodeDecision_is_response [OF std Settle_decision [OF s(1)]] e(5) abi by simp
  have "evaluatePayout testModel (Some (RainfallTenthsMm reading)) = Inr (dec_PayoutAmount d)"
    if "0 \<le> RainfallTenthsMm reading"
    using expectedPayout_evaluatePayout [OF Validate_testModel that] e(8) dec by auto
  note facts = this e s dec same [unfolded same_policy_def]
  show ?thesis
    by (rule exI [of _ pf], rule exI [of _ reading], rule exI [of _ iid], rule exI [of _ etx], rule exI [of _ resp],
        rule exI [of _ txh], rule exI [of _ d], rule exI [of _ z], rule exI [of _ z1], rule exI [of _ z2],
        rule exI [of _ y], rule exI [of _ v], rule exI [of _ rb], rule exI [of _ pb], rule exI [of _ ra],
        rule exI [of _ pa], rule exI [of _ s])
      (use facts in simp)
qed


section \<open>A demonstration run\<close>

text \<open>The world is a clock that requests and transactions advance; from it the demonstration peers know
  which step they are asked in.\<close>

definition demo_nonce :: bytes where
  "demo_nonce = replicate 30 (CHR 0x01)"

definition test_response :: "16 word \<Rightarrow> int \<Rightarrow> ActionResponse" where
  "test_response pre amount =
     \<lparr>resp_Result = \<lparr>ar_ID = 4, ar_SubmissionTag = ''submit'', ar_Version = [], ar_OPType = 0, ar_OPCommand = 0,
        ar_Data = tuple_bytes (policyID pre demo_nonce) amount testPayoutTo, ar_Status = 1, ar_Log = ''ok''\<rparr>,
      resp_Signature = replicate 65 (CHR 0x01)\<rparr>"

definition dry_rain :: WeatherReading where
  "dry_rain = \<lparr>LatitudeMicroDeg = 0, LongitudeMicroDeg = 0, RainfallTenthsMm = 800\<rparr>"

definition wet_rain :: WeatherReading where
  "wet_rain = \<lparr>LatitudeMicroDeg = 0, LongitudeMicroDeg = 0, RainfallTenthsMm = 1500\<rparr>"

definition test_fdc :: "(nat, unit) fdc_lib" where
  "test_fdc = demo_fdc
     \<lparr>DoPost := (\<lambda>u h p w. (Inr (200, Inr (if w = 25 then ''wet'' else ''dry'')), w + 1)),
      UnmarshalPrepare := (\<lambda>b. Inr \<lparr>pr_Status = ''VALID'', pr_ABIEncodedRequest = hex_encode ''r''\<rparr>),
      UnmarshalProof := (\<lambda>b. Inr \<lparr>da_AttestationType = [], da_Proof = [], da_ResponseHex = hex_encode b\<rparr>),
      UnpackResponse := (\<lambda>t b. Inr [demo_fdc_response\<lparr>wr_AbiEncodedData := b\<rparr>]),
      UnpackReading := (\<lambda>t b. Inr [if b = ''dry'' then dry_rain else wet_rain])\<rparr>"

definition test_http :: "nat tee_http" where
  "test_http = demo_http
     \<lparr>Get := (\<lambda>u w. (Inr (200, if w = 28 then ''wet'' else ''dry''), w)),
      DecodeActionResponse := (\<lambda>b. Inr (if b = ''dry'' then test_response 0xa3d1 2250000 else test_response 0xa3d2 0))\<rparr>"

definition test_token :: "(nat, nat) token_lib" where
  "test_token = demo_token
     \<lparr>BalanceOfCall := (\<lambda>w t a. Inr (AbiBigInt (if a = 50 then (if w \<le> 28 then 10000000 else 7750000)
                                             else (if w \<le> 28 then 0 else 2250000))))\<rparr>"

definition test_chain :: "(nat, nat) settle_chain" where
  "test_chain = demo_chain
     \<lparr>SettlementRecord := (\<lambda>w a p. Inr (True, testPayoutTo, if w = 29 then 2250000 else 0, 4))\<rparr>"

definition test_sender :: "(nat, nat, RequestBody, Web2JsonProof) sender_lib" where
  "test_sender = demo_sender
     \<lparr>PolicyTriggerCall := (\<lambda>w a p. Inr 77),
      Simulate := (\<lambda>w a b v d. Inl \<lparr>rpc_message = ''attestation is not this policy's trigger'', rpc_data = NoErrorData\<rparr>)\<rparr>"

definition test_aegis :: "(nat, nat, unit) aegis_env" where
  "test_aegis = demo_env
     \<lparr>ae_http := test_http, ae_sender := test_sender, ae_fdc := test_fdc, ae_chain := test_chain, ae_token := test_token,
      ae_NewContext := (\<lambda>w. w), ae_Nonce := (\<lambda>w. (Inr demo_nonce, w))\<rparr>"

definition demo_test :: "(nat, nat, unit) test_env" where
  "demo_test =
     \<lparr>te_env = test_aegis, te_connect = (\<lambda>a c. Inr ()), te_Wait = (\<lambda>w. w),
      te_SettlementAbi = Inr (\<lambda>n. Some ''abcdef''), te_PackSettle = (\<lambda>r. Inr ''settle''),
      te_SimulateSettle = (\<lambda>w a d. Inl \<lparr>rpc_message = hex_encode ''abcd'', rpc_data = NoErrorData\<rparr>),
      te_SenderAbi = Inr (), te_PackEvaluate = (\<lambda>i a p. Inr ''evaluate''), te_CodeAt = (\<lambda>w a. Inr ''code: evaluate(bytes32,address,''),
      te_Keccak = (\<lambda>s. drop 17 s), te_ToLower = id\<rparr>"

lemma demo_test_parts:
  "te_env demo_test = test_aegis" "te_connect demo_test a c = Inr ()" "te_Wait demo_test w = w"
  "te_SettlementAbi demo_test = Inr (\<lambda>n. Some ''abcdef'')" "te_PackSettle demo_test r = Inr ''settle''"
  "te_SimulateSettle demo_test w addr d = Inl \<lparr>rpc_message = hex_encode ''abcd'', rpc_data = NoErrorData\<rparr>"
  "te_SenderAbi demo_test = Inr ()" "te_PackEvaluate demo_test i addr p = Inr ''evaluate''"
  "te_CodeAt demo_test w addr = Inr ''code: evaluate(bytes32,address,''" "te_Keccak demo_test s = drop 17 s"
  "te_ToLower demo_test = id"
  by (simp_all add: demo_test_def)

lemma test_aegis_parts:
  "ae_http test_aegis = test_http" "ae_sender test_aegis = test_sender" "ae_fdc test_aegis = test_fdc"
  "ae_chain test_aegis = test_chain" "ae_token test_aegis = test_token" "ae_NewContext test_aegis w = w"
  "ae_Nonce test_aegis w = (Inr demo_nonce, w)" "ae_hub test_aegis = demo_hub" "ae_getenv test_aegis = (\<lambda>k. [])"
  "ae_executor test_aegis = (\<lambda>w a. Inr 50)" "ae_sig test_aegis = demo_sig" "ae_abi test_aegis = solidity_abi"
  "ae_chainID test_aegis = 114" "ae_crypto test_aegis = demo_crypto"
  "ae_Encrypt test_aegis k m w = (Inr ''sealed'', w)" "ae_HashText test_aegis = hex_hash_text"
  by (simp_all add: test_aegis_def demo_env_def)

lemma be_bytes_numeral:
  "be_bytes (numeral k) x = be_bytes (pred_numeral k) (x div 256) @ [char_of (x mod 256)]"
  by (subst numeral_eq_Suc) (rule be_bytes.simps(2))

lemma policyID_bytes:
  "bytes_of_hash (policyID 0xa3d1 demo_nonce) = [CHR 0xA3, CHR 0xD1] @ demo_nonce"
  "bytes_of_hash (policyID 0xa3d2 demo_nonce) = [CHR 0xA3, CHR 0xD2] @ demo_nonce"
  by (simp_all add: policyID_def demo_nonce_def bytes_of_hash_of_bytes be_bytes_numeral char_of_def bit_0)

lemma no_zero_digit:
  "CHR ''0'' \<notin> set (tuple_bytes (policyID 0xa3d1 demo_nonce) 2250000 testPayoutTo)"
  "CHR ''0'' \<notin> set (tuple_bytes (policyID 0xa3d2 demo_nonce) 0 testPayoutTo)"
  by (simp_all add: tuple_bytes_def policyID_bytes be_bytes_numeral testPayoutTo_def)
    (simp_all add: demo_nonce_def char_of_def)

lemma zero_digit_secret: "s \<in> set test_secrets \<Longrightarrow> CHR ''0'' \<in> set s"
  by (auto simp: test_secrets_def secretStrings_def testModel_def show_big_def show_int_def show_nat_eval)

lemma no_leak: "\<forall>b\<in>set bs. CHR ''0'' \<notin> set b \<Longrightarrow> assertNoSecrets label bs = Inr ()"
proof (induction bs)
  case (Cons b bs)
  have "\<not> Contains b s" if "s \<in> set test_secrets" for s
    using zero_digit_secret [OF that] Cons.prems by (auto simp: Contains_iff)
  with Cons show ?case by (auto simp: list_ex_iff)
qed simp

definition dry :: testPolicy where
  "dry = testPolicies demo_nonce ! 0"

definition wet :: testPolicy where
  "wet = testPolicies demo_nonce ! 1"

definition test_proof :: "string \<Rightarrow> Web2JsonProof" where
  "test_proof b = \<lparr>wp_MerkleProof = [], wp_Data = demo_fdc_response\<lparr>wr_AbiEncodedData := b\<rparr>\<rparr>"

lemma test_covered:
  "checkPoolCanCover test_aegis 70 5000000 17 =
     (Inr \<lparr>po_token = \<lparr>erc_Address = 72\<rparr>, po_executor = 50, po_symbol = ''FXRP'', po_decimals = 6\<rparr>, 17)"
  by (simp add: checkPoolCanCover_def Let_def io_simps test_aegis_parts test_chain_def demo_chain_def ResolveFxrp_def NewERC20_def
      Metadata_def balanceOf_def BalanceOf_def test_token_def demo_token_def)

lemma test_ensure: "ensure_extension_id test_aegis 70 17 = (Inr (), 18)"
  by (simp add: ensure_extension_id_def SetExtensionId_sender_def io_simps test_aegis_parts test_sender_def demo_sender_def
      demo_sender_tx_def)

lemma test_post: "post test_fdc c u p w = (Inr (if w = 25 then ''wet'' else ''dry''), w + 1)"
  by (simp add: post_def io_simps test_fdc_def demo_fdc_def max_body_def Let_def)

lemma test_prepare: "PrepareRequest test_fdc c body w = (Inr ''r'', w + 1)"
proof -
  show ?thesis
    by (simp add: PrepareRequest_def io_simps test_post Let_def EncodeAttestationName_def AttestationTypeWeb2Json_def
        SourceIDPublicWeb2_def del: hex_encode.simps)
      (simp add: test_fdc_def io_simps hexutilDecode_hex del: hex_encode.simps)
qed

lemma test_encode:
  "p \<in> {dry, wet} \<Longrightarrow> encode_and_bind test_aegis 70 p w = (Inr (p\<lparr>tp_request := ''r''\<rparr>), w + 1)"
  by (auto simp: encode_and_bind_def io_simps test_aegis_parts test_prepare DroughtFeed_RequestBody_def DroughtFeed_Validate_def
      dry_def wet_def testPolicies_def test_policy_def bindPolicyTrigger_def TriggerRequestHash_def test_sender_def demo_sender_def
      Let_def)

lemma test_submit: "submit_policy test_aegis p w = (Inr (p\<lparr>tp_round := 10\<rparr>), w + 1)"
proof -
  have "SubmitRequest demo_hub r w = (Inr (10, of_nat w), w + 1)" for r
    by (simp add: SubmitRequest_ok demo_hub_def RequestFee_def CheckTx_ok VotingRoundID_def)
  then show ?thesis by (simp add: submit_policy_def io_simps test_aegis_parts)
qed

lemma test_answer:
  "ActionResult_poll test_http u iid w =
     (Inr (if w = 28 then test_response 0xa3d2 0 else test_response 0xa3d1 2250000), w)"
proof -
  have "attempts repeats (\<lambda>w. (Inr (200, if w = 28 then ''wet'' else ''dry''), w)) q ok_response r w =
      (Inr (200, if w = 28 then ''wet'' else ''dry''), w)" for q r
    by (simp add: repeats_def numeral_eq_Suc ok_response_def)
  then show ?thesis by (simp add: ActionResult_poll_def test_http_def demo_http_def)
qed

lemma test_send:
  "SendRegisterModel test_sender g c m w = (Inr (55, of_nat w), w + 1)"
  "SendEvaluate test_sender g c i a p w = (Inr (55, of_nat w), w + 1)"
  by (simp_all add: SendRegisterModel_def SendEvaluate_def sendInstruction_ok test_sender_def demo_sender_def demo_sender_tx_def)

lemma brace_not_sealed: "CHR ''{'' \<notin> set ''sealed''"
  by simp

lemma test_register:
  "p \<in> {dry, wet} \<Longrightarrow> registerModel demo_test 70 u k (p\<lparr>tp_request := a, tp_round := b\<rparr>) w =
     (Inr (p\<lparr>tp_request := a, tp_round := b\<rparr>), w + 1)"
proof -
  have "\<not> Contains ''sealed'' (json_object kvs)" for kvs
  proof
    assume "Contains ''sealed'' (json_object kvs)"
    then obtain a b where "''sealed'' = a @ json_object kvs @ b" by (auto simp: Contains_iff)
    moreover have "CHR ''{'' \<in> set (a @ json_object kvs @ b)" by (simp add: json_object_def)
    ultimately show False by (metis brace_not_sealed)
  qed
  then have "assertSealed_test (json_object kvs) ''sealed'' = Inr ()" for kvs
    by (simp add: assertSealed_test_def no_leak del: assertNoSecrets.simps)
  moreover have "assertNoSecrets l [ar_Log (resp_Result r), ar_Data (resp_Result r)] = Inr ()"
    if "r \<in> {test_response 0xa3d1 2250000, test_response 0xa3d2 0}" for l r
    using that no_zero_digit by (intro no_leak) (auto simp: test_response_def)
  moreover have "ar_Status (resp_Result (test_response pre amount)) = 1" for pre amount
    by (simp add: test_response_def)
  ultimately show ?thesis
    by (simp add: registerModel_def io_simps demo_test_parts test_aegis_parts test_send test_answer Let_def RegisterModelRequest_Encode_def del: assertNoSecrets.simps)
qed

lemma test_fetch:
  "FetchProof test_fdc c rnd req w = (Inr (Some (test_proof (if w = 25 then ''wet'' else ''dry''))), w + 1)"
proof -
  have ty: "web2JsonResponseType test_fdc = Inr ()"
    by (simp add: web2JsonResponseType_def test_fdc_def demo_fdc_def find_data_input_def)
  have "DecodeProof test_fdc [] (hex_encode b) = Inr (test_proof b)" for b
    by (simp add: DecodeProof_ok hexutilDecode_hex ty del: hex_encode.simps)
      (simp add: test_fdc_def test_proof_def)
  moreover have "UnmarshalProof test_fdc b = Inr \<lparr>da_AttestationType = [], da_Proof = [], da_ResponseHex = hex_encode b\<rparr>" for b
    by (simp add: test_fdc_def)
  moreover have "hex_encode ''wet'' \<noteq> []" "hex_encode ''dry'' \<noteq> []" by simp_all
  ultimately show ?thesis
    by (simp add: FetchProof_def test_post Let_def del: hex_encode.simps)
qed

lemma test_reading: "DecodeWeatherReading test_fdc (Some (test_proof b)) = Inr (if b = ''dry'' then dry_rain else wet_rain)"
  by (simp add: DecodeWeatherReading_def test_fdc_def demo_fdc_def test_proof_def)

definition proved :: "testPolicy \<Rightarrow> string \<Rightarrow> testPolicy" where
  "proved p b = p\<lparr>tp_request := ''r'', tp_round := 10, tp_proof := Some (test_proof b)\<rparr>"

lemma test_collect:
  "collect_and_check test_aegis (dry\<lparr>tp_request := ''r'', tp_round := 10\<rparr>) 24 = Some (Inr (proved dry ''dry''), 25)"
  "collect_and_check test_aegis (wet\<lparr>tp_request := ''r'', tp_round := 10\<rparr>) 25 = Some (Inr (proved wet ''wet''), 26)"
proof -
  have wait: "WaitForProof test_fdc c rnd req w = Some (Inr (test_proof (if w = 25 then ''wet'' else ''dry'')), w + 1)" for c rnd req w
    by (simp add: WaitForProof_def poll.simps proof_probe_def test_fetch)
  have attempts: "collectProof proofAttempts = collectProof (Suc 2)" by (simp add: proofAttempts_def)
  have season: "assertSeasonMakesSense (proved dry ''dry'') 800 = Inr ()" "assertSeasonMakesSense (proved wet ''wet'') 1500 = Inr ()"
    by (simp_all add: assertSeasonMakesSense_def proved_def dry_def wet_def testPolicies_def test_policy_def testModel_def u64_def Let_def)
  show "collect_and_check test_aegis (dry\<lparr>tp_request := ''r'', tp_round := 10\<rparr>) 24 = Some (Inr (proved dry ''dry''), 25)"
    "collect_and_check test_aegis (wet\<lparr>tp_request := ''r'', tp_round := 10\<rparr>) 25 = Some (Inr (proved wet ''wet''), 26)"
    using season unfolding collect_and_check_def attempts collectProof.simps
    by (simp_all add: pio_bind_def pio_try_def total_def io_simps test_aegis_parts wait read_weather_def test_reading
        dry_rain_def wet_rain_def proved_def)
qed

lemma test_guards:
  "assertRawRainfallPathRemoved demo_test 70 26 = (Inr (), 26)"
  "assertForeignAttestationRejected demo_test 70 [proved dry a, proved wet b] 26 = (Inr (), 26)"
  by (simp_all add: assertRawRainfallPathRemoved_def assertForeignAttestationRejected_def io_simps demo_test_parts
      test_aegis_parts Let_def selector_def raw_evaluate_def attested_evaluate_def proved_def test_sender_def demo_sender_def
      SimulateAndDecodeRevert_def DecodeRevertReason_def)

definition decided :: "testPolicy \<Rightarrow> string \<Rightarrow> ActionResponse \<Rightarrow> testPolicy" where
  "decided p b r = (proved p b)\<lparr>tp_decision := Some r\<rparr>"

lemma test_decoded:
  "DecodeEvaluateResponse solidity_abi (ar_Data (resp_Result (test_response 0xa3d1 2250000))) =
     Inr \<lparr>er_PolicyID = policyID 0xa3d1 demo_nonce, er_PayoutAmount = Some 2250000, er_PayoutTo = testPayoutTo\<rparr>"
  "DecodeEvaluateResponse solidity_abi (ar_Data (resp_Result (test_response 0xa3d2 0))) =
     Inr \<lparr>er_PolicyID = policyID 0xa3d2 demo_nonce, er_PayoutAmount = Some 0, er_PayoutTo = testPayoutTo\<rparr>"
  by (simp_all add: test_response_def DecodeEvaluateResponse_def decodeEvaluateTuple_def solidity_abi_def
      evaluateTupleSize_def tuple_values_tuple_bytes)

lemma test_evaluate:
  "evaluate_and_check demo_test 70 u (proved dry ''dry'') 26 = (Inr (decided dry ''dry'' (test_response 0xa3d1 2250000)), 27)"
  "evaluate_and_check demo_test 70 u (proved wet ''wet'') 27 = (Inr (decided wet ''wet'' (test_response 0xa3d2 0)), 28)"
proof -
  have leak: "assertNoSecrets l [ar_Log (resp_Result r), ar_Data (resp_Result r)] = Inr ()"
    if "r \<in> {test_response 0xa3d1 2250000, test_response 0xa3d2 0}" for l r
    using that no_zero_digit by (intro no_leak) (auto simp: test_response_def)
  have resp: "ar_Status (resp_Result (test_response pre amount)) = 1" "resp_Signature (test_response pre amount) \<noteq> []" for pre amount
    by (simp_all add: test_response_def)
  have own: "tp_id (proved dry b) = policyID 0xa3d1 demo_nonce" "tp_id (proved wet b) = policyID 0xa3d2 demo_nonce"
    "tp_shouldTrigger (proved dry b)" "\<not> tp_shouldTrigger (proved wet b)" "tp_proof (proved p b) = Some (test_proof b)" for p b
    by (simp_all add: proved_def dry_def wet_def testPolicies_def test_policy_def)
  have pay: "expectedPayout testModel 800 = Some 2250000" "expectedPayout testModel 1500 = Some 0"
    by (simp_all add: expectedPayout_def testModel_def u64_def BigDiv_def Let_def)
  show "evaluate_and_check demo_test 70 u (proved dry ''dry'') 26 = (Inr (decided dry ''dry'' (test_response 0xa3d1 2250000)), 27)"
    "evaluate_and_check demo_test 70 u (proved wet ''wet'') 27 = (Inr (decided wet ''wet'' (test_response 0xa3d2 0)), 28)"
    by (simp_all add: evaluate_and_check_def runEvaluate_test_def read_weather_def io_simps demo_test_parts test_aegis_parts
        Let_def own test_reading test_send test_answer resp test_decoded leak pay dry_rain_def wet_rain_def decided_def
        del: assertNoSecrets.simps)
qed

abbreviation test_pool_value :: test_pool where
  "test_pool_value \<equiv> \<lparr>po_token = \<lparr>erc_Address = 72\<rparr>, po_executor = 50, po_symbol = ''FXRP'', po_decimals = 6\<rparr>"

lemma test_settle_call:
  assumes "r = test_response pre amount" and "0 \<le> amount" and "amount < 2 ^ 256"
  shows "settle_test test_aegis 70 p r w =
    (Inr \<lparr>dec_PolicyID = policyID pre demo_nonce, dec_PayoutAmount = amount, dec_PayoutTo = testPayoutTo,
          dec_InstructionID = 4, dec_TeeID = of_nat 65\<rparr>, w + 1)"
proof -
  have "\<exists>d. DecodeDecision demo_sig 114 r = Inr d \<and> dec_TeeID d = of_nat 65 \<and> dec_InstructionID d = 4"
    using assms(1) by (simp add: DecodeDecision_def test_response_def RecoverTeeID_def SignatureLength_def
        ActionResultSignHash_def demo_sig_def Let_def)
  then obtain d where d: "DecodeDecision demo_sig 114 r = Inr d" "dec_TeeID d = of_nat 65" "dec_InstructionID d = 4" by blast
  have "standard_bytes demo_sig" by (simp add: standard_bytes_def demo_sig_def)
  from DecodeDecision_is_response [OF this d(1)] assms d(2,3)
  have "d = \<lparr>dec_PolicyID = policyID pre demo_nonce, dec_PayoutAmount = amount, dec_PayoutTo = testPayoutTo,
          dec_InstructionID = 4, dec_TeeID = of_nat 65\<rparr>"
    by (cases d) (simp add: test_response_def DecodeEvaluateResponse_def decodeEvaluateTuple_def solidity_abi_def
        evaluateTupleSize_def tuple_values_tuple_bytes)
  with d(1) show ?thesis
    by (simp add: settle_test_def Settle_def test_aegis_parts Uint64_def test_chain_def demo_chain_def demo_tx_def CheckTx_def Let_def)
qed

lemma test_settle:
  "settlePolicy test_aegis 70 test_pool_value (decided dry b (test_response 0xa3d1 2250000)) 28 =
     (Inr (decided dry b (test_response 0xa3d1 2250000)), 29)"
  "settlePolicy test_aegis 70 test_pool_value (decided wet b (test_response 0xa3d2 0)) 29 =
     (Inr (decided wet b (test_response 0xa3d2 0)), 30)"
proof -
  have bal: "BalanceOf test_token t testPayoutTo w = Inr (if w \<le> 28 then 0 else 2250000)"
    "BalanceOf test_token t 50 w = Inr (if w \<le> 28 then 10000000 else 7750000)" for t w
    by (simp_all add: BalanceOf_def test_token_def testPayoutTo_def)
  have rec: "SettlementOf test_chain h w 70 i =
      Inr \<lparr>st_Settled = True, st_PayoutTo = testPayoutTo, st_Amount = (if w = 29 then 2250000 else 0), st_InstructionID = 4\<rparr>" for h w i
    by (simp add: SettlementOf_def test_chain_def demo_chain_def)
  have own: "tp_decision (decided p b r) = Some r" "ar_ID (resp_Result (test_response pre amount)) = 4" for p b r pre amount
    by (simp_all add: decided_def test_response_def)
  have trig: "tp_shouldTrigger (decided dry b r)" "\<not> tp_shouldTrigger (decided wet b r)" for b r
    by (simp_all add: decided_def proved_def dry_def wet_def testPolicies_def test_policy_def)
  show "settlePolicy test_aegis 70 test_pool_value (decided dry b (test_response 0xa3d1 2250000)) 28 =
     (Inr (decided dry b (test_response 0xa3d1 2250000)), 29)"
    "settlePolicy test_aegis 70 test_pool_value (decided wet b (test_response 0xa3d2 0)) 29 =
     (Inr (decided wet b (test_response 0xa3d2 0)), 30)"
    by (simp_all add: settlePolicy_def io_simps own balanceOf_def test_aegis_parts bal rec trig check_deltas_def check_record_def
        test_settle_call [OF refl] Let_def)
qed

lemma test_replay:
  "assertReplayRejected demo_test 70 (decided p b r) 30 = (Inr (), 30)"
proof -
  have "take 4 ''abcdef'' = ''abcd''" by simp
  moreover have "TrimPrefix (hex_encode ''abcd'') ''0x'' = hex_encode ''abcd''" by (rule TrimPrefix_hex_encode)
  ultimately show ?thesis
    by (simp add: assertReplayRejected_def io_simps demo_test_parts decided_def SimulateAndDecodeRevert_def
        DecodeRevertReason_def matchesAnySelector_def HasPrefix_def Let_def del: hex_encode.simps)
qed

lemma test_run: "run_test_main demo_test ''a'' ''c'' ''u'' ''i'' ''s'' 17 = Some (Inr (), 30)"
proof -
  have two: "testPolicies demo_nonce = [dry, wet]" by (simp add: dry_def wet_def testPolicies_def)
  have "tk_HexToAddress test_token s = 70" for s by (simp add: test_token_def demo_token_def)
  moreover have "TeeInfo test_http ''u'' w = (Inr demo_info, w)" for w
    by (simp add: TeeInfo_def io_simps test_http_def demo_http_def)
  moreover have "ParsePubKey demo_crypto k = Inr k" for k by (simp add: demo_crypto_def)
  moreover have "the (SumInsuredUnits testModel) = 5000000" by (simp add: testModel_def)
  ultimately show ?thesis
    unfolding run_test_main_def Let_def
    by (simp add: pio_bind_def total_def io_simps demo_test_parts test_aegis_parts newRunNonce_def test_covered test_ensure two
        run_policies_def settle_all_def test_encode test_submit test_register test_collect [unfolded total_def] test_guards
        test_evaluate test_settle test_replay proved_def [symmetric])
qed


end
