(* ===== verification/DeployTools.thy ===== *)
theory DeployTools
  imports AegisConfig ExtensionSetup Registration Checks
begin

text \<open>
  The one-shot commands under \<open>go/tools/cmd\<close> that put a deployment together: \<open>deploy-contract\<close>,
  \<open>register-extension\<close>, \<open>set-governance\<close>, \<open>allow-tee-version\<close>, \<open>register-tee\<close> and \<open>deploy-settlement\<close>,
  each from its parsed flags on.  A fatal error is the error of the command; the lines it prints for
  scripts are its value; progress text is left out.  The chain records stand for the bindings under
  the key of the support, or under the key they are given.
\<close>

section \<open>What the commands are linked with\<close>

record 'w tool_env =
  tl_support :: support_lib
  tl_devKey :: address
  tl_getenv :: env
  tl_host :: host
  tl_client :: "'w \<Rightarrow> eth_client"
  tl_cli :: cli_lib

definition tool_support :: "'w tool_env \<Rightarrow> string \<Rightarrow> string \<Rightarrow> Support res" where
  "tool_support T af cf = DefaultSupport (tl_support T) (tl_devKey T) (tl_getenv T) af cf"

abbreviation has_code :: "'w tool_env \<Rightarrow> address \<Rightarrow> string \<Rightarrow> ('w, unit) io" where
  "has_code T a label \<equiv> io_read (\<lambda>w. AddressHasCode (tl_host T) (Some (tl_client T w)) a label)"

abbreviation has_funds :: "'w tool_env \<Rightarrow> Support \<Rightarrow> ('w, unit) io" where
  "has_funds T s \<equiv> io_read (\<lambda>w. KeyHasFunds (tl_host T) (Some (tl_client T w)) (Prv s) MinDeployBalance)"

section \<open>deploy-contract\<close>

text \<open>The address file is written on a best-effort basis: neither result is looked at.\<close>

definition write_address :: "'w tool_env \<Rightarrow> string \<Rightarrow> bytes \<Rightarrow> (disk, unit) io" where
  "write_address T outFile content d =
     (Inr (), if WriteFailure (tl_cli T) outFile = None then d(outFile \<mapsto> content) else d)"

definition preflight_checks :: "'w tool_env \<Rightarrow> Support \<Rightarrow> ('w, unit) io" where
  "preflight_checks T s =
     (let manager = FlareTeeManager (sp_Addresses s)
      in io_bind (io_lift (AddressNotZero (tl_host T) manager ''FlareTeeManager'')) (\<lambda>_.
         io_bind (has_code T manager ''FlareTeeManager'') (\<lambda>_.
         has_funds T s)))"

definition deploy_contract_main ::
    "'w tool_env \<Rightarrow> ('w, 'tx, 'body, 'proof) sender_lib \<Rightarrow> string \<Rightarrow> string \<Rightarrow> string \<Rightarrow> bool \<Rightarrow>
     ('w cli_world, string list) io" where
  "deploy_contract_main T lib af cf outFile preflightOnly =
     io_bind (io_lift (tool_support T af cf)) (\<lambda>s.
     io_bind (on_net (preflight_checks T s)) (\<lambda>_.
     if preflightOnly then io_ret []
     else io_bind (on_net (DeployInstructionSender lib (sp_Addresses s))) (\<lambda>deployed.
          let out = AddressHex (tl_host T) deployed
          in io_bind (if outFile \<noteq> [] then on_disk (write_address T outFile out) else io_ret ()) (\<lambda>_.
             io_ret [out]))))"

section \<open>register-extension\<close>

text \<open>\<open>0x%064x\<close> of an id below \<open>2 ^ 256\<close>.\<close>

definition extensionIDHex :: "int \<Rightarrow> string" where
  "extensionIDHex extensionID = ''0x'' @ hex_encode (be_bytes 32 (nat extensionID))"

definition register_extension_main ::
    "'w tool_env \<Rightarrow> ('w, 'tx) setup_chain \<Rightarrow> string \<Rightarrow> string \<Rightarrow> string \<Rightarrow> ('w, string list) io" where
  "register_extension_main T ch af cf instructionSenderF =
     (if instructionSenderF = [] then io_fail ''--instructionSender flag is required''
      else
        io_bind (io_lift (tool_support T af cf)) (\<lambda>s.
        let sender = HexToAddress (tl_host T) instructionSenderF
        in io_bind (has_code T sender ''InstructionSender'') (\<lambda>_.
           io_bind (SetupExtension ch sender 0) (\<lambda>extensionID.
           io_ret [extensionIDHex extensionID]))))"

section \<open>set-governance\<close>

definition parseSigners :: "(string \<Rightarrow> address) \<Rightarrow> string \<Rightarrow> address \<Rightarrow> address list" where
  "parseSigners hexToAddress raw fallback =
     (let signers = map hexToAddress (filter (\<lambda>part. part \<noteq> []) (map TrimSpace (Split (CHR '','') raw)))
      in if signers = [] then [fallback] else signers)"

definition parseThreshold :: "string \<Rightarrow> uint64" where
  "parseThreshold raw =
     (case ParseUint64 (TrimSpace raw) of Some v \<Rightarrow> if v > 0 then v else 1 | None \<Rightarrow> 1)"

text \<open>\<open>EXTENSION_OWNER_KEY\<close>, or the deployment key.\<close>

definition governance_key :: "'w tool_env \<Rightarrow> Support \<Rightarrow> address res" where
  "governance_key T s =
     (let k = tl_getenv T ''EXTENSION_OWNER_KEY''
      in if k \<noteq> [] then HexToECDSA (tl_support T) (TrimPrefix (TrimPrefix k ''0x'') ''0X'') else Inr (Prv s))"

definition default_signer :: "'w tool_env \<Rightarrow> address \<Rightarrow> address" where
  "default_signer T deployer =
     (let owner = TrimSpace (tl_getenv T ''INITIAL_OWNER'')
      in if owner \<noteq> [] then HexToAddress (tl_host T) owner else deployer)"

definition set_governance_main ::
    "'w tool_env \<Rightarrow> 'w tee_http \<Rightarrow> tee_crypto \<Rightarrow> (address \<Rightarrow> ('w, 'tx) governance_chain) \<Rightarrow> string \<Rightarrow> string \<Rightarrow> string \<Rightarrow>
     ('w, unit) io" where
  "set_governance_main T http cr chain_of af cf pf =
     io_bind (io_lift (tool_support T af cf)) (\<lambda>s.
     io_bind (io_lift (governance_key T s)) (\<lambda>privKey.
     io_bind (TeeInfo http pf) (\<lambda>teeInfo.
     let signers = parseSigners (HexToAddress (tl_host T)) (tl_getenv T ''GOVERNANCE_SIGNERS'') (default_signer T privKey);
         threshold = parseThreshold (tl_getenv T ''GOVERNANCE_THRESHOLD'')
     in SetTeeGovernance cr (chain_of privKey) (uint (md_ExtensionID (ti_MachineData teeInfo))) signers threshold)))"

section \<open>allow-tee-version\<close>

definition version_key :: "'w tool_env \<Rightarrow> Support \<Rightarrow> address res" where
  "version_key T s =
     (let k = tl_getenv T ''EXTENSION_OWNER_KEY''
      in if k \<noteq> [] then HexToECDSA (tl_support T) (if HasPrefix k ''0x'' \<or> HasPrefix k ''0X'' then drop 2 k else k)
         else Inr (Prv s))"

text \<open>A version that was added meanwhile is no failure.\<close>

definition tolerate_existing :: "('w, unit) io \<Rightarrow> ('w, unit) io" where
  "tolerate_existing m w =
     (case m w of
        (Inl e, w') \<Rightarrow> (if Contains e ''VersionAlreadyExists'' then Inr () else Inl e, w')
      | (Inr _, w') \<Rightarrow> (Inr (), w'))"

definition allow_tee_version_main ::
    "'w tool_env \<Rightarrow> 'w tee_http \<Rightarrow> tee_crypto \<Rightarrow> sig_lib \<Rightarrow> ('w, 'tx) machine_chain \<Rightarrow>
     ('w \<Rightarrow> int \<Rightarrow> hash \<Rightarrow> hash \<Rightarrow> bool res) \<Rightarrow> string \<Rightarrow> string \<Rightarrow> string \<Rightarrow> string \<Rightarrow> ('w, unit) io" where
  "allow_tee_version_main T http cr sig ch isSupported af cf pf version =
     io_bind (io_lift (tool_support T af cf)) (\<lambda>s.
     io_bind (TeeInfo http pf) (\<lambda>teeInfo.
     io_bind (io_lift (version_key T s)) (\<lambda>privKey.
     io_bind (io_lift (TeeProxyId cr sig teeInfo)) (\<lambda>_.
     let md = ti_MachineData teeInfo; ext = uint (md_ExtensionID md)
     in io_bind (io_read (\<lambda>w. isSupported w ext (md_CodeHash md) (md_Platform md))) (\<lambda>supported.
        if supported then io_ret ()
        else tolerate_existing
               (AddTeeVersion ch (QuoteGo (tl_host T)) privKey ext (md_CodeHash md) (md_Platform md) version))))))"

section \<open>register-tee\<close>

text \<open>A stale state file that cannot be removed is only warned about.\<close>

definition start_fresh :: "(string \<Rightarrow> bool) \<Rightarrow> bool \<Rightarrow> string \<Rightarrow> 'c World \<Rightarrow> 'c World" where
  "start_fresh removable resume stateFile w =
     (if \<not> resume \<and> removable stateFile then remove_file stateFile w else w)"

definition register_tee_main ::
    "'c tool_env \<Rightarrow> ('c, 'tx) reg_env \<Rightarrow> tee_crypto \<Rightarrow> sig_lib \<Rightarrow> (hash \<Rightarrow> string) \<Rightarrow> (string \<Rightarrow> hash) \<Rightarrow>
     (string \<Rightarrow> bool) \<Rightarrow> string \<Rightarrow> string \<Rightarrow> string \<Rightarrow> string \<Rightarrow> string \<Rightarrow> string \<Rightarrow> string \<Rightarrow> string \<Rightarrow> bool \<Rightarrow>
     ('c World, unit) io" where
  "register_tee_main T R cr sig hashText hexToHash removable af cf pf hf epf instructionF command stateFile resume w =
     (let http = re_http R
      in io_bind (io_lift (tool_support T af cf)) (\<lambda>_.
         io_bind (lift_io (TeeInfo http pf)) (\<lambda>teeInfo.
         io_bind (io_lift (TeeProxyId cr sig teeInfo)) (\<lambda>_.
         io_bind (lift_io (GetTeeProxyID http cr sig epf)) (\<lambda>(ftdcTeeID, _).
         io_bind (io_lift (GetCodeHashAndPlatform cr hashText (tl_getenv T) teeInfo)) (\<lambda>_.
         RegisterNode
           (R\<lparr>re_info := teeInfo, re_hostURL := (if hf = [] then pf else hf), re_ftdcURL := epf,
              re_ftdcTee := ftdcTeeID, re_path := stateFile\<rparr>)
           (TeeProxyId cr sig teeInfo) hexToHash command instructionF))))))
     (start_fresh removable resume stateFile w)"

section \<open>deploy-settlement\<close>

definition env_file_text :: "host \<Rightarrow> address \<Rightarrow> address \<Rightarrow> address \<Rightarrow> string" where
  "env_file_text h settlementAddress executorAddress fxrp =
     ''# Auto-generated by cmd/deploy-settlement '' @ em_dash @ '' do not edit manually'' @ [CHR 0x0A] @
     ''POLICY_SETTLEMENT='' @ AddressHex h settlementAddress @ [CHR 0x0A] @
     ''FXRP_PAYOUT_EXECUTOR='' @ AddressHex h executorAddress @ [CHR 0x0A] @
     ''FXRP_ADDRESS='' @ AddressHex h fxrp @ [CHR 0x0A]"

definition writeEnvFile :: "'w tool_env \<Rightarrow> string \<Rightarrow> address \<Rightarrow> address \<Rightarrow> address \<Rightarrow> (disk, unit) io" where
  "writeEnvFile T path settlementAddress executorAddress fxrp =
     write_file (tl_cli T) path (env_file_text (tl_host T) settlementAddress executorAddress fxrp)"

definition payout_asset :: "'w tool_env \<Rightarrow> ('w, 'tx) token_lib \<Rightarrow> string \<Rightarrow> ('w, address) io" where
  "payout_asset T tk fxrpF =
     (if fxrpF = [] then io_wrap (\<lambda>e. ''resolving FXRP: '' @ e) (io_read (ResolveFxrp tk (tl_getenv T)))
      else io_ret (HexToAddress (tl_host T) fxrpF))"

text \<open>Steps 1 to 4: settlement, its extension id, the executor, and the wire between them.\<close>

definition deploy_and_wire ::
    "'w tool_env \<Rightarrow> ('w, 'tx) settle_chain \<Rightarrow> ('w \<Rightarrow> address \<Rightarrow> int res) \<Rightarrow> Addresses \<Rightarrow> address \<Rightarrow> address \<Rightarrow>
     ('w, address \<times> address) io" where
  "deploy_and_wire T chain extensionIdOf addresses instructionSender fxrp =
     io_bind (DeploySettlement chain addresses instructionSender) (\<lambda>settlementAddress.
     io_bind (io_wrap (\<lambda>e. ''setExtensionId failed '' @ em_dash @ '' is '' @ AddressHex (tl_host T) instructionSender @
                '' a registered instructions sender? '' @ e) (SetExtensionId chain settlementAddress)) (\<lambda>_.
     io_bind (io_wrap (\<lambda>e. ''reading extensionId: '' @ e) (io_read (\<lambda>w. extensionIdOf w settlementAddress))) (\<lambda>_.
     io_bind (DeployFxrpExecutor chain fxrp settlementAddress) (\<lambda>executorAddress.
     io_bind (SetPayoutExecutor chain settlementAddress executorAddress) (\<lambda>_.
     io_ret (settlementAddress, executorAddress))))))"

text \<open>The lines printed for scripts.\<close>

definition script_lines :: "host \<Rightarrow> address \<Rightarrow> address \<Rightarrow> address \<Rightarrow> string list" where
  "script_lines h settlementAddress executorAddress fxrp =
     [''POLICY_SETTLEMENT='' @ AddressHex h settlementAddress, ''FXRP_PAYOUT_EXECUTOR='' @ AddressHex h executorAddress,
      ''FXRP_ADDRESS='' @ AddressHex h fxrp]"

definition deploy_settlement_main ::
    "'w tool_env \<Rightarrow> ('w, 'tx) settle_chain \<Rightarrow> ('w, 'tx) token_lib \<Rightarrow> ('w \<Rightarrow> address \<Rightarrow> int res) \<Rightarrow>
     string \<Rightarrow> string \<Rightarrow> string \<Rightarrow> string \<Rightarrow> string \<Rightarrow> ('w cli_world, string list) io" where
  "deploy_settlement_main T chain tk extensionIdOf af cf instructionSenderF fxrpF outF =
     (if instructionSenderF = [] then io_fail ''--instructionSender is required (or set INSTRUCTION_SENDER in .env)''
      else
        io_bind (io_lift (tool_support T af cf)) (\<lambda>s.
        let sender = HexToAddress (tl_host T) instructionSenderF; hex = AddressHex (tl_host T)
        in io_bind (on_net (has_code T sender ''InstructionSender'')) (\<lambda>_.
           io_bind (on_net (has_funds T s)) (\<lambda>_.
           io_bind (on_net (payout_asset T tk fxrpF)) (\<lambda>fxrp.
           io_bind (io_lift (NewERC20 tk fxrp)) (\<lambda>token.
           io_bind (on_net (io_wrap (\<lambda>e. ''reading FXRP metadata '' @ em_dash @ '' is '' @ hex fxrp @ '' really a token? '' @ e)
             (io_read (Metadata tk token)))) (\<lambda>_.
           io_bind (on_net (deploy_and_wire T chain extensionIdOf (sp_Addresses s) sender fxrp)) (\<lambda>(settlementAddress, executorAddress).
           io_bind (if outF \<noteq> [] then on_disk (writeEnvFile T outF settlementAddress executorAddress fxrp) else io_ret ()) (\<lambda>_.
           io_ret (script_lines (tl_host T) settlementAddress executorAddress fxrp))))))))))"

end
