(* ===== verification/PoolTools.thy ===== *)
theory PoolTools
  imports DeployTools
begin

text \<open>
  \<open>go/tools/cmd/fund-pool\<close>: moving FXRP from the operator into the payout pool.  The one-minute context
  every call shares is the predicate \<open>expired\<close>, asked in the select between two reads of the
  balance, which may advance the world by the two-second pause.
\<close>

section \<open>Waiting for the transfer\<close>

definition balance_probe ::
    "('w, 'tx) token_lib \<Rightarrow> ERC20 \<Rightarrow> address \<Rightarrow> int \<Rightarrow> 'w \<Rightarrow> unit res option \<times> 'w" where
  "balance_probe tk token pool minimum w =
     (case BalanceOf tk token pool w of
        Inl e \<Rightarrow> (Some (Inl e), w)
      | Inr balance \<Rightarrow> (if balance \<ge> minimum then Some (Inr ()) else None, w))"

definition balance_pause :: "('w \<Rightarrow> bool \<times> 'w) \<Rightarrow> 'w \<Rightarrow> unit res option \<times> 'w" where
  "balance_pause expired w =
     (case expired w of
        (True, w') \<Rightarrow> (Some (Inl ''the pool balance did not reflect the transfer before the timeout''), w')
      | (False, w') \<Rightarrow> (None, w'))"

definition waitForBalance ::
    "('w, 'tx) token_lib \<Rightarrow> ('w \<Rightarrow> bool \<times> 'w) \<Rightarrow> ERC20 \<Rightarrow> address \<Rightarrow> int \<Rightarrow> ('w, unit) pio" where
  "waitForBalance tk expired token pool minimum =
     poll (balance_probe tk token pool minimum) (balance_pause expired)"

section \<open>The command\<close>

definition report_balances ::
    "('w, 'tx) token_lib \<Rightarrow> ERC20 \<Rightarrow> address \<Rightarrow> address \<Rightarrow> ('w, int \<times> int) io" where
  "report_balances tk token funder executor =
     io_bind (io_read (BalanceOf tk token funder)) (\<lambda>funderBalance.
     io_bind (io_read (BalanceOf tk token executor)) (\<lambda>poolBalance.
     io_ret (funderBalance, poolBalance)))"

text \<open>The amount asked for, when it is given: a positive number the funder holds.\<close>

definition checked_amount :: "host \<Rightarrow> string \<Rightarrow> 8 word \<Rightarrow> string \<Rightarrow> int \<Rightarrow> int res" where
  "checked_amount h symbol decimals amountF funderBalance =
     (let bad = Inl (''--amount '' @ QuoteGo h amountF @ '' is not a positive integer of base units'')
      in case SetString10 amountF of
           None \<Rightarrow> bad
         | Some amount \<Rightarrow>
             if amount \<le> 0 then bad
             else if amount > funderBalance
             then Inl (''funder holds '' @ FormatUnits (Some funderBalance) decimals @ '' '' @ symbol @ '' but '' @
                    FormatUnits (Some amount) decimals @ '' was requested '' @ em_dash @ '' mint more first (TUTORIAL.md '' @
                    [CHR 0xC2, CHR 0xA7] @ ''8)'')
             else Inr amount)"

text \<open>The value: the balances reported before, and after when something was transferred.\<close>

definition transfer_and_wait ::
    "('w, 'tx) token_lib \<Rightarrow> unit res \<Rightarrow> ('w \<Rightarrow> bool \<times> 'w) \<Rightarrow> ERC20 \<Rightarrow> address \<Rightarrow> address \<Rightarrow> int \<Rightarrow> ('w, int \<times> int) pio" where
  "transfer_and_wait tk transactor expired token funder executor amount =
     pio_bind (total (io_wrap (\<lambda>e. ''creating transactor: '' @ e) (io_lift transactor))) (\<lambda>_.
     pio_bind (total (Transfer tk token executor amount)) (\<lambda>_.
     pio_bind (waitForBalance tk expired token executor amount) (\<lambda>_.
     total (report_balances tk token funder executor))))"

definition fund_pool_main ::
    "'w tool_env \<Rightarrow> ('w, 'tx) token_lib \<Rightarrow> unit res \<Rightarrow> ('w \<Rightarrow> bool \<times> 'w) \<Rightarrow>
     string \<Rightarrow> string \<Rightarrow> string \<Rightarrow> string \<Rightarrow> string \<Rightarrow> ('w, (int \<times> int) list) pio" where
  "fund_pool_main T tk transactor expired af cf executorF fxrpF amountF =
     (if executorF = []
      then total (io_fail ''--executor is required (or set FXRP_PAYOUT_EXECUTOR in config/settlement.env)'')
      else
        pio_bind (total (io_lift (tool_support T af cf))) (\<lambda>s.
        let executor = HexToAddress (tl_host T) executorF; funder = Prv s
        in pio_bind (total (payout_asset T tk fxrpF)) (\<lambda>fxrp.
           pio_bind (total (io_lift (NewERC20 tk fxrp))) (\<lambda>token.
           pio_bind (total (io_read (Metadata tk token))) (\<lambda>(symbol, decimals).
           pio_bind (total (report_balances tk token funder executor)) (\<lambda>before.
           if amountF = [] then total (io_ret [before])
           else
             pio_bind (total (io_lift (checked_amount (tl_host T) symbol decimals amountF (fst before)))) (\<lambda>amount.
             pio_bind (transfer_and_wait tk transactor expired token funder executor amount) (\<lambda>after.
             total (io_ret [before, after])))))))))"

end
