(* ===== verification/Diagnostics.thy ===== *)
theory Diagnostics
  imports DeployTools
begin

text \<open>
  The read-only diagnostics: \<open>diagAvailabilityCheckRevert\<close> and \<open>diagToProductionRevert\<close> of
  \<open>go/tools/pkg/fccutils/diag.go\<close>, and the commands \<open>check-tee-state\<close>, \<open>audit-deploy\<close> and \<open>query-tee\<close>.
  What such a command does is what it prints, so it runs over the lines printed so far; the chain is
  a fixed view.  An error is the line written before exit, or a panic.
\<close>

section \<open>Printing\<close>

type_synonym 'a printing = "(string list, 'a) io"

definition say :: "string \<Rightarrow> unit printing" where
  "say line out = (Inr (), out @ [line])"

definition say_all :: "string list \<Rightarrow> unit printing" where
  "say_all ls out = (Inr (), out @ ls)"

primrec for_each :: "('a \<Rightarrow> unit printing) \<Rightarrow> 'a list \<Rightarrow> unit printing" where
  "for_each f [] = io_ret ()"
| "for_each f (x # xs) = io_bind (f x) (\<lambda>_. for_each f xs)"

section \<open>Explaining a revert\<close>

text \<open>What is made of revert data that has a selector.\<close>

definition explain_revert ::
    "(bytes \<Rightarrow> string option) \<Rightarrow> (string \<times> abi_error list res) list \<Rightarrow> bytes \<Rightarrow> diagnosis" where
  "explain_revert unpack sources revertData =
     (case (if take 4 revertData = error_string_selector then unpack revertData else None) of
        Some reason \<Rightarrow> ReasonString reason
      | None \<Rightarrow>
          (case search_errors sources revertData of
             Some d \<Rightarrow> d
           | None \<Rightarrow> UnknownSelector (take 4 revertData) revertData))"

lemma diag_revert_explains:
  "diag_revert fromHex unpack sources (Inr a) pack call =
     (case pack a of
        Inl e \<Rightarrow> PackFailed e
      | Inr calldata \<Rightarrow>
          (case call calldata of
             None \<Rightarrow> UnexpectedSuccess
           | Some callErr \<Rightarrow>
               (let revertData = extractRevertData fromHex (Some callErr)
                in if revertData = [] then NoRevertData (rpc_message callErr)
                   else if length revertData < 4 then DataTooShort revertData
                   else explain_revert unpack sources revertData)))"
  by (simp add: diag_revert_def explain_revert_def Let_def split: sum.splits option.splits)

text \<open>The interfaces by name, each with its errors in the order the run enumerates them, and the
  packing of the two calls; \<open>dg_Call\<close> is an \<open>eth_call\<close> to the manager with the transaction's value.\<close>

record diag_lib =
  dg_FromHex :: "string \<Rightarrow> bytes"
  dg_Unpack :: "bytes \<Rightarrow> string option"
  dg_Errors :: "string \<Rightarrow> abi_error list res"
  dg_PackCheck :: "address \<Rightarrow> hash \<Rightarrow> address \<Rightarrow> address \<Rightarrow> address \<Rightarrow> bytes res"
  dg_PackProof :: "AvailabilityProof \<Rightarrow> bytes res"
  dg_PackVersion :: "int \<Rightarrow> bytes \<Rightarrow> hash \<Rightarrow> hash list \<Rightarrow> bytes res"

definition diag_sources :: "diag_lib \<Rightarrow> string list \<Rightarrow> (string \<times> abi_error list res) list" where
  "diag_sources D names = map (\<lambda>n. (n, dg_Errors D n)) names"

definition diagAvailabilityCheckRevert ::
    "diag_lib \<Rightarrow> (bytes \<Rightarrow> rpc_error option) \<Rightarrow> address \<Rightarrow> hash \<Rightarrow> address \<Rightarrow> address \<Rightarrow> address \<Rightarrow> diagnosis" where
  "diagAvailabilityCheckRevert D call teeID instructionID externalTeeID proofOwner claimBackAddress =
     diag_revert (dg_FromHex D) (dg_Unpack D)
       (diag_sources D [''Verification'', ''Fdc2Hub'', ''MachineManager'', ''ExtensionManager''])
       (dg_Errors D ''Verification'')
       (\<lambda>_. dg_PackCheck D teeID instructionID externalTeeID proofOwner claimBackAddress) call"

definition diagToProductionRevert ::
    "diag_lib \<Rightarrow> (bytes \<Rightarrow> rpc_error option) \<Rightarrow> AvailabilityProof \<Rightarrow> diagnosis" where
  "diagToProductionRevert D call pf =
     diag_revert (dg_FromHex D) (dg_Unpack D)
       (diag_sources D [''Verification'', ''Fdc2Hub'', ''MachineManager'', ''ExtensionManager''])
       (dg_Errors D ''MachineManager'') (\<lambda>_. dg_PackProof D pf) call"

section \<open>check-tee-state\<close>

definition teeStatusNames :: "string list" where
  "teeStatusNames = [''NONE'', ''INITIALIZED'', ''PRODUCTION'', ''SUSPENDED'', ''PAUSED'', ''BANNED'']"

definition statusName :: "8 word \<Rightarrow> string" where
  "statusName s = (if unat s < length teeStatusNames then teeStatusNames ! unat s else ''UNKNOWN'')"

text \<open>The registries of the diamond, as this command and \<open>query-tee\<close> read them; a machine record is
  its id, its proxy id and its url.\<close>

record machine_view =
  mv_Status :: "address \<Rightarrow> (8 word) res"
  mv_ExtensionId :: "address \<Rightarrow> int res"
  mv_Owner :: "address \<Rightarrow> address res"
  mv_Machine :: "address \<Rightarrow> (address \<times> address \<times> string) res"
  mv_Active :: "int \<Rightarrow> (address list \<times> string list) res"
  mv_Sender :: "int \<Rightarrow> address res"
  mv_StatusTs :: "address \<Rightarrow> int res"
  mv_SigningPolicy :: "address \<Rightarrow> (32 word) res"

definition show_bool :: "bool \<Rightarrow> string" where
  "show_bool b = (if b then ''true'' else ''false'')"

definition arrow :: string where
  "arrow = [CHR 0xE2, CHR 0x86, CHR 0x92]"

definition not_equal :: string where
  "not_equal = [CHR 0xE2, CHR 0x89, CHR 0xA0]"

text \<open>The urls are a list of their own; indexing past its end panics.\<close>

primrec active_lines :: "host \<Rightarrow> string \<Rightarrow> string \<Rightarrow> nat \<Rightarrow> address list \<Rightarrow> string list \<Rightarrow> unit printing" where
  "active_lines h indent mid i [] urls = io_ret ()"
| "active_lines h indent mid i (tid # ids) urls =
     (case urls of
        [] \<Rightarrow> io_fail ''index out of range''
      | u # us \<Rightarrow> io_bind (say (indent @ show_nat i @ '': '' @ AddressHex h tid @ mid @ QuoteGo h u)) (\<lambda>_.
                  active_lines h indent mid (Suc i) ids us))"

definition listActive :: "host \<Rightarrow> machine_view \<Rightarrow> string \<Rightarrow> int \<Rightarrow> address \<Rightarrow> unit printing" where
  "listActive h v label extID teeID =
     (let tag = ''  ['' @ label @ '' ext='' @ show_int extID @ ''] ''
      in case mv_Active v extID of
           Inl e \<Rightarrow> say (tag @ ''ERROR: '' @ e)
         | Inr (ids, urls) \<Rightarrow>
             io_bind (say (tag @ ''count='' @ show_nat (length ids) @ '' contains-this-TEE='' @ show_bool (teeID \<in> set ids))) (\<lambda>_.
             active_lines h ''    '' '' '' 0 ids urls))"

text \<open>The lines of each part of the verdict; a part that has any is a mismatch.\<close>

definition sender_mismatch :: "host \<Rightarrow> machine_view \<Rightarrow> int \<Rightarrow> int \<Rightarrow> address \<Rightarrow> string list" where
  "sender_mismatch h v sid onchain currentSender =
     (if sid = onchain then []
      else [''  MISMATCH: InstructionSender ext='' @ show_int sid @ '' '' @ not_equal @ '' TEE on-chain ext='' @ show_int onchain,
            ''    '' @ arrow @ '' registerModel/evaluate call getRandomTeeIds(InstructionSender's ext) which has no TEEs '' @ arrow @ '' TooMany.''] @
           (case mv_Sender v onchain of
              Inr registered \<Rightarrow>
                if registered \<noteq> 0
                then (''    '' @ arrow @ '' Quick fix: set INSTRUCTION_SENDER='' @ AddressHex h registered @
                      '' in config/extension.env (this is the sender registered against the TEE's ext '' @ show_int onchain @ '').'') #
                     (if registered = currentSender
                      then [''    '' @ arrow @ '' (Same address as your current INSTRUCTION_SENDER. Did slot 0 read wrong, or is the binding stale?)'']
                      else [])
                else [''    '' @ arrow @ '' Or redeploy InstructionSender + register fresh TEE under it.'']
            | Inl _ \<Rightarrow> [''    '' @ arrow @ '' Or redeploy InstructionSender + register fresh TEE under it.'']))"

definition proxy_mismatch :: "int \<Rightarrow> int \<Rightarrow> string list" where
  "proxy_mismatch proxy onchain =
     (if proxy = onchain then []
      else [''  MISMATCH: proxy reports ext='' @ show_int proxy @ '' '' @ not_equal @ '' TEE on-chain ext='' @ show_int onchain,
            ''    '' @ arrow @ '' post-build.sh will request attestations against the wrong extension.''])"

definition status_mismatch :: "(8 word) res \<Rightarrow> string list" where
  "status_mismatch status =
     (case status of
        Inl _ \<Rightarrow> []
      | Inr s \<Rightarrow>
          if s \<noteq> 1 \<and> s \<noteq> 4
          then (''  toProduction will revert: status='' @ show_nat (unat s) @ '' ('' @ statusName s @
                ''); toProduction requires INITIALIZED(1) or PAUSED(4).'') #
               (if s = 2
                then [''    '' @ arrow @ '' TEE is already in PRODUCTION. If active set contains it, you're done '' @ em_dash @ '' skip post-build's `p` step.'',
                      ''    '' @ arrow @ '' If active set is empty (TooMany), the TEE is orphaned '' @ em_dash @ '' see mismatches above, or call pause() then re-promote.'']
                else [])
          else [])"

definition all_consistent :: string where
  "all_consistent = ''  All consistent. If test.sh still fails, the active set was emptied for a non-status reason (banned/disabled version).''"

definition no_record :: string where
  "no_record = ''  TEE has no on-chain record '' @ em_dash @ '' register it (run post-build.sh against a fresh extension).''"

definition verdict :: "host \<Rightarrow> machine_view \<Rightarrow> int \<Rightarrow> int \<Rightarrow> int res \<Rightarrow> (8 word) res \<Rightarrow> address \<Rightarrow> string list" where
  "verdict h v proxy sid onchain status currentSender =
     (case onchain of
        Inl _ \<Rightarrow> [no_record]
      | Inr ext \<Rightarrow>
          (let mismatches = sender_mismatch h v sid ext currentSender @ proxy_mismatch proxy ext @ status_mismatch status
           in mismatches @ (if mismatches = [] then [all_consistent] else [])))"

text \<open>The senders of the ids that occur.  The ids are keys of a Go map keyed by pointer, visited in an
  unspecified order, which is an argument; of equal ids the first visited is shown.\<close>

primrec sender_lines :: "host \<Rightarrow> machine_view \<Rightarrow> int list \<Rightarrow> (int \<times> string) list \<Rightarrow> string list" where
  "sender_lines h v seen [] = []"
| "sender_lines h v seen (e # es) =
     (if fst e \<in> set seen then sender_lines h v seen es
      else (let tag = ''  ['' @ snd e @ '' ext='' @ show_int (fst e) @ '']''
            in case mv_Sender v (fst e) of
                 Inl err \<Rightarrow> tag @ '' getTeeExtensionInstructionsSender ERROR: '' @ err
               | Inr a \<Rightarrow> tag @ '' -> '' @ AddressHex h a) #
           sender_lines h v (fst e # seen) es)"

definition registeredSenders :: "int res \<Rightarrow> int \<Rightarrow> int \<Rightarrow> (int \<times> string) list" where
  "registeredSenders onchain proxy sid =
     (case onchain of Inr ext \<Rightarrow> [(ext, ''TEE record'')] | Inl _ \<Rightarrow> []) @
     [(proxy, ''proxy''), (sid, ''InstructionSender slot 0'')]"

definition id_lines :: "int \<Rightarrow> int \<Rightarrow> int res \<Rightarrow> string list" where
  "id_lines proxy sid onchain =
     [''  Proxy /info:                   '' @ show_int proxy,
      ''  InstructionSender._extensionId '' @ show_int sid,
      ''  TEE on-chain getExtensionId    '' @ (case onchain of Inl e \<Rightarrow> ''ERROR: '' @ e | Inr ext \<Rightarrow> show_int ext)]"

definition record_lines :: "host \<Rightarrow> machine_view \<Rightarrow> address \<Rightarrow> string list" where
  "record_lines h v teeID =
     [case mv_Machine v teeID of
        Inl e \<Rightarrow> ''  getTeeMachine ERROR: '' @ e
      | Inr (tid, proxy, url) \<Rightarrow>
          if tid = 0 then ''  (no record '' @ em_dash @ '' TEE is not registered)''
          else ''  teeId='' @ AddressHex h tid @ '' teeProxyId='' @ AddressHex h proxy @ '' url='' @ QuoteGo h url,
      case mv_Status v teeID of
        Inl e \<Rightarrow> ''  getTeeMachineStatus ERROR: '' @ e
      | Inr s \<Rightarrow> ''  status: '' @ show_nat (unat s) @ '' ('' @ statusName s @ '')'',
      case mv_Owner v teeID of
        Inl e \<Rightarrow> ''  getTeeMachineOwner ERROR: '' @ e
      | Inr a \<Rightarrow> ''  owner: '' @ AddressHex h a]"

definition heading :: "string \<Rightarrow> string list" where
  "heading title = [[], ''=== '' @ title @ '' ==='']"

definition state_inputs :: "host \<Rightarrow> string \<Rightarrow> string \<Rightarrow> address \<Rightarrow> address \<Rightarrow> address \<Rightarrow> string list" where
  "state_inputs h cf pf manager instructionSender teeID =
     [''=== Inputs ==='',
      ''  Chain RPC:           '' @ cf,
      ''  Proxy:               '' @ pf,
      ''  FlareTeeManager:     '' @ AddressHex h manager,
      ''  InstructionSender:   '' @ AddressHex h instructionSender,
      ''  TEE ID (from proxy): '' @ AddressHex h teeID]"

text \<open>The printed part, once the support, the proxy and slot 0 have been read.  \<open>order\<close> is the visiting
  order of the map.\<close>

definition tee_state_report ::
    "host \<Rightarrow> machine_view \<Rightarrow> ((int \<times> string) list \<Rightarrow> (int \<times> string) list) \<Rightarrow> string list \<Rightarrow>
     address \<Rightarrow> address \<Rightarrow> int \<Rightarrow> int \<Rightarrow> unit printing" where
  "tee_state_report h v order inputs teeID instructionSender proxyExtID isExtID =
     (let onchain = mv_ExtensionId v teeID
      in io_bind (say_all (inputs @
             heading ''Extension IDs (the three things that must agree)'' @ id_lines proxyExtID isExtID onchain @
             heading ''TEE machine record'' @ record_lines h v teeID @
             heading ''Active TEE set membership'')) (\<lambda>_.
         io_bind (listActive h v ''proxy'' proxyExtID teeID) (\<lambda>_.
         io_bind (if isExtID \<noteq> proxyExtID then listActive h v ''InstructionSender'' isExtID teeID else io_ret ()) (\<lambda>_.
         io_bind (case onchain of
                    Inr ext \<Rightarrow> if ext \<noteq> proxyExtID \<and> ext \<noteq> isExtID then listActive h v ''TEE record'' ext teeID else io_ret ()
                  | Inl _ \<Rightarrow> io_ret ()) (\<lambda>_.
         say_all (heading ''InstructionSender registered for the TEE's extension'' @
           sender_lines h v [] (order (registeredSenders onchain proxyExtID isExtID)) @
           heading ''Verdict'' @
           verdict h v proxyExtID isExtID onchain (mv_Status v teeID) instructionSender))))))"

text \<open>The value is what the report ends with and the lines it printed.\<close>

definition check_tee_state_main ::
    "'w tool_env \<Rightarrow> 'w tee_http \<Rightarrow> tee_crypto \<Rightarrow> sig_lib \<Rightarrow> ('w \<Rightarrow> address \<Rightarrow> bytes res) \<Rightarrow> ('w \<Rightarrow> machine_view) \<Rightarrow>
     ((int \<times> string) list \<Rightarrow> (int \<times> string) list) \<Rightarrow> string \<Rightarrow> string \<Rightarrow> string \<Rightarrow> string \<Rightarrow>
     ('w, unit res \<times> string list) io" where
  "check_tee_state_main T http cr sig slot0 view order af cf pf isf =
     (if isf = [] then io_fail ''ERROR: --instructionSender required (or set INSTRUCTION_SENDER env)''
      else
        let h = tl_host T; instructionSender = HexToAddress h isf
        in io_bind (io_wrap (\<lambda>e. ''support init: '' @ e) (io_lift (tool_support T af cf))) (\<lambda>s.
           io_bind (io_wrap (\<lambda>e. ''proxy /info: '' @ e) (TeeInfo http pf)) (\<lambda>teeInfo.
           io_bind (io_wrap (\<lambda>e. ''derive teeID: '' @ e) (io_lift (TeeProxyId cr sig teeInfo))) (\<lambda>(teeID, _).
           io_bind (io_wrap (\<lambda>e. ''read InstructionSender slot 0: '' @ e) (io_read (\<lambda>w. slot0 w instructionSender))) (\<lambda>slot.
           io_read (\<lambda>w. Inr (tee_state_report h (view w) order
             (state_inputs h cf pf (FlareTeeManager (sp_Addresses s)) instructionSender teeID)
             teeID instructionSender (uint (md_ExtensionID (ti_MachineData teeInfo))) (int (be_nat slot)) [])))))))"

section \<open>query-tee\<close>

definition show_read :: "string \<Rightarrow> ('a \<Rightarrow> string) \<Rightarrow> 'a res \<Rightarrow> string" where
  "show_read name show_it r =
     (case r of Inl e \<Rightarrow> ''  '' @ name @ '' ERROR: '' @ e | Inr x \<Rightarrow> ''  '' @ name @ '': '' @ show_it x)"

definition list_extension :: "host \<Rightarrow> machine_view \<Rightarrow> int \<Rightarrow> unit printing" where
  "list_extension h v ext =
     io_bind (say_all (heading (''Active TEEs for extensionId='' @ show_int ext))) (\<lambda>_.
     case mv_Active v ext of
       Inl e \<Rightarrow> say (''getActiveTeeMachines ERROR: '' @ e)
     | Inr (ids, urls) \<Rightarrow>
         io_bind (active_lines h ''  '' '' url='' 0 ids urls) (\<lambda>_.
         if ids = [] then say ''  (none)'' else io_ret ()))"

definition query_lines :: "host \<Rightarrow> machine_view \<Rightarrow> address \<Rightarrow> string list" where
  "query_lines h v tid =
     heading (''TEE '' @ AddressHex h tid) @
     (case mv_Machine v tid of
        Inl e \<Rightarrow> [''  getTeeMachine ERROR: '' @ e]
      | Inr (mid, proxy, url) \<Rightarrow>
          (''  getTeeMachine: teeId='' @ AddressHex h mid @ '' teeProxyId='' @ AddressHex h proxy @ '' url='' @ QuoteGo h url) #
          (if mid = 0 then [''  -> EMPTY/UNREGISTERED''] else [])) @
     [show_read ''getTeeMachineStatus'' (\<lambda>s. show_nat (unat s)) (mv_Status v tid),
      show_read ''getTeeMachineOwner'' (AddressHex h) (mv_Owner v tid),
      show_read ''getExtensionId'' show_int (mv_ExtensionId v tid),
      show_read ''getLastStatusChangeTs'' show_int (mv_StatusTs v tid),
      show_read ''getInitialSigningPolicyId'' (\<lambda>p. show_nat (unat p)) (mv_SigningPolicy v tid)]"

definition query_tee_main ::
    "host \<Rightarrow> unit res \<Rightarrow> (address \<Rightarrow> machine_view res) \<Rightarrow> string \<Rightarrow> int \<Rightarrow> string list \<Rightarrow> unit printing" where
  "query_tee_main h dial bind_machines reg listExt args =
     io_bind (io_wrap (\<lambda>e. ''dial: '' @ e) (io_lift dial)) (\<lambda>_.
     io_bind (io_wrap (\<lambda>e. ''bind: '' @ e) (io_lift (bind_machines (HexToAddress h reg)))) (\<lambda>v.
     io_bind (if listExt \<ge> 0 then list_extension h v listExt else io_ret ()) (\<lambda>_.
     for_each (\<lambda>raw. say_all (query_lines h v (HexToAddress h raw))) args)))"

section \<open>audit-deploy\<close>

definition audit_stringToBytes32 :: "(string \<Rightarrow> string) \<Rightarrow> string \<Rightarrow> bytes res" where
  "audit_stringToBytes32 quote s =
     (if length s > 32 then Inl (''value '' @ quote s @ '' exceeds 32 bytes'')
      else Inr (s @ replicate (32 - length s) (CHR 0x00)))"

definition bytes32ToString :: "bytes \<Rightarrow> string" where
  "bytes32ToString b = TrimSpace (TrimRightByte b (CHR 0x00))"

definition code_status :: "eth_client \<Rightarrow> address \<Rightarrow> string" where
  "code_status c a =
     (case CodeAt c a of
        Inl e \<Rightarrow> ''ERROR '' @ e
      | Inr code \<Rightarrow>
          if a = 0 then ''ZERO ADDRESS''
          else if code = [] then ''NO CODE''
          else ''ok ('' @ show_nat (length code) @ '' bytes)'')"

text \<open>What the replay prints for what it finds.\<close>

definition replay_line :: "host \<Rightarrow> diagnosis \<Rightarrow> string" where
  "replay_line h d =
     (case d of
        AbiUnavailable e \<Rightarrow> ''  load ABI: '' @ e
      | PackFailed e \<Rightarrow> ''  pack: '' @ e
      | UnexpectedSuccess \<Rightarrow> ''  eth_call succeeded '' @ em_dash @ '' tx-time-only revert (gas/state race?)''
      | NoRevertData e \<Rightarrow> ''  no/short revert data: '' @ e
      | DataTooShort b \<Rightarrow> ''  no/short revert data: 0x'' @ hex_encode b
      | ReasonString r \<Rightarrow> ''  revert reason (string): '' @ QuoteGo h r
      | CustomError src name args b \<Rightarrow> ''  revert -> '' @ src @ ''.'' @ name @ args
      | CustomErrorBadArgs src name err b \<Rightarrow>
          ''  revert -> '' @ src @ ''.'' @ name @ '' (unpack failed: '' @ err @ '') data=0x'' @ hex_encode b
      | UnknownSelector sel b \<Rightarrow>
          ''  revert with unknown selector 0x'' @ hex_encode sel @ '' (full: 0x'' @ hex_encode b @ '')'')"

text \<open>The command's own copy of the extraction.\<close>

definition audit_extractRevertData :: "(string \<Rightarrow> bytes) \<Rightarrow> rpc_error option \<Rightarrow> bytes" where
  "audit_extractRevertData fromHex err =
     (case err of
        None \<Rightarrow> []
      | Some e \<Rightarrow> (case rpc_data e of StringData d \<Rightarrow> fromHex d | BytesData d \<Rightarrow> d | _ \<Rightarrow> []))"

lemma audit_extractRevertData_eq: "audit_extractRevertData = extractRevertData"
  by (intro ext) (simp add: audit_extractRevertData_def extractRevertData_def)

text \<open>The replay of \<open>addTeeVersion\<close>; revert data too short for a selector is not told from none.\<close>

definition replayAddTeeVersion ::
    "diag_lib \<Rightarrow> host \<Rightarrow> (bytes \<Rightarrow> rpc_error option) \<Rightarrow> int \<Rightarrow> string \<Rightarrow> hash \<Rightarrow> hash \<Rightarrow> string" where
  "replayAddTeeVersion D h call extID version codeHash platform =
     (case dg_Errors D ''ExtensionManager'' of
        Inl e \<Rightarrow> replay_line h (AbiUnavailable e)
      | Inr _ \<Rightarrow>
          (case audit_stringToBytes32 (QuoteGo h) version of
             Inl e \<Rightarrow> ''  version: '' @ e
           | Inr versionBytes \<Rightarrow>
               replay_line h
                 (case dg_PackVersion D extID versionBytes codeHash [platform] of
                    Inl e \<Rightarrow> PackFailed e
                  | Inr calldata \<Rightarrow>
                      (case call calldata of
                         None \<Rightarrow> UnexpectedSuccess
                       | Some callErr \<Rightarrow>
                           (let revertData = audit_extractRevertData (dg_FromHex D) (Some callErr)
                            in if length revertData < 4 then NoRevertData (rpc_message callErr)
                               else explain_revert (dg_Unpack D)
                                      (diag_sources D [''ExtensionManager'', ''MachineManager'', ''Verification'']) revertData)))))"

text \<open>The extension manager facet, as the audit reads it; 32-byte values are bytes.\<close>

record facet_view =
  fv_Platforms :: "bytes list res"
  fv_NextPublicId :: "int res"
  fv_Owner :: "int \<Rightarrow> address res"
  fv_CodeHashes :: "int \<Rightarrow> bytes list res"
  fv_KeyTypes :: "int \<Rightarrow> bytes list res"

definition named_bytes :: "host \<Rightarrow> bytes \<Rightarrow> string" where
  "named_bytes h b = ''    0x'' @ hex_encode b @ ''   '' @ QuoteGo h (bytes32ToString b)"

definition facet_lines :: "host \<Rightarrow> address \<Rightarrow> facet_view \<Rightarrow> string list" where
  "facet_lines h manager v =
     heading (''ExtensionManager facet @ FlareTeeManager '' @ AddressHex h manager) @
     (case fv_Platforms v of
        Inl e \<Rightarrow> [''  getSystemSupportedPlatforms ERROR: '' @ e]
      | Inr ps \<Rightarrow> (''  systemSupportedPlatforms ('' @ show_nat (length ps) @ ''):'') # map (named_bytes h) ps) @
     (case fv_NextPublicId v of Inl _ \<Rightarrow> [] | Inr n \<Rightarrow> [''  nextPublicExtensionId: '' @ show_int n])"

definition extension_lines :: "host \<Rightarrow> facet_view \<Rightarrow> int \<Rightarrow> string list" where
  "extension_lines h v eid =
     heading (''Extension id='' @ show_int eid) @
     [case fv_Owner v eid of
        Inl e \<Rightarrow> ''  getExtensionOwner ERROR: '' @ e
      | Inr a \<Rightarrow> ''  owner: '' @ AddressHex h a] @
     (case fv_CodeHashes v eid of
        Inl e \<Rightarrow> [''  getSupportedCodeHashes ERROR: '' @ e]
      | Inr hs \<Rightarrow> (''  supportedCodeHashes ('' @ show_nat (length hs) @ ''):'') # map (\<lambda>b. ''    0x'' @ hex_encode b) hs) @
     (case fv_KeyTypes v eid of
        Inl _ \<Rightarrow> []
      | Inr ks \<Rightarrow> (''  supportedKeyTypes ('' @ show_nat (length ks) @ ''):'') # map (named_bytes h) ks)"

definition contract_line :: "host \<Rightarrow> eth_client \<Rightarrow> string \<times> address \<Rightarrow> string" where
  "contract_line h c e =
     ''  '' @ fst e @ replicate (25 - length (fst e)) (CHR '' '') @ '' '' @ AddressHex h (snd e) @ ''   '' @ code_status c (snd e)"

definition audited_contracts :: "Addresses \<Rightarrow> (string \<times> address) list" where
  "audited_contracts addr =
     [(''FlareTeeManager'', FlareTeeManager addr), (''FlareSystemsManager'', FlareSystemManager addr), (''Fdc2Hub'', Fdc2Hub addr)]"

record audit_flags =
  au_ext :: int
  au_codeHash :: string
  au_platform :: string
  au_version :: string

text \<open>From the connected client on: an unbindable or zero manager ends the audit early, without an error
  status; a block number that cannot be read is shown as 0.  \<open>call\<close> is the replayed \<open>eth_call\<close>.\<close>

definition audit_deploy_report ::
    "host \<Rightarrow> eth_client \<Rightarrow> int res \<Rightarrow> facet_view res \<Rightarrow> diag_lib \<Rightarrow> (string \<Rightarrow> hash) \<Rightarrow> (bytes \<Rightarrow> rpc_error option) \<Rightarrow>
     Addresses \<Rightarrow> audit_flags \<Rightarrow> unit printing" where
  "audit_deploy_report h c blockNumber facet D hexToHash call addr f =
     io_bind (io_wrap (\<lambda>e. ''chainId: '' @ e) (io_lift (ChainID c))) (\<lambda>chainID.
     io_bind (say (''Chain ID: '' @ show_int chainID @ ''   block: '' @
                   show_int (case blockNumber of Inr n \<Rightarrow> n | Inl _ \<Rightarrow> 0))) (\<lambda>_.
     io_bind (say_all (map (contract_line h c) (audited_contracts addr))) (\<lambda>_.
     if FlareTeeManager addr = 0 then io_ret ()
     else case facet of
       Inl e \<Rightarrow> say (''bind ExtensionManager: '' @ e)
     | Inr v \<Rightarrow>
         io_bind (say_all (facet_lines h (FlareTeeManager addr) v)) (\<lambda>_.
         io_bind (if au_ext f \<ge> 0 then say_all (extension_lines h v (au_ext f)) else io_ret ()) (\<lambda>_.
         if au_codeHash f \<noteq> [] \<and> au_platform f \<noteq> [] \<and> au_ext f \<ge> 0
         then say_all (heading ''addTeeVersion eth_call replay (decoding revert)'' @
                       [replayAddTeeVersion D h call (au_ext f) (au_version f) (hexToHash (au_codeHash f))
                          (hexToHash (au_platform f))])
         else io_ret ())))))"

text \<open>The command: \<open>dial\<close> is the answer of the chain node's connection.\<close>

definition audit_deploy_main ::
    "host \<Rightarrow> support_lib \<Rightarrow> eth_client res \<Rightarrow> int res \<Rightarrow> facet_view res \<Rightarrow> diag_lib \<Rightarrow> (string \<Rightarrow> hash) \<Rightarrow>
     (bytes \<Rightarrow> rpc_error option) \<Rightarrow> string \<Rightarrow> audit_flags \<Rightarrow> unit printing" where
  "audit_deploy_main h lib dial blockNumber facet D hexToHash call af f =
     io_bind (io_wrap (\<lambda>e. ''parse addresses: '' @ e) (io_lift (ParseAddresses lib af))) (\<lambda>addr.
     io_bind (io_wrap (\<lambda>e. ''dial: '' @ e) (io_lift dial)) (\<lambda>c.
     audit_deploy_report h c blockNumber facet D hexToHash call addr f))"

end
