(* ===== verification/Servers.thy ===== *)
theory Servers
  imports DeployTools
begin

text \<open>
  The processes that run: the server goroutine (\<open>go/pkg/server/server.go\<close>), the extension binary
  (\<open>go/cmd/main.go\<close>), the container's process (\<open>go/cmd/docker/main.go\<close>), \<open>start-tee\<close> and
  \<open>start-proxy\<close>.  The container and the binary are step relations: the goroutines, the signal
  and the buffered error channel interleave freely.
\<close>

section \<open>Ports\<close>

definition intEnv :: "env \<Rightarrow> string \<Rightarrow> int \<Rightarrow> int" where
  "intEnv getenv key fallback = (case Atoi (getenv key) of Some v \<Rightarrow> v | None \<Rightarrow> fallback)"

text \<open>The configuration, signing and extension ports the container starts its two servers with.\<close>

definition docker_ports :: "env \<Rightarrow> int \<times> int \<times> int" where
  "docker_ports getenv =
     (let c = config_init getenv in (intEnv getenv ''CONFIG_PORT'' (ConfigPort c), SignPort c, ExtensionPort c))"

lemma intEnv_override: "intEnv getenv key fallback = port_override getenv key fallback"
  by (simp add: intEnv_def port_override_def Atoi_def)

text \<open>The second reading of \<open>CONFIG_PORT\<close> changes nothing.\<close>

lemma docker_ports_config:
  "docker_ports getenv = (ConfigPort (config_init getenv), SignPort (config_init getenv), ExtensionPort (config_init getenv))"
  by (simp add: docker_ports_def Let_def intEnv_override config_init_independent)
    (simp add: port_override_def split: option.splits)

section \<open>The container's process\<close>

datatype phase = Starting | Running | Exited nat

text \<open>\<open>errCh\<close> is the channel of capacity one that \<open>StartExtension\<close> returns; its goroutine sends at most
  once, when \<open>ListenAndServe\<close> returns.  \<open>signalled\<close>: a signal is waiting in \<open>sigChan\<close>.\<close>

record process =
  ph :: phase
  listening :: bool
  errCh :: "string option"
  signalled :: bool

text \<open>\<open>StartExtension\<close>: the goroutine is started, nothing is in the channel.\<close>

definition StartExtension :: process where
  "StartExtension = \<lparr>ph = Starting, listening = True, errCh = None, signalled = False\<rparr>"

inductive docker_step :: "process \<Rightarrow> process \<Rightarrow> bool" where
  serve_ends: "listening p \<Longrightarrow> ph p = Starting \<or> ph p = Running \<Longrightarrow>
     docker_step p (p\<lparr>listening := False, errCh := Some e\<rparr>)"
| early_fatal: "ph p = Starting \<Longrightarrow> errCh p = Some e \<Longrightarrow> docker_step p (p\<lparr>ph := Exited 1, errCh := None\<rparr>)"
| early_ok: "ph p = Starting \<Longrightarrow> errCh p = None \<Longrightarrow> docker_step p (p\<lparr>ph := Running\<rparr>)"
| signal_arrives: "ph p = Running \<Longrightarrow> docker_step p (p\<lparr>signalled := True\<rparr>)"
| shut_down: "ph p = Running \<Longrightarrow> signalled p \<Longrightarrow> docker_step p (p\<lparr>ph := Exited 0\<rparr>)"
| late_fatal: "ph p = Running \<Longrightarrow> errCh p = Some e \<Longrightarrow> docker_step p (p\<lparr>ph := Exited 1, errCh := None\<rparr>)"

inductive_cases docker_stepE: "docker_step p q"

definition process_ok :: "process \<Rightarrow> bool" where
  "process_ok p \<longleftrightarrow>
     (case ph p of
        Starting \<Rightarrow> \<not> signalled p \<and> (listening p \<longleftrightarrow> errCh p = None)
      | Running \<Rightarrow> (listening p \<longleftrightarrow> errCh p = None)
      | Exited n \<Rightarrow> (n = 0 \<longrightarrow> signalled p) \<and> (n \<noteq> 0 \<longrightarrow> n = 1 \<and> \<not> listening p))"

lemma process_ok_start: "process_ok StartExtension"
  by (simp add: process_ok_def StartExtension_def)

lemma process_ok_step: "docker_step p q \<Longrightarrow> process_ok p \<Longrightarrow> process_ok q"
  by (erule docker_stepE) (auto simp: process_ok_def)

lemma process_ok_reachable: "docker_step\<^sup>*\<^sup>* StartExtension p \<Longrightarrow> process_ok p"
  by (induction rule: rtranclp_induct) (auto intro: process_ok_start process_ok_step)

section \<open>The extension binary\<close>

text \<open>On a signal one goroutine shuts the server down and exits; the shutdown makes
  \<open>ListenAndServe\<close> return at once with \<open>ErrServerClosed\<close>, after which \<open>main\<close> returns, and the process
  with it.  \<open>busy\<close> is the number of requests still being handled, \<open>bin_closed\<close> whether the listeners are closed.\<close>

record binary =
  bin_exit :: "nat option"
  bin_closed :: bool
  busy :: nat

definition binary_start :: binary where
  "binary_start = \<lparr>bin_exit = None, bin_closed = False, busy = 0\<rparr>"

inductive binary_step :: "binary \<Rightarrow> binary \<Rightarrow> bool" where
  request: "bin_exit b = None \<Longrightarrow> \<not> bin_closed b \<Longrightarrow> binary_step b (b\<lparr>busy := Suc (busy b)\<rparr>)"
| answer: "bin_exit b = None \<Longrightarrow> busy b = Suc n \<Longrightarrow> binary_step b (b\<lparr>busy := n\<rparr>)"
| serve_fails: "bin_exit b = None \<Longrightarrow> \<not> bin_closed b \<Longrightarrow> binary_step b (b\<lparr>bin_exit := Some 1\<rparr>)"
| shutdown_begins: "bin_exit b = None \<Longrightarrow> \<not> bin_closed b \<Longrightarrow> binary_step b (b\<lparr>bin_closed := True\<rparr>)"
| shutdown_done: "bin_exit b = None \<Longrightarrow> bin_closed b \<Longrightarrow> busy b = 0 \<Longrightarrow> binary_step b (b\<lparr>bin_exit := Some 0\<rparr>)"
| shutdown_timeout: "bin_exit b = None \<Longrightarrow> bin_closed b \<Longrightarrow> binary_step b (b\<lparr>bin_exit := Some 0\<rparr>)"
| main_returns: "bin_exit b = None \<Longrightarrow> bin_closed b \<Longrightarrow> binary_step b (b\<lparr>bin_exit := Some 0\<rparr>)"

inductive_cases binary_stepE: "binary_step b c"

text \<open>A shutdown with a request in flight can exit before the request is answered.\<close>

lemma shutdown_can_drop_requests: "\<exists>b. binary_step\<^sup>*\<^sup>* binary_start b \<and> bin_exit b = Some 0 \<and> busy b = 1"
proof -
  let ?b1 = "binary_start\<lparr>busy := Suc 0\<rparr>" and ?b2 = "binary_start\<lparr>busy := Suc 0, bin_closed := True\<rparr>"
    and ?b3 = "binary_start\<lparr>busy := Suc 0, bin_closed := True, bin_exit := Some 0\<rparr>"
  have "binary_step binary_start ?b1" using request [of binary_start] by (simp add: binary_start_def)
  moreover have "binary_step ?b1 ?b2" using shutdown_begins [of ?b1] by (simp add: binary_start_def)
  moreover have "binary_step ?b2 ?b3" using main_returns [of ?b2] by (simp add: binary_start_def)
  ultimately have "binary_step\<^sup>*\<^sup>* binary_start ?b3" by (meson converse_rtranclp_into_rtranclp rtranclp.rtrancl_refl)
  then show ?thesis by force
qed

section \<open>start-tee\<close>

definition startTeeConfigurationPort :: int where "startTeeConfigurationPort = 5501"
definition startTeeProxyInternalPort :: int where "startTeeProxyInternalPort = 6663"

text \<open>The root \<open>.env\<close>, else the one of the working directory; \<open>load\<close> is \<open>godotenv.Load\<close>.\<close>

definition loadEnv :: "(string \<Rightarrow> env \<Rightarrow> env res) \<Rightarrow> string \<Rightarrow> env \<Rightarrow> env" where
  "loadEnv load rootEnv getenv =
     (case load rootEnv getenv of
        Inr env' \<Rightarrow> env'
      | Inl _ \<Rightarrow> (case load ''.env'' getenv of Inr env' \<Rightarrow> env' | Inl _ \<Rightarrow> getenv))"

text \<open>The owner as it was in the environment, and the environment with the owner set.\<close>

definition setOwnerAddress :: "support_lib \<Rightarrow> host \<Rightarrow> env \<Rightarrow> (address \<times> env) res" where
  "setOwnerAddress lib h getenv =
     (let owner = getenv ''INITIAL_OWNER''; k = getenv ''DEPLOYMENT_PRIVATE_KEY'';
          key = (if k = [] then map_err (\<lambda>_. ''cannot parse default private key'') (HexToECDSA lib PrvWithFunds_hex)
                 else HexToECDSA lib (if HasPrefix k ''0x'' \<or> HasPrefix k ''0X'' then drop 2 k else k))
      in if owner \<noteq> [] then Inr (HexToAddress h owner, getenv)
         else res_bind key (\<lambda>ownerAddress.
              Inr (HexToAddress h owner, getenv(''INITIAL_OWNER'' := AddressHex h ownerAddress))))"

text \<open>The extension server must not have failed within the first moment; then the node is told its proxy.\<close>

definition runExtension :: "string option \<Rightarrow> 'w tee_http \<Rightarrow> ('w, unit) io" where
  "runExtension early http =
     (case early of
        Some e \<Rightarrow> io_fail (''extension server failed to start: '' @ e)
      | None \<Rightarrow> SetProxyUrl http startTeeConfigurationPort startTeeProxyInternalPort)"

definition start_tee_main ::
    "support_lib \<Rightarrow> host \<Rightarrow> (string \<Rightarrow> env \<Rightarrow> env res) \<Rightarrow> string \<Rightarrow> string option \<Rightarrow> 'w tee_http \<Rightarrow> string \<Rightarrow> env \<Rightarrow>
     ('w, env) io" where
  "start_tee_main lib h load rootEnv early http extensionID getenv =
     io_bind (io_lift (setOwnerAddress lib h (loadEnv load rootEnv getenv))) (\<lambda>(_, env1).
     let env2 = (if extensionID \<noteq> [] then env1(''EXTENSION_ID'' := extensionID) else env1)
     in io_bind (runExtension early http) (\<lambda>_. io_ret env2))"

section \<open>start-proxy\<close>

definition findProxyConfig :: "(string \<Rightarrow> bool) \<Rightarrow> string \<Rightarrow> env \<Rightarrow> string" where
  "findProxyConfig stat candidate getenv =
     (if getenv ''PROXY_CONFIG'' \<noteq> [] then getenv ''PROXY_CONFIG''
      else if stat candidate then candidate
      else ''./config/proxy/extension_proxy.toml'')"

text \<open>\<open>read\<close> yields the external port of the configuration file.\<close>

definition logProxyAndTeeIds ::
    "(string \<Rightarrow> string res) \<Rightarrow> 'w tee_http \<Rightarrow> tee_crypto \<Rightarrow> sig_lib \<Rightarrow> string \<Rightarrow> ('w, address \<times> address) io" where
  "logProxyAndTeeIds read http cr sig configFile =
     io_bind (io_wrap (\<lambda>e. ''failed to read proxy config: '' @ e) (io_lift (read configFile))) (\<lambda>port.
     io_wrap (\<lambda>e. ''failed to extract teeID and proxyID: '' @ e)
       (GetTeeProxyID http cr sig (''http://localhost:'' @ port)))"

text \<open>
  The program, up to the wait for a signal: \<open>projectDir\<close> is the project's directory, \<open>init\<close> what the proxy's own
  start does with its configuration file.  Ids that cannot be logged are only warned about.
\<close>

definition start_proxy_main ::
    "(string \<Rightarrow> env \<Rightarrow> env res) \<Rightarrow> string \<Rightarrow> (string \<Rightarrow> bool) \<Rightarrow> (string \<Rightarrow> 'w \<Rightarrow> 'w) \<Rightarrow> (string \<Rightarrow> string res) \<Rightarrow>
     'w tee_http \<Rightarrow> tee_crypto \<Rightarrow> sig_lib \<Rightarrow> env \<Rightarrow> 'w \<Rightarrow> (address \<times> address) res \<times> 'w" where
  "start_proxy_main load projectDir stat init read http cr sig getenv w =
     (let getenv' = loadEnv load (projectDir @ ''/.env'') getenv;
          configFile = findProxyConfig stat (projectDir @ ''/config/proxy/extension_proxy.toml'') getenv'
      in logProxyAndTeeIds read http cr sig configFile (init configFile w))"

end
