(* ===== verification/OpsClaims.thy ===== *)
theory OpsClaims
  imports PoolTools Diagnostics Servers AegisClaims
begin

text \<open>
  What the operator's commands guarantee: the verdict of \<open>check-tee-state\<close>, the wiring that
  \<open>deploy-settlement\<close> leaves behind, and the one transfer of \<open>fund-pool\<close>.
\<close>

section \<open>The verdict\<close>

lemma mismatch_parts:
  "sender_mismatch h v sid ext cur = [] \<longleftrightarrow> sid = ext"
  "proxy_mismatch p ext = [] \<longleftrightarrow> p = ext"
  "status_mismatch st = [] \<longleftrightarrow> (\<forall>s. st = Inr s \<longrightarrow> s = 1 \<or> s = 4)"
  by (auto simp: sender_mismatch_def proxy_mismatch_def status_mismatch_def split: sum.splits)

lemma mismatch_lines:
  "all_consistent \<notin> set (sender_mismatch h v sid ext cur)"
  "all_consistent \<notin> set (proxy_mismatch p ext)"
  "all_consistent \<notin> set (status_mismatch st)"
  "all_consistent \<noteq> no_record"
  by (auto simp: all_consistent_def no_record_def sender_mismatch_def proxy_mismatch_def status_mismatch_def arrow_def split: sum.splits)

definition consistent :: "int \<Rightarrow> int \<Rightarrow> int res \<Rightarrow> (8 word) res \<Rightarrow> bool" where
  "consistent proxy sid onchain status \<longleftrightarrow>
     onchain = Inr proxy \<and> onchain = Inr sid \<and> (\<forall>s. status = Inr s \<longrightarrow> s = 1 \<or> s = 4)"

lemma verdict_consistent:
  "verdict h v proxy sid onchain status cur \<noteq> [] \<and>
   (all_consistent \<in> set (verdict h v proxy sid onchain status cur) \<longleftrightarrow> consistent proxy sid onchain status) \<and>
   (last (verdict h v proxy sid onchain status cur) = all_consistent \<longleftrightarrow> consistent proxy sid onchain status)"
proof (cases onchain)
  case (Inl e)
  then show ?thesis using mismatch_lines(4) by (simp add: verdict_def consistent_def)
next
  case (Inr ext)
  let ?ms = "sender_mismatch h v sid ext cur @ proxy_mismatch proxy ext @ status_mismatch status"
  have c: "?ms = [] \<longleftrightarrow> consistent proxy sid onchain status"
    using Inr by (auto simp: mismatch_parts consistent_def)
  have n: "all_consistent \<notin> set ?ms" using mismatch_lines by simp
  have "?ms \<noteq> [] \<Longrightarrow> last ?ms \<in> set ?ms" by (rule last_in_set)
  then have l: "?ms \<noteq> [] \<Longrightarrow> last ?ms \<noteq> all_consistent" using n by metis
  show ?thesis
    using Inr c n l by (cases "?ms = []") (simp_all add: verdict_def Let_def)
qed

lemma say_all_ok: "say_all ls out = (Inr (), out') \<longleftrightarrow> out' = out @ ls"
  by (auto simp: say_all_def)

text \<open>A report that does not panic ends with the verdict.\<close>

lemma report_ends_with_verdict:
  assumes "tee_state_report h v order inputs tee sender proxy sid out0 = (Inr (), out)"
  shows "\<exists>before. out = before @ verdict h v proxy sid (mv_ExtensionId v tee) (mv_Status v tee) sender"
  using assms by (auto simp: tee_state_report_def Let_def io_ok say_all_ok simp flip: append_assoc)


text \<open>A concrete operator: every contract has code, every account has funds, every file can be written.\<close>

definition demo_tool :: "'w tool_env" where
  "demo_tool =
     \<lparr>tl_support = demo_support_lib, tl_devKey = 9, tl_getenv = (\<lambda>_. []),
      tl_host = \<lparr>Getenv = (\<lambda>_. []), OpenFile = (\<lambda>_. None), IsNotExist = (\<lambda>_. True), DialTCP = (\<lambda>_. False),
        HttpGetStatus = (\<lambda>_. Inl ''refused''), QuoteGo = id, AddressHex = (\<lambda>a. hex_encode (be_bytes 20 (unat a))),
        HexToAddress = (\<lambda>s. of_nat (length s))\<rparr>,
      tl_client = (\<lambda>w. \<lparr>CodeAt = (\<lambda>_. Inr ''code''), BalanceAt = (\<lambda>_. Inr (10 ^ 18)), ChainID = Inr 114\<rparr>),
      tl_cli = demo_cli\<rparr>"

lemma demo_tool_support: "\<exists>s. tool_support (demo_tool :: 'w tool_env) af cf = Inr s \<and> Prv s = 9"
  by (simp add: tool_support_def demo_tool_def demo_support_lib_def DefaultSupport_def ReadAddresses_def
      ParseAddresses_def DefaultPrivateKey_def NewSupport_def support_bindings_def Let_def)

definition demo_machine_view :: "8 word \<Rightarrow> machine_view" where
  "demo_machine_view st =
     \<lparr>mv_Status = (\<lambda>_. Inr st), mv_ExtensionId = (\<lambda>_. Inr 2), mv_Owner = (\<lambda>_. Inr 9),
      mv_Machine = (\<lambda>_. Inr (5, 6, ''url'')), mv_Active = (\<lambda>_. Inr ([], [])), mv_Sender = (\<lambda>_. Inr 7),
      mv_StatusTs = (\<lambda>_. Inr 0), mv_SigningPolicy = (\<lambda>_. Inr 0)\<rparr>"

lemma demo_state_runs:
  "\<exists>out. check_tee_state_main demo_tool demo_http demo_crypto demo_sig (\<lambda>w a. Inr [CHR 0x02]) (\<lambda>w. demo_machine_view st)
     rev [] [] ''p'' ''0x'' 3 = (Inr (Inr (), out), 3)"
proof -
  obtain s where s: "tool_support (demo_tool :: nat tool_env) [] [] = Inr s" using demo_tool_support by blast
  show ?thesis
    unfolding check_tee_state_main_def Let_def s
    by (simp add: TeeInfo_def demo_http_def TeeProxyId_def demo_crypto_def demo_sig_def demo_info_def io_simps
        tee_state_report_def Let_def listActive_def demo_machine_view_def say_def say_all_def be_nat_def)
qed


section \<open>Deploying the settlement\<close>

text \<open>A command that leaves the disk alone, and one that does so when it fails.\<close>

definition keeps_disk :: "('c cli_world, 'a) io \<Rightarrow> bool" where
  "keeps_disk m \<longleftrightarrow> (\<forall>w. cw_disk (snd (m w)) = cw_disk w)"

definition fails_clean :: "('c cli_world, 'a) io \<Rightarrow> bool" where
  "fails_clean m \<longleftrightarrow> (\<forall>w e w'. m w = (Inl e, w') \<longrightarrow> cw_disk w' = cw_disk w)"

lemma keeps_disk_simps [intro, simp]:
  "keeps_disk (on_net m)" "keeps_disk (io_lift r)" "keeps_disk (io_ret x)"
  by (auto simp: keeps_disk_def on_net_def io_simps split: prod.splits)

lemma fails_clean_bind [intro]: "keeps_disk m \<Longrightarrow> (\<And>x. fails_clean (f x)) \<Longrightarrow> fails_clean (io_bind m f)"
  unfolding keeps_disk_def fails_clean_def io_bind_def
  by (auto split: prod.splits sum.splits) (metis snd_conv)+

lemma fails_clean_basic [intro, simp]: "fails_clean (io_fail e)" "fails_clean (io_ret x)"
  by (simp_all add: fails_clean_def io_simps)

lemma fails_clean_last: "fails_clean m \<Longrightarrow> fails_clean (io_bind m (\<lambda>x. io_ret (g x)))"
  by (auto simp: fails_clean_def io_simps split: prod.splits sum.splits)

lemma fails_clean_write: "fails_clean (on_disk (writeEnvFile T path a b c))"
  by (auto simp: fails_clean_def on_disk_def writeEnvFile_def write_file_error split: prod.splits)

lemma fails_clean_if: "fails_clean m \<Longrightarrow> fails_clean m' \<Longrightarrow> fails_clean (if b then m else m')"
  by simp

lemma deploy_settlement_fails_clean: "fails_clean (deploy_settlement_main T chain tk eid af cf sf ff outF)"
  unfolding deploy_settlement_main_def Let_def
  by (auto intro!: fails_clean_bind fails_clean_last fails_clean_if fails_clean_write split: prod.splits)

lemma deploy_and_wire_ok:
  assumes "deploy_and_wire T chain eid addrs sender fxrp w = (Inr (st, ex), w')"
  shows "\<exists>v1 tx1 v1' v2 tx2 v2' v3 tx v4 r.
    DeployPolicySettlement chain (FlareTeeManager addrs) (FlareTeeManager addrs) sender v1 = (Inr (st, tx1), v1') \<and>
    DeployFxrpPayoutExecutor chain fxrp st v2 = (Inr (ex, tx2), v2') \<and>
    SendSetPayoutExecutor chain st ex v3 = (Inr tx, v4) \<and> CheckTx (Tx chain) tx v4 = (Inr r, w')"
  using assms
  unfolding deploy_and_wire_def DeploySettlement_def DeployFxrpExecutor_def SetPayoutExecutor_def
  by (simp add: io_ok split: prod.splits) blast

definition settlement_run ::
    "'w tool_env \<Rightarrow> ('w, 'tx) settle_chain \<Rightarrow> ('w, 'tx) token_lib \<Rightarrow> ('w \<Rightarrow> address \<Rightarrow> int res) \<Rightarrow> string \<Rightarrow> string \<Rightarrow>
     string \<Rightarrow> string \<Rightarrow> string \<Rightarrow> 'w cli_world \<Rightarrow> string list \<Rightarrow> 'w cli_world \<Rightarrow>
     Support \<Rightarrow> address \<Rightarrow> address \<Rightarrow> address \<Rightarrow> 'w \<Rightarrow> bool" where
  "settlement_run T chain tk eid af cf sf ff outF w out w' s fxrp st ex u \<longleftrightarrow>
     tool_support T af cf = Inr s \<and>
     (if ff = [] then \<exists>v. ResolveFxrp tk (tl_getenv T) v = Inr fxrp else fxrp = HexToAddress (tl_host T) ff) \<and>
     deploy_and_wire T chain eid (sp_Addresses s) (HexToAddress (tl_host T) sf) fxrp u = (Inr (st, ex), cw_net w') \<and>
     out = script_lines (tl_host T) st ex fxrp \<and>
     cw_disk w' = (if outF = [] then cw_disk w else (cw_disk w)(outF \<mapsto> env_file_text (tl_host T) st ex fxrp))"

lemma deploy_settlement_ok:
  assumes "deploy_settlement_main T chain tk eid af cf sf ff outF w = (Inr out, w')"
  shows "\<exists>s fxrp st ex u. settlement_run T chain tk eid af cf sf ff outF w out w' s fxrp st ex u"
  using assms
  by (fastforce simp: settlement_run_def deploy_settlement_main_def Let_def io_ok on_net_ok on_disk_ok payout_asset_def
      writeEnvFile_def write_file_ok split: if_splits prod.splits)

text \<open>What the contract does: a mined \<open>setPayoutExecutor\<close> sets the executor.\<close>

definition wires_executor :: "('w, 'tx) settle_chain \<Rightarrow> ('w \<Rightarrow> address \<Rightarrow> address res) \<Rightarrow> bool" where
  "wires_executor chain executorOf \<longleftrightarrow>
     (\<forall>st ex v tx v1 r v2. SendSetPayoutExecutor chain st ex v = (Inr tx, v1) \<and>
        CheckTx (Tx chain) tx v1 = (Inr r, v2) \<longrightarrow> executorOf v2 st = Inr ex)"

lemma wires_executorD:
  "wires_executor chain executorOf \<Longrightarrow> SendSetPayoutExecutor chain st ex v = (Inr tx, v1) \<Longrightarrow>
     CheckTx (Tx chain) tx v1 = (Inr r, v2) \<Longrightarrow> executorOf v2 st = Inr ex"
  unfolding wires_executor_def by blast


text \<open>A chain whose world is the executor of each settlement.\<close>

definition wired_chain :: "(address \<Rightarrow> address, unit) settle_chain" where
  "wired_chain =
     \<lparr>Tx = \<lparr>TxHash = (\<lambda>t. 1), TxHashHex = (\<lambda>h. ''0x''),
        WaitMined = (\<lambda>t w. (Inr \<lparr>rcpt_Status = 1, rcpt_TxHash = 1, rcpt_BlockHash = 6, rcpt_BlockNumber = 5, rcpt_Logs = []\<rparr>, w)),
        TransactionByHash = (\<lambda>w h. Inl ''not found''), TxSender = (\<lambda>t. Inr 9),
        CallContract = (\<lambda>w t a. Inr []), UnpackRevert = (\<lambda>b. None)\<rparr>,
      NewTransactor = Inr (), NewPolicySettlement = (\<lambda>a. Inr ()),
      SendSettle = (\<lambda>a i st tag d sig w. (Inr (), w)), SettlementRecord = (\<lambda>w a p. Inr (False, 0, 0, 0)),
      DeployPolicySettlement = (\<lambda>a b c w. (Inr (100, ()), w)), DeployFxrpPayoutExecutor = (\<lambda>a b w. (Inr (101, ()), w)),
      SendSetExtensionId = (\<lambda>a w. (Inr (), w)), SendSetPayoutExecutor = (\<lambda>a e w. (Inr (), w(a := e)))\<rparr>"

definition wired_token :: "('w, unit) token_lib" where
  "wired_token =
     \<lparr>tk_HexToAddress = (\<lambda>s. 70), tk_AddressHex = (\<lambda>a. ''0x''), ParseRegistryABI = Inr (), ParseManagerABI = Inr (),
      ParseErc20ABI = Inr (), GetContractAddressByName = (\<lambda>w a n. Inr (AbiAddress 71)), FAssetCall = (\<lambda>w a. Inr (AbiAddress 72)),
      BalanceOfCall = (\<lambda>w t a. Inr (AbiBigInt 0)), SymbolCall = (\<lambda>w t. Inr (AbiString ''FXRP'')),
      DecimalsCall = (\<lambda>w t. Inr (AbiUint8 6)), SendTransfer = (\<lambda>t a v w. (Inr (), w)), tk_TxHash = (\<lambda>t. 1)\<rparr>"


section \<open>Funding the pool\<close>

lemma waitForBalance_immediate:
  "BalanceOf tk token pool w = Inr b \<Longrightarrow> minimum \<le> b \<Longrightarrow> waitForBalance tk expired token pool minimum w = Some (Inr (), w)"
  by (simp add: waitForBalance_def poll.simps balance_probe_def)

lemma waitForBalance_ok:
  assumes "waitForBalance tk expired token pool minimum w = Some (Inr (), w')"
  shows "\<exists>b. BalanceOf tk token pool w' = Inr b \<and> minimum \<le> b"
proof -
  have "balance_probe tk token pool minimum v = (Some (Inr ()), w') \<Longrightarrow> ?thesis" for v
    by (auto simp: balance_probe_def split: sum.splits if_splits)
  moreover have "balance_pause expired v \<noteq> (Some (Inr ()), w')" for v
    by (cases "expired v") (simp add: balance_pause_def split: bool.splits)
  ultimately show ?thesis using poll_result [OF assms [unfolded waitForBalance_def]] by auto
qed

text \<open>The wait ends when the context does: \<open>left\<close> counts the pauses that can still pass.\<close>

interpretation balance_poll: polling "balance_probe tk token pool minimum" "balance_pause expired" left
    "\<forall>w w'. expired w = (False, w') \<longrightarrow> left w' < left w"
  for tk :: "('w, 'tx) token_lib" and token pool minimum expired and left :: "'w \<Rightarrow> nat"
  by unfold_locales (auto simp: balance_probe_def balance_pause_def split: sum.splits prod.splits bool.splits)

lemma waitForBalance_returns:
  fixes left :: "'w \<Rightarrow> nat"
  shows "\<forall>w w'. expired w = (False, w') \<longrightarrow> left w' < left w \<Longrightarrow>
     \<exists>r w'. waitForBalance tk expired token pool minimum w = Some (r, w')"
  unfolding waitForBalance_def by (rule balance_poll.returns [where left = left])

lemma transfer_and_wait_result:
  assumes "transfer_and_wait tk tr expired token funder ex amount w = Some (r, w')"
  shows "(w' = w \<and> (\<exists>e. r = Inl e)) \<or> (\<exists>sent w1. SendTransfer tk (erc_Address token) ex amount w = (sent, w1) \<and>
    ((\<exists>e. sent = Inl e) \<longrightarrow> (\<exists>e. r = Inl e) \<and> w' = w1) \<and>
    (\<forall>b. BalanceOf tk token ex w1 = Inr b \<and> amount \<le> b \<longrightarrow> w' = w1) \<and>
    (\<forall>after. r = Inr after \<longrightarrow> report_balances tk token funder ex w' = (Inr after, w') \<and> amount \<le> snd after))"
proof (cases tr)
  case (Inl e)
  with assms show ?thesis by (auto simp: transfer_and_wait_def pio_bind_def total_def io_simps)
next
  case (Inr u)
  obtain sent w1 where sent: "SendTransfer tk (erc_Address token) ex amount w = (sent, w1)" by fastforce
  show ?thesis
  proof (cases sent)
    case (Inl e)
    with assms Inr sent have "w' = w1 \<and> (\<exists>e. r = Inl e)"
      by (auto simp: transfer_and_wait_def pio_bind_def total_def io_simps Transfer_def)
    with sent Inl show ?thesis by auto
  next
    case tx: (Inr tx)
    have rest: "pio_bind (waitForBalance tk expired token ex amount) (\<lambda>_. total (report_balances tk token funder ex)) w1 = Some (r, w')"
      using assms Inr sent tx by (simp add: transfer_and_wait_def pio_bind_def total_def io_simps Transfer_def)
    have here: "snd (report_balances tk token funder ex v) = v" for v
      by (simp add: report_balances_def io_simps split: sum.splits)
    have "w' = w1" if "BalanceOf tk token ex w1 = Inr b" "amount \<le> b" for b
      using rest waitForBalance_immediate [OF that] here [of w1] by (simp add: pio_bind_def total_def)
    moreover have "report_balances tk token funder ex w' = (Inr after, w') \<and> amount \<le> snd after" if "r = Inr after" for after
    proof -
      from rest that obtain u v where u: "waitForBalance tk expired token ex amount w1 = Some (Inr u, v)"
        "report_balances tk token funder ex v = (Inr after, w')"
        by (auto simp: pio_ok)
      with here [of v] have "v = w'" by simp
      with u waitForBalance_ok [of tk expired token ex amount w1 w'] show ?thesis
        by (auto simp: report_balances_def io_ok)
    qed
    ultimately show ?thesis using sent tx by auto
  qed
qed

lemma checked_amount_ok:
  "checked_amount h symbol d a balance = Inr amount \<Longrightarrow> SetString10 a = Some amount \<and> 0 < amount \<and> amount \<le> balance"
  by (auto simp: checked_amount_def Let_def split: option.splits if_splits)

text \<open>A part of a command that only reads: it ends the command, or the command goes on in the same world.\<close>

lemma pio_readsE:
  assumes "pio_bind (total m) f w = Some (r, w')" and "reads_only m"
  obtains (fails) e where "m w = (Inl e, w)" "r = Inl e" "w' = w"
    | (reads) x where "m w = (Inr x, w)" "f x w = Some (r, w')"
proof -
  have w: "snd (m w) = w" using assms(2) by (simp add: reads_only_def)
  show ?thesis
    using assms(1) w fails reads by (cases "m w"; cases "fst (m w)") (auto simp: pio_bind_def total_def)
qed

lemma reads_only_report: "reads_only (report_balances tk token funder executor)"
  unfolding report_balances_def by (intro reads_only_bind reads_only_read reads_only_ret)

lemma reads_only_asset: "reads_only (payout_asset T tk ff)"
  unfolding payout_asset_def by (simp add: reads_only_ret reads_only_wrap reads_only_read)

lemma NewERC20_ok: "NewERC20 tk fxrp = Inr token \<Longrightarrow> token = \<lparr>erc_Address = fxrp\<rparr>"
  by (auto simp: NewERC20_def split: sum.splits)

lemma total_fails: "total (io_fail e) w = Some (r, w') \<longleftrightarrow> r = Inl e \<and> w' = w"
  by (auto simp: total_def io_fail_def)

lemma pio_tail:
  "pio_bind m (\<lambda>x. total (io_ret (g x))) w = Some (r, w') \<Longrightarrow>
     \<exists>r2. m w = Some (r2, w') \<and> r = (case r2 of Inl e \<Rightarrow> Inl e | Inr x \<Rightarrow> Inr (g x))"
  by (cases "m w") (auto simp: pio_bind_def total_def io_ret_def split: sum.splits)

text \<open>A run that gets past the checks: what it read, the amount it accepted, and its transfer.\<close>

definition funding_run ::
    "'w tool_env \<Rightarrow> ('w, 'tx) token_lib \<Rightarrow> unit res \<Rightarrow> ('w \<Rightarrow> bool \<times> 'w) \<Rightarrow> string \<Rightarrow> string \<Rightarrow> string \<Rightarrow> string \<Rightarrow>
     'w \<Rightarrow> (int \<times> int) list res \<Rightarrow> 'w \<Rightarrow> Support \<Rightarrow> address \<Rightarrow> int \<times> int \<Rightarrow> int \<Rightarrow> bool" where
  "funding_run T tk tr expired af cf ef a w r w' s fxrp start amount \<longleftrightarrow>
     tool_support T af cf = Inr s \<and>
     report_balances tk \<lparr>erc_Address = fxrp\<rparr> (Prv s) (HexToAddress (tl_host T) ef) w = (Inr start, w) \<and>
     (\<exists>symbol d. checked_amount (tl_host T) symbol d a (fst start) = Inr amount) \<and> a \<noteq> [] \<and>
     (\<exists>r2. transfer_and_wait tk tr expired \<lparr>erc_Address = fxrp\<rparr> (Prv s) (HexToAddress (tl_host T) ef) amount w = Some (r2, w') \<and>
        r = (case r2 of Inl e \<Rightarrow> Inl e | Inr after \<Rightarrow> Inr [start, after]))"

lemma funding_runI:
  assumes "tool_support T af cf = Inr s" and "NewERC20 tk fxrp = Inr token"
    and "report_balances tk token (Prv s) (HexToAddress (tl_host T) ef) w = (Inr start, w)"
    and "checked_amount (tl_host T) symbol d a (fst start) = Inr amount" and "a \<noteq> []"
    and "pio_bind (transfer_and_wait tk tr expired token (Prv s) (HexToAddress (tl_host T) ef) amount)
           (\<lambda>after. total (io_ret [start, after])) w = Some (r, w')"
  shows "\<exists>s fxrp start amount. funding_run T tk tr expired af cf ef a w r w' s fxrp start amount"
proof -
  note token = NewERC20_ok [OF assms(2)]
  show ?thesis
    unfolding funding_run_def
    by (rule exI [of _ s], rule exI [of _ fxrp], rule exI [of _ start], rule exI [of _ amount])
      (use assms pio_tail [OF assms(6)] in \<open>auto simp: token\<close>)
qed

text \<open>What the command does before it transfers only reads.\<close>

lemma fund_pool_result:
  assumes "fund_pool_main T tk tr expired af cf ef ff a w = Some (r, w')"
  shows "(w' = w \<and> (\<forall>rs. r = Inr rs \<longrightarrow> a = [])) \<or>
    (\<exists>s fxrp start amount. funding_run T tk tr expired af cf ef a w r w' s fxrp start amount)"
proof (cases "ef = []")
  case True
  with assms show ?thesis by (simp add: fund_pool_main_def total_fails)
next
  case False
  show ?thesis
    using assms False unfolding fund_pool_main_def Let_def
    apply (simp del: split_paired_Ex)
    apply (erule pio_readsE, rule reads_only_lift, simp del: split_paired_Ex)
    apply (erule pio_readsE, rule reads_only_asset, simp del: split_paired_Ex)
    apply (erule pio_readsE, rule reads_only_lift, simp del: split_paired_Ex)
    apply (erule pio_readsE, rule reads_only_read, simp del: split_paired_Ex)
    apply (simp split: prod.splits del: split_paired_Ex)
    apply (erule pio_readsE, rule reads_only_report, simp del: split_paired_Ex)
    apply (cases "a = []")
     apply (simp add: total_def io_ret_def del: split_paired_Ex)
    apply (simp del: split_paired_Ex)
    apply (erule pio_readsE, rule reads_only_lift, simp del: split_paired_Ex)
    apply (rule disjI2)
    apply (rule funding_runI)
         apply (simp_all add: io_lift_def del: split_paired_Ex)
    done
qed


text \<open>A token whose world is the list of transfers made: the operator holds 500 less what it sent,
  the pool is credited with the transfers.\<close>

definition listed_token :: "(int list, unit) token_lib" where
  "listed_token = wired_token
     \<lparr>BalanceOfCall := (\<lambda>w t a. Inr (AbiBigInt (if a = 9 then 500 - sum_list w else sum_list w))),
      SendTransfer := (\<lambda>t a v w. (Inr (), v # w))\<rparr>"


end
