(* ===== verification/SetupClaims.thy ===== *)
theory SetupClaims
  imports OpsClaims VerifyDeploy
begin

text \<open>
  What \<open>register-extension\<close> sets up is what \<open>verify-deploy\<close> looks for: the id it prints is the text
  the format check wants and the number the registration checks read, and the grants it leaves on
  chain are the ones they ask for.
\<close>

section \<open>The printed id\<close>

lemma hex_nat_snoc2: "d < 16 \<Longrightarrow> e < 16 \<Longrightarrow> hex_nat (s @ [hex_digit d, hex_digit e]) = 256 * hex_nat s + 16 * d + e"
  by (simp add: hex_nat_def hex_val_hex_digit)

lemma hex_encode_snoc: "hex_encode (bs @ [b]) = hex_encode bs @ [hex_digit (of_char b div 16), hex_digit (of_char b mod 16)]"
  by (induction bs) auto

lemma hex_nat_encode: "hex_nat (hex_encode bs) = be_nat bs"
proof (induction bs rule: rev_induct)
  case Nil
  show ?case by (simp add: hex_nat_def)
next
  case (snoc b bs)
  have "(of_char b :: nat) div 16 < 16" using of_char_less [of b] by (simp add: less_mult_imp_div_less)
  then show ?case using snoc by (simp add: hex_encode_snoc hex_nat_snoc2)
qed

lemma extensionIDHex_read:
  assumes "0 \<le> n" and "n < 2 ^ 256"
  shows "extensionIDRegex (extensionIDHex n)" and "int (hex_nat (drop 2 (extensionIDHex n))) = n"
proof -
  have "nat n < 2 ^ 256" using assms by (simp add: nat_less_iff)
  then have "nat n mod 256 ^ 32 = nat n" by simp
  then show "int (hex_nat (drop 2 (extensionIDHex n))) = n"
    using assms(1) by (simp add: extensionIDHex_def hex_nat_encode be_nat_be_bytes)
  show "extensionIDRegex (extensionIDHex n)"
    by (simp add: extensionIDRegex_def match_0x_hex_def extensionIDHex_def hex_encode_is_hex)
qed

section \<open>What the grants keep\<close>

text \<open>A property of the chain that no mined grant destroys.\<close>

definition kept_by_grants :: "('w, 'tx) setup_chain \<Rightarrow> ('w \<Rightarrow> bool) \<Rightarrow> bool" where
  "kept_by_grants ch P \<longleftrightarrow>
     (\<forall>ext own k w tx w1 r w2.
        (SendAddMachineOwners ch ext [own] w = (Inr tx, w1) \<or> SendAddProjectOwners ch ext [own] w = (Inr tx, w1) \<or>
         SendAddKeyTypes ch ext [k] w = (Inr tx, w1)) \<and>
        CheckTx (su_Tx ch) tx w1 = (Inr r, w2) \<and> P w \<longrightarrow> P w2)"

lemma ensure_keeps:
  assumes "ensure flag act w = (Inr (), w')" and "P w" and "act w = (Inr (), w') \<Longrightarrow> P w'"
  shows "P w'"
  using assms by (auto simp: ensure_def io_ok split: if_splits)

lemma grants_keep:
  assumes "kept_by_grants ch P"
  shows "grant_machine ch ext w = (Inr (), w') \<Longrightarrow> P w \<Longrightarrow> P w'"
    and "grant_project ch ext w = (Inr (), w') \<Longrightarrow> P w \<Longrightarrow> P w'"
    and "grant_key ch ext w = (Inr (), w') \<Longrightarrow> P w \<Longrightarrow> P w'"
proof -
  note kept = assms [unfolded kept_by_grants_def, rule_format]
  show "P w'" if "grant_machine ch ext w = (Inr (), w')" "P w"
    using that(1) [unfolded grant_machine_def] that(2)
  proof (rule ensure_keeps)
    assume "io_wrap (\<lambda>e. ''failed adding TEE machine owners (extension exists as ID '' @ show_int ext @
      '' but owners not set): '' @ e) (allowTeeMachineOwners ch ext [su_Deployer ch]) w = (Inr (), w')"
    then obtain tx w1 r where "SendAddMachineOwners ch ext [su_Deployer ch] w = (Inr tx, w1)"
      "CheckTx (su_Tx ch) tx w1 = (Inr r, w')"
      by (auto simp: io_wrap_ok allowTeeMachineOwners_def dest!: allow_owners_ok)
    with kept that(2) show "P w'" by blast
  qed
  show "P w'" if "grant_project ch ext w = (Inr (), w')" "P w"
    using that(1) [unfolded grant_project_def] that(2)
  proof (rule ensure_keeps)
    assume "io_wrap (\<lambda>e. ''failed adding wallet project owners (extension exists as ID '' @ show_int ext @
      '' but owners not set): '' @ e) (allowTeeProjectManagerOwners ch ext [su_Deployer ch]) w = (Inr (), w')"
    then obtain tx w1 r where "SendAddProjectOwners ch ext [su_Deployer ch] w = (Inr tx, w1)"
      "CheckTx (su_Tx ch) tx w1 = (Inr r, w')"
      by (auto simp: io_wrap_ok allowTeeProjectManagerOwners_def dest!: allow_owners_ok)
    with kept that(2) show "P w'" by blast
  qed
  show "P w'" if "grant_key ch ext w = (Inr (), w')" "P w"
    using that(1) [unfolded grant_key_def] that(2)
  proof (rule ensure_keeps)
    assume "AddSupportedKeyTypes ch ext [EVMType ch] w = (Inr (), w')"
    with kept that(2) show "P w'" by (blast dest: AddSupportedKeyTypes_ok)
  qed
qed

section \<open>From one command to the other\<close>

text \<open>What the registry does: a mined registration announces an id below \<open>2 ^ 256\<close> and binds the
  sender to it, and no grant unbinds a sender.\<close>

definition binds_senders :: "('w, 'tx) setup_chain \<Rightarrow> ('w \<Rightarrow> int \<Rightarrow> address res) \<Rightarrow> bool" where
  "binds_senders ch senderOf \<longleftrightarrow>
     (\<forall>v s w tx w1 r w2 log0 rest ext.
        SendRegisterExtension ch v s w = (Inr tx, w1) \<and> CheckTx (su_Tx ch) tx w1 = (Inr r, w2) \<and>
        rcpt_Logs r = log0 # rest \<and> ParseExtensionRegistered ch log0 = Inr ext \<longrightarrow>
        senderOf w2 ext = Inr s \<and> 0 \<le> ext \<and> ext < 2 ^ 256) \<and>
     (\<forall>e a. kept_by_grants ch (\<lambda>w. senderOf w e = Inr a))"

text \<open>The registries the checks read are those of the chain the registration left.\<close>

definition reads_chain ::
    "('w, 'tx) setup_chain \<Rightarrow> ('w \<Rightarrow> int \<Rightarrow> address res) \<Rightarrow> 'w \<Rightarrow> ext_registry \<Rightarrow> owner_list \<Rightarrow> bool" where
  "reads_chain ch senderOf w reg al \<longleftrightarrow>
     is_ok (NextPublicExtensionId reg) \<and> (\<forall>e. InstructionsSender reg e = senderOf w e) \<and>
     (\<forall>e t. ext_registry.IsKeyTypeSupported reg e t = KeyTypeSupported ch w e t) \<and>
     (\<forall>e a. IsAllowedTeeMachineOwner al e a = IsMachineOwner ch w e a)"

lemma setup_complete:
  assumes "honest_registry ch" and "binds_senders ch senderOf" and "SetupExtension ch sender v w = (Inr ext, w')"
  shows "0 \<le> ext \<and> ext < 2 ^ 256 \<and> senderOf w' ext = Inr sender \<and>
    IsMachineOwner ch w' ext (su_Deployer ch) = Inr True \<and> KeyTypeSupported ch w' ext (EVMType ch) = Inr True"
proof -
  from assms(3) obtain w2 w3 w4 where run: "registerExtension ch sender v w = (Inr ext, w2)"
    "grant_machine ch ext w2 = (Inr (), w3)" "grant_project ch ext w3 = (Inr (), w4)" "grant_key ch ext w4 = (Inr (), w')"
    by (rule SetupExtension_ok)
  from run(1) obtain tx w1 r log0 log1 rest where reg: "SendRegisterExtension ch v sender w = (Inr tx, w1)"
    "CheckTx (su_Tx ch) tx w1 = (Inr r, w2)" "rcpt_Logs r = log0 # log1 # rest" "ParseExtensionRegistered ch log0 = Inr ext"
    by (rule registerExtension_ok)
  with assms(2) have bound: "senderOf w2 ext = Inr sender \<and> 0 \<le> ext \<and> ext < 2 ^ 256"
    unfolding binds_senders_def by blast
  have kept: "kept_by_grants ch (\<lambda>w. senderOf w ext = Inr sender)" using assms(2) by (simp add: binds_senders_def)
  have "senderOf w' ext = Inr sender"
    using grants_keep(3) [OF kept run(4) grants_keep(2) [OF kept run(3) grants_keep(1) [OF kept run(2)]]] bound by simp
  with bound grants_in_place [OF assms(1) run(2-4)] show ?thesis by simp
qed

text \<open>C24. What \<open>register-extension\<close> leaves behind is what \<open>verify-deploy\<close> wants to find.  The line it prints
  for the script is the id the registration announced, in a form the format check accepts and
  the checks read back as that very number; and once the script has stored it beside the sender, no
  registration check fails on the chain the command left: the sender is the one bound on chain, the
  deployer may run machines and the key type is supported.\<close>

theorem printed_extension_passes_the_checks:
  assumes honest: "honest_registry ch" and binds: "binds_senders ch senderOf"
    and run: "register_extension_main T ch af cf senderF w = (Inr out, w')"
    and stored: "env_text (tl_host T) path ''EXTENSION_ID'' = last out"
      "env_text (tl_host T) path ''INSTRUCTION_SENDER'' = senderF" "path \<noteq> []"
    and chain: "reads_chain ch senderOf w' reg al"
  shows "\<exists>ext. SetupExtension ch (HexToAddress (tl_host T) senderF) 0 w = (Inr ext, w') \<and> out = [extensionIDHex ext] \<and>
    extensionIDRegex (last out) \<and> int (hex_nat (drop 2 (last out))) = ext \<and>
    (\<forall>res \<in> set (registration_results (tl_host T) (EVMType ch) (Some client) (Some (su_Deployer ch)) (Some reg) (Some al) path).
       Status res \<noteq> FAIL)"
proof -
  from run obtain ext where made: "SetupExtension ch (HexToAddress (tl_host T) senderF) 0 w = (Inr ext, w')"
    and out: "out = [extensionIDHex ext]"
    by (auto simp: register_extension_main_def Let_def io_ok split: if_splits)
  note complete = setup_complete [OF honest binds made]
  have id: "extensionIDRegex (extensionIDHex ext)" "int (hex_nat (drop 2 (extensionIDHex ext))) = ext"
    using complete extensionIDHex_read by blast+
  have "\<not> (\<exists>res \<in> set (registration_results (tl_host T) (EVMType ch) (Some client) (Some (su_Deployer ch)) (Some reg) (Some al) path).
       Status res = FAIL)"
    using complete chain unfolding registration_failures [OF stored(3)] stored(1,2)
    by (simp add: out id reads_chain_def)
  with made out id show ?thesis by auto
qed

text \<open>A registry whose world also records the sender.\<close>

definition bound_setup :: "((bool \<times> bool \<times> bool) \<times> address, nat) setup_chain" where
  "bound_setup =
     \<lparr>su_Tx = \<lparr>TxHash = of_nat, TxHashHex = (\<lambda>h. ''0x''),
        WaitMined = (\<lambda>t w. (Inr \<lparr>rcpt_Status = 1, rcpt_TxHash = of_nat t, rcpt_BlockHash = 6, rcpt_BlockNumber = 5,
           rcpt_Logs = [''registered'', ''set'']\<rparr>, w)),
        TransactionByHash = (\<lambda>w h. Inl ''not found''), TxSender = (\<lambda>t. Inr 9),
        CallContract = (\<lambda>w t a. Inr []), UnpackRevert = (\<lambda>b. None)\<rparr>,
      su_Transactor = Inr (), su_Deployer = 9, EVMType = 3,
      SendRegisterExtension = (\<lambda>a b w. (Inr 1, (fst w, b))), ParseExtensionRegistered = (\<lambda>b. Inr 2),
      ParseContractsSet = (\<lambda>b. Inr ()), IsMachineOwner = (\<lambda>w e a. Inr (fst (fst w))),
      IsProjectOwner = (\<lambda>w e a. Inr (fst (snd (fst w)))),
      SendAddMachineOwners = (\<lambda>e os w. (Inr 2, ((True, snd (fst w)), snd w))),
      SendAddProjectOwners = (\<lambda>e os w. (Inr 3, ((fst (fst w), True, snd (snd (fst w))), snd w))),
      ParseMachineOwnersAdded = (\<lambda>b. Inr ()), ParseProjectOwnersAdded = (\<lambda>b. Inr ()),
      KeyTypeSupported = (\<lambda>w e k. Inr (snd (snd (fst w)))),
      SendAddKeyTypes = (\<lambda>e ks w. (Inr 4, ((fst (fst w), fst (snd (fst w)), True), snd w)))\<rparr>"

lemma bound_setup_mined: "CheckTx (su_Tx bound_setup) t w = (Inr r, w2) \<Longrightarrow> w2 = w"
  by (auto simp: bound_setup_def CheckTx_def)

lemma bound_setup_honest: "honest_registry bound_setup"
  unfolding honest_registry_def
  by (intro conjI allI impI; elim conjE; drule bound_setup_mined) (auto simp: bound_setup_def)

lemma bound_setup_binds: "binds_senders bound_setup (\<lambda>w e. Inr (snd w))"
  unfolding binds_senders_def kept_by_grants_def
  by (intro conjI allI impI; elim conjE disjE; drule bound_setup_mined) (auto simp: bound_setup_def)

definition stored_tool :: "'w tool_env" where
  "stored_tool = demo_tool\<lparr>tl_host := demo_host\<rparr>"

definition found_registry :: ext_registry where
  "found_registry =
     \<lparr>NextPublicExtensionId = Inr 3, InstructionsSender = (\<lambda>i. Inr 7), IsKeyTypeSupported = (\<lambda>i t. Inr True)\<rparr>"

theorem printed_extension_passes_the_checks_witness:
  "\<exists>out w'. register_extension_main stored_tool bound_setup [] [] (''0x'' @ replicate 39 (CHR ''0'') @ ''7'')
      ((False, False, False), 0) = (Inr out, w') \<and> extensionIDRegex (last out) \<and>
     (\<forall>res \<in> set (registration_results demo_host 3 (Some (tl_client (stored_tool :: unit tool_env) ())) (Some 9) (Some found_registry)
          (Some \<lparr>IsAllowedTeeMachineOwner = (\<lambda>i k. Inr True)\<rparr>) ''extension.env''). Status res \<noteq> FAIL)"
proof -
  let ?s = "''0x'' @ replicate 39 (CHR ''0'') @ ''7''" and ?al = "\<lparr>IsAllowedTeeMachineOwner = (\<lambda>i k. Inr True)\<rparr>"
  let ?m = "register_extension_main stored_tool bound_setup [] [] ?s ((False, False, False), 0)"
  have h: "tl_host (stored_tool :: ((bool \<times> bool \<times> bool) \<times> address) tool_env) = demo_host" by (simp add: stored_tool_def)
  have "hex_nat (drop 2 ?s) = 7" by code_simp
  then have seven: "HexToAddress demo_host ?s = 7" by (simp only: demo_host_def host.simps of_nat_numeral)
  obtain s where s: "tool_support (stored_tool :: ((bool \<times> bool \<times> bool) \<times> address) tool_env) [] [] = Inr s"
    using demo_tool_support by (auto simp: tool_support_def stored_tool_def)
  have printed: "extensionIDHex 2 = ''0x'' @ replicate 63 (CHR ''0'') @ ''2''" by code_simp
  have m: "?m = (Inr [extensionIDHex 2], ((True, True, True), 7))"
    unfolding register_extension_main_def Let_def s h seven
    by (simp add: io_simps AddressHasCode_def stored_tool_def demo_tool_def SetupExtension_def registerExtension_def
        grant_machine_def grant_project_def grant_key_def ensure_def allowTeeMachineOwners_def
        allowTeeProjectManagerOwners_def allow_owners_def AddSupportedKeyTypes_def addSupportedKeyTypesTx_def ExtensionSetup.IsKeyTypeSupported_def isKeyTypeSupportedCall_def
        CheckTx_def bound_setup_def)
  have chain: "reads_chain bound_setup (\<lambda>w e. Inr (snd w)) ((True, True, True), 7) found_registry ?al"
    by (simp add: reads_chain_def found_registry_def bound_setup_def)
  have stored: "env_text (tl_host (stored_tool :: ((bool \<times> bool \<times> bool) \<times> address) tool_env)) ''extension.env'' ''EXTENSION_ID'' =
      last [extensionIDHex 2]"
    "env_text (tl_host (stored_tool :: ((bool \<times> bool \<times> bool) \<times> address) tool_env)) ''extension.env'' ''INSTRUCTION_SENDER'' = ?s"
    by (simp_all only: h demo_env printed last.simps refl if_True)
  have "EVMType bound_setup = 3" "su_Deployer bound_setup = 9" by (simp_all add: bound_setup_def)
  with printed_extension_passes_the_checks [OF bound_setup_honest bound_setup_binds m stored _ chain,
      of "tl_client (stored_tool :: unit tool_env) ()"] m
  show ?thesis by (simp add: h del: split_paired_Ex)
qed

end
