(* ===== verification/CodecClaims.thy ===== *)
theory CodecClaims
  imports AegisTypes
begin

text \<open>
  What the payload codecs promise about the types of the values that cross the wire.
\<close>

section \<open>Well-typed payloads\<close>

definition uint256 :: "int option \<Rightarrow> bool" where
  "uint256 v \<longleftrightarrow> (\<exists>i. v = Some i \<and> 0 \<le> i \<and> i < 2 ^ 256)"

text \<open>Encoding, decoding what was encoded, and the range of whatever decodes.\<close>

lemma tuple_encoded:
  assumes "abi_tuple abi" and "encodeEvaluateTuple abi p v a = Inr bs"
  shows "uint256 v \<and> length bs = 96 \<and> decodeEvaluateTuple abi bs = Inr (p, the v, a)"
proof -
  from assms(2) abi_tuple.encode_ok_iff [OF assms(1), of p v a] obtain i
    where i: "v = Some i" "0 \<le> i" "i < 2 ^ 256" by auto
  with abi_tuple.encode_decode_tuple [OF assms(1) i(2,3), of p a] assms(2) show ?thesis
    by (auto simp: uint256_def)
qed

lemma request_decoded:
  assumes "DecodeEvaluateRequest abi bs = Inr r"
  shows "\<exists>v. ev_RainfallTenthsMm r = Some v \<and> decodeEvaluateTuple abi bs = Inr (ev_PolicyID r, v, ev_PayoutTo r)"
  using assms by (auto simp: DecodeEvaluateRequest_def split: sum.splits)

lemma response_decoded:
  assumes "DecodeEvaluateResponse abi bs = Inr r"
  shows "\<exists>v. er_PayoutAmount r = Some v \<and> decodeEvaluateTuple abi bs = Inr (er_PolicyID r, v, er_PayoutTo r)"
  using assms by (auto simp: DecodeEvaluateResponse_def split: sum.splits)

lemma decoded_uint256:
  assumes "abi_tuple abi" and "decodeEvaluateTuple abi bs = Inr (p, v, a)"
  shows "length bs = 96 \<and> uint256 (Some v)"
  using abi_tuple.decode_range [OF assms] by (simp add: uint256_def)

lemma tuple_accepts: "abi_tuple abi \<Longrightarrow> is_ok (encodeEvaluateTuple abi p v a) \<longleftrightarrow> uint256 v"
  by (simp add: abi_tuple.encode_ok_iff uint256_def)

text \<open>C14. The wire format is typed: a request or a response encodes exactly when its number is present
  and is a \<open>uint256\<close>, the encoding has 96 bytes and decodes to the value it was made from, and
  whatever decodes, from any bytes, has 96 bytes and carries a \<open>uint256\<close>; a REGISTER\_MODEL
  plaintext that decodes names a policy and carries a model whose sum insured is a positive
  \<open>uint256\<close>, whose dust floor is not negative and whose exit lies below its trigger.\<close>

theorem payloads_are_typed:
  assumes "abi_tuple abi"
  shows "(is_ok (EvaluateRequest_Encode abi q) \<longleftrightarrow> uint256 (ev_RainfallTenthsMm q)) \<and>
    (is_ok (EvaluateResponse_Encode abi s) \<longleftrightarrow> uint256 (er_PayoutAmount s)) \<and>
    (EvaluateRequest_Encode abi q = Inr bs \<longrightarrow> length bs = 96 \<and> DecodeEvaluateRequest abi bs = Inr q) \<and>
    (EvaluateResponse_Encode abi s = Inr bs \<longrightarrow> length bs = 96 \<and> DecodeEvaluateResponse abi bs = Inr s) \<and>
    (\<forall>r. DecodeEvaluateRequest abi bs = Inr r \<longrightarrow> length bs = 96 \<and> uint256 (ev_RainfallTenthsMm r)) \<and>
    (\<forall>r. DecodeEvaluateResponse abi bs = Inr r \<longrightarrow> length bs = 96 \<and> uint256 (er_PayoutAmount r)) \<and>
    (\<forall>r. DecodeRegisterModelRequest json bs = Inr r \<longrightarrow> rm_PolicyID r \<noteq> 0 \<and>
       uint256 (SumInsuredUnits (rm_Model r)) \<and> SumInsuredUnits (rm_Model r) \<noteq> Some 0 \<and>
       (\<exists>f. MinPayoutUnits (rm_Model r) = Some f \<and> 0 \<le> f) \<and>
       ExitTenthsMm (rm_Model r) < TriggerTenthsMm (rm_Model r))"
proof -
  note enc = EvaluateRequest_Encode_def EvaluateResponse_Encode_def
  have encq: "length bs = 96 \<and> DecodeEvaluateRequest abi bs = Inr q" if "EvaluateRequest_Encode abi q = Inr bs"
    using tuple_encoded [OF assms that [unfolded enc]] by (cases q) (auto simp: DecodeEvaluateRequest_def uint256_def)
  have encs: "length bs = 96 \<and> DecodeEvaluateResponse abi bs = Inr s" if "EvaluateResponse_Encode abi s = Inr bs"
    using tuple_encoded [OF assms that [unfolded enc]] by (cases s) (auto simp: DecodeEvaluateResponse_def uint256_def)
  have decq: "length bs = 96 \<and> uint256 (ev_RainfallTenthsMm r)" if "DecodeEvaluateRequest abi bs = Inr r" for r
    using request_decoded [OF that] decoded_uint256 [OF assms] by auto
  have decs: "length bs = 96 \<and> uint256 (er_PayoutAmount r)" if "DecodeEvaluateResponse abi bs = Inr r" for r
    using response_decoded [OF that] decoded_uint256 [OF assms] by auto
  have reg: "rm_PolicyID r \<noteq> 0 \<and> Validate (rm_Model r) = Inr ()" if "DecodeRegisterModelRequest json bs = Inr r" for r
    using that by (auto simp: DecodeRegisterModelRequest_def split: option.splits if_splits sum.splits)
  have "uint256 (SumInsuredUnits m) \<and> SumInsuredUnits m \<noteq> Some 0 \<and>
       (\<exists>f. MinPayoutUnits m = Some f \<and> 0 \<le> f) \<and> ExitTenthsMm m < TriggerTenthsMm m"
    if "Validate m = Inr ()" for m
    using that by (auto simp: Validate_ok_iff uint256_def)
  with encq encs decq decs reg show ?thesis by (simp add: enc tuple_accepts [OF assms])
qed

theorem payloads_are_typed_witness:
  "is_ok (EvaluateRequest_Encode solidity_abi \<lparr>ev_PolicyID = 7, ev_RainfallTenthsMm = Some (2 ^ 256 - 1), ev_PayoutTo = 9\<rparr>) \<and>
   \<not> is_ok (EvaluateRequest_Encode solidity_abi \<lparr>ev_PolicyID = 7, ev_RainfallTenthsMm = Some (2 ^ 256), ev_PayoutTo = 9\<rparr>) \<and>
   \<not> is_ok (EvaluateResponse_Encode solidity_abi \<lparr>er_PolicyID = 7, er_PayoutAmount = None, er_PayoutTo = 9\<rparr>)"
  using payloads_are_typed [OF sol_abi.abi_tuple_axioms,
      of "\<lparr>ev_PolicyID = 7, ev_RainfallTenthsMm = Some (2 ^ 256 - 1), ev_PayoutTo = 9\<rparr>"
         "\<lparr>er_PolicyID = 7, er_PayoutAmount = None, er_PayoutTo = 9\<rparr>" "[]" "\<lambda>_. None"]
    payloads_are_typed [OF sol_abi.abi_tuple_axioms,
      of "\<lparr>ev_PolicyID = 7, ev_RainfallTenthsMm = Some (2 ^ 256), ev_PayoutTo = 9\<rparr>"
         "\<lparr>er_PolicyID = 7, er_PayoutAmount = None, er_PayoutTo = 9\<rparr>" "[]" "\<lambda>_. None"]
  by (simp add: uint256_def)

section \<open>Trailing data\<close>

text \<open>A valid registration followed by a closing bracket or brace and any bytes is accepted: the check for
  trailing data does not see what follows a closing delimiter.\<close>

theorem trailing_bracket_is_accepted:
  assumes "rm_PolicyID r \<noteq> 0" and "Validate (rm_Model r) = Inr ()" and "c = CHR '']'' \<or> c = CHR ''}''"
  shows "DecodeRegisterModelRequest hex_hash_json (json_object (register_members hex_hash_text r) @ c # junk) = Inr r"
proof -
  have "\<not> decoder_More (c # junk)"
    using assms(3) by (auto simp: decoder_More_def json_space_def)
  with assms(1,2) show ?thesis by (simp add: hex_hash.decode_register)
qed

end
