(* ===== verification/GoFlag.thy ===== *)
theory GoFlag
  imports GoLib
begin

text \<open>
  Package \<open>flag\<close>, as far as the commands use it: a flag set of string, boolean and \<open>int64\<close> flags, parsed with
  \<open>ExitOnError\<close>.  A flag set maps the names that were defined to their current values.  What is printed
  on an error is left out; the error itself is a value.
\<close>

section \<open>Flag values\<close>

datatype flag_value = FlagString string | FlagBool bool | FlagInt64 int

type_synonym flags = "string \<Rightarrow> flag_value option"

definition ParseBool :: "string \<Rightarrow> bool option" where
  "ParseBool s =
     (if s \<in> set [''1'', ''t'', ''T'', ''true'', ''TRUE'', ''True''] then Some True
      else if s \<in> set [''0'', ''f'', ''F'', ''false'', ''FALSE'', ''False''] then Some False
      else None)"

text \<open>\<open>strconv.ParseInt(s, 0, 64)\<close>: a sign, a base prefix, digits of the base, and underscores, each of them
  behind a digit or the prefix and before a digit.\<close>

definition digit_val :: "char \<Rightarrow> nat option" where
  "digit_val c =
     (let n = (of_char c :: nat)
      in if 48 \<le> n \<and> n \<le> 57 then Some (n - 48)
         else if 97 \<le> n \<and> n \<le> 122 then Some (n - 87)
         else if 65 \<le> n \<and> n \<le> 90 then Some (n - 55)
         else None)"

fun underscores_ok :: "bool \<Rightarrow> string \<Rightarrow> bool" where
  "underscores_ok behind [] = True"
| "underscores_ok behind (c # cs) =
     (if c = CHR ''_'' then behind \<and> cs \<noteq> [] \<and> underscores_ok False cs else underscores_ok True cs)"

definition base_digits :: "string \<Rightarrow> nat \<times> bool \<times> string" where
  "base_digits s =
     (if length s \<ge> 3 \<and> hd s = CHR ''0'' \<and> s ! 1 \<in> set ''bB'' then (2, True, drop 2 s)
      else if length s \<ge> 3 \<and> hd s = CHR ''0'' \<and> s ! 1 \<in> set ''oO'' then (8, True, drop 2 s)
      else if length s \<ge> 3 \<and> hd s = CHR ''0'' \<and> s ! 1 \<in> set ''xX'' then (16, True, drop 2 s)
      else if s \<noteq> [] \<and> hd s = CHR ''0'' then (8, False, s)
      else (10, False, s))"

definition ParseInt0 :: "string \<Rightarrow> int option" where
  "ParseInt0 s =
     (let neg = (s \<noteq> [] \<and> hd s = CHR ''-'');
          u = (if s \<noteq> [] \<and> hd s \<in> set ''+-'' then tl s else s)
      in case base_digits u of
           (base, prefixed, body) \<Rightarrow>
             let ds = map digit_val (filter (\<lambda>c. c \<noteq> CHR ''_'') body);
                 v = int (foldl (\<lambda>a d. base * a + the d) 0 ds)
             in if u = [] \<or> \<not> list_all (\<lambda>d. d \<noteq> None \<and> the d < base) ds \<or> \<not> underscores_ok prefixed body then None
                else if neg then (if v \<le> 2 ^ 63 then Some (- v) else None)
                else (if v < 2 ^ 63 then Some v else None))"

fun flag_Set :: "flag_value \<Rightarrow> string \<Rightarrow> flag_value option" where
  "flag_Set (FlagString _) v = Some (FlagString v)"
| "flag_Set (FlagBool _) v = map_option FlagBool (ParseBool v)"
| "flag_Set (FlagInt64 _) v = map_option FlagInt64 (ParseInt0 v)"

fun is_bool_flag :: "flag_value \<Rightarrow> bool" where
  "is_bool_flag (FlagBool _) = True"
| "is_bool_flag _ = False"

definition string_flag :: "flags \<Rightarrow> string \<Rightarrow> string" where
  "string_flag fs name = (case fs name of Some (FlagString s) \<Rightarrow> s | _ \<Rightarrow> [])"

definition bool_flag :: "flags \<Rightarrow> string \<Rightarrow> bool" where
  "bool_flag fs name = (case fs name of Some (FlagBool b) \<Rightarrow> b | _ \<Rightarrow> False)"

definition int_flag :: "flags \<Rightarrow> string \<Rightarrow> int" where
  "int_flag fs name = (case fs name of Some (FlagInt64 i) \<Rightarrow> i | _ \<Rightarrow> 0)"

section \<open>Parsing\<close>

datatype flag_error = BadSyntax string | Undefined string | MissingValue string | InvalidValue string string

datatype flag_step =
    FlagSeen flags "string list" | FlagsEnd "string list" | FlagHelp | FlagError flag_error

definition cut_equals :: "string \<Rightarrow> string \<times> string option" where
  "cut_equals name =
     (takeWhile (\<lambda>c. c \<noteq> CHR ''='') name,
      case dropWhile (\<lambda>c. c \<noteq> CHR ''='') name of [] \<Rightarrow> None | _ # v \<Rightarrow> Some v)"

definition set_flag :: "flags \<Rightarrow> string \<Rightarrow> flag_value \<Rightarrow> string \<Rightarrow> string list \<Rightarrow> flag_step" where
  "set_flag fs name old v args =
     (case flag_Set old v of
        None \<Rightarrow> FlagError (InvalidValue name v)
      | Some new \<Rightarrow> FlagSeen (fs(name \<mapsto> new)) args)"

definition flag_named :: "flags \<Rightarrow> string \<Rightarrow> string option \<Rightarrow> string list \<Rightarrow> flag_step" where
  "flag_named fs name value args =
     (case fs name of
        None \<Rightarrow> if name = ''help'' \<or> name = ''h'' then FlagHelp else FlagError (Undefined name)
      | Some old \<Rightarrow>
          (case value of
             Some v \<Rightarrow> set_flag fs name old v args
           | None \<Rightarrow>
               if is_bool_flag old then set_flag fs name old ''true'' args
               else (case args of
                       [] \<Rightarrow> FlagError (MissingValue name)
                     | v # rest \<Rightarrow> set_flag fs name old v rest)))"

definition parseOne :: "flags \<Rightarrow> string list \<Rightarrow> flag_step" where
  "parseOne fs args =
     (case args of
        [] \<Rightarrow> FlagsEnd []
      | s # rest \<Rightarrow>
          if length s < 2 \<or> hd s \<noteq> CHR ''-'' then FlagsEnd args
          else if s = ''--'' then FlagsEnd rest
          else
            let name = (if s ! 1 = CHR ''-'' then drop 2 s else drop 1 s)
            in if name = [] \<or> hd name = CHR ''-'' \<or> hd name = CHR ''='' then FlagError (BadSyntax s)
               else (case cut_equals name of (n, v) \<Rightarrow> flag_named fs n v rest))"

lemma flag_named_shorter: "flag_named fs n v args = FlagSeen fs' args' \<Longrightarrow> length args' \<le> length args"
  by (auto simp: flag_named_def set_flag_def split: option.splits if_splits list.splits)

lemma parseOne_shorter: "parseOne fs args = FlagSeen fs' args' \<Longrightarrow> length args' < length args"
  by (auto simp: parseOne_def Let_def split: list.splits if_splits prod.splits dest!: flag_named_shorter)

datatype flag_result = Parsed flags "string list" | HelpAsked | Rejected flag_error

function flag_Parse :: "flags \<Rightarrow> string list \<Rightarrow> flag_result" where
  "flag_Parse fs args =
     (case parseOne fs args of
        FlagSeen fs' args' \<Rightarrow> flag_Parse fs' args'
      | FlagsEnd rest \<Rightarrow> Parsed fs rest
      | FlagHelp \<Rightarrow> HelpAsked
      | FlagError e \<Rightarrow> Rejected e)"
  by pat_completeness auto
termination
  by (relation "measure (\<lambda>(fs, args). length args)") (auto dest: parseOne_shorter)

declare flag_Parse.simps [simp del]

section \<open>What parsing keeps\<close>

text \<open>The names stay those defined, each with a value of its kind.\<close>

datatype flag_kind = StringKind | BoolKind | Int64Kind

fun kind_of :: "flag_value \<Rightarrow> flag_kind" where
  "kind_of (FlagString _) = StringKind"
| "kind_of (FlagBool _) = BoolKind"
| "kind_of (FlagInt64 _) = Int64Kind"

definition flag_kinds :: "flags \<Rightarrow> string \<Rightarrow> flag_kind option" where
  "flag_kinds fs = (\<lambda>n. map_option kind_of (fs n))"

lemma flag_Set_kind: "flag_Set old v = Some new \<Longrightarrow> kind_of new = kind_of old"
  by (cases old) auto

lemma set_flag_kinds:
  assumes "fs n = Some old" and "set_flag fs n old v args = FlagSeen fs' args'"
  shows "flag_kinds fs' = flag_kinds fs"
proof -
  obtain new where "flag_Set old v = Some new" "fs' = fs(n \<mapsto> new)"
    using assms(2) by (auto simp: set_flag_def split: option.splits)
  with flag_Set_kind [OF this(1)] assms(1) show ?thesis by (auto simp: flag_kinds_def)
qed

lemma flag_named_kinds: "flag_named fs n v args = FlagSeen fs' args' \<Longrightarrow> flag_kinds fs' = flag_kinds fs"
  by (auto simp: flag_named_def split: option.splits if_splits list.splits dest: set_flag_kinds)

lemma parseOne_kinds: "parseOne fs args = FlagSeen fs' args' \<Longrightarrow> flag_kinds fs' = flag_kinds fs"
  by (auto simp: parseOne_def Let_def split: list.splits if_splits prod.splits dest: flag_named_kinds)

lemma flag_Parse_kinds: "flag_Parse fs args = Parsed fs' rest \<Longrightarrow> flag_kinds fs' = flag_kinds fs"
proof (induction fs args rule: flag_Parse.induct)
  case (1 fs args)
  show ?case
  proof (cases "parseOne fs args")
    case (FlagSeen gs rest')
    with "1.prems" have "flag_Parse gs rest' = Parsed fs' rest" by (simp add: flag_Parse.simps [of fs args])
    with "1.IH" FlagSeen parseOne_kinds [OF FlagSeen] show ?thesis by simp
  qed (use "1.prems" in \<open>simp_all add: flag_Parse.simps [of fs args]\<close>)
qed

section \<open>Rendered flags read back\<close>

definition flag_name_ok :: "string \<Rightarrow> bool" where
  "flag_name_ok n \<longleftrightarrow> n \<noteq> [] \<and> CHR ''='' \<notin> set n \<and> hd n \<noteq> CHR ''-''"

definition render_flag :: "string \<times> string \<Rightarrow> string" where
  "render_flag nv = ''--'' @ fst nv @ ''='' @ snd nv"

lemma cut_equals_render: "CHR ''='' \<notin> set n \<Longrightarrow> cut_equals (n @ CHR ''='' # v) = (n, Some v)"
  by (induction n) (auto simp: cut_equals_def)

lemma parseOne_render:
  assumes "flag_name_ok n" and "fs n = Some old"
  shows "parseOne fs (render_flag (n, v) # rest) = set_flag fs n old v rest"
proof -
  obtain c cs where n: "n = c # cs" "c \<noteq> CHR ''-''" "c \<noteq> CHR ''=''" "CHR ''='' \<notin> set n"
    using assms(1) by (cases n) (auto simp: flag_name_ok_def)
  with assms(2) show ?thesis
    using cut_equals_render [of n v]
    by (simp add: parseOne_def render_flag_def flag_named_def)
qed

fun assign_flags :: "flags \<Rightarrow> (string \<times> string) list \<Rightarrow> flags option" where
  "assign_flags fs [] = Some fs"
| "assign_flags fs ((n, v) # nvs) =
     (case fs n of
        None \<Rightarrow> None
      | Some old \<Rightarrow> (case flag_Set old v of None \<Rightarrow> None | Some new \<Rightarrow> assign_flags (fs(n \<mapsto> new)) nvs))"

lemma flag_Parse_rendered:
  assumes "list_all (\<lambda>(n, v). flag_name_ok n) nvs" and "assign_flags fs nvs = Some fs'"
  shows "flag_Parse fs (map render_flag nvs @ rest) = flag_Parse fs' rest"
  using assms
proof (induction nvs arbitrary: fs)
  case (Cons nv nvs)
  obtain n v where nv: "nv = (n, v)" by (cases nv)
  from Cons.prems nv obtain old new where
    "fs n = Some old" "flag_Set old v = Some new" "assign_flags (fs(n \<mapsto> new)) nvs = Some fs'" "flag_name_ok n"
    by (auto split: option.splits)
  with Cons.IH Cons.prems(1) nv show ?case
    by (subst flag_Parse.simps) (simp add: parseOne_render set_flag_def)
qed simp

end
