(* ===== verification/AegisMain.thy ===== *)
theory AegisMain
  imports AegisClaims GoFlag
begin

text \<open>
  The \<open>aegis\<close> program from its command line to its exit status: the dispatch of \<open>main.go\<close>, the flags
  each command defines (\<open>config.go\<close> and the five \<open>cmd_*.go\<close>) and their parsing.  The arguments are
  those behind the program's name.  What is printed is left out.
\<close>

section \<open>The flags of the commands\<close>

definition addCommonFlags :: "bool \<Rightarrow> flags" where
  "addCommonFlags withPolicy =
     (if withPolicy then [''policy'' \<mapsto> FlagString defaultPolicyName] else Map.empty)
       (''chain-url'' \<mapsto> FlagString [], ''proxy'' \<mapsto> FlagString [], ''state-url'' \<mapsto> FlagString defaultStateURL,
        ''state-file'' \<mapsto> FlagString [], ''payout-to'' \<mapsto> FlagString defaultPayoutTo,
        ''instruction-sender'' \<mapsto> FlagString [], ''settlement'' \<mapsto> FlagString [])"

definition common_flags :: "flags \<Rightarrow> commonFlags" where
  "common_flags fs =
     \<lparr>cf_policy = string_flag fs ''policy'', cf_chainURL = string_flag fs ''chain-url'',
      cf_proxyURL = string_flag fs ''proxy'', cf_stateURL = string_flag fs ''state-url'',
      cf_stateFile = string_flag fs ''state-file'', cf_payoutTo = string_flag fs ''payout-to'',
      cf_instrSend = string_flag fs ''instruction-sender'', cf_settlement = string_flag fs ''settlement''\<rparr>"

definition register_flags :: flags where
  "register_flags =
     (addCommonFlags True)(''model-file'' \<mapsto> FlagString [], ''new'' \<mapsto> FlagBool False, ''web-config'' \<mapsto> FlagString [])"

definition reregister_flags :: flags where
  "reregister_flags =
     (addCommonFlags False)(''models-dir'' \<mapsto> FlagString defaultModelsDir, ''web-config'' \<mapsto> FlagString defaultWebPolicies,
        ''dry-run'' \<mapsto> FlagBool False)"

definition status_flags :: flags where
  "status_flags = (addCommonFlags True)(''all'' \<mapsto> FlagBool False)"

definition evaluate_flags :: flags where
  "evaluate_flags = addCommonFlags True"

definition reveal_flags :: flags where
  "reveal_flags = addCommonFlags False"

lemma common_flags_defaults: "common_flags (addCommonFlags p) = default_flags p"
  by (simp add: common_flags_def addCommonFlags_def default_flags_def string_flag_def)

section \<open>The program\<close>

datatype aegis_command = RegisterModel | ReregisterAll | EvaluateCmd | Reveal | StatusCmd | Help | Unknown

definition parse_command :: "string \<Rightarrow> aegis_command" where
  "parse_command name =
     (if name = ''register-model'' then RegisterModel
      else if name = ''reregister-all'' then ReregisterAll
      else if name = ''evaluate'' then EvaluateCmd
      else if name = ''reveal'' then Reveal
      else if name = ''status'' then StatusCmd
      else if name \<in> set [''help'', ''-h'', ''--help''] then Help
      else Unknown)"

definition command_flags :: "aegis_command \<Rightarrow> flags" where
  "command_flags c =
     (case c of
        RegisterModel \<Rightarrow> register_flags
      | ReregisterAll \<Rightarrow> reregister_flags
      | EvaluateCmd \<Rightarrow> evaluate_flags
      | StatusCmd \<Rightarrow> status_flags
      | _ \<Rightarrow> reveal_flags)"

definition discard :: "('w, 'a) pio \<Rightarrow> ('w, unit) pio" where
  "discard m = pio_bind m (\<lambda>_. total (io_ret ()))"

definition run_command ::
    "('c, 'tx, 'ty) aegis_env \<Rightarrow> aegis_command \<Rightarrow> flags \<Rightarrow> ('c cli_world, unit) pio" where
  "run_command E c fs =
     (case c of
        RegisterModel \<Rightarrow>
          discard (runRegisterModel E (common_flags fs) (string_flag fs ''model-file'') (bool_flag fs ''new'')
                     (string_flag fs ''web-config''))
      | ReregisterAll \<Rightarrow>
          discard (runReregisterAll E (common_flags fs) (string_flag fs ''models-dir'') (string_flag fs ''web-config'')
                     (bool_flag fs ''dry-run''))
      | EvaluateCmd \<Rightarrow> discard (runEvaluate E (common_flags fs))
      | Reveal \<Rightarrow> discard (net (runReveal E (common_flags fs)))
      | StatusCmd \<Rightarrow> discard (total (runStatus E (common_flags fs) (bool_flag fs ''all'')))
      | _ \<Rightarrow> total (io_ret ()))"

text \<open>\<open>fail\<close> exits with 1, a rejected flag with 2, a flag that asks for help with 0.\<close>

definition aegis_exit :: "('w, unit) pio \<Rightarrow> 'w \<Rightarrow> (nat \<times> 'w) option" where
  "aegis_exit m w = map_option (\<lambda>(r, w'). (if is_ok r then 0 else 1, w')) (m w)"

definition aegis_main ::
    "('c, 'tx, 'ty) aegis_env \<Rightarrow> string list \<Rightarrow> 'c cli_world \<Rightarrow> (nat \<times> 'c cli_world) option" where
  "aegis_main E argv w =
     (case argv of
        [] \<Rightarrow> Some (2, w)
      | name # args \<Rightarrow>
          (case parse_command name of
             Help \<Rightarrow> Some (0, w)
           | Unknown \<Rightarrow> Some (2, w)
           | c \<Rightarrow>
               (case flag_Parse (command_flags c) args of
                  HelpAsked \<Rightarrow> Some (0, w)
                | Rejected e \<Rightarrow> Some (2, w)
                | Parsed fs rest \<Rightarrow> aegis_exit (run_command E c fs) w)))"

section \<open>The exit status\<close>

definition asks_help :: "string list \<Rightarrow> bool" where
  "asks_help argv \<longleftrightarrow>
     (case argv of
        [] \<Rightarrow> False
      | name # args \<Rightarrow>
          parse_command name = Help \<or>
          parse_command name \<noteq> Unknown \<and> flag_Parse (command_flags (parse_command name)) args = HelpAsked)"

definition usage_error :: "string list \<Rightarrow> bool" where
  "usage_error argv \<longleftrightarrow>
     (case argv of
        [] \<Rightarrow> True
      | name # args \<Rightarrow>
          parse_command name = Unknown \<or>
          parse_command name \<noteq> Help \<and>
          (case flag_Parse (command_flags (parse_command name)) args of Rejected _ \<Rightarrow> True | _ \<Rightarrow> False))"

lemma run_command_returns:
  assumes "fair_env E"
  shows "run_command E c fs w \<noteq> None"
proof -
  note ret = commands_return [OF assms]
  have "total_pio (runRegisterModel E flags mf forceNew web)" "total_pio (runEvaluate E flags)"
    "total_pio (runReregisterAll E flags dir web dry)" for flags mf forceNew web dir dry
    using ret unfolding total_pio_def by blast+
  moreover have "total_pio (total m)" for m :: "('a cli_world, 'b) io"
    by (simp add: total_pio_def total_def)
  ultimately have "total_pio (run_command E c fs)"
    by (cases c) (auto simp: run_command_def discard_def intro!: total_pio_bind)
  then show ?thesis by (auto simp: total_pio_def)
qed

text \<open>C17. The \<open>aegis\<close> program always exits, whatever its arguments and however the chain, the enclave and
  the data providers answer, provided deadlines come nearer while it waits: with 2 exactly when no
  command or an unknown one is given or a flag is rejected, with 0 when help is asked for, in both
  cases before anything was read or changed, and otherwise with 0 or 1 as the command succeeded or not.\<close>

theorem aegis_always_exits:
  assumes "fair_env E"
  shows "\<exists>code w'. aegis_main E argv w = Some (code, w') \<and> code \<in> {0, 1, 2} \<and>
     (code = 2 \<longleftrightarrow> usage_error argv) \<and> (usage_error argv \<or> asks_help argv \<longrightarrow> w' = w) \<and>
     (asks_help argv \<longrightarrow> code = 0) \<and>
     (\<not> usage_error argv \<and> \<not> asks_help argv \<longrightarrow>
        (\<exists>fs rest r. flag_Parse (command_flags (parse_command (hd argv))) (tl argv) = Parsed fs rest \<and>
           run_command E (parse_command (hd argv)) fs w = Some (r, w') \<and> (code = 0 \<longleftrightarrow> is_ok r)))"
proof (cases argv)
  case (Cons name args)
  have ran: "\<exists>r w'. run_command E c fs w = Some (r, w')" for c fs
    using run_command_returns [OF assms, of c fs w] by auto
  show ?thesis
  proof (cases "parse_command name \<in> {Help, Unknown}")
    case True
    with Cons show ?thesis by (auto simp: aegis_main_def asks_help_def usage_error_def)
  next
    case False
    then have main: "aegis_main E argv w =
        (case flag_Parse (command_flags (parse_command name)) args of
           HelpAsked \<Rightarrow> Some (0, w) | Rejected e \<Rightarrow> Some (2, w)
         | Parsed fs rest \<Rightarrow> aegis_exit (run_command E (parse_command name) fs) w)"
      using Cons by (cases "parse_command name") (auto simp: aegis_main_def split: flag_result.split)
    show ?thesis
    proof (cases "flag_Parse (command_flags (parse_command name)) args")
      case (Parsed fs rest)
      with ran [of "parse_command name" fs] obtain r w' where r: "run_command E (parse_command name) fs w = Some (r, w')" by blast
      with Parsed main False Cons show ?thesis
        by (intro exI [of _ "if is_ok r then 0 else 1"] exI [of _ w'])
          (auto simp: aegis_exit_def asks_help_def usage_error_def)
    qed (use main False Cons in \<open>auto simp: asks_help_def usage_error_def\<close>)
  qed
qed (simp add: aegis_main_def asks_help_def usage_error_def)

theorem aegis_always_exits_witness:
  "(\<exists>code w'. aegis_main demo_env [''evaluate'', ''-policy'', ''drought-surabaya''] (demo_at Map.empty 17) = Some (code, w') \<and>
      code \<in> {0, 1, 2}) \<and>
   aegis_main demo_env [''evaluate'', ''--dry-run''] (demo_at Map.empty 17) = Some (2, demo_at Map.empty 17)"
proof -
  have "fair_env demo_env"
    by (simp add: fair_env_def fair_proxy_def fair_clock_def demo_env_parts)
      (intro conjI exI [of _ "\<lambda>w. 0 :: nat"] exI [of _ "\<lambda>w. w :: nat"], auto simp: demo_fdc_def)
  note exits = aegis_always_exits [OF this]
  have "usage_error [''evaluate'', ''--dry-run'']"
    by (simp add: usage_error_def parse_command_def command_flags_def evaluate_flags_def addCommonFlags_def flag_Parse.simps parseOne_def
        cut_equals_def flag_named_def)
  then have "aegis_main demo_env [''evaluate'', ''--dry-run''] (demo_at Map.empty 17) = Some (2, demo_at Map.empty 17)"
    using exits [of "[''evaluate'', ''--dry-run'']" "demo_at Map.empty 17"] by (elim exE conjE) simp
  moreover from exits [of "[''evaluate'', ''-policy'', ''drought-surabaya'']" "demo_at Map.empty 17"]
  have "\<exists>code w'. aegis_main demo_env [''evaluate'', ''-policy'', ''drought-surabaya''] (demo_at Map.empty 17) = Some (code, w') \<and>
      code \<in> {0, 1, 2}"
    by (elim exE conjE) (intro exI conjI)
  ultimately show ?thesis by simp
qed

section \<open>The command line reads back\<close>

definition common_args :: "bool \<Rightarrow> commonFlags \<Rightarrow> (string \<times> string) list" where
  "common_args withPolicy c =
     (if withPolicy then [(''policy'', cf_policy c)] else []) @
     [(''chain-url'', cf_chainURL c), (''proxy'', cf_proxyURL c), (''state-url'', cf_stateURL c),
      (''state-file'', cf_stateFile c), (''payout-to'', cf_payoutTo c), (''instruction-sender'', cf_instrSend c),
      (''settlement'', cf_settlement c)]"

definition bool_text :: "bool \<Rightarrow> string" where
  "bool_text b = (if b then ''true'' else ''false'')"

lemma ParseBool_text [simp]: "ParseBool (bool_text b) = Some b"
  by (simp add: ParseBool_def bool_text_def)

lemma assign_flags_append:
  "assign_flags fs (xs @ ys) = (case assign_flags fs xs of None \<Rightarrow> None | Some gs \<Rightarrow> assign_flags gs ys)"
  by (induction fs xs rule: assign_flags.induct) (auto simp del: fun_upd_apply split: option.split)

lemma flag_Parse_all:
  assumes "list_all (\<lambda>(n, v). flag_name_ok n) nvs" and "assign_flags fs nvs = Some fs'"
  shows "flag_Parse fs (map render_flag nvs) = Parsed fs' []"
  using flag_Parse_rendered [OF assms, of "[]"] by (simp add: flag_Parse.simps parseOne_def)

text \<open>The flags after the common ones were assigned, given that they are all defined as strings.\<close>

definition with_common :: "bool \<Rightarrow> commonFlags \<Rightarrow> flags \<Rightarrow> flags" where
  "with_common withPolicy c fs =
     (if withPolicy then fs(''policy'' \<mapsto> FlagString (cf_policy c)) else fs)
       (''chain-url'' \<mapsto> FlagString (cf_chainURL c), ''proxy'' \<mapsto> FlagString (cf_proxyURL c),
        ''state-url'' \<mapsto> FlagString (cf_stateURL c), ''state-file'' \<mapsto> FlagString (cf_stateFile c),
        ''payout-to'' \<mapsto> FlagString (cf_payoutTo c), ''instruction-sender'' \<mapsto> FlagString (cf_instrSend c),
        ''settlement'' \<mapsto> FlagString (cf_settlement c))"

lemma common_args_ok: "list_all (\<lambda>(n, v). flag_name_ok n) (common_args p c)"
  by (simp add: common_args_def flag_name_ok_def)

lemma assign_common:
  assumes "\<And>n. n \<in> fst ` set (common_args p c) \<Longrightarrow> flag_kinds fs n = Some StringKind"
  shows "assign_flags fs (common_args p c) = Some (with_common p c fs)"
proof -
  have str: "\<exists>s. fs n = Some (FlagString s)" if "n \<in> fst ` set (common_args p c)" for n
    using assms [OF that] by (auto simp: flag_kinds_def elim!: kind_of.elims)
  show ?thesis
    using str [of "''policy''"] str [of "''chain-url''"] str [of "''proxy''"] str [of "''state-url''"]
      str [of "''state-file''"] str [of "''payout-to''"] str [of "''instruction-sender''"] str [of "''settlement''"]
    by (cases p) (auto simp: common_args_def with_common_def)
qed

lemma common_of_with [simp]: "common_flags (with_common True c fs) = c"
  by (simp add: common_flags_def with_common_def string_flag_def)

lemma common_of_without: "fs ''policy'' = None \<Longrightarrow> common_flags (with_common False c fs) = c\<lparr>cf_policy := []\<rparr>"
  by (simp add: common_flags_def with_common_def string_flag_def)

lemma with_common_twice [simp]: "with_common p c (with_common p d fs) = with_common p c fs"
  by (rule ext) (simp add: with_common_def)

lemma aegis_main_rendered:
  assumes "parse_command name = c" "c \<noteq> Help" "c \<noteq> Unknown"
    and "list_all (\<lambda>(n, v). flag_name_ok n) nvs" and "assign_flags (command_flags c) nvs = Some fs"
  shows "aegis_main E (name # map render_flag nvs) w = aegis_exit (run_command E c fs) w"
  using flag_Parse_all [OF assms(4,5)] assms(1-3) by (cases c) (auto simp: aegis_main_def)

lemma assign_command_common:
  "assign_flags (addCommonFlags p) (common_args p c) = Some (with_common p c (addCommonFlags p))"
  "assign_flags register_flags (common_args True c) = Some (with_common True c register_flags)"
  "assign_flags reregister_flags (common_args False c) = Some (with_common False c reregister_flags)"
  "assign_flags status_flags (common_args True c) = Some (with_common True c status_flags)"
  "assign_flags (with_common p d fs) (common_args p c) = Some (with_common p c fs)"
      by (subst assign_common; auto simp: flag_kinds_def common_args_def addCommonFlags_def register_flags_def
        reregister_flags_def status_flags_def with_common_def fun_eq_iff split: if_splits)+

text \<open>C40. Every choice of settings can be given on the command line and reaches its command unchanged: the
  common flags written as \<open>--name=value\<close>, whatever their values, run \<open>evaluate\<close> and \<open>reveal\<close> with
  exactly those settings, a flag given twice counts with its last value, and \<open>register-model\<close>,
  \<open>reregister-all\<close> and \<open>status\<close> get their own flags as well.\<close>

theorem command_line_reads_back:
  "aegis_main E (''evaluate'' # map render_flag (common_args True d @ common_args True c)) w =
     aegis_exit (discard (runEvaluate E c)) w \<and>
   aegis_main E (''reveal'' # map render_flag (common_args False c)) w =
     aegis_exit (discard (net (runReveal E (c\<lparr>cf_policy := []\<rparr>)))) w \<and>
   aegis_main E (''status'' # map render_flag (common_args True c @ [(''all'', bool_text b)])) w =
     aegis_exit (discard (total (runStatus E c b))) w \<and>
   aegis_main E (''register-model'' # map render_flag (common_args True c @
       [(''model-file'', mf), (''new'', bool_text b), (''web-config'', wc)])) w =
     aegis_exit (discard (runRegisterModel E c mf b wc)) w \<and>
   aegis_main E (''reregister-all'' # map render_flag (common_args False c @
       [(''models-dir'', md), (''web-config'', wc), (''dry-run'', bool_text b)])) w =
     aegis_exit (discard (runReregisterAll E (c\<lparr>cf_policy := []\<rparr>) md wc b)) w"
proof (intro conjI)
  note eval = common_args_ok evaluate_flags_def reveal_flags_def assign_flags_append assign_command_common command_flags_def run_command_def
  have ok: "parse_command ''evaluate'' = EvaluateCmd" "parse_command ''reveal'' = Reveal" "parse_command ''status'' = StatusCmd"
    "parse_command ''register-model'' = RegisterModel" "parse_command ''reregister-all'' = ReregisterAll"
    by (simp_all add: parse_command_def)
  have own: "flag_name_ok ''all''" "flag_name_ok ''model-file''" "flag_name_ok ''new''" "flag_name_ok ''web-config''"
    "flag_name_ok ''models-dir''" "flag_name_ok ''dry-run''"
    by (simp_all add: flag_name_ok_def)
  show "aegis_main E (''evaluate'' # map render_flag (common_args True d @ common_args True c)) w =
     aegis_exit (discard (runEvaluate E c)) w"
    by (subst aegis_main_rendered [OF ok(1)]) (auto simp: eval)
  show "aegis_main E (''reveal'' # map render_flag (common_args False c)) w =
     aegis_exit (discard (net (runReveal E (c\<lparr>cf_policy := []\<rparr>)))) w"
    using common_of_without [of "addCommonFlags False" c]
    by (subst aegis_main_rendered [OF ok(2)]) (auto simp: eval addCommonFlags_def [of False, THEN fun_cong])
  let ?s = "with_common True c status_flags"
  have "assign_flags ?s [(''all'', bool_text b)] = Some (?s(''all'' \<mapsto> FlagBool b))"
    by (simp add: status_flags_def with_common_def)
  then show "aegis_main E (''status'' # map render_flag (common_args True c @ [(''all'', bool_text b)])) w =
     aegis_exit (discard (total (runStatus E c b))) w"
    using common_of_with [of c status_flags]
    by (subst aegis_main_rendered [OF ok(3)]) (auto simp: eval own common_flags_def string_flag_def bool_flag_def)
  let ?r = "with_common True c register_flags"
  have "assign_flags ?r [(''model-file'', mf), (''new'', bool_text b), (''web-config'', wc)] =
      Some (?r(''model-file'' \<mapsto> FlagString mf, ''new'' \<mapsto> FlagBool b, ''web-config'' \<mapsto> FlagString wc))"
    by (simp add: register_flags_def with_common_def)
  then show "aegis_main E (''register-model'' # map render_flag (common_args True c @
       [(''model-file'', mf), (''new'', bool_text b), (''web-config'', wc)])) w =
     aegis_exit (discard (runRegisterModel E c mf b wc)) w"
    using common_of_with [of c register_flags]
    by (subst aegis_main_rendered [OF ok(4)]) (auto simp: eval own common_flags_def string_flag_def bool_flag_def)
  let ?a = "with_common False c reregister_flags"
  have "assign_flags ?a [(''models-dir'', md), (''web-config'', wc), (''dry-run'', bool_text b)] =
      Some (?a(''models-dir'' \<mapsto> FlagString md, ''web-config'' \<mapsto> FlagString wc, ''dry-run'' \<mapsto> FlagBool b))"
    by (simp add: reregister_flags_def addCommonFlags_def with_common_def)
  moreover have "common_flags ?a = c\<lparr>cf_policy := []\<rparr>"
    by (rule common_of_without) (simp add: reregister_flags_def addCommonFlags_def)
  ultimately show "aegis_main E (''reregister-all'' # map render_flag (common_args False c @
       [(''models-dir'', md), (''web-config'', wc), (''dry-run'', bool_text b)])) w =
     aegis_exit (discard (runReregisterAll E (c\<lparr>cf_policy := []\<rparr>) md wc b)) w"
    by (subst aegis_main_rendered [OF ok(5)]) (auto simp: eval own common_flags_def string_flag_def bool_flag_def)
qed

end
