(* ===== verification/ProofWait.thy ===== *)
theory ProofWait
  imports AegisCommands
begin

text \<open>
  \<open>waitForProof\<close> of \<open>cmd/aegis/cmd_evaluate.go\<close> as it runs: a goroutine asks for the proof and leaves its
  outcome in a channel with room for one, while the command selects between that channel and a
  ticker that prints progress.  The lemmas show that all interleavings come to what the function
  \<open>waitForProof\<close> of the commands says.
\<close>

record 'r waiting =
  wt_ended :: bool
  wt_done :: "'r option"
  wt_ticks :: nat
  wt_returned :: "'r option"

definition wait_start :: "'r waiting" where
  "wait_start = \<lparr>wt_ended = False, wt_done = None, wt_ticks = 0, wt_returned = None\<rparr>"

text \<open>\<open>answer\<close> is what the goroutine's call comes to, \<open>None\<close> when it does not return.\<close>

inductive wait_step :: "'r option \<Rightarrow> 'r waiting \<Rightarrow> 'r waiting \<Rightarrow> bool" for answer where
  goroutine_ends: "answer = Some r \<Longrightarrow> \<not> wt_ended s \<Longrightarrow>
     wait_step answer s (s\<lparr>wt_ended := True, wt_done := Some r\<rparr>)"
| tick: "wt_returned s = None \<Longrightarrow> wait_step answer s (s\<lparr>wt_ticks := Suc (wt_ticks s)\<rparr>)"
| receive: "wt_returned s = None \<Longrightarrow> wt_done s = Some r \<Longrightarrow>
     wait_step answer s (s\<lparr>wt_done := None, wt_returned := Some r\<rparr>)"

inductive_cases wait_stepE: "wait_step answer s t"

definition wait_ok :: "'r option \<Rightarrow> 'r waiting \<Rightarrow> bool" where
  "wait_ok answer s \<longleftrightarrow>
     (\<forall>r. wt_done s = Some r \<or> wt_returned s = Some r \<longrightarrow> answer = Some r) \<and>
     (wt_ended s \<longrightarrow> wt_done s \<noteq> None \<or> wt_returned s \<noteq> None) \<and>
     (\<not> wt_ended s \<longrightarrow> wt_done s = None \<and> wt_returned s = None)"

lemma wait_ok_start: "wait_ok answer wait_start"
  by (simp add: wait_ok_def wait_start_def)

lemma wait_ok_step: "wait_step answer s t \<Longrightarrow> wait_ok answer s \<Longrightarrow> wait_ok answer t"
  by (erule wait_stepE) (auto simp: wait_ok_def)

lemma wait_ok_reachable: "(wait_step answer)\<^sup>*\<^sup>* wait_start s \<Longrightarrow> wait_ok answer s"
  by (induction rule: rtranclp_induct) (auto intro: wait_ok_start wait_ok_step)

text \<open>Whatever was printed in between, the command can still return, and only with the answer.\<close>

lemma wait_can_return:
  assumes "wait_ok (Some r) s"
  shows "\<exists>t. (wait_step (Some r))\<^sup>*\<^sup>* s t \<and> wt_returned t = Some r"
proof (cases "wt_returned s")
  case None
  obtain u where u: "(wait_step (Some r))\<^sup>*\<^sup>* s u" "wt_done u = Some r" "wt_returned u = None"
  proof (cases "wt_ended s")
    case True
    with assms None have "wt_done s = Some r" by (auto simp: wait_ok_def)
    with None that [of s] show ?thesis by simp
  next
    case False
    with goroutine_ends [of "Some r" r s] that [of "s\<lparr>wt_ended := True, wt_done := Some r\<rparr>"] None
    show ?thesis by auto
  qed
  from receive [of u r "Some r", OF u(3,2)] u(1) show ?thesis
    by (intro exI [of _ "u\<lparr>wt_done := None, wt_returned := Some r\<rparr>"]) auto
next
  case (Some r')
  with assms show ?thesis by (auto simp: wait_ok_def)
qed

theorem wait_for_proof_interleaved:
  assumes run: "(wait_step (waitForProof E c rnd request w))\<^sup>*\<^sup>* wait_start s"
  shows "(\<forall>r. wt_returned s = Some r \<longrightarrow> waitForProof E c rnd request w = Some r) \<and>
    (\<forall>r. waitForProof E c rnd request w = Some r \<longrightarrow>
       (\<exists>t. (wait_step (waitForProof E c rnd request w))\<^sup>*\<^sup>* s t \<and> wt_returned t = Some r))"
proof -
  note ok = wait_ok_reachable [OF run]
  then show ?thesis using wait_can_return [of _ s] by (auto simp: wait_ok_def)
qed

end
