(* ===== verification/ToolFlags.thy ===== *)
theory ToolFlags
  imports DeployTools PoolTools Diagnostics Bridges VerifyDeploy Servers RunTest GoFlag
begin

text \<open>
  The flags of the tools under \<open>go/tools/cmd\<close> beside \<open>aegis\<close>: each \<open>main\<close> defines them, parses the command
  line with \<open>flag.Parse\<close>, which ends the process on an error or when help is asked for, and goes on with
  their values.  Each \<open>_cli\<close> definition is a whole tool, from its arguments to the action it performs;
  some defaults are taken from the environment the process started with.
\<close>

section \<open>Parsing and going on\<close>

datatype 'r cli = CliExit nat | CliRun 'r

definition with_flags :: "flags \<Rightarrow> (flags \<Rightarrow> string list \<Rightarrow> 'r) \<Rightarrow> string list \<Rightarrow> 'r cli" where
  "with_flags formals main args =
     (case flag_Parse formals args of
        HelpAsked \<Rightarrow> CliExit 0
      | Rejected e \<Rightarrow> CliExit 2
      | Parsed fs rest \<Rightarrow> CliRun (main fs rest))"

text \<open>Two flags most tools share.\<close>

definition chain_flags :: flags where
  "chain_flags = [''a'' \<mapsto> FlagString AddressesFile, ''c'' \<mapsto> FlagString ChainNodeURL]"

section \<open>The tools\<close>

definition deploy_contract_flags :: flags where
  "deploy_contract_flags = chain_flags(''o'' \<mapsto> FlagString [], ''preflight-only'' \<mapsto> FlagBool False)"

definition deploy_contract_cli ::
    "'w tool_env \<Rightarrow> ('w, 'tx, 'body, 'proof) sender_lib \<Rightarrow>
     string list \<Rightarrow> ('w cli_world, string list) io cli" where
  "deploy_contract_cli T lib = with_flags deploy_contract_flags (\<lambda>fs rest.
     deploy_contract_main T lib (string_flag fs ''a'') (string_flag fs ''c'') (string_flag fs ''o'') (bool_flag fs ''preflight-only''))"

definition register_extension_flags :: flags where
  "register_extension_flags = chain_flags(''instructionSender'' \<mapsto> FlagString [], ''governanceHash'' \<mapsto> FlagString [])"

text \<open>The governance hash goes no further.\<close>

definition register_extension_cli ::
    "'w tool_env \<Rightarrow> ('w, 'tx) setup_chain \<Rightarrow>
     string list \<Rightarrow> ('w, string list) io cli" where
  "register_extension_cli T ch = with_flags register_extension_flags (\<lambda>fs rest.
     register_extension_main T ch (string_flag fs ''a'') (string_flag fs ''c'') (string_flag fs ''instructionSender''))"

definition set_governance_flags :: flags where
  "set_governance_flags = chain_flags(''p'' \<mapsto> FlagString ExtensionProxyURL)"

definition set_governance_cli ::
    "'w tool_env \<Rightarrow> 'w tee_http \<Rightarrow> tee_crypto \<Rightarrow> (address \<Rightarrow> ('w, 'tx) governance_chain) \<Rightarrow>
     string list \<Rightarrow> ('w, unit) io cli" where
  "set_governance_cli T http cr chain_of = with_flags set_governance_flags (\<lambda>fs rest.
     set_governance_main T http cr chain_of (string_flag fs ''a'') (string_flag fs ''c'') (string_flag fs ''p''))"

definition allow_tee_version_flags :: flags where
  "allow_tee_version_flags =
     chain_flags(''p'' \<mapsto> FlagString ExtensionProxyURL, ''version'' \<mapsto> FlagString ''v0.1.0'')"

definition allow_tee_version_cli ::
    "'w tool_env \<Rightarrow> 'w tee_http \<Rightarrow> tee_crypto \<Rightarrow> sig_lib \<Rightarrow> ('w, 'tx) machine_chain \<Rightarrow>
     ('w \<Rightarrow> int \<Rightarrow> hash \<Rightarrow> hash \<Rightarrow> bool res) \<Rightarrow>
     string list \<Rightarrow> ('w, unit) io cli" where
  "allow_tee_version_cli T http cr sig ch isSupported = with_flags allow_tee_version_flags (\<lambda>fs rest.
     allow_tee_version_main T http cr sig ch isSupported (string_flag fs ''a'') (string_flag fs ''c'') (string_flag fs ''p'') (string_flag fs ''version''))"

definition register_tee_flags :: flags where
  "register_tee_flags =
     chain_flags(''p'' \<mapsto> FlagString ExtensionProxyURL, ''h'' \<mapsto> FlagString [], ''ep'' \<mapsto> FlagString ''http://localhost:6662'',
       ''i'' \<mapsto> FlagString [], ''command'' \<mapsto> FlagString ''rap'',
       ''state'' \<mapsto> FlagString ''../config/register-tee.state'', ''resume'' \<mapsto> FlagBool False)"

definition register_tee_cli ::
    "'c tool_env \<Rightarrow> ('c, 'tx) reg_env \<Rightarrow> tee_crypto \<Rightarrow> sig_lib \<Rightarrow> (hash \<Rightarrow> string) \<Rightarrow> (string \<Rightarrow> hash) \<Rightarrow>
     (string \<Rightarrow> bool) \<Rightarrow>
     string list \<Rightarrow> ('c World, unit) io cli" where
  "register_tee_cli T R cr sig hashText hexToHash removable = with_flags register_tee_flags (\<lambda>fs rest.
     register_tee_main T R cr sig hashText hexToHash removable (string_flag fs ''a'') (string_flag fs ''c'') (string_flag fs ''p'') (string_flag fs ''h'')
       (string_flag fs ''ep'') (string_flag fs ''i'') (string_flag fs ''command'') (string_flag fs ''state'')
       (bool_flag fs ''resume''))"

definition deploy_settlement_flags :: "env \<Rightarrow> flags" where
  "deploy_settlement_flags getenv =
     chain_flags(''instructionSender'' \<mapsto> FlagString (getenv ''INSTRUCTION_SENDER''),
       ''fxrp'' \<mapsto> FlagString (getenv ''FXRP_ADDRESS''), ''o'' \<mapsto> FlagString [])"

definition deploy_settlement_cli ::
    "'w tool_env \<Rightarrow> ('w, 'tx) settle_chain \<Rightarrow> ('w, 'tx) token_lib \<Rightarrow> ('w \<Rightarrow> address \<Rightarrow> int res) \<Rightarrow>
     string list \<Rightarrow> ('w cli_world, string list) io cli" where
  "deploy_settlement_cli T chain tk extensionIdOf = with_flags (deploy_settlement_flags (tl_getenv T)) (\<lambda>fs rest.
     deploy_settlement_main T chain tk extensionIdOf (string_flag fs ''a'') (string_flag fs ''c'') (string_flag fs ''instructionSender'') (string_flag fs ''fxrp'')
       (string_flag fs ''o''))"

definition fund_pool_flags :: "env \<Rightarrow> flags" where
  "fund_pool_flags getenv =
     chain_flags(''executor'' \<mapsto> FlagString (getenv ''FXRP_PAYOUT_EXECUTOR''),
       ''fxrp'' \<mapsto> FlagString (getenv ''FXRP_ADDRESS''), ''amount'' \<mapsto> FlagString [])"

definition fund_pool_cli ::
    "'w tool_env \<Rightarrow> ('w, 'tx) token_lib \<Rightarrow> unit res \<Rightarrow> ('w \<Rightarrow> bool \<times> 'w) \<Rightarrow>
     string list \<Rightarrow> ('w, (int \<times> int) list) pio cli" where
  "fund_pool_cli T tk transactor expired = with_flags (fund_pool_flags (tl_getenv T)) (\<lambda>fs rest.
     fund_pool_main T tk transactor expired (string_flag fs ''a'') (string_flag fs ''c'') (string_flag fs ''executor'') (string_flag fs ''fxrp'')
       (string_flag fs ''amount''))"

definition check_tee_state_flags :: "env \<Rightarrow> flags" where
  "check_tee_state_flags getenv =
     chain_flags(''p'' \<mapsto> FlagString ExtensionProxyURL, ''instructionSender'' \<mapsto> FlagString (getenv ''INSTRUCTION_SENDER''))"

definition check_tee_state_cli ::
    "'w tool_env \<Rightarrow> 'w tee_http \<Rightarrow> tee_crypto \<Rightarrow> sig_lib \<Rightarrow> ('w \<Rightarrow> address \<Rightarrow> bytes res) \<Rightarrow> ('w \<Rightarrow> machine_view) \<Rightarrow>
     ((int \<times> string) list \<Rightarrow> (int \<times> string) list) \<Rightarrow>
     string list \<Rightarrow> ('w, unit res \<times> string list) io cli" where
  "check_tee_state_cli T http cr sig slot0 view order = with_flags (check_tee_state_flags (tl_getenv T)) (\<lambda>fs rest.
     check_tee_state_main T http cr sig slot0 view order (string_flag fs ''a'') (string_flag fs ''c'') (string_flag fs ''p'') (string_flag fs ''instructionSender''))"

definition run_test_flags :: "env \<Rightarrow> flags" where
  "run_test_flags getenv =
     chain_flags(''p'' \<mapsto> FlagString ExtensionProxyURL, ''instructionSender'' \<mapsto> FlagString (getenv ''INSTRUCTION_SENDER''),
       ''settlement'' \<mapsto> FlagString (getenv ''POLICY_SETTLEMENT''))"

definition run_test_cli ::
    "('c, 'tx, 'ty) test_env \<Rightarrow>
     string list \<Rightarrow> ('c, unit) pio cli" where
  "run_test_cli T = with_flags (run_test_flags (ae_getenv (te_env T))) (\<lambda>fs rest.
     run_test_main T (string_flag fs ''a'') (string_flag fs ''c'') (string_flag fs ''p'') (string_flag fs ''instructionSender'')
       (string_flag fs ''settlement''))"

definition verify_deploy_flags :: flags where
  "verify_deploy_flags =
     chain_flags(''config'' \<mapsto> FlagString [], ''step'' \<mapsto> FlagString ''all'', ''checks'' \<mapsto> FlagString [], ''json'' \<mapsto> FlagBool False)"

definition printed :: "bool \<Rightarrow> verify_outcome \<Rightarrow> (string + jsonReport) option" where
  "printed json outcome =
     (case outcome of
        Printed r failures \<Rightarrow> Some (if json then Inr (FprintJSON r) else Inl (Fprint r))
      | _ \<Rightarrow> None)"

definition verify_deploy_cli ::
    "host \<Rightarrow> hash \<Rightarrow> (string \<Rightarrow> string \<Rightarrow> support_view res) \<Rightarrow> string list \<Rightarrow>
     ((string + jsonReport) option \<times> nat) cli" where
  "verify_deploy_cli h evmType support = with_flags verify_deploy_flags (\<lambda>fs rest.
     let outcome = verify_deploy_main h evmType (support (string_flag fs ''a'') (string_flag fs ''c''))
           (string_flag fs ''step'') (string_flag fs ''config'') (string_flag fs ''checks'')
     in (printed (bool_flag fs ''json'') outcome, exit_status outcome))"

definition query_tee_flags :: flags where
  "query_tee_flags =
     [''rpc'' \<mapsto> FlagString ''https://coston2-api.flare.network/ext/C/rpc'',
      ''reg'' \<mapsto> FlagString ''0x5918Cd58e5caf755b8584649Aa24077822F87613'', ''ext'' \<mapsto> FlagInt64 (- 1)]"

text \<open>The arguments behind the flags are the machines to look up.\<close>

definition query_tee_cli ::
    "host \<Rightarrow> (string \<Rightarrow> unit res) \<Rightarrow> (address \<Rightarrow> machine_view res) \<Rightarrow> string list \<Rightarrow> unit printing cli" where
  "query_tee_cli h dial bind_machines = with_flags query_tee_flags (\<lambda>fs rest.
     query_tee_main h (dial (string_flag fs ''rpc'')) bind_machines (string_flag fs ''reg'') (int_flag fs ''ext'') rest)"

definition audit_deploy_flags :: flags where
  "audit_deploy_flags =
     [''a'' \<mapsto> FlagString ''./config/coston/deployed-addresses.json'',
      ''rpc'' \<mapsto> FlagString ''https://coston-api.flare.network/ext/C/rpc'', ''ext'' \<mapsto> FlagInt64 (- 1),
      ''codeHash'' \<mapsto> FlagString [], ''platform'' \<mapsto> FlagString [],
      ''from'' \<mapsto> FlagString ''0xDa50A19aF65655785ab1F4c6a5b0592AFC497C88'', ''version'' \<mapsto> FlagString ''v0.1.0'']"

definition audit_deploy_cli ::
    "host \<Rightarrow> support_lib \<Rightarrow> (string \<Rightarrow> eth_client res) \<Rightarrow> int res \<Rightarrow> facet_view res \<Rightarrow> diag_lib \<Rightarrow>
     (string \<Rightarrow> hash) \<Rightarrow> (address \<Rightarrow> bytes \<Rightarrow> rpc_error option) \<Rightarrow> string list \<Rightarrow> unit printing cli" where
  "audit_deploy_cli h lib dial blockNumber facet D hexToHash call = with_flags audit_deploy_flags (\<lambda>fs rest.
     audit_deploy_main h lib (dial (string_flag fs ''rpc'')) blockNumber facet D hexToHash
       (call (HexToAddress h (string_flag fs ''from''))) (string_flag fs ''a'')
       \<lparr>au_ext = int_flag fs ''ext'', au_codeHash = string_flag fs ''codeHash'', au_platform = string_flag fs ''platform'',
        au_version = string_flag fs ''version''\<rparr>)"

definition result_bridge_flags :: flags where
  "result_bridge_flags = [''listen'' \<mapsto> FlagString '':7704'', ''upstream'' \<mapsto> FlagString ''http://ext-proxy:6664'']"

definition state_bridge_flags :: flags where
  "state_bridge_flags =
     [''listen'' \<mapsto> FlagString '':7703'', ''upstream'' \<mapsto> FlagString ''http://extension-tee:7702/state'']"

definition bridge_cli :: "flags \<Rightarrow> (string \<Rightarrow> 'h) \<Rightarrow> string list \<Rightarrow> (string \<times> 'h) cli" where
  "bridge_cli formals handler =
     with_flags formals (\<lambda>fs rest. (string_flag fs ''listen'', handler (string_flag fs ''upstream'')))"

definition result_bridge_cli where
  "result_bridge_cli lib = bridge_cli result_bridge_flags (result_bridge lib)"

definition state_bridge_cli where
  "state_bridge_cli lib = bridge_cli state_bridge_flags (state_bridge lib)"

definition start_tee_flags :: flags where
  "start_tee_flags = [''extensionID'' \<mapsto> FlagString []]"

definition start_tee_cli ::
    "support_lib \<Rightarrow> host \<Rightarrow> (string \<Rightarrow> env \<Rightarrow> env res) \<Rightarrow> string \<Rightarrow> string option \<Rightarrow> 'w tee_http \<Rightarrow> env \<Rightarrow>
     string list \<Rightarrow> ('w, env) io cli" where
  "start_tee_cli lib h load rootEnv early http getenv = with_flags start_tee_flags (\<lambda>fs rest.
     start_tee_main lib h load rootEnv early http (string_flag fs ''extensionID'') getenv)"

section \<open>What the parsing comes to\<close>

text \<open>A run never loses a flag: what is rendered is read back, and nothing else changes.\<close>

lemma with_flags_rendered:
  assumes "list_all (\<lambda>(n, v). flag_name_ok n) nvs" and "assign_flags formals nvs = Some fs"
    and "rest = [] \<or> length (hd rest) < 2 \<or> hd (hd rest) \<noteq> CHR ''-''"
  shows "with_flags formals main (map render_flag nvs @ rest) = CliRun (main fs rest)"
proof -
  have "parseOne fs rest = FlagsEnd rest" using assms(3) by (cases rest) (auto simp: parseOne_def)
  then show ?thesis
    using flag_Parse_rendered [OF assms(1,2), of rest] by (simp add: with_flags_def flag_Parse.simps)
qed

text \<open>A tool started on no flag runs on its defaults; on a flag it does not define it exits with 2.\<close>

lemma with_flags_none: "with_flags formals main [] = CliRun (main formals [])"
  using with_flags_rendered [of "[]" formals formals "[]" main] by simp

lemma with_flags_undefined:
  assumes "flag_name_ok n" and "formals n = None" and "n \<noteq> ''help''" and "n \<noteq> ''h''"
  shows "with_flags formals main (render_flag (n, v) # rest) = CliExit 2"
proof -
  obtain c cs where n: "n = c # cs" "c \<noteq> CHR ''-''" "c \<noteq> CHR ''=''" "CHR ''='' \<notin> set n"
    using assms(1) by (cases n) (auto simp: flag_name_ok_def)
  with assms have "parseOne formals (render_flag (n, v) # rest) = FlagError (Undefined n)"
    using cut_equals_render [of n v] by (simp add: parseOne_def render_flag_def flag_named_def)
  then show ?thesis by (simp add: with_flags_def flag_Parse.simps)
qed

text \<open>\<open>register-tee\<close> has a flag of its own for the host, so \<open>-h\<close> takes a value there and is no cry for help.\<close>

lemma register_tee_h_is_the_host:
  "register_tee_cli T R cr sig hashText hexToHash removable [''-h'', url] =
     CliRun (register_tee_main T R cr sig hashText hexToHash removable AddressesFile ChainNodeURL ExtensionProxyURL url ''http://localhost:6662'' [] ''rap''
               ''../config/register-tee.state'' False)"
proof -
  have "parseOne register_tee_flags [''-h'', url] = FlagSeen (register_tee_flags(''h'' \<mapsto> FlagString url)) []"
    by (simp add: parseOne_def cut_equals_def flag_named_def set_flag_def register_tee_flags_def chain_flags_def)
  then show ?thesis
    by (simp add: register_tee_cli_def with_flags_def flag_Parse.simps parseOne_def [of _ "[]"])
      (simp add: register_tee_flags_def chain_flags_def string_flag_def bool_flag_def)
qed

end
