(* ===== verification/Spec2Isabelle.thy ===== *)
theory Spec2Isabelle
  imports ExtensionClaims VerifyDeploy PayoutClaims Registration AegisClaims ExtensionSetup Bridges RunTestClaims
    OpsClaims SetupClaims CodecClaims AegisMain ProofWait ToolFlags
begin

text \<open>
  Aegis is a confidential underwriting engine for parametric drought insurance: an insurer seals the
  parameters of a policy's model into an enclave, the Flare Data Connector attests the rain that fell,
  the enclave scores the reading, and a contract pays on the enclave's signature.  This library
  models the Go code of the repository: the enclave extension under \<open>go/\<close> and the operator's tools
  under \<open>go/tools\<close>.  The contracts, the TEE node, the proxy and the web demo are outside.

  \<^bold>\<open>How the parts interact.\<close>  The TEE node forwards instructions to the extension
  (\<open>go/internal/extension\<close>), which stores models and answers EVALUATE requests with a result the
  node signs.  The \<open>aegis\<close> commands bind a policy to its weather feed, seal and send its model, have
  the weather attested (\<open>pkg/fdc\<close>), send the proof as an instruction (\<open>pkg/utils\<close>), wait for the signed
  result (\<open>pkg/fccutils\<close>), check it and settle it (\<open>pkg/payout\<close>).  The other commands deploy the
  contracts, register extension and machine, fund the pool, verify a deployment and diagnose it;
  \<open>run-test\<close> plays all of it end to end, and two small bridges let a browser read a result and the state.

  \<^bold>\<open>Theories and the code they model.\<close>
  \<^item> \<open>Prelude\<close>, \<open>GoLib\<close>, \<open>GoJson\<close>, \<open>JsonDecode\<close>, \<open>GoFlag\<close>, \<open>Polling\<close>: Go values, error results, state
    passing, the parts of the Go standard library in use, JSON text and its decoder (a scanner with a bounded
    stack, then a struct filled field by field), command-line flags, and the polling loop (\<open>partial_function\<close>; not returning is \<open>None\<close>).
  \<^item> \<open>Config\<close> (\<open>go/internal/config\<close>), \<open>AegisTypes\<close> (\<open>go/pkg/types\<close>), \<open>Payouts\<close> and \<open>Extension\<close>
    (\<open>go/internal/extension\<close>).  The record \<open>Extension\<close> is the Go struct: sign port and map of models.
    \<open>ExtensionProps\<close> holds its invariant and store laws, \<open>ExtensionConc\<close> the goroutines as a step
    relation in which each handler touches the map in one critical section, \<open>ExtensionClaims\<close> and
    \<open>CodecClaims\<close> the properties.
  \<^item> \<open>Support\<close> (\<open>pkg/support\<close>, \<open>pkg/configs\<close>), \<open>Report\<close>, \<open>Checks\<close>, \<open>ChecksProps\<close> (\<open>pkg/validate\<close>),
    \<open>VerifyDeploy\<close> (\<open>cmd/verify-deploy\<close>).
  \<^item> \<open>Payout\<close>, \<open>PayoutClaims\<close> (\<open>pkg/payout\<close>); \<open>Revert\<close>, \<open>TeeCalls\<close>, \<open>Registration\<close>, \<open>ExtensionSetup\<close>
    (\<open>pkg/fccutils\<close>); \<open>Instructions\<close> (\<open>pkg/utils\<close>); \<open>Fdc\<close>, \<open>FdcProps\<close> (\<open>pkg/fdc\<close>).  Registration is a
    resumable state machine whose world is the state file beside the rest; its letters are the code's.
  \<^item> \<open>AegisPolicy\<close>, \<open>AegisPolicyProps\<close>, \<open>AegisConfig\<close>, \<open>AegisCommands\<close>, \<open>ProofWait\<close>, \<open>AegisClaims\<close>, \<open>AegisMain\<close>
    (\<open>cmd/aegis\<close>): the state file, the settings, the five commands, and the program from its arguments to its exit status; the world of a command is a disk beside the network.
  \<^item> \<open>Bridges\<close> (\<open>cmd/state-bridge\<close>, \<open>cmd/result-bridge\<close>); \<open>RunTest\<close>, \<open>RunTestClaims\<close> (\<open>cmd/run-test\<close>).
  \<^item> \<open>DeployTools\<close> (\<open>deploy-contract\<close>, \<open>register-extension\<close>, \<open>set-governance\<close>, \<open>allow-tee-version\<close>,
    \<open>register-tee\<close>, \<open>deploy-settlement\<close>), \<open>PoolTools\<close> (\<open>fund-pool\<close>), \<open>Diagnostics\<close> (\<open>check-tee-state\<close>,
    \<open>audit-deploy\<close>, \<open>query-tee\<close>, \<open>fccutils/diag.go\<close>), \<open>Servers\<close> (\<open>go/cmd\<close>, \<open>go/pkg/server\<close>, \<open>start-tee\<close>,
    \<open>start-proxy\<close>), \<open>ToolFlags\<close> (each tool from its arguments on), and \<open>OpsClaims\<close> and \<open>SetupClaims\<close> with their properties.
  \<^item> This theory holds the properties that span them: from a registration to the payment, and from the
    operator's model file to the enclave's store.

  \<^bold>\<open>Interfaces.\<close>  \<open>keyed_store\<close> (the enclave's models, the policies of the state file), \<open>abi_tuple\<close> (the
  tuple codec, interpreted on the encoding of the Solidity specification), \<open>json_hash\<close> (the JSON text of a
  hash, interpreted on its hexadecimal text), \<open>polling\<close> (waiting for a proof,
  a result, a balance), \<open>appender\<close> (groups of checks), \<open>resumable_step\<close> (the steps of a registration),
  \<open>granting\<close> (the grants of the extension setup); each is interpreted on the code's definitions.

  \<^bold>\<open>What the lemmas show.\<close>  Scoring equals the ramp over the reals, rounded down, capped and cut
  at the dust floor.  Every reachable enclave holds only valid models, concurrent requests are equivalent
  to some order of them, and registrations answer without revealing anything.  A decision
  is settled only when it verifies and the money moved as decided.  Waiting ends when the deadline
  comes nearer.  Files, payloads and command lines read back, steps already recorded are not repeated, checks pass exactly
  when the deployment is sound, and commands refuse before they spend and always exit.

  \<^bold>\<open>Parameters and hypotheses.\<close>  Code of other modules is an argument: the go-ethereum packages, the
  generated bindings, the HTTP and chain clients, JSON of third-party types and of the state files, ECIES, signature recovery, the clock.
  What a property needs of it is a named hypothesis (\<open>standard_bytes\<close>: the byte-to-hash conversions;
  \<open>signs_for\<close>: the node's signature recovers the node; \<open>wires_executor\<close>: a mined setPayoutExecutor sets
  the executor; \<open>fair_env\<close>: deadlines come nearer) and has a witness on concrete functions.

  \<^bold>\<open>Bounds and fuel.\<close>  A TEE node is asked \<open>repeats\<close> = 15 times and an attestation is tried
  \<open>proofAttempts\<close> = 3 times, as in the code.  The unbounded loops use no fuel: they are
  \<open>poll\<close>, and that they return is proved from a deadline.  Go's \<open>uint64\<close>, \<open>uint32\<close>, \<open>uint8\<close>, addresses
  and hashes are words of their width; \<open>big.Int\<close> is \<open>int\<close>.

  \<^bold>\<open>Not modelled.\<close>  Usage and progress text, terminal colours, the directories \<open>os.MkdirAll\<close>
  makes (that it fails is an error branch of the file writes), generated contract bindings, the third-party servers that
  \<open>go/cmd/docker\<close>, \<open>start-tee\<close> and \<open>start-proxy\<close> start in goroutines, abi type construction at
  initialisation, the wrappers of \<open>encoding.go\<close> around third-party encoders, and the stack trace printer.
\<close>

section \<open>From the registration to the payment\<close>

text \<open>The enclave's answer to an EVALUATE request, in any state whose models are valid.\<close>

lemma evaluation_answer:
  assumes "abi_tuple (Abi lib)" and "models_wf e"
    and "ToHash lib OPCommandRegisterModel \<noteq> ToHash lib OPCommandEvaluate"
    and "ParseDataFixed lib (ad_Message (act_Data a)) = Inr df"
    and "df_OPType df = ToHash lib OPTypePolicy" and "df_OPCommand df = ToHash lib OPCommandEvaluate"
    and "DecodeEvaluateRequest (Abi lib) (df_OriginalMessage df) =
           Inr \<lparr>ev_PolicyID = p, ev_RainfallTenthsMm = Some r, ev_PayoutTo = to\<rparr>"
    and "fmlookup (models e) p = Some m"
  shows "\<exists>ar. processAction lib nd e a = ((200, MarshalActionResult lib ar), e) \<and>
     ar_ID ar = ad_ID (act_Data a) \<and> ar_Status ar = 1 \<and> length (ar_Data ar) = 96 \<and>
     DecodeEvaluateResponse (Abi lib) (ar_Data ar) =
       Inr \<lparr>er_PolicyID = p, er_PayoutAmount = Some (payout_spec m r), er_PayoutTo = to\<rparr>"
proof -
  have "df_OriginalMessage df \<noteq> []"
    using assms(7) abi_tuple.decode_range [OF assms(1)]
    by (auto simp: DecodeEvaluateRequest_def split: sum.splits) fastforce
  from processEvaluate_scored [OF assms(1,2) this assms(7,8), of a] obtain bs where bs:
    "processEvaluate lib e a df = buildResult a df bs 1 []" "length bs = 96"
    "DecodeEvaluateResponse (Abi lib) bs =
       Inr \<lparr>er_PolicyID = p, er_PayoutAmount = Some (payout_spec m r), er_PayoutTo = to\<rparr>" by blast
  then show ?thesis
    using assms(3-6) by (intro exI [of _ "buildResult a df bs 1 []"]) (simp add: processAction_def processPolicy_def buildResult_def)
qed

text \<open>The relayer's reading of a result with a signature that recovers a machine.\<close>

lemma signed_result_decodes:
  assumes "standard_bytes lib" and "ar_Status ar = 1" and "length (ar_Data ar) = 96"
    and "RecoverTeeID lib c (Some ar) sig = Inr tee"
    and "DecodeEvaluateResponse solidity_abi (ar_Data ar) =
           Inr \<lparr>er_PolicyID = p, er_PayoutAmount = Some n, er_PayoutTo = to\<rparr>"
  shows "DecodeDecision lib c \<lparr>resp_Result = ar, resp_Signature = sig\<rparr> =
    Inr \<lparr>dec_PolicyID = p, dec_PayoutAmount = n, dec_PayoutTo = to, dec_InstructionID = ar_ID ar, dec_TeeID = tee\<rparr>"
proof -
  let ?resp = "\<lparr>resp_Result = ar, resp_Signature = sig\<rparr>"
  have "\<exists>d. DecodeDecision lib c ?resp = Inr d" using assms(2-4) by (simp add: DecodeDecision_def)
  then obtain d where d: "DecodeDecision lib c ?resp = Inr d" ..
  from DecodeDecision_is_response [OF assms(1) d] DecodeDecision_id [OF d] DecodeDecision_signer [OF d] assms(4,5)
  show ?thesis using d by (cases d) simp
qed

definition signs_for :: "sig_lib \<Rightarrow> uint64 \<Rightarrow> (ActionResult \<Rightarrow> bytes) \<Rightarrow> address \<Rightarrow> bool" where
  "signs_for lib c sign tee \<longleftrightarrow> (\<forall>ar. RecoverTeeID lib c (Some ar) (sign ar) = Inr tee)"

lemma signs_for_nonempty: "signs_for lib c sign tee \<Longrightarrow> sign ar \<noteq> []"
  by (auto simp: signs_for_def RecoverTeeID_def SignatureLength_def split: if_splits dest!: spec [of _ ar])

text \<open>C1. From the registration of a model to the transaction that pays: once any reachable enclave has
  accepted a model for a policy, an EVALUATE request for that policy is answered with a result
  that, signed by the machine, the relayer reads as exactly the payout the ramp prescribes for the
  reading and that model, to the recipient of the request; the command's own checks accept
  it; and a settlement of it that succeeds is one mined transaction that carries its data.\<close>

theorem registered_policy_pays_what_it_owes:
  assumes abi: "Abi lib = solidity_abi" and env: "ae_abi E = solidity_abi" "standard_bytes (ae_sig E)"
    and signed: "signs_for (ae_sig E) (Uint64 (ae_chainID E)) sign tee"
    and ops: "ToHash lib OPCommandRegisterModel \<noteq> ToHash lib OPCommandEvaluate"
    and enclave: "served lib port e"
    and reg: "accepted_action lib nd port a = Some \<lparr>rm_PolicyID = p, rm_Model = m\<rparr>"
    and req: "ParseDataFixed lib (ad_Message (act_Data b)) = Inr df" "df_OPType df = ToHash lib OPTypePolicy"
      "df_OPCommand df = ToHash lib OPCommandEvaluate"
      "DecodeEvaluateRequest (Abi lib) (df_OriginalMessage df) =
         Inr \<lparr>ev_PolicyID = p, ev_RainfallTenthsMm = Some r, ev_PayoutTo = to\<rparr>"
    and flags: "record_id (ae_lib E) pol = p" "cfg_payoutTo cfg = to"
  shows "\<exists>e1 ar. snd (processAction lib nd e a) = e1 \<and>
     processAction lib nd' e1 b = ((200, MarshalActionResult lib ar), e1) \<and>
     DecodeDecision (ae_sig E) (Uint64 (ae_chainID E)) \<lparr>resp_Result = ar, resp_Signature = sign ar\<rparr> =
       Inr \<lparr>dec_PolicyID = p, dec_PayoutAmount = payout_spec m r, dec_PayoutTo = to,
            dec_InstructionID = ad_ID (act_Data b), dec_TeeID = tee\<rparr> \<and>
     check_decision E cfg pol \<lparr>resp_Result = ar, resp_Signature = sign ar\<rparr> =
       Inr \<lparr>er_PolicyID = p, er_PayoutAmount = Some (payout_spec m r), er_PayoutTo = to\<rparr> \<and>
     (\<forall>w txh w'. settle_io E cfg \<lparr>resp_Result = ar, resp_Signature = sign ar\<rparr> w = (Inr txh, w') \<longrightarrow>
        (\<exists>tx w1 rcpt. SendSettle (ae_chain E) (cfg_settlement cfg) (ad_ID (act_Data b)) 1 (ar_SubmissionTag ar) (ar_Data ar) (sign ar) w = (Inr tx, w1) \<and>
           WaitMined (Tx (ae_chain E)) tx w1 = (Inr rcpt, w') \<and> rcpt_Status rcpt \<noteq> 0 \<and> txh = rcpt_TxHash rcpt))"
proof -
  let ?e = "snd (processAction lib nd e a)"
  have stored: "fmlookup (models ?e) p = Some m"
    using reg served_port [OF enclave] by (simp add: processAction_state)
  have wf: "models_wf ?e" by (intro models_wf_processAction served_wf [OF enclave])
  have t: "abi_tuple (Abi lib)" unfolding abi by (rule sol_abi.abi_tuple_axioms)
  from evaluation_answer [OF t wf ops req stored] obtain ar where
    ar: "processAction lib nd' ?e b = ((200, MarshalActionResult lib ar), ?e)" "ar_ID ar = ad_ID (act_Data b)"
      "ar_Status ar = 1" "length (ar_Data ar) = 96"
      "DecodeEvaluateResponse solidity_abi (ar_Data ar) =
         Inr \<lparr>er_PolicyID = p, er_PayoutAmount = Some (payout_spec m r), er_PayoutTo = to\<rparr>"
    unfolding abi by blast
  from signed have sig: "RecoverTeeID (ae_sig E) (Uint64 (ae_chainID E)) (Some ar) (sign ar) = Inr tee" by (simp add: signs_for_def)
  note d = signed_result_decodes [OF env(2) ar(3,4) sig ar(5)]
  have "check_decision E cfg pol \<lparr>resp_Result = ar, resp_Signature = sign ar\<rparr> =
       Inr \<lparr>er_PolicyID = p, er_PayoutAmount = Some (payout_spec m r), er_PayoutTo = to\<rparr>"
    using ar env(1) flags signs_for_nonempty [OF signed] by (simp add: check_decision_ok)
  moreover have "\<exists>tx w1 rcpt. SendSettle (ae_chain E) (cfg_settlement cfg) (ad_ID (act_Data b)) 1 (ar_SubmissionTag ar) (ar_Data ar) (sign ar) w = (Inr tx, w1) \<and>
           WaitMined (Tx (ae_chain E)) tx w1 = (Inr rcpt, w') \<and> rcpt_Status rcpt \<noteq> 0 \<and> txh = rcpt_TxHash rcpt"
    if "settle_io E cfg \<lparr>resp_Result = ar, resp_Signature = sign ar\<rparr> w = (Inr txh, w')" for w txh w'
  proof -
    from that obtain dec where
      "Settle (ae_sig E) (ae_chain E) (ae_chainID E) (cfg_settlement cfg) (Some \<lparr>resp_Result = ar, resp_Signature = sign ar\<rparr>) w =
        ((txh, dec, None), w')"
      by (auto simp: settle_io_def split: prod.splits option.splits)
    from Settle_decided [OF d this] ar(2) show ?thesis by simp
  qed
  ultimately show ?thesis using ar(1,2) d by (intro exI [of _ ?e] exI [of _ ar]) simp
qed

theorem registered_policy_pays_what_it_owes_witness:
  "\<exists>e1 ar. snd (processAction demo_lib demo_node (New 7701) (demo_framed OPCommandRegisterModel ''x'')) = e1 \<and>
     processAction demo_lib demo_node e1 (demo_framed OPCommandEvaluate (tuple_bytes 7 800 0x1234)) =
       ((200, MarshalActionResult demo_lib ar), e1) \<and>
     DecodeDecision demo_sig 114 \<lparr>resp_Result = ar, resp_Signature = replicate 65 (CHR 0x01)\<rparr> =
       Inr \<lparr>dec_PolicyID = 7, dec_PayoutAmount = 450000, dec_PayoutTo = 0x1234, dec_InstructionID = 1, dec_TeeID = 65\<rparr>"
proof -
  have p: "payout_spec demo_model 800 = 450000"
    using Validate_demo evaluatePayout_meets_spec [of demo_model 800]
    by (simp add: evaluatePayout_def demo_model_def bps_def u64_def)
  have sig: "signs_for (ae_sig demo_env) (Uint64 (ae_chainID demo_env)) (\<lambda>_. replicate 65 (CHR 0x01)) 65"
    by (simp add: signs_for_def RecoverTeeID_def SignatureLength_def ActionResultSignHash_def demo_env_parts demo_sig_def)
  have std: "standard_bytes (ae_sig demo_env)" by (simp add: standard_bytes_def demo_env_parts demo_sig_def)
  have rec: "record_id (ae_lib demo_env) demo_record = 7" "cfg_payoutTo demo_settings = 0x1234"
    by (simp_all add: record_id_def demo_env_parts demo_settings_def)
  have u: "Uint64 (ae_chainID demo_env) = 114" "ae_sig demo_env = demo_sig" by (simp_all add: Uint64_def demo_env_parts)
  have id: "ad_ID (act_Data (demo_framed c x)) = 1" for c x by (simp add: demo_framed_def)
  have typed: "df_OPType \<lparr>df_OPType = ToHash demo_lib OPTypePolicy, df_OPCommand = ToHash demo_lib OPCommandEvaluate,
      df_OriginalMessage = tuple_bytes 7 800 0x1234\<rparr> = ToHash demo_lib OPTypePolicy" by simp
  have abi: "ae_abi demo_env = solidity_abi" by (simp add: demo_env_parts)
  note run = registered_policy_pays_what_it_owes [where nd' = demo_node and r = 800 and to = "0x1234",
      OF demo_abi abi std sig demo_commands_differ served_start demo_accepted [of "''x''"] Parse_demo_framed typed _ _ rec]
  show ?thesis using run [of 7701] demo_evaluate_decodes by (auto simp: u p id)
qed

section \<open>From the operator's model to the enclave's store\<close>

text \<open>C6. A model that \<open>register-model\<close> seals is the model the enclave keeps: when sealing and sending
  succeeded, the transaction carried a ciphertext in which no parameter can be read, and every
  enclave that gets it, from a node that decrypts what was sealed to its key, decodes from the JSON
  payload the very id and parameters that went in: it stores exactly them, or refuses them with the
  rule they break and keeps its store.\<close>

theorem sealed_model_is_the_enclaves:
  assumes text_of: "\<And>h. list_all ascii (ae_HashText E h)"
    and text_back: "\<And>h. HashJSON lib (json_string (ae_HashText E h)) = Some h"
    and key: "TeeInfo (ae_http E) (cfg_proxyURL cfg) w = (Inr info, w1)" "ParsePubKey (ae_crypto E) (ti_PublicKey info) = Inr pub"
    and opens: "\<forall>plain c v v'. RegisterModelRequest_Encode (ae_HashText E) \<lparr>rm_PolicyID = p, rm_Model = m\<rparr> = Inr plain \<longrightarrow>
      ae_Encrypt E pub plain v = (Inr c, v') \<longrightarrow> c \<noteq> [] \<and> decryptViaNode lib nd port c = Inr plain"
    and pol: "record_id (ae_lib E) r = p"
    and sent: "seal_and_send E cfg r m w = (Inr iid, w')"
  shows "\<exists>c txh w2. (\<forall>s \<in> set (secretStrings m). \<not> Contains c s) \<and>
     SendRegisterModel (ae_sender E) (ae_getenv E) (cfg_instructionSender cfg) c w2 = (Inr (iid, txh), w') \<and>
     (\<forall>e a df. signPort e = port \<longrightarrow> df_OriginalMessage df = c \<longrightarrow>
        processRegisterModel lib nd e a df =
          (if p = 0 then (buildResult a df [] 0 ''policyId is zero'', e)
           else case Validate m of
             Inl err \<Rightarrow> (buildResult a df [] 0 err, e)
           | Inr _ \<Rightarrow> (buildResult a df [] 1 [], e\<lparr>models := fmupd p m (models e)\<rparr>)))"
proof -
  let ?req = "\<lparr>rm_PolicyID = p, rm_Model = m\<rparr>"
  let ?plain = "json_object (register_members (ae_HashText E) ?req)"
  have plain: "RegisterModelRequest_Encode (ae_HashText E) ?req = Inr ?plain"
    by (simp add: RegisterModelRequest_Encode_def)
  have "json_hash (ae_HashText E) (HashJSON lib)" using text_of text_back by (rule json_hash.intro)
  from json_hash.decode_register [OF this, of ?req "[]"] have
    decoded: "DecodeRegisterModelRequest (HashJSON lib) ?plain =
      (if p = 0 then Inl ''policyId is zero'' else case Validate m of Inl e \<Rightarrow> Inl e | Inr _ \<Rightarrow> Inr ?req)"
    by (simp add: decoder_More_def)
  from sent key pol plain obtain c w2 txh where c: "ae_Encrypt E pub ?plain w1 = (Inr c, w2)"
    "assertSealed m c = Inr ()"
    "SendRegisterModel (ae_sender E) (ae_getenv E) (cfg_instructionSender cfg) c w2 = (Inr (iid, txh), w')"
    by (auto simp: seal_and_send_def io_ok)
  from c(2) have "\<forall>s \<in> set (secretStrings m). \<not> Contains c s"
    by (auto simp: assertSealed_def list_ex_iff split: if_splits)
  moreover from opens [rule_format, OF plain c(1)] have "processRegisterModel lib nd e a df =
          (if p = 0 then (buildResult a df [] 0 ''policyId is zero'', e)
           else case Validate m of
             Inl err \<Rightarrow> (buildResult a df [] 0 err, e)
           | Inr _ \<Rightarrow> (buildResult a df [] 1 [], e\<lparr>models := fmupd p m (models e)\<rparr>))"
    if "signPort e = port" "df_OriginalMessage df = c" for e a df
    using that by (simp add: processRegisterModel_def decoded split: sum.split)
  ultimately show ?thesis using c(3) by (intro exI [of _ c] exI [of _ txh] exI [of _ w2] conjI allI impI) simp_all
qed

lemma demo_sealing:
  "ae_HashText demo_env = hex_hash_text" "ae_Encrypt demo_env k plain v = (Inr ''sealed'', v)" "ae_crypto demo_env = demo_crypto"
  "ParsePubKey demo_crypto pk = Inr pk"
  by (simp_all add: demo_env_def demo_crypto_def)

lemma sealed_text: "assertSealed demo_model ''sealed'' = Inr ()"
proof -
  have "CHR ''0'' \<in> set s" if "s \<in> set (secretStrings demo_model)" for s
    using that by (auto simp: secretStrings_def demo_model_def show_big_def show_int_def show_nat_eval)
  moreover have "CHR ''0'' \<notin> set (a @ s @ b)" if "''sealed'' = a @ s @ b" for a s b
    unfolding that [symmetric] by simp
  ultimately have "\<not> Contains ''sealed'' s" if "s \<in> set (secretStrings demo_model)" for s
    using that unfolding Contains_iff by fastforce
  then show ?thesis by (auto simp: assertSealed_def list_ex_iff)
qed

lemma demo_register:
  "SendRegisterModel (demo_sender :: (nat, nat, 'b, 'p) sender_lib) g c m w = (Inr (55, of_nat w), w + 1)"
  by (simp add: SendRegisterModel_def sendInstruction_ok demo_sender_def demo_sender_tx_def)

theorem sealed_model_is_the_enclaves_witness:
  "\<exists>c iid. seal_and_send demo_env demo_settings demo_record demo_model 17 = (Inr iid, 18) \<and>
     (\<forall>a df. df_OriginalMessage df = c \<longrightarrow>
        snd (processRegisterModel demo_lib demo_node (New 7701) a df) = demo_loaded)"
proof -
  have key: "TeeInfo (ae_http demo_env) (cfg_proxyURL demo_settings) 17 = (Inr demo_info, 17)"
    "ParsePubKey (ae_crypto demo_env) (ti_PublicKey demo_info) = Inr (ti_PublicKey demo_info)"
    by (simp_all add: TeeInfo_def demo_env_parts demo_http_def demo_crypto_def io_simps demo_sealing)
  have sent: "seal_and_send demo_env demo_settings demo_record demo_model 17 = (Inr 55, 18)"
    using key by (simp add: seal_and_send_def io_simps demo_env_parts demo_sealing RegisterModelRequest_Encode_def
        sealed_text demo_register)
  have text_of: "list_all ascii (ae_HashText demo_env h)"
    "HashJSON demo_lib (json_string (ae_HashText demo_env h)) = Some h" for h
    using hex_hash.text_ascii hex_hash.text_read by (simp_all add: demo_sealing demo_lib_def)
  have pol: "record_id (ae_lib demo_env) demo_record = 7"
    by (simp add: record_id_def demo_env_parts)
  have opens: "\<forall>plain c v v'. RegisterModelRequest_Encode (ae_HashText demo_env) \<lparr>rm_PolicyID = 7, rm_Model = demo_model\<rparr> = Inr plain \<longrightarrow>
      ae_Encrypt demo_env (ti_PublicKey demo_info) plain v = (Inr c, v') \<longrightarrow>
      c \<noteq> [] \<and> decryptViaNode demo_lib demo_node 7701 c = Inr plain"
    by (auto simp: demo_sealing RegisterModelRequest_Encode_def decryptViaNode_def demo_node_def
        demo_payload_def demo_lib_def)
  from sealed_model_is_the_enclaves [OF text_of key opens pol sent] obtain c where
    c: "\<forall>e. signPort e = 7701 \<longrightarrow> (\<forall>a df. df_OriginalMessage df = c \<longrightarrow>
       processRegisterModel demo_lib demo_node e a df =
         (buildResult a df [] 1 [], e\<lparr>models := fmupd 7 demo_model (models e)\<rparr>))"
    by auto
  have "signPort (New 7701) = 7701" by (simp add: New_def)
  note c [rule_format, OF this]
  then show ?thesis
    using sent by (intro exI [of _ c] exI [of _ 55] conjI allI impI) (simp_all add: New_def demo_loaded_def)
qed

end
